(* ===== verification/Prelude.thy ===== *)
theory Prelude
  imports Main
begin

text \<open>
  Shared vocabulary of the development: Go errors and results, the two sequencing
  combinators the models are written with, the loop that collects results and stops at the
  first error, and the generic list and map lemmas the components use.
\<close>

section \<open>Errors and results\<close>

text \<open>
  A Go function that returns \<open>(T, error)\<close> is a function into \<open>T result\<close>: \<open>Inl e\<close> when the
  error is not nil, \<open>Inr v\<close> otherwise. \<open>Errorf\<close> carries the text given to
  \<open>errors.New\<close> or \<open>fmt.Errorf\<close>; \<open>NumSyntax\<close> and \<open>NumRange\<close> are the two errors of
  \<open>strconv\<close>; \<open>EOF\<close> and \<open>UnexpectedEOF\<close> those of \<open>io\<close>. \<open>Panic\<close> is a run-time panic, which
  ends the process: it is a value here so that a theorem can say that one happens.
\<close>

datatype go_error =
    Errorf string
  | NumSyntax
  | NumRange
  | EOF
  | UnexpectedEOF
  | Panic string

type_synonym 'a result = "go_error + 'a"

named_theorems go_eval \<open>definitions that evaluate on concrete strings\<close>
named_theorems go_str \<open>facts about the string library\<close>

definition rbind :: "'a result \<Rightarrow> ('a \<Rightarrow> 'b result) \<Rightarrow> 'b result" where
  "rbind m f = (case m of Inl e \<Rightarrow> Inl e | Inr v \<Rightarrow> f v)"

lemma rbind_simps [simp]:
  "rbind (Inl e) f = Inl e"
  "rbind (Inr v) f = f v"
  by (simp_all add: rbind_def)

lemma rbind_eq_Inr: "rbind m f = Inr w \<longleftrightarrow> (\<exists>v. m = Inr v \<and> f v = Inr w)"
  by (cases m) auto

lemma rbind_eq_Inl:
  "rbind m f = Inl e \<longleftrightarrow> m = Inl e \<or> (\<exists>v. m = Inr v \<and> f v = Inl e)"
  by (cases m) auto

definition is_ok :: "'a result \<Rightarrow> bool" where
  "is_ok r = (case r of Inl _ \<Rightarrow> False | Inr _ \<Rightarrow> True)"

lemma is_ok_simps [simp]: "\<not> is_ok (Inl e)" "is_ok (Inr v)"
  by (simp_all add: is_ok_def)

lemma is_ok_iff: "is_ok r \<longleftrightarrow> (\<exists>v. r = Inr v)"
  by (cases r) auto

text \<open>The value of \<open>v, _ := f()\<close> where \<open>f\<close> returns the zero value \<open>z\<close> with its errors.\<close>

definition value_or :: "'a \<Rightarrow> 'a result \<Rightarrow> 'a" where
  "value_or z r = (case r of Inl _ \<Rightarrow> z | Inr v \<Rightarrow> v)"

lemma value_or_simps [simp]: "value_or z (Inl e) = z" "value_or z (Inr v) = v"
  by (simp_all add: value_or_def)

section \<open>Calls that change a state\<close>

text \<open>
  A method with a pointer receiver is a function from the state of its receiver to its
  result and the new state. \<open>sbind\<close> sequences two of them: the second runs on the state the
  first left, and an error of the first is returned at once, with that state.
\<close>

type_synonym ('s, 'a) call = "'s \<Rightarrow> 'a result \<times> 's"

definition sbind :: "('s, 'a) call \<Rightarrow> ('a \<Rightarrow> ('s, 'b) call) \<Rightarrow> ('s, 'b) call" where
  "sbind m f s = (case m s of (Inl e, s') \<Rightarrow> (Inl e, s') | (Inr v, s') \<Rightarrow> f v s')"

definition sret :: "'a result \<Rightarrow> ('s, 'a) call" where
  "sret r s = (r, s)"

lemma sret_simp [simp]: "sret r s = (r, s)"
  by (simp add: sret_def)

lemma sbind_Inr: "m s = (Inr v, s') \<Longrightarrow> sbind m f s = f v s'"
  by (simp add: sbind_def)

lemma sbind_Inl: "m s = (Inl e, s') \<Longrightarrow> sbind m f s = (Inl e, s')"
  by (simp add: sbind_def)

lemma sbind_sret [simp]: "sbind (sret (Inr v)) f = f v" "sbind (sret (Inl e)) f = sret (Inl e)"
  by (auto simp: sbind_def fun_eq_iff)

section \<open>Loops that collect results\<close>

text \<open>\<open>for _, t := range xs { v, err := f(t); if err != nil { return err }; append v }\<close>\<close>

fun collect :: "('a \<Rightarrow> 'b result) \<Rightarrow> 'a list \<Rightarrow> 'b list result" where
  "collect f [] = Inr []"
| "collect f (x # xs) = rbind (f x) (\<lambda>v. rbind (collect f xs) (\<lambda>vs. Inr (v # vs)))"

lemma collect_map_Inr:
  assumes "\<And>x. x \<in> set xs \<Longrightarrow> f (g x) = Inr (h x)"
  shows "collect f (map g xs) = Inr (map h xs)"
  using assms by (induction xs) auto

lemma collect_length: "collect f xs = Inr ys \<Longrightarrow> length ys = length xs"
  by (induction xs arbitrary: ys) (auto simp: rbind_eq_Inr)

lemma collect_all2: "collect f xs = Inr ys \<Longrightarrow> list_all2 (\<lambda>x y. f x = Inr y) xs ys"
  by (induction xs arbitrary: ys) (auto simp: rbind_eq_Inr)

lemma collect_nonempty: "collect f xs = Inr ys \<Longrightarrow> xs \<noteq> [] \<Longrightarrow> ys \<noteq> []"
  using collect_length by force

lemma collect_Inr_iff: "(\<exists>ys. collect f xs = Inr ys) \<longleftrightarrow> (\<forall>x \<in> set xs. is_ok (f x))"
  by (induction xs) (auto simp: rbind_eq_Inr is_ok_iff)

section \<open>Maps\<close>

text \<open>The keys of a map that Go iterates over, in the (unspecified) order \<open>ks\<close>.\<close>

definition map_order :: "('k \<rightharpoonup> 'v) \<Rightarrow> 'k list \<Rightarrow> bool" where
  "map_order m ks \<longleftrightarrow> distinct ks \<and> set ks = dom m"

definition map_without :: "('k \<rightharpoonup> 'v) \<Rightarrow> 'k set \<Rightarrow> ('k \<rightharpoonup> 'v)" where
  "map_without m K = m |` (- K)"

lemma map_without_apply [simp]: "map_without m K k = (if k \<in> K then None else m k)"
  by (simp add: map_without_def restrict_map_def)

lemma finite_dom_map_without: "finite (dom m) \<Longrightarrow> finite (dom (map_without m K))"
  by (rule finite_subset [of _ "dom m"]) (auto split: if_splits)

end
