(* ===== verification/GoStrings.thy ===== *)
theory GoStrings
  imports Prelude "HOL-Library.Char_ord" "HOL-Library.List_Lexorder"
begin

text \<open>
  The functions of Go's \<open>strings\<close> package that the program calls. A Go string is a sequence
  of bytes, which is what \<open>string\<close> is (a list of 8-bit characters). The functions that Go
  defines on Unicode (\<open>Fields\<close>, \<open>TrimSpace\<close>, \<open>ToLower\<close>, \<open>ToUpper\<close>, \<open>EqualFold\<close>) are given on
  ASCII: bytes above 127 are letters that are neither folded nor white space. An index
  that Go returns as \<open>-1\<close> is \<open>None\<close>.
\<close>

section \<open>Searching\<close>

fun IndexByte :: "string \<Rightarrow> char \<Rightarrow> nat option" where
  "IndexByte [] c = None"
| "IndexByte (x # xs) c = (if x = c then Some 0 else map_option Suc (IndexByte xs c))"

definition LastIndexByte :: "string \<Rightarrow> char \<Rightarrow> nat option" where
  "LastIndexByte s c = map_option (\<lambda>i. length s - Suc i) (IndexByte (rev s) c)"

definition HasPrefix :: "string \<Rightarrow> string \<Rightarrow> bool" where
  "HasPrefix s p \<longleftrightarrow> take (length p) s = p"

definition HasSuffix :: "string \<Rightarrow> string \<Rightarrow> bool" where
  "HasSuffix s p \<longleftrightarrow> length p \<le> length s \<and> drop (length s - length p) s = p"

definition ContainsByte :: "string \<Rightarrow> char \<Rightarrow> bool" where
  "ContainsByte s c \<longleftrightarrow> IndexByte s c \<noteq> None"

text \<open>The slices \<open>s[0:pos]\<close> and \<open>s[pos+1:]\<close> that follow a successful search.\<close>

definition before :: "nat \<Rightarrow> string \<Rightarrow> string" where
  "before pos s = take pos s"

definition after :: "nat \<Rightarrow> string \<Rightarrow> string" where
  "after pos s = drop (Suc pos) s"

lemma IndexByte_None [simp, go_str]: "IndexByte s c = None \<longleftrightarrow> c \<notin> set s"
  by (induction s) auto

lemma IndexByte_notin [simp]: "c \<notin> set s \<Longrightarrow> IndexByte s c = None"
  by simp

lemma IndexByte_append [simp, go_str]: "c \<notin> set a \<Longrightarrow> IndexByte (a @ c # b) c = Some (length a)"
  by (induction a) auto

lemma IndexByte_append_left: "IndexByte a c = Some i \<Longrightarrow> IndexByte (a @ b) c = Some i"
  by (induction a arbitrary: i) (auto split: if_splits)

lemma IndexByte_SomeE:
  assumes "IndexByte s c = Some i"
  obtains a b where "s = a @ c # b" "c \<notin> set a" "i = length a"
proof -
  from assms have "\<exists>a b. s = a @ c # b \<and> c \<notin> set a \<and> i = length a"
  proof (induction s arbitrary: i)
    case Nil
    then show ?case by simp
  next
    case (Cons x xs)
    show ?case
    proof (cases "x = c")
      case True
      with Cons.prems show ?thesis by (intro exI [of _ "[]"] exI [of _ xs]) auto
    next
      case False
      with Cons.prems obtain j where j: "IndexByte xs c = Some j" "i = Suc j" by auto
      from Cons.IH [OF j(1)] obtain a b where "xs = a @ c # b" "c \<notin> set a" "j = length a"
        by blast
      with False j(2) show ?thesis by (intro exI [of _ "x # a"] exI [of _ b]) auto
    qed
  qed
  with that show thesis by blast
qed

lemma IndexByte_split [go_str]:
  assumes "IndexByte s c = Some i"
  shows "s = before i s @ c # after i s" and "c \<notin> set (before i s)"
  using assms by (auto elim!: IndexByte_SomeE simp: before_def after_def)

lemma before_append [simp, go_str]: "before (length a) (a @ b) = a"
  by (simp add: before_def)

lemma after_append [simp, go_str]: "after (length a) (a @ x # b) = b"
  by (simp add: after_def)

lemma LastIndexByte_None [simp]: "LastIndexByte s c = None \<longleftrightarrow> c \<notin> set s"
  by (simp add: LastIndexByte_def)

lemma LastIndexByte_append: "c \<notin> set b \<Longrightarrow> LastIndexByte (a @ c # b) c = Some (length a)"
  by (simp add: LastIndexByte_def IndexByte_append)

lemma HasPrefix_append [simp]: "HasPrefix (p @ s) p"
  by (simp add: HasPrefix_def)

lemma HasPrefix_iff: "HasPrefix s p \<longleftrightarrow> (\<exists>t. s = p @ t)"
  by (metis HasPrefix_append HasPrefix_def append_take_drop_id)

lemma ContainsByte_iff [simp]: "ContainsByte s c \<longleftrightarrow> c \<in> set s"
  by (simp add: ContainsByte_def)

section \<open>Splitting and joining\<close>

fun SplitP :: "(char \<Rightarrow> bool) \<Rightarrow> string \<Rightarrow> string list" where
  "SplitP p [] = [[]]"
| "SplitP p (x # xs) =
     (if p x then [] # SplitP p xs
      else (case SplitP p xs of [] \<Rightarrow> [[x]] | y # ys \<Rightarrow> (x # y) # ys))"

text \<open>\<open>strings.Split(s, sep)\<close> for a separator of one byte, the only kind the program uses.\<close>

definition Split :: "string \<Rightarrow> char \<Rightarrow> string list" where
  "Split s sep = SplitP (\<lambda>x. x = sep) s"

fun Join :: "string list \<Rightarrow> string \<Rightarrow> string" where
  "Join [] sep = []"
| "Join [x] sep = x"
| "Join (x # y # ys) sep = x @ sep @ Join (y # ys) sep"

lemma SplitP_nonempty [simp]: "SplitP p s \<noteq> []"
  by (induction s) (auto split: list.splits)

lemma SplitP_none: "(\<forall>x \<in> set s. \<not> p x) \<Longrightarrow> SplitP p s = [s]"
  by (induction s) auto

lemma SplitP_append: "(\<forall>x \<in> set a. \<not> p x) \<Longrightarrow> p c \<Longrightarrow> SplitP p (a @ c # b) = a # SplitP p b"
  by (induction a) auto

lemma SplitP_no_sep: "t \<in> set (SplitP p s) \<Longrightarrow> x \<in> set t \<Longrightarrow> \<not> p x"
proof (induction s arbitrary: t)
  case (Cons a s)
  then show ?case by (auto split: if_splits list.splits) (metis list.set_intros)+
qed simp

lemma Split_nonempty [simp]: "Split s sep \<noteq> []"
  by (simp add: Split_def)

lemma Split_none [go_str]: "sep \<notin> set s \<Longrightarrow> Split s sep = [s]"
  by (auto simp: Split_def intro!: SplitP_none)

lemma Split_append [go_str]: "sep \<notin> set a \<Longrightarrow> Split (a @ sep # b) sep = a # Split b sep"
  unfolding Split_def by (rule SplitP_append) auto

lemma Split_no_sep: "t \<in> set (Split s sep) \<Longrightarrow> sep \<notin> set t"
  unfolding Split_def using SplitP_no_sep by blast

lemma Split_Nil [simp]: "Split [] sep = [[]]"
  by (simp add: Split_def)

lemma Split_Join [go_str]:
  "xs \<noteq> [] \<Longrightarrow> (\<And>x. x \<in> set xs \<Longrightarrow> sep \<notin> set x) \<Longrightarrow> Split (Join xs [sep]) sep = xs"
proof (induction xs "[sep]" rule: Join.induct)
  case (3 x y ys)
  then show ?case by (simp add: Split_append del: Join.simps(2))
qed (auto simp: Split_none)

lemma Join_Split: "Join (Split s sep) [sep] = s"
proof (induction s)
  case (Cons x xs)
  obtain y ys where "Split xs sep = y # ys" by (cases "Split xs sep") auto
  with Cons show ?case by (cases ys) (auto simp: Split_def)
qed simp

lemma Split_length: "length (Split s sep) = Suc (length (filter (\<lambda>x. x = sep) s))"
  unfolding Split_def by (induction s) (auto split: list.splits)

lemma set_Join: "x \<in> set (Join xs sep) \<Longrightarrow> x \<in> set sep \<or> (\<exists>s \<in> set xs. x \<in> set s)"
  by (induction xs sep rule: Join.induct) auto

text \<open>
  Two ways the printers write a list with separators: a separator before every element, and
  a separator before every element but the one at index 0.
\<close>

lemma Join_Cons: "Join (x # xs) [sep] = x @ concat (map (\<lambda>y. sep # y) xs)"
  by (induction xs arbitrary: x) auto

lemma concat_sep_Join:
  "xs \<noteq> [] \<Longrightarrow> concat (map (\<lambda>x. sep # f x) xs) = sep # Join (map f xs) [sep]"
  by (cases xs) (auto simp: Join_Cons comp_def)

lemma enumerate_sep_tail:
  "0 < n \<Longrightarrow> concat (map (\<lambda>(i, x). (if i \<noteq> 0 then [sep] else []) @ f x) (enumerate n xs)) =
   concat (map (\<lambda>x. sep # f x) xs)"
  by (induction xs arbitrary: n) auto

lemma enumerate_sep_Join:
  "concat (map (\<lambda>(i, x). (if i \<noteq> 0 then [sep] else []) @ f x) (enumerate 0 xs)) =
   Join (map f xs) [sep]"
proof (cases xs)
  case (Cons y ys)
  then show ?thesis
    using enumerate_sep_tail [of "Suc 0" sep f ys] by (simp add: Join_Cons comp_def)
qed simp

section \<open>White space\<close>

definition isSpace :: "char \<Rightarrow> bool" where
  "isSpace c \<longleftrightarrow> c \<in> {CHR 0x09, CHR 0x0A, CHR 0x0B, CHR 0x0C, CHR 0x0D, CHR 0x20}"

definition Fields :: "string \<Rightarrow> string list" where
  "Fields s = filter (\<lambda>f. f \<noteq> []) (SplitP isSpace s)"

definition TrimSpace :: "string \<Rightarrow> string" where
  "TrimSpace s = rev (dropWhile isSpace (rev (dropWhile isSpace s)))"

definition no_space :: "string \<Rightarrow> bool" where
  "no_space s \<longleftrightarrow> (\<forall>c \<in> set s. \<not> isSpace c)"

definition trimmed :: "string \<Rightarrow> bool" where
  "trimmed s \<longleftrightarrow> s = [] \<or> (\<not> isSpace (hd s) \<and> \<not> isSpace (last s))"

lemma isSpace_blank [simp]: "isSpace (CHR 0x20)"
  by (simp add: isSpace_def)

lemma no_space_simps [simp]:
  "no_space []" "no_space (c # s) \<longleftrightarrow> \<not> isSpace c \<and> no_space s"
  "no_space (a @ b) \<longleftrightarrow> no_space a \<and> no_space b"
  by (auto simp: no_space_def)

lemma dropWhile_hd: "s = [] \<or> \<not> p (hd s) \<Longrightarrow> dropWhile p s = s"
  by (cases s) auto

lemma TrimSpace_trimmed [go_str]: "trimmed s \<Longrightarrow> TrimSpace s = s"
  by (auto simp: TrimSpace_def trimmed_def dropWhile_hd hd_rev)

lemma TrimSpace_Nil [simp]: "TrimSpace [] = []"
  by (simp add: TrimSpace_def)

lemma no_space_trimmed: "no_space s \<Longrightarrow> trimmed s"
  by (auto simp: no_space_def trimmed_def)

lemma Fields_Nil [simp]: "Fields [] = []"
  by (simp add: Fields_def)

lemma Fields_one [go_str]: "no_space a \<Longrightarrow> a \<noteq> [] \<Longrightarrow> Fields a = [a]"
  by (simp add: Fields_def SplitP_none no_space_def)

lemma Fields_Cons [go_str]:
  "no_space a \<Longrightarrow> a \<noteq> [] \<Longrightarrow> isSpace c \<Longrightarrow> Fields (a @ c # b) = a # Fields b"
  by (simp add: Fields_def SplitP_append no_space_def)

lemma Fields_no_space: "f \<in> set (Fields s) \<Longrightarrow> no_space f \<and> f \<noteq> []"
  by (auto simp: Fields_def no_space_def dest: SplitP_no_sep)

lemma Fields_Join:
  assumes "\<And>f. f \<in> set fs \<Longrightarrow> no_space f \<and> f \<noteq> []"
  shows "Fields (Join fs [CHR 0x20]) = fs"
  using assms
proof (induction fs "[CHR 0x20]" rule: Join.induct)
  case (3 x y ys)
  then show ?case by (simp add: Fields_Cons del: Join.simps(2))
qed (auto simp: Fields_one)

section \<open>Letter case\<close>

definition lower_char :: "char \<Rightarrow> char" where
  "lower_char c = (let n = of_char c :: nat in if 65 \<le> n \<and> n \<le> 90 then char_of (n + 32) else c)"

definition upper_char :: "char \<Rightarrow> char" where
  "upper_char c = (let n = of_char c :: nat in if 97 \<le> n \<and> n \<le> 122 then char_of (n - 32) else c)"

definition ToLower :: "string \<Rightarrow> string" where
  "ToLower s = map lower_char s"

definition ToUpper :: "string \<Rightarrow> string" where
  "ToUpper s = map upper_char s"

definition EqualFold :: "string \<Rightarrow> string \<Rightarrow> bool" where
  "EqualFold s t \<longleftrightarrow> ToLower s = ToLower t"

lemma lower_char_idem [simp]: "lower_char (lower_char c) = lower_char c"
  by (simp add: lower_char_def Let_def)

lemma ToLower_idem [simp]: "ToLower (ToLower s) = ToLower s"
  by (simp add: ToLower_def)

lemma length_ToLower [simp]: "length (ToLower s) = length s"
  by (simp add: ToLower_def)

lemma EqualFold_refl [simp]: "EqualFold s s"
  by (simp add: EqualFold_def)

lemma EqualFold_ToLower [simp]: "EqualFold (ToLower s) t = EqualFold s t"
  "EqualFold s (ToLower t) = EqualFold s t"
  by (simp_all add: EqualFold_def)

lemmas char_eval [go_eval] = char_of_def bit_0

lemmas strings_eval [go_eval] =
  LastIndexByte_def HasPrefix_def HasSuffix_def ContainsByte_def before_def after_def Split_def
  isSpace_def Fields_def TrimSpace_def no_space_def trimmed_def lower_char_def upper_char_def
  ToLower_def ToUpper_def EqualFold_def

end
