(* ===== verification/Interfaces.thy ===== *)
theory Interfaces
  imports GoStrings
begin

text \<open>
  The interfaces that several components share, as locales: a codec (a parser and a printer
  that agree on the well-formed values), a codec whose printed form is free of a separator
  (so that lists of values print and parse), and a store of named parameters.
\<close>

section \<open>Codecs\<close>

locale codec =
  fixes parse :: "string \<Rightarrow> 'a result"
    and print :: "'a \<Rightarrow> string"
    and ok :: "'a \<Rightarrow> bool"
  assumes parse_print: "ok x \<Longrightarrow> parse (print x) = Inr x"
begin

lemma print_inj: "ok x \<Longrightarrow> ok y \<Longrightarrow> print x = print y \<Longrightarrow> x = y"
  by (metis parse_print sum.inject(2))

lemma reprint: "ok x \<Longrightarrow> parse (print x) = Inr y \<Longrightarrow> print y = print x"
  by (simp add: parse_print)

end

text \<open>
  A list is printed by joining its elements with the separator and parsed by splitting at the
  separator and parsing every piece, stopping at the first error.
\<close>

locale sep_codec = codec parse print ok
  for parse :: "string \<Rightarrow> 'a result" and print :: "'a \<Rightarrow> string" and ok :: "'a \<Rightarrow> bool" +
  fixes sep :: char
  assumes print_no_sep: "ok x \<Longrightarrow> sep \<notin> set (print x)"
begin

lemma split_print:
  "xs \<noteq> [] \<Longrightarrow> (\<And>x. x \<in> set xs \<Longrightarrow> ok x) \<Longrightarrow> Split (Join (map print xs) [sep]) sep = map print xs"
  by (rule Split_Join) (auto dest: print_no_sep)

lemma collect_print: "(\<And>x. x \<in> set xs \<Longrightarrow> ok x) \<Longrightarrow> collect parse (map print xs) = Inr xs"
  using collect_map_Inr [of xs parse print "\<lambda>x. x"] by (simp add: parse_print)

lemma list_parse_print:
  assumes "xs \<noteq> []" and "\<And>x. x \<in> set xs \<Longrightarrow> ok x"
  shows "collect parse (Split (Join (map print xs) [sep]) sep) = Inr xs"
  using assms by (simp add: split_print collect_print)

end

section \<open>Named parameters\<close>

text \<open>
  A list of parameters with a lookup by name and an update of one name; \<open>names\<close> are the names
  the update may be used with.
\<close>

locale param_store =
  fixes get :: "'p \<Rightarrow> string \<Rightarrow> string result"
    and put :: "'p \<Rightarrow> string \<Rightarrow> string \<Rightarrow> 'p"
    and names :: "string set"
  assumes get_put_same: "n \<in> names \<Longrightarrow> get (put p n v) n = Inr v"
    and get_put_other: "n \<in> names \<Longrightarrow> m \<noteq> n \<Longrightarrow> get (put p n v) m = get p m"
begin

lemma get_put: "n \<in> names \<Longrightarrow> get (put p n v) m = (if m = n then Inr v else get p m)"
  by (simp add: get_put_same get_put_other)

lemma get_put_twice: "n \<in> names \<Longrightarrow> get (put (put p n v) n w) m = get (put p n w) m"
  by (simp add: get_put)

lemma get_put_commute:
  "n \<in> names \<Longrightarrow> k \<in> names \<Longrightarrow> n \<noteq> k \<Longrightarrow>
   get (put (put p n v) k w) m = get (put (put p k w) n v) m"
  by (auto simp: get_put)

end

end
