(* ===== verification/GoStrconv.thy ===== *)
theory GoStrconv
  imports GoStrings
begin

text \<open>
  Decimal conversion as in Go's \<open>strconv\<close>: \<open>Itoa\<close>, \<open>ParseInt\<close> in base 10 and \<open>Atoi\<close>. A
  Go \<open>int\<close> has 64 bits, so a conversion that overflows returns the nearest 64-bit value
  together with the error \<open>NumRange\<close>: a caller that drops the error keeps that value.
\<close>

section \<open>Printing\<close>

definition is_digit :: "char \<Rightarrow> bool" where
  "is_digit c \<longleftrightarrow> 48 \<le> (of_char c :: nat) \<and> (of_char c :: nat) \<le> 57"

definition digit_val :: "char \<Rightarrow> nat" where
  "digit_val c = of_char c - 48"

definition digit_char :: "nat \<Rightarrow> char" where
  "digit_char d = char_of (48 + d)"

fun nat_digits :: "nat \<Rightarrow> string" where
  "nat_digits n = (if n < 10 then [digit_char n] else nat_digits (n div 10) @ [digit_char (n mod 10)])"

declare nat_digits.simps [simp del]

definition Itoa :: "int \<Rightarrow> string" where
  "Itoa i = (if i < 0 then CHR ''-'' # nat_digits (nat (- i)) else nat_digits (nat i))"

section \<open>Parsing\<close>

fun ParseUintLoop :: "nat \<Rightarrow> nat \<Rightarrow> string \<Rightarrow> nat \<times> go_error option" where
  "ParseUintLoop maxVal n [] = (n, None)"
| "ParseUintLoop maxVal n (c # cs) =
     (if \<not> is_digit c then (0, Some NumSyntax)
      else let n' = n * 10 + digit_val c
           in if n' > maxVal then (maxVal, Some NumRange) else ParseUintLoop maxVal n' cs)"

definition ParseUint :: "nat \<Rightarrow> string \<Rightarrow> nat \<times> go_error option" where
  "ParseUint bits s = (if s = [] then (0, Some NumSyntax) else ParseUintLoop (2 ^ bits - 1) 0 s)"

definition ParseInt :: "nat \<Rightarrow> string \<Rightarrow> int \<times> go_error option" where
  "ParseInt bits s =
     (if s = [] then (0, Some NumSyntax)
      else let neg = (hd s = CHR ''-'');
               s' = (if hd s = CHR ''+'' \<or> neg then tl s else s);
               (un, err) = ParseUint bits s';
               cutoff = 2 ^ (bits - 1) :: nat
           in if err \<noteq> None \<and> err \<noteq> Some NumRange then (0, err)
              else if \<not> neg \<and> un \<ge> cutoff then (int (cutoff - 1), Some NumRange)
              else if neg \<and> un > cutoff then (- int cutoff, Some NumRange)
              else (if neg then - int un else int un, None))"

definition Atoi :: "string \<Rightarrow> int \<times> go_error option" where
  "Atoi s = ParseInt 64 s"

text \<open>\<open>v, err := strconv.Atoi(s); if err != nil { return err }\<close>\<close>

definition Atoi_checked :: "string \<Rightarrow> int result" where
  "Atoi_checked s = (case Atoi s of (v, None) \<Rightarrow> Inr v | (_, Some e) \<Rightarrow> Inl e)"

text \<open>The values of Go's \<open>int\<close>.\<close>

definition go_int :: "int \<Rightarrow> bool" where
  "go_int i \<longleftrightarrow> - (2 ^ 63) \<le> i \<and> i < 2 ^ 63"

section \<open>Facts\<close>

lemma digit_char_props:
  assumes "d < 10"
  shows "is_digit (digit_char d)" "digit_val (digit_char d) = d"
  using assms by (auto simp: is_digit_def digit_char_def digit_val_def of_char_of)

lemma nat_digits_nonempty [simp]: "nat_digits n \<noteq> []"
  by (subst nat_digits.simps) simp

lemma nat_digits_digits: "c \<in> set (nat_digits n) \<Longrightarrow> is_digit c"
proof (induction n rule: nat_digits.induct)
  case (1 n)
  then show ?case
    by (cases "n < 10") (auto simp: nat_digits.simps [of n] digit_char_props)
qed

lemma ParseUintLoop_append:
  "ParseUintLoop M n (xs @ ys) =
     (case ParseUintLoop M n xs of (v, None) \<Rightarrow> ParseUintLoop M v ys | (v, Some e) \<Rightarrow> (v, Some e))"
  by (induction xs arbitrary: n) (auto simp: Let_def)

lemma ParseUintLoop_nat_digits: "n \<le> M \<Longrightarrow> ParseUintLoop M 0 (nat_digits n) = (n, None)"
proof (induction n rule: nat_digits.induct)
  case (1 n)
  show ?case
  proof (cases "n < 10")
    case True
    with "1.prems" show ?thesis by (simp add: nat_digits.simps [of n] digit_char_props)
  next
    case False
    with "1.IH" "1.prems" have "ParseUintLoop M 0 (nat_digits (n div 10)) = (n div 10, None)"
      by (meson div_le_dividend order_trans)
    with False "1.prems" show ?thesis
      by (simp add: nat_digits.simps [of n] ParseUintLoop_append digit_char_props)
  qed
qed

lemma not_digit_sign [simp]: "\<not> is_digit (CHR ''-'')" "\<not> is_digit (CHR ''+'')"
  by (simp_all add: is_digit_def)

lemma hd_nat_digits: "is_digit (hd (nat_digits n))"
  by (rule nat_digits_digits [of _ n]) simp

lemma hd_nat_digits_sign [simp]: "hd (nat_digits n) \<noteq> CHR ''-''" "hd (nat_digits n) \<noteq> CHR ''+''"
  using hd_nat_digits [of n] by auto

lemma Atoi_Itoa:
  assumes "go_int i"
  shows "Atoi (Itoa i) = (i, None)"
proof (cases "i < 0")
  case True
  with assms have "nat (- i) \<le> 2 ^ 63" by (simp add: go_int_def)
  with True show ?thesis
    by (simp add: Atoi_def ParseInt_def ParseUint_def Itoa_def Let_def ParseUintLoop_nat_digits)
next
  case False
  with assms have "nat i < 2 ^ 63" by (simp add: go_int_def)
  with False show ?thesis
    by (simp add: Atoi_def ParseInt_def ParseUint_def Itoa_def Let_def ParseUintLoop_nat_digits)
qed

lemma Atoi_checked_Itoa [simp]: "go_int i \<Longrightarrow> Atoi_checked (Itoa i) = Inr i"
  by (simp add: Atoi_checked_def Atoi_Itoa)

lemma Itoa_chars: "c \<in> set (Itoa i) \<Longrightarrow> is_digit c \<or> c = CHR ''-''"
  by (auto simp: Itoa_def split: if_splits dest: nat_digits_digits)

lemma Itoa_notin [simp]: "\<not> is_digit c \<Longrightarrow> c \<noteq> CHR ''-'' \<Longrightarrow> c \<notin> set (Itoa i)"
  using Itoa_chars by blast

lemma Itoa_nonempty [simp]: "Itoa i \<noteq> []"
  by (simp add: Itoa_def)

lemma digit_not_space: "is_digit c \<Longrightarrow> \<not> isSpace c"
  by (auto simp: is_digit_def isSpace_def)

lemma Itoa_no_space [simp]: "no_space (Itoa i)"
  using Itoa_chars [of _ i] digit_not_space by (fastforce simp: no_space_def isSpace_def)

text \<open>What \<open>ParseInt\<close> returns fits in its width, whether or not it reports an error.\<close>

lemma ParseInt_bounds:
  "- (2 ^ (bits - 1)) \<le> fst (ParseInt bits s) \<and> fst (ParseInt bits s) < 2 ^ (bits - 1)"
proof -
  define c :: nat where "c = 2 ^ (bits - Suc 0)"
  have c: "int c = 2 ^ (bits - 1)" "0 < c" by (simp_all add: c_def)
  have "- int c \<le> fst (ParseInt bits s) \<and> fst (ParseInt bits s) < int c"
    using c(2) by (auto simp: ParseInt_def Let_def c_def [symmetric] split: prod.splits)
  with c(1) show ?thesis by simp
qed

lemmas strconv_eval [go_eval] =
  is_digit_def digit_val_def digit_char_def nat_digits.simps Itoa_def ParseUint_def ParseInt_def
  Atoi_def Atoi_checked_def go_int_def

lemma go_int_Atoi [simp]: "go_int (fst (Atoi s))"
  using ParseInt_bounds [of 64 s] by (simp add: Atoi_def go_int_def)

lemma Atoi_checked_Inr: "Atoi_checked s = Inr i \<Longrightarrow> Atoi s = (i, None) \<and> go_int i"
proof -
  assume "Atoi_checked s = Inr i"
  then have "Atoi s = (i, None)"
    by (auto simp: Atoi_checked_def split: prod.splits option.splits)
  with go_int_Atoi [of s] show ?thesis by simp
qed

end
