(* ===== verification/GoFmt.thy ===== *)
theory GoFmt
  imports GoStrconv
begin

text \<open>
  \<open>fmt.Fprintf(w, format)\<close> called with a format and no operands, as the program does with
  strings that come from a message. The model follows \<open>doPrintf\<close> of Go 1.23 (flags, argument
  index, width, precision, verb) with an empty operand list: \<open>%%\<close> prints a percent sign,
  every other verb prints an error such as \<open>%!d(MISSING)\<close>. A verb is one byte (ASCII). The
  formats with operands that the program uses consist of \<open>%s\<close>, \<open>%v\<close> and \<open>%d\<close> only; there
  the models concatenate the operands.
\<close>

definition fmt_flag :: "char \<Rightarrow> bool" where
  "fmt_flag c \<longleftrightarrow> c \<in> set ''#0+- ''"

text \<open>
  \<open>parsenum\<close>: the number at the start of the string, whether there is one, and what follows;
  a number beyond a million stops the scan and skips the rest of the format.
\<close>

fun parsenum_loop :: "nat \<Rightarrow> bool \<Rightarrow> string \<Rightarrow> bool \<times> string" where
  "parsenum_loop num isnum [] = (isnum, [])"
| "parsenum_loop num isnum (c # cs) =
     (if \<not> is_digit c then (isnum, c # cs)
      else if num > 1000000 then (False, [])
      else parsenum_loop (num * 10 + digit_val c) True cs)"

definition parsenum :: "string \<Rightarrow> bool \<times> string" where
  "parsenum s = parsenum_loop 0 False s"

text \<open>
  \<open>argNumber\<close> on an empty operand list: what follows, whether the argument number is still
  good, and whether an index in brackets was read.
\<close>

definition argNumber :: "string \<Rightarrow> string \<times> bool \<times> bool" where
  "argNumber s =
     (if s = [] \<or> hd s \<noteq> CHR ''['' then (s, True, False)
      else if length s < 3 then (drop 1 s, False, False)
      else (case IndexByte s (CHR '']'') of
              None \<Rightarrow> (drop 1 s, False, False)
            | Some i \<Rightarrow> (let (ok, rest) = parsenum (take (i - 1) (tl s))
                        in (after i s, False, ok \<and> rest = []))))"

text \<open>
  The stages of one directive, each on the rest of the format: the width, the precision and
  the last argument index. They return their output, what follows, whether the argument
  number is still good and whether an index in brackets stands right before.
\<close>

definition fmt_width :: "string \<Rightarrow> bool \<Rightarrow> bool \<Rightarrow> string \<times> string \<times> bool \<times> bool" where
  "fmt_width s good afterIndex =
     (if s \<noteq> [] \<and> hd s = CHR ''*'' then (''%!(BADWIDTH)'', tl s, good, False)
      else let (present, r) = parsenum s
           in ([], r, good \<and> \<not> (afterIndex \<and> present), afterIndex))"

definition fmt_prec :: "string \<Rightarrow> bool \<Rightarrow> bool \<Rightarrow> string \<times> string \<times> bool \<times> bool" where
  "fmt_prec s good afterIndex =
     (if s \<noteq> [] \<and> hd s = CHR ''.'' then
        let (t, g, ai) = argNumber (tl s);
            good' = (good \<and> \<not> afterIndex \<and> g)
        in if t \<noteq> [] \<and> hd t = CHR ''*'' then (''%!(BADPREC)'', tl t, good', False)
           else ([], snd (parsenum t), good', ai)
      else ([], s, good, afterIndex))"

definition fmt_index :: "string \<Rightarrow> bool \<Rightarrow> bool \<Rightarrow> string \<times> bool" where
  "fmt_index s good afterIndex =
     (if afterIndex then (s, good)
      else let (t, g, ai) = argNumber s in (t, good \<and> g))"

text \<open>The part of a directive after the percent sign: its output and the rest of the format.\<close>

definition fmt_verb :: "string \<Rightarrow> string \<times> string" where
  "fmt_verb s0 =
     (let (s1, good1, ai1) = argNumber (dropWhile fmt_flag s0);
          (out2, s2, good2, ai2) = fmt_width s1 good1 ai1;
          (out3, s3, good3, ai3) = fmt_prec s2 good2 ai2;
          (s4, good4) = fmt_index s3 good3 ai3
      in case s4 of
           [] \<Rightarrow> (out2 @ out3 @ ''%!(NOVERB)'', [])
         | v # r \<Rightarrow>
             (out2 @ out3 @
               (if v = CHR ''%'' then ''%''
                else if \<not> good4 then ''%!'' @ v # ''(BADINDEX)''
                else ''%!'' @ v # ''(MISSING)''), r))"

lemma parsenum_loop_length: "length (snd (parsenum_loop n b s)) \<le> length s"
  by (induction n b s rule: parsenum_loop.induct) auto

lemma parsenum_length: "parsenum s = (b, r) \<Longrightarrow> length r \<le> length s"
  using parsenum_loop_length [of 0 False s] by (simp add: parsenum_def)

lemma argNumber_length: "argNumber s = (r, b, c) \<Longrightarrow> length r \<le> length s"
  by (auto simp: argNumber_def after_def split: if_splits option.splits prod.splits)

lemma fmt_width_length: "fmt_width s g a = (out, r, g', a') \<Longrightarrow> length r \<le> length s"
  by (auto simp: fmt_width_def split: if_splits prod.splits dest: parsenum_length)

lemma fmt_prec_length:
  assumes "fmt_prec s g a = (out, r, g', a')"
  shows "length r \<le> length s"
proof -
  obtain t h ai where 1: "argNumber (tl s) = (t, h, ai)" by (metis prod_cases3)
  obtain b u where 2: "parsenum t = (b, u)" by fastforce
  have "length t \<le> length s" "length u \<le> length t"
    using argNumber_length [OF 1] parsenum_length [OF 2] by auto
  with assms show ?thesis
    by (auto simp: fmt_prec_def 1 2 Let_def split: if_splits)
qed

lemma fmt_index_length: "fmt_index s g a = (r, g') \<Longrightarrow> length r \<le> length s"
  by (auto simp: fmt_index_def split: if_splits prod.splits dest: argNumber_length)

lemma fmt_verb_length:
  assumes "fmt_verb s = (out, r)"
  shows "length r \<le> length s"
proof -
  obtain s1 g1 a1 where 1: "argNumber (dropWhile fmt_flag s) = (s1, g1, a1)"
    by (metis prod_cases3)
  obtain o2 s2 g2 a2 where 2: "fmt_width s1 g1 a1 = (o2, s2, g2, a2)"
    by (metis prod_cases4)
  obtain o3 s3 g3 a3 where 3: "fmt_prec s2 g2 a2 = (o3, s3, g3, a3)"
    by (metis prod_cases4)
  obtain s4 g4 where 4: "fmt_index s3 g3 a3 = (s4, g4)"
    by (metis surj_pair)
  have "length r \<le> length s4"
    using assms by (auto simp: fmt_verb_def 1 2 3 4 split: list.splits)
  also have "\<dots> \<le> length s3" by (rule fmt_index_length [OF 4])
  also have "\<dots> \<le> length s2" by (rule fmt_prec_length [OF 3])
  also have "\<dots> \<le> length s1" by (rule fmt_width_length [OF 2])
  also have "\<dots> \<le> length (dropWhile fmt_flag s)" by (rule argNumber_length [OF 1])
  also have "\<dots> \<le> length s" by (rule length_dropWhile_le)
  finally show ?thesis .
qed

function Fprintf0 :: "string \<Rightarrow> string" where
  "Fprintf0 [] = []"
| "Fprintf0 (c # s) =
     (if c \<noteq> CHR ''%'' then c # Fprintf0 s
      else (case fmt_verb s of (out, rest) \<Rightarrow> out @ Fprintf0 rest))"
  by pat_completeness auto
termination
  by (relation "measure length") (auto simp: less_Suc_eq_le dest: fmt_verb_length [OF sym])

text \<open>A string without a percent sign is printed as it is; with one, in general it is not.\<close>

lemma Fprintf0_plain [simp]: "CHR ''%'' \<notin> set s \<Longrightarrow> Fprintf0 s = s"
  by (induction s) auto

lemmas fmt_eval [go_eval] =
  fmt_verb_def argNumber_def fmt_width_def fmt_prec_def fmt_index_def fmt_flag_def parsenum_def

lemma Fprintf0_percent_escape: "Fprintf0 ''a%20b'' = ''a%!b(MISSING)''"
  by (simp add: go_eval)

end
