(* ===== verification/KeyValues.thy ===== *)
theory KeyValues
  imports Interfaces GoFmt
begin

text \<open>
  \<open>key_value.go\<close> and \<open>generic_param.go\<close>: a parameter \<open>key=value\<close>, its printer and its parser,
  and the loops over parameter lists that the header types share.
\<close>

record KeyValue =
  Key :: string
  Value :: string

abbreviation KV :: "string \<Rightarrow> string \<Rightarrow> KeyValue" where
  "KV k v \<equiv> \<lparr>Key = k, Value = v\<rparr>"

definition KeyValue_Write :: "KeyValue \<Rightarrow> string" where
  "KeyValue_Write kv =
     Fprintf0 (Key kv) @ (if length (Value kv) > 0 then ''='' @ Fprintf0 (Value kv) else [])"

definition KeyValue_String :: "KeyValue \<Rightarrow> string" where
  "KeyValue_String kv = KeyValue_Write kv"

definition ParseGenericParam :: "string \<Rightarrow> KeyValue result" where
  "ParseGenericParam s =
     (if length s = 0 then Inl (Errorf ''invalid generic-param syntax'')
      else case IndexByte s (CHR ''='') of
             None \<Rightarrow> Inr (KV s [])
           | Some pos \<Rightarrow> Inr (KV (before pos s) (after pos s)))"

section \<open>Loops over parameter lists\<close>

text \<open>The first value under a name, the test for a name, and the update in place.\<close>

fun kv_find :: "string \<Rightarrow> KeyValue list \<Rightarrow> string option" where
  "kv_find name [] = None"
| "kv_find name (p # ps) = (if Key p = name then Some (Value p) else kv_find name ps)"

fun kv_has :: "string \<Rightarrow> KeyValue list \<Rightarrow> bool" where
  "kv_has name [] = False"
| "kv_has name (p # ps) = (if Key p = name then True else kv_has name ps)"

fun kv_update :: "string \<Rightarrow> string \<Rightarrow> KeyValue list \<Rightarrow> KeyValue list" where
  "kv_update name v [] = []"
| "kv_update name v (p # ps) =
     (if Key p = name then p\<lparr>Value := v\<rparr> # ps else p # kv_update name v ps)"

definition kv_set :: "string \<Rightarrow> string \<Rightarrow> KeyValue list \<Rightarrow> KeyValue list" where
  "kv_set name v ps = (if kv_has name ps then kv_update name v ps else ps @ [KV name v])"

lemma kv_has_iff: "kv_has n ps \<longleftrightarrow> kv_find n ps \<noteq> None"
  by (induction ps) auto

lemma kv_has_set: "kv_has n ps \<longleftrightarrow> n \<in> Key ` set ps"
  by (induction ps) auto

lemma kv_find_append:
  "kv_find n (ps @ qs) = (case kv_find n ps of None \<Rightarrow> kv_find n qs | Some v \<Rightarrow> Some v)"
  by (induction ps) auto

lemma kv_find_update: "kv_find m (kv_update n v ps) = (if m = n \<and> kv_has n ps then Some v else kv_find m ps)"
  by (induction ps) auto

lemma kv_find_set [simp]: "kv_find m (kv_set n v ps) = (if m = n then Some v else kv_find m ps)"
  by (auto simp: kv_set_def kv_find_update kv_find_append kv_has_iff split: option.splits)

lemma kv_has_kv_set [simp]: "kv_has m (kv_set n v ps) \<longleftrightarrow> m = n \<or> kv_has m ps"
  by (simp add: kv_has_iff)

lemma kv_set_keys:
  "kv_has n ps \<Longrightarrow> map Key (kv_set n v ps) = map Key ps"
  by (simp add: kv_set_def, induction ps) auto

lemma kv_set_set: "p \<in> set (kv_set n v ps) \<Longrightarrow> p \<in> set ps \<or> (Key p = n \<and> Value p = v)"
proof -
  have "p \<in> set (kv_update n v ps) \<Longrightarrow> p \<in> set ps \<or> (Key p = n \<and> Value p = v)"
    by (induction ps) (auto split: if_splits)
  then show "p \<in> set (kv_set n v ps) \<Longrightarrow> ?thesis"
    by (auto simp: kv_set_def split: if_splits)
qed

section \<open>Round trip\<close>

text \<open>
  The parameters that survive printing and parsing: no percent sign (the printer uses key
  and value as formats), no equals sign in the key, and not both empty.
\<close>

definition plain :: "string \<Rightarrow> bool" where
  "plain s \<longleftrightarrow> CHR ''%'' \<notin> set s"

definition kv_ok :: "KeyValue \<Rightarrow> bool" where
  "kv_ok kv \<longleftrightarrow> plain (Key kv) \<and> plain (Value kv) \<and> CHR ''='' \<notin> set (Key kv) \<and>
     (Key kv \<noteq> [] \<or> Value kv \<noteq> [])"

definition kv_free :: "char \<Rightarrow> KeyValue \<Rightarrow> bool" where
  "kv_free c kv \<longleftrightarrow> c \<notin> set (Key kv) \<and> c \<notin> set (Value kv)"

lemma plain_simps [simp]: "plain []" "plain (c # s) \<longleftrightarrow> c \<noteq> CHR ''%'' \<and> plain s"
  "plain (a @ b) \<longleftrightarrow> plain a \<and> plain b"
  by (auto simp: plain_def)

lemma Fprintf0_plain' [simp]: "plain s \<Longrightarrow> Fprintf0 s = s"
  by (simp add: plain_def)

lemma KeyValue_String_ok:
  "kv_ok kv \<Longrightarrow> KeyValue_String kv = Key kv @ (if Value kv = [] then [] else ''='' @ Value kv)"
  by (simp add: KeyValue_String_def KeyValue_Write_def kv_ok_def)

lemma ParseGenericParam_String: "kv_ok kv \<Longrightarrow> ParseGenericParam (KeyValue_String kv) = Inr kv"
  by (cases kv) (auto simp: KeyValue_String_ok ParseGenericParam_def kv_ok_def)

lemma KeyValue_String_free:
  "kv_ok kv \<Longrightarrow> kv_free c kv \<Longrightarrow> c \<noteq> CHR ''='' \<Longrightarrow> c \<notin> set (KeyValue_String kv)"
  by (auto simp: KeyValue_String_ok kv_free_def)

interpretation kv_semi: sep_codec ParseGenericParam KeyValue_String
  "\<lambda>kv. kv_ok kv \<and> kv_free (CHR '';'') kv" "CHR '';''"
  by unfold_locales (auto simp: ParseGenericParam_String dest: KeyValue_String_free)

lemmas kv_eval [go_eval] =
  KeyValue_Write_def KeyValue_String_def ParseGenericParam_def kv_set_def plain_def kv_ok_def
  kv_free_def

end
