(* ===== verification/SipUri.thy ===== *)
theory SipUri
  imports KeyValues
begin

text \<open>
  \<open>sip_uri.go\<close>, \<open>absolute_uri.go\<close> and \<open>addr_spec.go\<close>: SIP URIs with their parser, accessors
  and printer, and addresses, which are a SIP URI or any other (absolute) URI. A pointer
  field that may be nil is an option.
\<close>

section \<open>SIP URIs\<close>

record SIPURI =
  Scheme :: string
  User :: string
  Password :: string
  Host :: string
  uri_port :: int
  Parameters :: "KeyValue list"
  uri_Headers :: "KeyValue list"

definition zero_SIPURI :: SIPURI where
  "zero_SIPURI = \<lparr>Scheme = [], User = [], Password = [], Host = [], uri_port = 0,
     Parameters = [], uri_Headers = []\<rparr>"

definition parseUserInfo :: "string \<Rightarrow> SIPURI \<Rightarrow> SIPURI" where
  "parseUserInfo s sipUri =
     (case IndexByte s (CHR '':'') of
        None \<Rightarrow> sipUri\<lparr>User := s\<rparr>
      | Some pos \<Rightarrow> sipUri\<lparr>User := before pos s, Password := after pos s\<rparr>)"

text \<open>The error of \<open>Atoi\<close> is dropped, its value is kept.\<close>

definition parseHostPort :: "string \<Rightarrow> SIPURI \<Rightarrow> SIPURI" where
  "parseHostPort s sipUri =
     (case IndexByte s (CHR '':'') of
        None \<Rightarrow> sipUri\<lparr>Host := s, uri_port := 0\<rparr>
      | Some pos \<Rightarrow> sipUri\<lparr>Host := before pos s, uri_port := fst (Atoi (after pos s))\<rparr>)"

text \<open>The loops append to the URI until the first piece they reject.\<close>

fun uri_params_loop :: "string list \<Rightarrow> KeyValue list \<Rightarrow> unit result \<times> KeyValue list" where
  "uri_params_loop [] acc = (Inr (), acc)"
| "uri_params_loop (param # rest) acc =
     (case IndexByte param (CHR ''='') of
        None \<Rightarrow>
          if param = ''lr'' then uri_params_loop rest (acc @ [KV ''lr'' []])
          else (Inl (Errorf ''invalid parameter format''), acc)
      | Some pos \<Rightarrow> uri_params_loop rest (acc @ [KV (before pos param) (after pos param)]))"

definition parseUriParameters :: "string \<Rightarrow> (SIPURI, unit) call" where
  "parseUriParameters s sipUri =
     (let (r, ps) = uri_params_loop (Split s (CHR '';'')) (Parameters sipUri)
      in (r, sipUri\<lparr>Parameters := ps\<rparr>))"

fun uri_headers_loop :: "string list \<Rightarrow> KeyValue list \<Rightarrow> unit result \<times> KeyValue list" where
  "uri_headers_loop [] acc = (Inr (), acc)"
| "uri_headers_loop (param # rest) acc =
     (case IndexByte param (CHR ''='') of
        None \<Rightarrow> (Inl (Errorf ''invalid parameter format''), acc)
      | Some pos \<Rightarrow> uri_headers_loop rest (acc @ [KV (before pos param) (after pos param)]))"

definition parseUriHeader :: "string \<Rightarrow> (SIPURI, unit) call" where
  "parseUriHeader s sipUri =
     (let (r, hs) = uri_headers_loop (Split s (CHR ''&'')) (uri_Headers sipUri)
      in (r, sipUri\<lparr>uri_Headers := hs\<rparr>))"

text \<open>
  What follows the scheme, in the order of the code: headers after \<open>?\<close>, parameters after
  \<open>;\<close>, user info before \<open>@\<close>. Each stage shortens the string. The errors of the two
  parameter parsers are dropped.
\<close>

definition ParseSipURI_headers :: "string \<times> SIPURI \<Rightarrow> string \<times> SIPURI" where
  "ParseSipURI_headers = (\<lambda>(s, u).
     case IndexByte s (CHR ''?'') of
       None \<Rightarrow> (s, u)
     | Some pos \<Rightarrow> (before pos s, snd (parseUriHeader (after pos s) u)))"

definition ParseSipURI_parameters :: "string \<times> SIPURI \<Rightarrow> string \<times> SIPURI" where
  "ParseSipURI_parameters = (\<lambda>(s, u).
     case IndexByte s (CHR '';'') of
       None \<Rightarrow> (s, u)
     | Some pos \<Rightarrow> (before pos s, snd (parseUriParameters (after pos s) u)))"

definition ParseSipURI_userhost :: "string \<times> SIPURI \<Rightarrow> SIPURI" where
  "ParseSipURI_userhost = (\<lambda>(s, u).
     case IndexByte s (CHR ''@'') of
       None \<Rightarrow> parseHostPort s u
     | Some pos \<Rightarrow> parseHostPort (after pos s) (parseUserInfo (before pos s) u))"

definition ParseSipURI_body :: "string \<Rightarrow> SIPURI \<Rightarrow> SIPURI" where
  "ParseSipURI_body s u =
     ParseSipURI_userhost (ParseSipURI_parameters (ParseSipURI_headers (s, u)))"

definition ParseSipURI :: "string \<Rightarrow> SIPURI result" where
  "ParseSipURI uri =
     (if HasPrefix uri ''sip:''
      then Inr (ParseSipURI_body (drop 4 uri) (zero_SIPURI\<lparr>Scheme := ''sip''\<rparr>))
      else if HasPrefix uri ''sips:''
      then Inr (ParseSipURI_body (drop 5 uri) (zero_SIPURI\<lparr>Scheme := ''sips''\<rparr>))
      else Inl (Errorf ''not a valid sip uri''))"

definition SIPURI_GetParameter :: "SIPURI \<Rightarrow> string \<Rightarrow> string result" where
  "SIPURI_GetParameter s name =
     (case kv_find name (Parameters s) of
        Some v \<Rightarrow> Inr v
      | None \<Rightarrow> Inl (Errorf (''no such parameter'' @ name)))"

definition SIPURI_AddParameter :: "SIPURI \<Rightarrow> string \<Rightarrow> string \<Rightarrow> SIPURI" where
  "SIPURI_AddParameter s name v = s\<lparr>Parameters := Parameters s @ [KV name v]\<rparr>"

definition SIPURI_SetParameter :: "SIPURI \<Rightarrow> string \<Rightarrow> string \<Rightarrow> SIPURI" where
  "SIPURI_SetParameter s name v =
     (if kv_has name (Parameters s) then s\<lparr>Parameters := kv_update name v (Parameters s)\<rparr>
      else SIPURI_AddParameter s name v)"

definition SIPURI_GetTransport :: "SIPURI \<Rightarrow> string" where
  "SIPURI_GetTransport s =
     (case SIPURI_GetParameter s ''transport'' of Inr t \<Rightarrow> t | Inl _ \<Rightarrow> ''udp'')"

definition SIPURI_GetPort :: "SIPURI \<Rightarrow> int" where
  "SIPURI_GetPort s =
     (if uri_port s \<noteq> 0 then uri_port s
      else if SIPURI_GetTransport s = ''tls'' then 5061 else 5060)"

definition SIPURI_GetHeader :: "SIPURI \<Rightarrow> string \<Rightarrow> string result" where
  "SIPURI_GetHeader s name =
     (case kv_find name (uri_Headers s) of
        Some v \<Rightarrow> Inr v
      | None \<Rightarrow> Inl (Errorf (''no such header '' @ name)))"

definition SIPURI__Write :: "SIPURI \<Rightarrow> bool \<Rightarrow> bool \<Rightarrow> string" where
  "SIPURI__Write s withParams withHeaders =
     Scheme s @ '':'' @
     (if length (User s) > 0 then
        (if length (Password s) > 0 then User s @ '':'' @ Password s @ ''@'' else User s @ ''@'')
      else []) @
     (if uri_port s \<noteq> 0 then Host s @ '':'' @ Itoa (uri_port s) else Host s) @
     (if withParams then
        concat (map (\<lambda>param. '';'' @
          (if length (Value param) > 0 then Key param @ ''='' @ Value param else Key param))
          (Parameters s))
      else []) @
     (if withHeaders then
        concat (map (\<lambda>(i, header). (if i = 0 then ''?'' else ''&'') @
          Key header @ ''='' @ Value header) (enumerate 0 (uri_Headers s)))
      else [])"

definition SIPURI_Write :: "SIPURI \<Rightarrow> string" where
  "SIPURI_Write s = SIPURI__Write s True True"

definition SIPURI_String :: "SIPURI \<Rightarrow> string" where
  "SIPURI_String s = SIPURI_Write s"

definition SIPURI_ToString :: "SIPURI \<Rightarrow> bool \<Rightarrow> bool \<Rightarrow> string" where
  "SIPURI_ToString s withParams withHeaders = SIPURI__Write s withParams withHeaders"

section \<open>Addresses\<close>

record AbsoluteURI =
  absURI :: string

definition ParseAbsoluteURI :: "string \<Rightarrow> AbsoluteURI result" where
  "ParseAbsoluteURI s = Inr \<lparr>absURI = s\<rparr>"

definition AbsoluteURI_Writer :: "AbsoluteURI \<Rightarrow> string" where
  "AbsoluteURI_Writer au = Fprintf0 (absURI au)"

definition AbsoluteURI_String :: "AbsoluteURI \<Rightarrow> string" where
  "AbsoluteURI_String au = absURI au"

record AddrSpec =
  sipURI :: "SIPURI option"
  absoluteURI :: "AbsoluteURI option"

definition NewAddrSpec :: AddrSpec where
  "NewAddrSpec = \<lparr>sipURI = None, absoluteURI = None\<rparr>"

definition ParseAddrSpec :: "string \<Rightarrow> AddrSpec result" where
  "ParseAddrSpec addrSpec =
     (if HasPrefix addrSpec ''sip:'' \<or> HasPrefix addrSpec ''sips:'' then
        rbind (ParseSipURI addrSpec) (\<lambda>u. Inr \<lparr>sipURI = Some u, absoluteURI = None\<rparr>)
      else
        rbind (ParseAbsoluteURI addrSpec) (\<lambda>a. Inr \<lparr>sipURI = None, absoluteURI = Some a\<rparr>))"

definition IsSIPURI :: "AddrSpec \<Rightarrow> bool" where
  "IsSIPURI as \<longleftrightarrow> sipURI as \<noteq> None"

definition GetSIPURI :: "AddrSpec \<Rightarrow> SIPURI result" where
  "GetSIPURI as = (case sipURI as of
     None \<Rightarrow> Inl (Errorf ''addr-spec is not SIP URI'') | Some u \<Rightarrow> Inr u)"

definition AddrSpec_GetAbsoluteURI :: "AddrSpec \<Rightarrow> AbsoluteURI result" where
  "AddrSpec_GetAbsoluteURI as = (case absoluteURI as of
     None \<Rightarrow> Inl (Errorf ''addr-spec is not absoluteURI'') | Some a \<Rightarrow> Inr a)"

definition AddrSpec_Write :: "AddrSpec \<Rightarrow> string" where
  "AddrSpec_Write as =
     (case sipURI as of
        Some u \<Rightarrow> SIPURI_Write u
      | None \<Rightarrow> (case absoluteURI as of Some a \<Rightarrow> AbsoluteURI_Writer a | None \<Rightarrow> []))"

definition AddrSpec_String :: "AddrSpec \<Rightarrow> string" where
  "AddrSpec_String as =
     (case sipURI as of
        Some u \<Rightarrow> SIPURI_String u
      | None \<Rightarrow> (case absoluteURI as of Some a \<Rightarrow> AbsoluteURI_String a | None \<Rightarrow> []))"

section \<open>Accessors\<close>

interpretation uri_params: param_store SIPURI_GetParameter SIPURI_SetParameter UNIV
  by unfold_locales
    (auto simp: SIPURI_GetParameter_def SIPURI_SetParameter_def SIPURI_AddParameter_def
      kv_find_update kv_find_append kv_has_iff split: option.splits)

lemma SIPURI_GetPort_cases:
  "SIPURI_GetPort u \<noteq> 0"
  "uri_port u \<noteq> 0 \<Longrightarrow> SIPURI_GetPort u = uri_port u"
  by (simp_all add: SIPURI_GetPort_def)

section \<open>Round trip\<close>

text \<open>The URIs whose printed form is read back as the same URI.\<close>

definition free_of :: "string \<Rightarrow> string \<Rightarrow> bool" where
  "free_of cs s \<longleftrightarrow> (\<forall>c \<in> set cs. c \<notin> set s)"

lemma free_of_simps [simp]:
  "free_of [] s" "free_of (c # cs) s \<longleftrightarrow> c \<notin> set s \<and> free_of cs s"
  by (auto simp: free_of_def)

definition uri_param_ok :: "KeyValue \<Rightarrow> bool" where
  "uri_param_ok p \<longleftrightarrow> free_of ''=;?'' (Key p) \<and> free_of '';?'' (Value p) \<and>
     (Value p = [] \<longrightarrow> Key p = ''lr'')"

definition uri_header_ok :: "KeyValue \<Rightarrow> bool" where
  "uri_header_ok h \<longleftrightarrow> free_of ''=&'' (Key h) \<and> free_of ''&'' (Value h)"

definition sip_uri_ok :: "SIPURI \<Rightarrow> bool" where
  "sip_uri_ok u \<longleftrightarrow>
     Scheme u \<in> {''sip'', ''sips''} \<and>
     free_of ''?;@:'' (User u) \<and> free_of ''?;@'' (Password u) \<and> free_of ''?;@:'' (Host u) \<and>
     (User u = [] \<longrightarrow> Password u = []) \<and> go_int (uri_port u) \<and>
     (\<forall>p \<in> set (Parameters u). uri_param_ok p) \<and> (\<forall>h \<in> set (uri_Headers u). uri_header_ok h)"

definition param_text :: "KeyValue \<Rightarrow> string" where
  "param_text p = (if length (Value p) > 0 then Key p @ ''='' @ Value p else Key p)"

definition header_text :: "KeyValue \<Rightarrow> string" where
  "header_text h = Key h @ ''='' @ Value h"

lemma uri_params_loop_text:
  "(\<forall>p \<in> set ps. uri_param_ok p) \<Longrightarrow> uri_params_loop (map param_text ps) acc = (Inr (), acc @ ps)"
  by (induction ps arbitrary: acc) (auto simp: param_text_def uri_param_ok_def append_eq_Cons_conv)

lemma uri_headers_loop_text:
  "(\<forall>h \<in> set hs. uri_header_ok h) \<Longrightarrow> uri_headers_loop (map header_text hs) acc = (Inr (), acc @ hs)"
  by (induction hs arbitrary: acc) (auto simp: header_text_def uri_header_ok_def)

lemma param_text_free: "uri_param_ok p \<Longrightarrow> CHR '';'' \<notin> set (param_text p) \<and> CHR ''?'' \<notin> set (param_text p)"
  by (auto simp: param_text_def uri_param_ok_def)

lemma header_text_free: "uri_header_ok h \<Longrightarrow> CHR ''&'' \<notin> set (header_text h)"
  by (auto simp: header_text_def uri_header_ok_def)

definition params_text :: "KeyValue list \<Rightarrow> string" where
  "params_text ps = (if ps = [] then [] else CHR '';'' # Join (map param_text ps) '';'')"

definition headers_text :: "KeyValue list \<Rightarrow> string" where
  "headers_text hs = (if hs = [] then [] else CHR ''?'' # Join (map header_text hs) ''&'')"

definition userinfo_text :: "SIPURI \<Rightarrow> string" where
  "userinfo_text u = (if User u = [] then []
     else if Password u = [] then User u @ ''@'' else User u @ '':'' @ Password u @ ''@'')"

definition hostport_text :: "SIPURI \<Rightarrow> string" where
  "hostport_text u = (if uri_port u = 0 then Host u else Host u @ '':'' @ Itoa (uri_port u))"

lemma params_text_eq: "concat (map (\<lambda>param. '';'' @
    (if length (Value param) > 0 then Key param @ ''='' @ Value param else Key param)) ps) = params_text ps"
  using concat_sep_Join [of ps "CHR '';''" param_text]
  by (cases "ps = []") (simp_all add: params_text_def param_text_def [abs_def])

lemma headers_text_eq: "concat (map (\<lambda>(i, header). (if i = 0 then ''?'' else ''&'') @
    Key header @ ''='' @ Value header) (enumerate 0 hs)) = headers_text hs"
proof (cases hs)
  case (Cons h rest)
  have "concat (map (\<lambda>(i, header). (if i = 0 then ''?'' else ''&'') @
      Key header @ ''='' @ Value header) (enumerate (Suc n) rest)) =
      concat (map (\<lambda>x. CHR ''&'' # header_text x) rest)" for n
    by (induction rest arbitrary: n) (auto simp: header_text_def)
  then show ?thesis
    using Cons concat_sep_Join [of rest "CHR ''&''" header_text]
    by (cases rest) (auto simp: headers_text_def header_text_def)
qed (simp add: headers_text_def)

lemma SIPURI_String_text:
  "SIPURI_String u = Scheme u @ '':'' @ userinfo_text u @ hostport_text u @
     params_text (Parameters u) @ headers_text (uri_Headers u)"
  unfolding SIPURI_String_def SIPURI_Write_def SIPURI__Write_def params_text_eq headers_text_eq
  by (simp add: userinfo_text_def hostport_text_def)

lemma params_text_free: "(\<forall>p \<in> set ps. uri_param_ok p) \<Longrightarrow> CHR ''?'' \<notin> set (params_text ps)"
  by (auto simp: params_text_def dest!: set_Join param_text_free)

lemma userinfo_hostport_free:
  assumes "sip_uri_ok u"
  shows "CHR '';'' \<notin> set (userinfo_text u @ hostport_text u)"
    and "CHR ''?'' \<notin> set (userinfo_text u @ hostport_text u)"
    and "CHR ''@'' \<notin> set (hostport_text u)"
  using assms by (auto simp: sip_uri_ok_def userinfo_text_def hostport_text_def is_digit_def)

lemma parseHostPort_text:
  assumes "sip_uri_ok u"
  shows "parseHostPort (hostport_text u) v = v\<lparr>Host := Host u, uri_port := uri_port u\<rparr>"
  using assms by (auto simp: sip_uri_ok_def hostport_text_def parseHostPort_def Atoi_Itoa)

lemma ParseSipURI_headers_text:
  assumes "CHR ''?'' \<notin> set t" and "\<forall>h \<in> set hs. uri_header_ok h" and "uri_Headers v = []"
  shows "ParseSipURI_headers (t @ headers_text hs, v) = (t, v\<lparr>uri_Headers := hs\<rparr>)"
proof (cases "hs = []")
  case True
  with assms show ?thesis by (simp add: ParseSipURI_headers_def headers_text_def)
next
  case False
  have "Split (Join (map header_text hs) ''&'') (CHR ''&'') = map header_text hs"
    using False assms(2) by (intro Split_Join) (auto dest: header_text_free)
  with False assms show ?thesis
    by (simp add: ParseSipURI_headers_def headers_text_def parseUriHeader_def uri_headers_loop_text)
qed

lemma ParseSipURI_parameters_text:
  assumes "CHR '';'' \<notin> set t" and "\<forall>p \<in> set ps. uri_param_ok p" and "Parameters v = []"
  shows "ParseSipURI_parameters (t @ params_text ps, v) = (t, v\<lparr>Parameters := ps\<rparr>)"
proof (cases "ps = []")
  case True
  with assms show ?thesis by (simp add: ParseSipURI_parameters_def params_text_def)
next
  case False
  have "Split (Join (map param_text ps) '';'') (CHR '';'') = map param_text ps"
    using False assms(2) by (intro Split_Join) (auto dest: param_text_free)
  with False assms show ?thesis
    by (simp add: ParseSipURI_parameters_def params_text_def parseUriParameters_def
        uri_params_loop_text)
qed

lemma ParseSipURI_userhost_at:
  "CHR ''@'' \<notin> set t \<Longrightarrow>
   ParseSipURI_userhost (t @ CHR ''@'' # h, v) = parseHostPort h (parseUserInfo t v)"
  by (simp add: ParseSipURI_userhost_def)

lemma ParseSipURI_userhost_text:
  assumes ok: "sip_uri_ok u" and "User v = []" and "Password v = []"
  shows "ParseSipURI_userhost (userinfo_text u @ hostport_text u, v) =
    v\<lparr>User := User u, Password := Password u, Host := Host u, uri_port := uri_port u\<rparr>"
proof (cases "User u = []")
  case True
  with assms userinfo_hostport_free(3) [OF ok] show ?thesis
    by (simp add: ParseSipURI_userhost_def userinfo_text_def parseHostPort_text [OF ok] sip_uri_ok_def)
next
  case False
  let ?t = "if Password u = [] then User u else User u @ '':'' @ Password u"
  have "CHR ''@'' \<notin> set ?t" using ok by (auto simp: sip_uri_ok_def)
  then have "ParseSipURI_userhost (?t @ CHR ''@'' # hostport_text u, v) =
      parseHostPort (hostport_text u) (parseUserInfo ?t v)"
    by (rule ParseSipURI_userhost_at)
  moreover have "userinfo_text u @ hostport_text u = ?t @ CHR ''@'' # hostport_text u"
    using False by (simp add: userinfo_text_def)
  moreover have "parseUserInfo ?t v = v\<lparr>User := User u, Password := Password u\<rparr>"
    using assms by (simp add: parseUserInfo_def sip_uri_ok_def)
  ultimately show ?thesis by (simp add: parseHostPort_text [OF ok])
qed

lemma ParseSipURI_body_text:
  assumes ok: "sip_uri_ok u"
  shows "ParseSipURI_body (userinfo_text u @ hostport_text u @ params_text (Parameters u) @
    headers_text (uri_Headers u)) (zero_SIPURI\<lparr>Scheme := Scheme u\<rparr>) = u"
proof -
  let ?up = "userinfo_text u @ hostport_text u"
  let ?v0 = "zero_SIPURI\<lparr>Scheme := Scheme u\<rparr>"
  have params: "\<forall>p \<in> set (Parameters u). uri_param_ok p"
    and headers: "\<forall>h \<in> set (uri_Headers u). uri_header_ok h"
    using ok by (auto simp: sip_uri_ok_def)
  have q: "CHR ''?'' \<notin> set (?up @ params_text (Parameters u))"
    using userinfo_hostport_free(2) [OF ok] params_text_free [OF params] by simp
  have 1: "ParseSipURI_headers ((?up @ params_text (Parameters u)) @ headers_text (uri_Headers u), ?v0) =
      (?up @ params_text (Parameters u), ?v0\<lparr>uri_Headers := uri_Headers u\<rparr>)"
    by (rule ParseSipURI_headers_text [OF q headers]) (simp add: zero_SIPURI_def)
  have 2: "ParseSipURI_parameters (?up @ params_text (Parameters u), ?v0\<lparr>uri_Headers := uri_Headers u\<rparr>) =
      (?up, ?v0\<lparr>uri_Headers := uri_Headers u, Parameters := Parameters u\<rparr>)"
    by (subst ParseSipURI_parameters_text [OF userinfo_hostport_free(1) [OF ok] params])
      (simp_all add: zero_SIPURI_def)
  from 1 2 show ?thesis
    by (simp add: ParseSipURI_body_def ParseSipURI_userhost_text [OF ok] zero_SIPURI_def)
qed

lemma ParseSipURI_String: "sip_uri_ok u \<Longrightarrow> ParseSipURI (SIPURI_String u) = Inr u"
  using ParseSipURI_body_text [of u]
  by (auto simp: ParseSipURI_def SIPURI_String_text sip_uri_ok_def HasPrefix_def)

interpretation sip_uri: codec ParseSipURI SIPURI_String sip_uri_ok
  by unfold_locales (rule ParseSipURI_String)

text \<open>Addresses: \<open>AddrSpec.Write\<close> uses an absolute URI as a format, \<open>AddrSpec.String\<close> does not.\<close>

definition addr_ok :: "AddrSpec \<Rightarrow> bool" where
  "addr_ok as \<longleftrightarrow>
     (case (sipURI as, absoluteURI as) of
        (Some u, None) \<Rightarrow> sip_uri_ok u
      | (None, Some a) \<Rightarrow> \<not> HasPrefix (absURI a) ''sip:'' \<and> \<not> HasPrefix (absURI a) ''sips:'' \<and> plain (absURI a)
      | _ \<Rightarrow> False)"

lemma SIPURI_String_prefix:
  "sip_uri_ok u \<Longrightarrow> HasPrefix (SIPURI_String u) ''sip:'' \<or> HasPrefix (SIPURI_String u) ''sips:''"
  by (auto simp: SIPURI_String_text sip_uri_ok_def HasPrefix_def)

lemma ParseAddrSpec_Write: "addr_ok as \<Longrightarrow> ParseAddrSpec (AddrSpec_Write as) = Inr as"
  using SIPURI_String_prefix ParseSipURI_String
  by (cases as) (auto simp: addr_ok_def ParseAddrSpec_def AddrSpec_Write_def SIPURI_String_def
      AbsoluteURI_Writer_def ParseAbsoluteURI_def split: option.splits)

interpretation addr_spec: codec ParseAddrSpec AddrSpec_Write addr_ok
  by unfold_locales (rule ParseAddrSpec_Write)

lemma AddrSpec_String_Write: "addr_ok as \<Longrightarrow> AddrSpec_String as = AddrSpec_Write as"
  by (auto simp: addr_ok_def AddrSpec_String_def AddrSpec_Write_def SIPURI_String_def
      AbsoluteURI_String_def AbsoluteURI_Writer_def split: option.splits)

lemmas uri_eval [go_eval] =
  zero_SIPURI_def parseUserInfo_def parseHostPort_def parseUriParameters_def parseUriHeader_def
  ParseSipURI_headers_def ParseSipURI_parameters_def ParseSipURI_userhost_def ParseSipURI_body_def
  ParseSipURI_def SIPURI_GetParameter_def SIPURI_AddParameter_def SIPURI_SetParameter_def
  SIPURI_GetTransport_def SIPURI_GetPort_def SIPURI_GetHeader_def SIPURI__Write_def
  SIPURI_Write_def SIPURI_String_def SIPURI_ToString_def ParseAbsoluteURI_def
  AbsoluteURI_Writer_def AbsoluteURI_String_def NewAddrSpec_def ParseAddrSpec_def IsSIPURI_def
  GetSIPURI_def AddrSpec_GetAbsoluteURI_def AddrSpec_Write_def AddrSpec_String_def
  uri_param_ok_def uri_header_ok_def sip_uri_ok_def addr_ok_def

end
