(* ===== verification/AddrHeaders.thy ===== *)
theory AddrHeaders
  imports SipUri
begin

text \<open>
  \<open>name_addr.go\<close>, \<open>from_spec.go\<close> and \<open>to.go\<close>: the name-addr form of an address and the From
  and To headers, with their parsers, accessors and printers.
\<close>

section \<open>Name-addr\<close>

record NameAddr =
  DisplayName :: string
  Addr :: AddrSpec

definition ParseNameAddr :: "string \<Rightarrow> NameAddr result" where
  "ParseNameAddr nameAddr =
     (case (IndexByte nameAddr (CHR ''<''), IndexByte nameAddr (CHR ''>'')) of
        (Some pos1, Some pos2) \<Rightarrow>
          if pos2 < pos1 then Inl (Errorf ''malformatted name-addr'')
          else rbind (ParseAddrSpec (take (pos2 - (pos1 + 1)) (drop (pos1 + 1) nameAddr)))
                 (\<lambda>addr. Inr \<lparr>DisplayName = take pos1 nameAddr, Addr = addr\<rparr>)
      | _ \<Rightarrow> Inl (Errorf ''malformatted name-addr''))"

definition NameAddr_GetAddress :: "NameAddr \<Rightarrow> AddrSpec" where
  "NameAddr_GetAddress na = Addr na"

definition NameAddr_Write :: "NameAddr \<Rightarrow> string" where
  "NameAddr_Write na = Fprintf0 (DisplayName na) @ ''<'' @ AddrSpec_Write (Addr na) @ ''>''"

definition NameAddr_String :: "NameAddr \<Rightarrow> string" where
  "NameAddr_String na = NameAddr_Write na"

definition name_addr_ok :: "NameAddr \<Rightarrow> bool" where
  "name_addr_ok na \<longleftrightarrow> plain (DisplayName na) \<and> free_of ''<>'' (DisplayName na) \<and>
     addr_ok (Addr na) \<and> CHR ''>'' \<notin> set (AddrSpec_Write (Addr na))"

lemma ParseNameAddr_String:
  assumes ok: "name_addr_ok na"
  shows "ParseNameAddr (NameAddr_String na) = Inr na"
proof -
  let ?d = "DisplayName na" and ?a = "AddrSpec_Write (Addr na)"
  have s: "NameAddr_String na = ?d @ CHR ''<'' # ?a @ ''>''"
    using ok by (simp add: NameAddr_String_def NameAddr_Write_def name_addr_ok_def)
  have "IndexByte (NameAddr_String na) (CHR ''<'') = Some (length ?d)"
    using ok by (simp add: s name_addr_ok_def)
  moreover have "IndexByte (NameAddr_String na) (CHR ''>'') = Some (length ?d + 1 + length ?a)"
    using ok IndexByte_append [of "CHR ''>''" "?d @ CHR ''<'' # ?a" "[]"]
    by (simp add: s name_addr_ok_def)
  ultimately show ?thesis
    using ok by (simp add: ParseNameAddr_def s name_addr_ok_def ParseAddrSpec_Write)
qed

interpretation name_addr: codec ParseNameAddr NameAddr_String name_addr_ok
  by unfold_locales (rule ParseNameAddr_String)

section \<open>The common parser of From and To\<close>

text \<open>
  \<open>ParseFromSpec\<close> and \<open>ParseTo\<close> have the same body, with different error texts: a name-addr
  if there is a \<open><\<close>, an addr-spec otherwise, then the parameters after the next \<open>;\<close>. In the
  addr-spec form the code passes \<open>s[0 : pos+1]\<close>, so the address includes the semicolon.
\<close>

definition addr_header_params ::
  "NameAddr option \<Rightarrow> AddrSpec option \<Rightarrow> string \<Rightarrow> (NameAddr option \<times> AddrSpec option \<times> KeyValue list) result"
where
  "addr_header_params na as params =
     (if length params = 0 then Inr (na, as, [])
      else rbind (collect ParseGenericParam (Split params (CHR '';''))) (\<lambda>kvs. Inr (na, as, kvs)))"

definition parse_addr_header ::
  "go_error \<Rightarrow> string \<Rightarrow> (NameAddr option \<times> AddrSpec option \<times> KeyValue list) result"
where
  "parse_addr_header malformatted s =
     (case IndexByte s (CHR ''<'') of
        Some laquot_pos \<Rightarrow>
          (case IndexByte s (CHR ''>'') of
             None \<Rightarrow> Inl malformatted
           | Some raquot_pos \<Rightarrow>
               if raquot_pos < laquot_pos then Inl malformatted
               else rbind (ParseNameAddr (take (raquot_pos + 1) s)) (\<lambda>na.
                      let rest = drop (raquot_pos + 1) s
                      in addr_header_params (Some na) None
                           (case IndexByte rest (CHR '';'') of None \<Rightarrow> [] | Some pos \<Rightarrow> after pos rest)))
      | None \<Rightarrow>
          (case IndexByte s (CHR '';'') of
             None \<Rightarrow> rbind (ParseAddrSpec s) (\<lambda>as. addr_header_params None (Some as) [])
           | Some pos \<Rightarrow>
               rbind (ParseAddrSpec (take (pos + 1) s))
                 (\<lambda>as. addr_header_params None (Some as) (after pos s))))"

section \<open>The From header\<close>

record FromSpec =
  from_nameAddr :: "NameAddr option"
  from_addrSpec :: "AddrSpec option"
  from_params :: "KeyValue list"

definition ParseFromSpec :: "string \<Rightarrow> FromSpec result" where
  "ParseFromSpec s =
     rbind (parse_addr_header (Errorf (''malformatted header From: '' @ s)) s)
       (\<lambda>(na, as, ps). Inr \<lparr>from_nameAddr = na, from_addrSpec = as, from_params = ps\<rparr>)"

definition FromSpec_GetAddrSpec :: "FromSpec \<Rightarrow> AddrSpec result" where
  "FromSpec_GetAddrSpec fs =
     (case from_nameAddr fs of
        Some na \<Rightarrow> Inr (Addr na)
      | None \<Rightarrow> (case from_addrSpec fs of
                   Some as \<Rightarrow> Inr as
                 | None \<Rightarrow> Inl (Errorf ''no nameSpec and addrSpec'')))"

definition FromSpec_String :: "FromSpec \<Rightarrow> string" where
  "FromSpec_String fs =
     (case from_nameAddr fs of
        Some na \<Rightarrow> NameAddr_String na
      | None \<Rightarrow> (case from_addrSpec fs of Some as \<Rightarrow> AddrSpec_String as | None \<Rightarrow> [])) @
     concat (map (\<lambda>param. '';'' @ KeyValue_String param) (from_params fs))"

definition FromSpec_GetParam :: "FromSpec \<Rightarrow> string \<Rightarrow> string result" where
  "FromSpec_GetParam fs name =
     (case kv_find name (from_params fs) of
        Some v \<Rightarrow> Inr v
      | None \<Rightarrow> Inl (Errorf (''no such param '' @ name)))"

definition FromSpec_GetTag :: "FromSpec \<Rightarrow> string result" where
  "FromSpec_GetTag fs = FromSpec_GetParam fs ''tag''"

text \<open>A tag that is not there is put in front.\<close>

definition FromSpec_SetTag :: "FromSpec \<Rightarrow> string \<Rightarrow> FromSpec" where
  "FromSpec_SetTag fs tag =
     (if kv_has ''tag'' (from_params fs)
      then fs\<lparr>from_params := kv_update ''tag'' tag (from_params fs)\<rparr>
      else fs\<lparr>from_params := KV ''tag'' tag # from_params fs\<rparr>)"

section \<open>The To header\<close>

record To =
  to_nameAddr :: "NameAddr option"
  to_addrSpec :: "AddrSpec option"
  to_params :: "KeyValue list"

definition ParseTo :: "string \<Rightarrow> To result" where
  "ParseTo s =
     rbind (parse_addr_header (Errorf ''malformatted header To'') s)
       (\<lambda>(na, as, ps). Inr \<lparr>to_nameAddr = na, to_addrSpec = as, to_params = ps\<rparr>)"

text \<open>\<open>%s\<close> of a nil pointer prints \<open><nil>\<close>.\<close>

definition To_String :: "To \<Rightarrow> string" where
  "To_String t =
     (case to_nameAddr t of
        Some na \<Rightarrow> NameAddr_String na
      | None \<Rightarrow> (case to_addrSpec t of Some as \<Rightarrow> AddrSpec_String as | None \<Rightarrow> ''<nil>'')) @
     concat (map (\<lambda>kv. '';'' @ KeyValue_String kv) (to_params t))"

definition To_GetParam :: "To \<Rightarrow> string \<Rightarrow> string result" where
  "To_GetParam t name =
     (case kv_find name (to_params t) of
        Some v \<Rightarrow> Inr v
      | None \<Rightarrow> Inl (Errorf (''no such param '' @ name)))"

definition To_GetTag :: "To \<Rightarrow> string result" where
  "To_GetTag t = To_GetParam t ''tag''"

definition To_AddParam :: "To \<Rightarrow> string \<Rightarrow> string \<Rightarrow> To" where
  "To_AddParam t name v = t\<lparr>to_params := kv_set name v (to_params t)\<rparr>"

definition To_GetAddrSpec :: "To \<Rightarrow> AddrSpec result" where
  "To_GetAddrSpec t =
     (case (case to_nameAddr t of Some na \<Rightarrow> Some (Addr na) | None \<Rightarrow> to_addrSpec t) of
        Some as \<Rightarrow> Inr as
      | None \<Rightarrow> Inl (Errorf ''no name-addr or addr-spec found''))"

definition To_GetAbsoluteURI :: "To \<Rightarrow> string result" where
  "To_GetAbsoluteURI t =
     rbind (To_GetAddrSpec t) (\<lambda>as.
     rbind (AddrSpec_GetAbsoluteURI as) (\<lambda>a. Inr (AbsoluteURI_String a)))"

definition To_GetUserHost :: "To \<Rightarrow> string result" where
  "To_GetUserHost t =
     rbind (To_GetAddrSpec t) (\<lambda>as.
     rbind (GetSIPURI as) (\<lambda>u. Inr (User u @ ''@'' @ Host u)))"

definition To_GetHost :: "To \<Rightarrow> string result" where
  "To_GetHost t =
     (case (case to_nameAddr t of Some na \<Rightarrow> Some (Addr na) | None \<Rightarrow> to_addrSpec t) of
        None \<Rightarrow> Inl (Errorf ''no host found'')
      | Some as \<Rightarrow> rbind (GetSIPURI as) (\<lambda>u. Inr (Host u)))"

section \<open>Parameters\<close>

interpretation to_params: param_store To_GetParam To_AddParam UNIV
  by unfold_locales (auto simp: To_GetParam_def To_AddParam_def)

interpretation from_tag: param_store FromSpec_GetParam "\<lambda>fs n v. FromSpec_SetTag fs v" "{''tag''}"
  by unfold_locales
    (auto simp: FromSpec_GetParam_def FromSpec_SetTag_def kv_find_update)

section \<open>Round trip\<close>

definition semi_kvs :: "KeyValue list \<Rightarrow> bool" where
  "semi_kvs ps \<longleftrightarrow> (\<forall>kv \<in> set ps. kv_ok kv \<and> kv_free (CHR '';'') kv)"

lemma addr_header_params_text:
  assumes "semi_kvs ps"
  shows "addr_header_params na as (Join (map KeyValue_String ps) '';'') = Inr (na, as, ps)"
proof (cases ps)
  case Nil
  then show ?thesis by (simp add: addr_header_params_def)
next
  case (Cons p qs)
  have "length (Join (map KeyValue_String ps) '';'') \<noteq> 0"
    using assms Cons by (auto simp: Join_Cons KeyValue_String_ok semi_kvs_def kv_ok_def)
  moreover have "collect ParseGenericParam (Split (Join (map KeyValue_String ps) '';'') (CHR '';'')) = Inr ps"
    using assms Cons by (intro kv_semi.list_parse_print) (auto simp: semi_kvs_def)
  ultimately show ?thesis by (simp add: addr_header_params_def)
qed

lemma parse_addr_header_name_addr:
  assumes ok: "name_addr_ok na"
  shows "parse_addr_header e (NameAddr_String na @ t) =
    addr_header_params (Some na) None
      (case IndexByte t (CHR '';'') of None \<Rightarrow> [] | Some pos \<Rightarrow> after pos t)"
proof -
  define d where "d = DisplayName na @ CHR ''<'' # AddrSpec_Write (Addr na)"
  have s: "NameAddr_String na = d @ ''>''"
    using ok by (simp add: NameAddr_String_def NameAddr_Write_def name_addr_ok_def d_def)
  have "IndexByte (NameAddr_String na @ t) (CHR ''<'') = Some (length (DisplayName na))"
    using ok by (simp add: s d_def name_addr_ok_def)
  moreover have "length (DisplayName na) \<le> length d" by (simp add: d_def)
  moreover have "CHR ''>'' \<notin> set d" using ok by (simp add: d_def name_addr_ok_def)
  then have "IndexByte (NameAddr_String na @ t) (CHR ''>'') = Some (length d)"
    by (simp add: s)
  moreover have "take (length d + 1) (NameAddr_String na @ t) = NameAddr_String na"
    and "drop (length d + 1) (NameAddr_String na @ t) = t"
    by (simp_all add: s)
  ultimately show ?thesis
    by (simp add: parse_addr_header_def ParseNameAddr_String [OF ok])
qed

lemma parse_addr_header_text:
  assumes ok: "name_addr_ok na" and ps: "semi_kvs ps"
  shows "parse_addr_header e (NameAddr_String na @ concat (map (\<lambda>kv. '';'' @ KeyValue_String kv) ps)) =
    Inr (Some na, None, ps)"
proof -
  let ?t = "concat (map (\<lambda>kv. '';'' @ KeyValue_String kv) ps)"
  have "(case IndexByte ?t (CHR '';'') of None \<Rightarrow> [] | Some pos \<Rightarrow> after pos ?t) =
      Join (map KeyValue_String ps) '';''"
    by (cases ps) (auto simp: Join_Cons comp_def after_def)
  then show ?thesis
    by (simp only: parse_addr_header_name_addr [OF ok] addr_header_params_text [OF ps])
qed

definition from_ok :: "FromSpec \<Rightarrow> bool" where
  "from_ok fs \<longleftrightarrow> (\<exists>na. from_nameAddr fs = Some na \<and> name_addr_ok na) \<and> from_addrSpec fs = None \<and>
     semi_kvs (from_params fs)"

definition to_ok :: "To \<Rightarrow> bool" where
  "to_ok t \<longleftrightarrow> (\<exists>na. to_nameAddr t = Some na \<and> name_addr_ok na) \<and> to_addrSpec t = None \<and>
     semi_kvs (to_params t)"

lemma ParseFromSpec_String: "from_ok fs \<Longrightarrow> ParseFromSpec (FromSpec_String fs) = Inr fs"
  by (cases fs) (auto simp: from_ok_def ParseFromSpec_def FromSpec_String_def
      parse_addr_header_text [simplified])

lemma ParseTo_String: "to_ok t \<Longrightarrow> ParseTo (To_String t) = Inr t"
  by (cases t) (auto simp: to_ok_def ParseTo_def To_String_def
      parse_addr_header_text [simplified])

interpretation from_header: codec ParseFromSpec FromSpec_String from_ok
  by unfold_locales (rule ParseFromSpec_String)

interpretation to_header: codec ParseTo To_String to_ok
  by unfold_locales (rule ParseTo_String)

section \<open>The addr-spec form keeps its semicolon\<close>

text \<open>
  A To header in addr-spec form with parameters, \<open>tel:190;tag=x\<close>, is parsed with the address
  \<open>tel:190;\<close>, is printed with two semicolons, and what is printed is rejected by the parser.
\<close>

lemma ParseTo_addr_spec:
  assumes "free_of ''<;'' a" and "\<not> HasPrefix (a @ '';'') ''sip:''" and "\<not> HasPrefix (a @ '';'') ''sips:''"
    and "ps \<noteq> []" and "semi_kvs ps" and "\<forall>kv \<in> set ps. kv_free (CHR ''<'') kv"
  shows "ParseTo (a @ '';'' @ Join (map KeyValue_String ps) '';'') =
    Inr \<lparr>to_nameAddr = None,
         to_addrSpec = Some \<lparr>sipURI = None, absoluteURI = Some \<lparr>absURI = a @ '';''\<rparr>\<rparr>,
         to_params = ps\<rparr>"
proof -
  let ?j = "Join (map KeyValue_String ps) '';''"
  have "CHR ''<'' \<notin> set ?j"
    using assms(5,6) KeyValue_String_free [of _ "CHR ''<''"]
    by (fastforce simp: semi_kvs_def dest!: set_Join)
  then have "CHR ''<'' \<notin> set (a @ '';'' @ ?j)" using assms(1) by simp
  moreover have "IndexByte (a @ '';'' @ ?j) (CHR '';'') = Some (length a)"
    using assms(1) by simp
  ultimately show ?thesis
    using assms(2,3) by (simp add: ParseTo_def parse_addr_header_def ParseAddrSpec_def
        ParseAbsoluteURI_def addr_header_params_text [OF assms(5)])
qed

lemma ParseTo_addr_spec_reprint:
  assumes "ParseTo (a @ '';'' @ Join (map KeyValue_String ps) '';'') =
    Inr \<lparr>to_nameAddr = None,
         to_addrSpec = Some \<lparr>sipURI = None, absoluteURI = Some \<lparr>absURI = a @ '';''\<rparr>\<rparr>,
         to_params = ps\<rparr>" (is "_ = Inr ?t")
    and "ps \<noteq> []"
  shows "To_String ?t = a @ '';;'' @ Join (map KeyValue_String ps) '';''"
  using assms(2) concat_sep_Join [of ps "CHR '';''" KeyValue_String]
  by (simp add: To_String_def AddrSpec_String_def AbsoluteURI_String_def)

lemmas addr_eval [go_eval] =
  ParseNameAddr_def NameAddr_GetAddress_def NameAddr_Write_def NameAddr_String_def
  addr_header_params_def parse_addr_header_def ParseFromSpec_def FromSpec_GetAddrSpec_def
  FromSpec_String_def FromSpec_GetParam_def FromSpec_GetTag_def FromSpec_SetTag_def ParseTo_def
  To_String_def To_GetParam_def To_GetTag_def To_AddParam_def To_GetAddrSpec_def
  To_GetAbsoluteURI_def To_GetUserHost_def To_GetHost_def name_addr_ok_def semi_kvs_def
  from_ok_def to_ok_def

end
