(* ===== verification/ViaHeader.thy ===== *)
theory ViaHeader
  imports SipUri
begin

text \<open>
  \<open>via.go\<close> and \<open>CreateBranch\<close>, \<open>CreateTag\<close> of \<open>util.go\<close>: the Via header, a list of
  via-params. The random UUID that \<open>github.com/google/uuid\<close> returns is an argument.
\<close>

record ViaParam =
  ProtocolName :: string
  ProtocolVersion :: string
  via_Transport :: string
  via_Host :: string
  via_port :: int
  via_Params :: "KeyValue list"

record Via =
  via_list :: "ViaParam list"

definition NewVia :: Via where
  "NewVia = \<lparr>via_list = []\<rparr>"

definition AddViaParam :: "Via \<Rightarrow> ViaParam \<Rightarrow> Via" where
  "AddViaParam v viaParam = v\<lparr>via_list := via_list v @ [viaParam]\<rparr>"

definition PopViaParam :: "(Via, ViaParam) call" where
  "PopViaParam v =
     (case via_list v of
        [] \<Rightarrow> (Inl (Errorf ''no via-param''), v)
      | r # rest \<Rightarrow> (Inr r, v\<lparr>via_list := rest\<rparr>))"

definition Via_Size :: "Via \<Rightarrow> int" where
  "Via_Size v = int (length (via_list v))"

definition Via_GetParam :: "Via \<Rightarrow> int \<Rightarrow> ViaParam result" where
  "Via_GetParam v index =
     (if index < 0 \<or> index \<ge> int (length (via_list v)) then Inl (Errorf ''index is outof bound'')
      else Inr (via_list v ! nat index))"

section \<open>Parameters of a via-param\<close>

definition ViaParam_SetParam :: "ViaParam \<Rightarrow> string \<Rightarrow> string \<Rightarrow> ViaParam" where
  "ViaParam_SetParam vp name v = vp\<lparr>via_Params := kv_set name v (via_Params vp)\<rparr>"

definition ViaParam_GetParam :: "ViaParam \<Rightarrow> string \<Rightarrow> string result" where
  "ViaParam_GetParam vp name =
     (case kv_find name (via_Params vp) of
        Some v \<Rightarrow> Inr v
      | None \<Rightarrow> Inl (Errorf (''no such param '' @ name)))"

definition ViaParam_HasParam :: "ViaParam \<Rightarrow> string \<Rightarrow> bool" where
  "ViaParam_HasParam vp name = kv_has name (via_Params vp)"

definition ViaParam_GetBranch :: "ViaParam \<Rightarrow> string result" where
  "ViaParam_GetBranch vp = ViaParam_GetParam vp ''branch''"

definition ViaParam_SetBranch :: "ViaParam \<Rightarrow> string \<Rightarrow> ViaParam" where
  "ViaParam_SetBranch vp branch = ViaParam_SetParam vp ''branch'' branch"

definition ViaParam_GetPort :: "ViaParam \<Rightarrow> int" where
  "ViaParam_GetPort vp =
     (if via_port vp \<noteq> 0 then via_port vp
      else if via_Transport vp = ''TLS'' then 5061 else 5060)"

definition ViaParam_GetSentBy :: "ViaParam \<Rightarrow> string" where
  "ViaParam_GetSentBy vp = via_Host vp @ '':'' @ Itoa (ViaParam_GetPort vp)"

definition ViaParam_GetReceived :: "ViaParam \<Rightarrow> string result" where
  "ViaParam_GetReceived vp = ViaParam_GetParam vp ''received''"

definition ViaParam_SetReceived :: "ViaParam \<Rightarrow> string \<Rightarrow> ViaParam" where
  "ViaParam_SetReceived vp received = ViaParam_SetParam vp ''received'' received"

definition ViaParam_GetRPort :: "ViaParam \<Rightarrow> int result" where
  "ViaParam_GetRPort vp = rbind (ViaParam_GetParam vp ''rport'') Atoi_checked"

definition ViaParam_GetTTL :: "ViaParam \<Rightarrow> int result" where
  "ViaParam_GetTTL vp = rbind (ViaParam_GetParam vp ''ttl'') Atoi_checked"

section \<open>Printing, parsing and creation\<close>

definition ViaParam_String :: "ViaParam \<Rightarrow> string" where
  "ViaParam_String vp =
     ProtocolName vp @ ''/'' @ ProtocolVersion vp @ ''/'' @ via_Transport vp @ '' '' @
     via_Host vp @ '':'' @ Itoa (ViaParam_GetPort vp) @
     concat (map (\<lambda>param. '';'' @ KeyValue_String param) (via_Params vp))"

definition Via_String :: "Via \<Rightarrow> string" where
  "Via_String v =
     concat (map (\<lambda>(index, param). (if index \<noteq> 0 then '','' else []) @ ViaParam_String param)
       (enumerate 0 (via_list v)))"

definition via_kv :: "string \<Rightarrow> KeyValue" where
  "via_kv param =
     (case IndexByte param (CHR ''='') of
        None \<Rightarrow> KV param []
      | Some pos \<Rightarrow> KV (before pos param) (after pos param))"

definition parseViaParam :: "string \<Rightarrow> ViaParam result" where
  "parseViaParam viaParam =
     (let t = Split viaParam (CHR '';'') in
      case Fields (hd t) of
        [sent_protocol, sent_by] \<Rightarrow>
          (case Split sent_protocol (CHR ''/'') of
             [name, version, transport] \<Rightarrow>
               (let sentBy = Split sent_by (CHR '':'') in
                if length sentBy > 2 then Inl (Errorf ''malformatted sent-by'')
                else rbind (if length sentBy = 2 then Atoi_checked (sentBy ! 1) else Inr 0) (\<lambda>port.
                  Inr \<lparr>ProtocolName = name, ProtocolVersion = version, via_Transport = transport,
                       via_Host = hd sentBy, via_port = port, via_Params = map via_kv (tl t)\<rparr>))
           | _ \<Rightarrow> Inl (Errorf ''malformatted sent-protocol''))
      | _ \<Rightarrow> Inl (Errorf ''malformatted Via header''))"

definition ParseVia :: "string \<Rightarrow> Via result" where
  "ParseVia via =
     rbind (collect parseViaParam (Split via (CHR '',''))) (\<lambda>ps. Inr \<lparr>via_list = ps\<rparr>)"

text \<open>The last of the groups of a UUID, which are separated by dashes.\<close>

definition CreateTag :: "string result \<Rightarrow> string result" where
  "CreateTag uuid = rbind uuid (\<lambda>u. Inr (last (Split u (CHR ''-''))))"

definition CreateBranch :: "string result \<Rightarrow> string result" where
  "CreateBranch uuid = rbind uuid (\<lambda>u. Inr (''z9hG4bK'' @ last (Split u (CHR ''-''))))"

definition CreateViaParam :: "string \<Rightarrow> string \<Rightarrow> int \<Rightarrow> ViaParam" where
  "CreateViaParam transport host port =
     \<lparr>ProtocolName = ''SIP'', ProtocolVersion = ''2.0'', via_Transport = transport,
      via_Host = host, via_port = port, via_Params = []\<rparr>"

definition CreateVia :: "string result \<Rightarrow> string \<Rightarrow> string \<Rightarrow> int \<Rightarrow> Via result" where
  "CreateVia uuid transport host port =
     (let viaParam = CreateViaParam (ToUpper transport) host port
      in rbind (CreateBranch uuid) (\<lambda>branch.
           Inr (AddViaParam NewVia (ViaParam_SetBranch viaParam branch))))"

section \<open>Facts\<close>

interpretation via_params: param_store ViaParam_GetParam ViaParam_SetParam UNIV
  by unfold_locales (auto simp: ViaParam_GetParam_def ViaParam_SetParam_def)

lemma ViaParam_HasParam_iff: "ViaParam_HasParam vp n \<longleftrightarrow> is_ok (ViaParam_GetParam vp n)"
  by (simp add: ViaParam_HasParam_def ViaParam_GetParam_def kv_has_iff split: option.splits)

lemma ViaParam_SetParam_frame [simp]:
  "via_Transport (ViaParam_SetParam vp n v) = via_Transport vp"
  "via_Host (ViaParam_SetParam vp n v) = via_Host vp"
  "via_port (ViaParam_SetParam vp n v) = via_port vp"
  "ViaParam_GetPort (ViaParam_SetParam vp n v) = ViaParam_GetPort vp"
  by (simp_all add: ViaParam_SetParam_def ViaParam_GetPort_def)

definition via_kv_ok :: "KeyValue \<Rightarrow> bool" where
  "via_kv_ok kv \<longleftrightarrow> plain (Key kv) \<and> plain (Value kv) \<and> free_of ''=;,'' (Key kv) \<and>
     free_of '';,'' (Value kv)"

definition via_param_ok :: "ViaParam \<Rightarrow> bool" where
  "via_param_ok vp \<longleftrightarrow>
     free_of ''/;,'' (ProtocolName vp) \<and> no_space (ProtocolName vp) \<and>
     free_of ''/;,'' (ProtocolVersion vp) \<and> no_space (ProtocolVersion vp) \<and>
     free_of ''/;,'' (via_Transport vp) \<and> no_space (via_Transport vp) \<and>
     free_of '':;,'' (via_Host vp) \<and> no_space (via_Host vp) \<and>
     via_port vp \<noteq> 0 \<and> go_int (via_port vp) \<and> (\<forall>kv \<in> set (via_Params vp). via_kv_ok kv)"

lemma KeyValue_String_via:
  "via_kv_ok kv \<Longrightarrow> KeyValue_String kv = Key kv @ (if Value kv = [] then [] else ''='' @ Value kv)"
  by (simp add: KeyValue_String_def KeyValue_Write_def via_kv_ok_def)

lemma via_kv_String: "via_kv_ok kv \<Longrightarrow> via_kv (KeyValue_String kv) = kv"
  by (cases kv) (auto simp: KeyValue_String_via via_kv_def via_kv_ok_def)

lemma KeyValue_String_via_free: "via_kv_ok kv \<Longrightarrow> free_of '';,'' (KeyValue_String kv)"
  by (auto simp: KeyValue_String_via via_kv_ok_def)

definition sent_text :: "ViaParam \<Rightarrow> string" where
  "sent_text vp = (ProtocolName vp @ ''/'' @ ProtocolVersion vp @ ''/'' @ via_Transport vp) @ '' '' @
     via_Host vp @ '':'' @ Itoa (ViaParam_GetPort vp)"

lemma ViaParam_String_sent:
  "ViaParam_String vp = sent_text vp @ concat (map (\<lambda>param. '';'' @ KeyValue_String param) (via_Params vp))"
  by (simp add: ViaParam_String_def sent_text_def)

lemma Split_ViaParam_String:
  assumes "via_param_ok vp"
  shows "Split (ViaParam_String vp) (CHR '';'') = sent_text vp # map KeyValue_String (via_Params vp)"
proof -
  have free: "CHR '';'' \<notin> set (sent_text vp)"
    using assms by (auto simp: sent_text_def via_param_ok_def is_digit_def)
  have "\<forall>kv \<in> set (via_Params vp). CHR '';'' \<notin> set (KeyValue_String kv)"
    using assms KeyValue_String_via_free by (auto simp: via_param_ok_def)
  moreover have "ViaParam_String vp = Join (sent_text vp # map KeyValue_String (via_Params vp)) [CHR '';'']"
    by (simp only: ViaParam_String_sent Join_Cons map_map comp_def append.simps)
  ultimately show ?thesis
    using free by (simp only:) (intro Split_Join, auto)
qed

lemma parseViaParam_String:
  assumes ok: "via_param_ok vp"
  shows "parseViaParam (ViaParam_String vp) = Inr vp"
proof -
  have p: "ViaParam_GetPort vp = via_port vp"
    using ok by (simp add: ViaParam_GetPort_def via_param_ok_def)
  have "Fields (sent_text vp) =
      [ProtocolName vp @ ''/'' @ ProtocolVersion vp @ ''/'' @ via_Transport vp,
       via_Host vp @ '':'' @ Itoa (via_port vp)]"
    unfolding sent_text_def p using ok
    by (subst (2) append.simps, subst Fields_Cons)
       (auto simp: via_param_ok_def isSpace_def intro!: Fields_one)
  moreover have "Split (ProtocolName vp @ ''/'' @ ProtocolVersion vp @ ''/'' @ via_Transport vp) (CHR ''/'') =
      [ProtocolName vp, ProtocolVersion vp, via_Transport vp]"
    using ok by (simp add: via_param_ok_def Split_append Split_none)
  moreover have "Split (via_Host vp @ '':'' @ Itoa (via_port vp)) (CHR '':'') =
      [via_Host vp, Itoa (via_port vp)]"
    using ok by (simp add: via_param_ok_def Split_append Split_none is_digit_def)
  moreover have "map via_kv (map KeyValue_String (via_Params vp)) = via_Params vp"
    using ok by (auto simp: via_param_ok_def via_kv_String intro!: map_idI)
  ultimately show ?thesis
    using ok by (simp add: parseViaParam_def Split_ViaParam_String via_param_ok_def)
qed

lemma ViaParam_String_no_comma: "via_param_ok vp \<Longrightarrow> CHR '','' \<notin> set (ViaParam_String vp)"
  by (auto simp: ViaParam_String_def via_param_ok_def is_digit_def dest!: bspec KeyValue_String_via_free)

interpretation via_param: sep_codec parseViaParam ViaParam_String via_param_ok "CHR '',''"
  by unfold_locales (auto simp: parseViaParam_String dest: ViaParam_String_no_comma)

lemma Via_String_Join: "Via_String v = Join (map ViaParam_String (via_list v)) '',''"
  unfolding Via_String_def by (rule enumerate_sep_Join)

definition via_ok :: "Via \<Rightarrow> bool" where
  "via_ok v \<longleftrightarrow> via_list v \<noteq> [] \<and> (\<forall>vp \<in> set (via_list v). via_param_ok vp)"

lemma ParseVia_String: "via_ok v \<Longrightarrow> ParseVia (Via_String v) = Inr v"
  using via_param.list_parse_print [of "via_list v"]
  by (simp add: ParseVia_def Via_String_Join via_ok_def)

interpretation via_header: codec ParseVia Via_String via_ok
  by unfold_locales (rule ParseVia_String)

lemma ParseVia_nonempty: "ParseVia s = Inr v \<Longrightarrow> via_list v \<noteq> []"
  by (auto simp: ParseVia_def rbind_eq_Inr dest: collect_nonempty)

text \<open>An IPv6 literal as sent-by, in fact any sent-by with two colons, is rejected.\<close>

lemma parseViaParam_two_colons:
  assumes "Fields (hd (Split s (CHR '';''))) = [proto, a @ '':'' @ b @ '':'' @ c]"
  shows "\<not> is_ok (parseViaParam s)"
proof -
  have "length (Split (a @ '':'' @ b @ '':'' @ c) (CHR '':'')) > 2"
    by (simp add: Split_length)
  with assms show ?thesis
    by (simp add: parseViaParam_def split: list.splits)
qed

lemmas via_eval [go_eval] =
  NewVia_def AddViaParam_def PopViaParam_def Via_Size_def Via_GetParam_def ViaParam_SetParam_def
  ViaParam_GetParam_def ViaParam_HasParam_def ViaParam_GetBranch_def ViaParam_SetBranch_def
  ViaParam_GetPort_def ViaParam_GetSentBy_def ViaParam_GetReceived_def ViaParam_SetReceived_def
  ViaParam_GetRPort_def ViaParam_GetTTL_def ViaParam_String_def Via_String_def via_kv_def
  parseViaParam_def ParseVia_def CreateTag_def CreateBranch_def CreateViaParam_def CreateVia_def
  via_kv_ok_def via_param_ok_def via_ok_def

end
