(* ===== verification/RouteHeaders.thy ===== *)
theory RouteHeaders
  imports AddrHeaders
begin

text \<open>
  \<open>route.go\<close> and \<open>record_route.go\<close>: the Route and Record-Route headers. Their parsers have the
  same text; their printers do not: a Record-Route entry writes a semicolon before each of its
  parameters, a Route entry writes none.
\<close>

section \<open>The common parser of an entry\<close>

definition parse_route_entry :: "go_error \<Rightarrow> go_error \<Rightarrow> string \<Rightarrow> (NameAddr \<times> KeyValue list) result" where
  "parse_route_entry no_raquot no_semi s =
     (case IndexByte s (CHR ''>'') of
        None \<Rightarrow> Inl no_raquot
      | Some pos \<Rightarrow>
          rbind (ParseNameAddr (take (pos + 1) s)) (\<lambda>na.
            let s' = TrimSpace (drop (pos + 1) s) in
            if length s' = 0 then Inr (na, [])
            else if hd s' \<noteq> CHR '';'' then Inl no_semi
            else rbind (collect ParseGenericParam (Split (tl s') (CHR '';''))) (\<lambda>ps. Inr (na, ps))))"

section \<open>Route\<close>

record RouteParam =
  rp_nameAddr :: NameAddr
  rp_rrParam :: "KeyValue list"

record Route =
  routeParams :: "RouteParam list"

definition parseRouteParam :: "string \<Rightarrow> RouteParam result" where
  "parseRouteParam s =
     rbind (parse_route_entry (Errorf ''route-param syntax error'') (Errorf ''route-param syntax error'') s)
       (\<lambda>(na, ps). Inr \<lparr>rp_nameAddr = na, rp_rrParam = ps\<rparr>)"

definition RouteParam_GetAddress :: "RouteParam \<Rightarrow> NameAddr" where
  "RouteParam_GetAddress rp = rp_nameAddr rp"

definition ParseRoute :: "string \<Rightarrow> Route result" where
  "ParseRoute s =
     rbind (collect parseRouteParam (Split s (CHR '',''))) (\<lambda>ps. Inr \<lparr>routeParams = ps\<rparr>)"

definition GetRouteParam :: "Route \<Rightarrow> int \<Rightarrow> RouteParam result" where
  "GetRouteParam r index =
     (if index < 0 \<or> index \<ge> int (length (routeParams r)) then Inl (Errorf (''index '' @ Itoa index @ '' is out of bound''))
      else Inr (routeParams r ! nat index))"

definition PopRouteParam :: "(Route, RouteParam) call" where
  "PopRouteParam r =
     (case routeParams r of
        routeParam # rest \<Rightarrow> (Inr routeParam, r\<lparr>routeParams := rest\<rparr>)
      | [] \<Rightarrow> (Inl (Errorf ''no route-param''), r))"

definition GetRouteParamCount :: "Route \<Rightarrow> int" where
  "GetRouteParamCount r = int (length (routeParams r))"

definition RouteParam_Write :: "RouteParam \<Rightarrow> string" where
  "RouteParam_Write r = NameAddr_Write (rp_nameAddr r) @ concat (map KeyValue_Write (rp_rrParam r))"

definition RouteParam_String :: "RouteParam \<Rightarrow> string" where
  "RouteParam_String r = RouteParam_Write r"

definition Route_Write :: "Route \<Rightarrow> string" where
  "Route_Write r =
     concat (map (\<lambda>(index, param). (if index \<noteq> 0 then '','' else []) @ RouteParam_Write param)
       (enumerate 0 (routeParams r)))"

definition Route_String :: "Route \<Rightarrow> string" where
  "Route_String r = Route_Write r"

section \<open>Record-Route\<close>

record RecRoute =
  rr_nameAddr :: NameAddr
  rr_rrParam :: "KeyValue list"

record RecordRoute =
  recRoute :: "RecRoute list"

definition NewRecordRoute :: RecordRoute where
  "NewRecordRoute = \<lparr>recRoute = []\<rparr>"

definition AddRecRoute :: "RecordRoute \<Rightarrow> RecRoute \<Rightarrow> RecordRoute" where
  "AddRecRoute r rec = r\<lparr>recRoute := recRoute r @ [rec]\<rparr>"

definition ParseRecRoute :: "string \<Rightarrow> RecRoute result" where
  "ParseRecRoute s =
     rbind (parse_route_entry (Errorf ''invalid syntax of rec-route'') (Errorf ''invalid rec-route syntax'') s)
       (\<lambda>(na, ps). Inr \<lparr>rr_nameAddr = na, rr_rrParam = ps\<rparr>)"

definition ParseRecordRoute :: "string \<Rightarrow> RecordRoute result" where
  "ParseRecordRoute s =
     rbind (collect ParseRecRoute (Split s (CHR '',''))) (\<lambda>rs.
       if length rs > 0 then Inr \<lparr>recRoute = rs\<rparr> else Inl (Errorf ''empty Record-Route''))"

definition GetRecRouteCount :: "RecordRoute \<Rightarrow> int" where
  "GetRecRouteCount r = int (length (recRoute r))"

definition GetRecRoute :: "RecordRoute \<Rightarrow> int \<Rightarrow> RecRoute result" where
  "GetRecRoute r index =
     (if index < 0 \<or> index \<ge> int (length (recRoute r)) then Inl (Errorf (''index '' @ Itoa index @ '' is out of bound''))
      else Inr (recRoute r ! nat index))"

definition RecRoute_GetNameAddr :: "RecRoute \<Rightarrow> NameAddr" where
  "RecRoute_GetNameAddr r = rr_nameAddr r"

definition NewRecRoute :: "NameAddr \<Rightarrow> RecRoute" where
  "NewRecRoute na = \<lparr>rr_nameAddr = na, rr_rrParam = []\<rparr>"

definition RecRoute_AddParam :: "RecRoute \<Rightarrow> string \<Rightarrow> string \<Rightarrow> RecRoute" where
  "RecRoute_AddParam r name v = r\<lparr>rr_rrParam := rr_rrParam r @ [KV name v]\<rparr>"

definition RecRoute_GetParamCount :: "RecRoute \<Rightarrow> int" where
  "RecRoute_GetParamCount r = int (length (rr_rrParam r))"

definition RecRoute_GetParam :: "RecRoute \<Rightarrow> int \<Rightarrow> KeyValue result" where
  "RecRoute_GetParam r index =
     (if index < 0 \<or> index \<ge> int (length (rr_rrParam r)) then Inl (Errorf ''out of bound'')
      else Inr (rr_rrParam r ! nat index))"

definition RecRoute_String :: "RecRoute \<Rightarrow> string" where
  "RecRoute_String r =
     NameAddr_String (rr_nameAddr r) @ concat (map (\<lambda>param. '';'' @ KeyValue_String param) (rr_rrParam r))"

definition RecordRoute_String :: "RecordRoute \<Rightarrow> string" where
  "RecordRoute_String r =
     concat (map (\<lambda>(index, rec). (if index \<noteq> 0 then '','' else []) @ RecRoute_String rec)
       (enumerate 0 (recRoute r)))"

definition CreateRecordRoute :: "string \<Rightarrow> int \<Rightarrow> RecordRoute" where
  "CreateRecordRoute address p =
     (let uri = SIPURI_AddParameter (zero_SIPURI\<lparr>Scheme := ''sip'', Host := address, uri_port := p\<rparr>) ''lr'' [];
          addr = NewAddrSpec\<lparr>sipURI := Some uri\<rparr>
      in AddRecRoute NewRecordRoute (NewRecRoute \<lparr>DisplayName = [], Addr = addr\<rparr>))"

section \<open>Facts\<close>

definition entry_kvs :: "KeyValue list \<Rightarrow> bool" where
  "entry_kvs ps \<longleftrightarrow> (\<forall>kv \<in> set ps. kv_ok kv \<and> free_of '';,'' (Key kv) \<and> free_of '';,'' (Value kv) \<and>
     no_space (Key kv) \<and> no_space (Value kv))"

definition entry_addr :: "NameAddr \<Rightarrow> bool" where
  "entry_addr na \<longleftrightarrow> name_addr_ok na \<and> CHR '','' \<notin> set (NameAddr_String na)"

lemma name_addr_text:
  assumes "name_addr_ok na"
  obtains d where "NameAddr_String na = d @ ''>''" "CHR ''>'' \<notin> set d"
  using assms that [of "DisplayName na @ ''<'' @ AddrSpec_Write (Addr na)"]
  by (auto simp: NameAddr_String_def NameAddr_Write_def name_addr_ok_def)

lemma parse_route_entry_name_addr:
  assumes "name_addr_ok na"
  shows "parse_route_entry e1 e2 (NameAddr_String na @ t) =
    (let s' = TrimSpace t in
     if length s' = 0 then Inr (na, [])
     else if hd s' \<noteq> CHR '';'' then Inl e2
     else rbind (collect ParseGenericParam (Split (tl s') (CHR '';''))) (\<lambda>ps. Inr (na, ps)))"
proof -
  obtain d where d: "NameAddr_String na = d @ ''>''" "CHR ''>'' \<notin> set d"
    using name_addr_text [OF assms] .
  have "IndexByte (NameAddr_String na @ t) (CHR ''>'') = Some (length d)"
    using d by simp
  moreover have "take (length d + 1) (NameAddr_String na @ t) = NameAddr_String na"
    and "drop (length d + 1) (NameAddr_String na @ t) = t"
    by (simp_all add: d(1))
  ultimately show ?thesis
    by (simp add: parse_route_entry_def ParseNameAddr_String [OF assms])
qed

lemma entry_kvs_no_space:
  assumes "entry_kvs ps"
  shows "no_space (concat (map (\<lambda>kv. '';'' @ KeyValue_String kv) ps))"
  using assms
  by (induction ps) (auto simp: entry_kvs_def KeyValue_String_ok isSpace_def)

lemma parse_route_entry_text:
  assumes na: "name_addr_ok na" and ps: "entry_kvs ps"
  shows "parse_route_entry e1 e2
    (NameAddr_String na @ concat (map (\<lambda>kv. '';'' @ KeyValue_String kv) ps)) = Inr (na, ps)"
proof (cases "ps = []")
  case True
  then show ?thesis using parse_route_entry_name_addr [OF na, of e1 e2 "[]"] by simp
next
  case False
  let ?j = "Join (map KeyValue_String ps) '';''"
  have eq: "concat (map (\<lambda>kv. '';'' @ KeyValue_String kv) ps) = CHR '';'' # ?j"
    using concat_sep_Join [OF False, of "CHR '';''" KeyValue_String] by simp
  have "TrimSpace (CHR '';'' # ?j) = CHR '';'' # ?j"
    using entry_kvs_no_space [OF ps] unfolding eq
    by (intro TrimSpace_trimmed no_space_trimmed)
  moreover have "collect ParseGenericParam (Split ?j (CHR '';'')) = Inr ps"
    using ps False by (intro kv_semi.list_parse_print) (auto simp: entry_kvs_def kv_free_def)
  ultimately show ?thesis
    unfolding eq by (simp add: parse_route_entry_name_addr [OF na])
qed

definition rec_route_ok :: "RecRoute \<Rightarrow> bool" where
  "rec_route_ok r \<longleftrightarrow> entry_addr (rr_nameAddr r) \<and> entry_kvs (rr_rrParam r)"

definition route_param_ok :: "RouteParam \<Rightarrow> bool" where
  "route_param_ok r \<longleftrightarrow> entry_addr (rp_nameAddr r) \<and> rp_rrParam r = []"

lemma ParseRecRoute_String: "rec_route_ok r \<Longrightarrow> ParseRecRoute (RecRoute_String r) = Inr r"
  using parse_route_entry_text [of "rr_nameAddr r" "rr_rrParam r"]
  by (simp add: ParseRecRoute_def RecRoute_String_def rec_route_ok_def entry_addr_def)

lemma RecRoute_String_no_comma: "rec_route_ok r \<Longrightarrow> CHR '','' \<notin> set (RecRoute_String r)"
  by (auto simp: RecRoute_String_def rec_route_ok_def entry_addr_def entry_kvs_def
      KeyValue_String_ok split: if_splits)

interpretation rec_route: sep_codec ParseRecRoute RecRoute_String rec_route_ok "CHR '',''"
  by unfold_locales (auto simp: ParseRecRoute_String dest: RecRoute_String_no_comma)

lemma parseRouteParam_String: "route_param_ok r \<Longrightarrow> parseRouteParam (RouteParam_String r) = Inr r"
  using parse_route_entry_text [of "rp_nameAddr r" "[]"]
  by (simp add: parseRouteParam_def RouteParam_String_def RouteParam_Write_def route_param_ok_def
      entry_addr_def NameAddr_String_def entry_kvs_def)

interpretation route_param: sep_codec parseRouteParam RouteParam_String route_param_ok "CHR '',''"
  by unfold_locales
    (erule parseRouteParam_String, auto simp: RouteParam_String_def RouteParam_Write_def
      route_param_ok_def entry_addr_def NameAddr_String_def)

lemma RecordRoute_String_Join: "RecordRoute_String r = Join (map RecRoute_String (recRoute r)) '',''"
  unfolding RecordRoute_String_def by (rule enumerate_sep_Join)

lemma Route_String_Join: "Route_String r = Join (map RouteParam_String (routeParams r)) '',''"
  unfolding Route_String_def Route_Write_def RouteParam_String_def [abs_def]
  by (rule enumerate_sep_Join)

definition record_route_ok :: "RecordRoute \<Rightarrow> bool" where
  "record_route_ok r \<longleftrightarrow> recRoute r \<noteq> [] \<and> (\<forall>x \<in> set (recRoute r). rec_route_ok x)"

definition route_ok :: "Route \<Rightarrow> bool" where
  "route_ok r \<longleftrightarrow> routeParams r \<noteq> [] \<and> (\<forall>x \<in> set (routeParams r). route_param_ok x)"

lemma ParseRecordRoute_String: "record_route_ok r \<Longrightarrow> ParseRecordRoute (RecordRoute_String r) = Inr r"
  using rec_route.list_parse_print [of "recRoute r"]
  by (simp add: ParseRecordRoute_def RecordRoute_String_Join record_route_ok_def)

lemma ParseRoute_String: "route_ok r \<Longrightarrow> ParseRoute (Route_String r) = Inr r"
  using route_param.list_parse_print [of "routeParams r"]
  by (simp add: ParseRoute_def Route_String_Join route_ok_def)

interpretation record_route: codec ParseRecordRoute RecordRoute_String record_route_ok
  by unfold_locales (rule ParseRecordRoute_String)

interpretation route: codec ParseRoute Route_String route_ok
  by unfold_locales (rule ParseRoute_String)

lemma ParseRoute_nonempty: "ParseRoute s = Inr r \<Longrightarrow> routeParams r \<noteq> []"
  by (auto simp: ParseRoute_def rbind_eq_Inr dest: collect_nonempty)

text \<open>
  A Route entry with a parameter is printed without the semicolon, so that what is printed is
  rejected by the parser of the same program.
\<close>

lemma RouteParam_String_params:
  assumes "name_addr_ok (rp_nameAddr r)" and "entry_kvs (rp_rrParam r)" and "rp_rrParam r \<noteq> []"
  shows "parseRouteParam (RouteParam_String r) = Inl (Errorf ''route-param syntax error'')"
proof -
  let ?t = "concat (map KeyValue_Write (rp_rrParam r))"
  obtain kv ps where r: "rp_rrParam r = kv # ps" using assms(3) by (cases "rp_rrParam r") auto
  have w: "\<And>x. x \<in> set (rp_rrParam r) \<Longrightarrow>
      KeyValue_Write x = Key x @ (if Value x = [] then [] else ''='' @ Value x)"
    using assms(2) KeyValue_String_ok by (auto simp: entry_kvs_def KeyValue_String_def)
  have "no_space ?t"
    using assms(2) w by (fastforce simp: no_space_def entry_kvs_def isSpace_def)
  then have "TrimSpace ?t = ?t" by (intro TrimSpace_trimmed no_space_trimmed)
  moreover have "?t \<noteq> [] \<and> hd ?t \<noteq> CHR '';''"
    using assms(2) w [of kv] r by (cases "Key kv") (auto simp: entry_kvs_def kv_ok_def)
  ultimately show ?thesis
    by (auto simp: parseRouteParam_def RouteParam_String_def RouteParam_Write_def Let_def
        parse_route_entry_name_addr [OF assms(1), unfolded NameAddr_String_def])
qed

lemmas route_eval [go_eval] =
  parse_route_entry_def parseRouteParam_def RouteParam_GetAddress_def ParseRoute_def
  GetRouteParam_def PopRouteParam_def GetRouteParamCount_def RouteParam_Write_def
  RouteParam_String_def Route_Write_def Route_String_def NewRecordRoute_def AddRecRoute_def
  ParseRecRoute_def ParseRecordRoute_def GetRecRouteCount_def GetRecRoute_def NewRecRoute_def
  RecRoute_AddParam_def RecRoute_GetParamCount_def RecRoute_GetParam_def RecRoute_String_def
  RecordRoute_String_def CreateRecordRoute_def entry_kvs_def entry_addr_def rec_route_ok_def
  route_param_ok_def record_route_ok_def route_ok_def

end
