(* ===== verification/Transactions.thy ===== *)
theory Transactions
  imports GoStrconv Interfaces
begin

text \<open>\<open>cseq.go\<close>, \<open>dialog.go\<close> and \<open>transaction.go\<close>: the CSeq header and the identifiers of
  dialogs and client transactions.\<close>

record CSeq =
  Seq :: int
  CSeq_Method :: string

definition ParseCSeq :: "string \<Rightarrow> CSeq result" where
  "ParseCSeq s =
     (case Fields s of
        [f0, f1] \<Rightarrow> rbind (Atoi_checked f0) (\<lambda>seq. Inr \<lparr>Seq = seq, CSeq_Method = f1\<rparr>)
      | _ \<Rightarrow> Inl (Errorf ''malformatted CSeq header''))"

definition CSeq_Write :: "CSeq \<Rightarrow> string" where
  "CSeq_Write cs = Itoa (Seq cs) @ '' '' @ CSeq_Method cs"

definition CSeq_String :: "CSeq \<Rightarrow> string" where
  "CSeq_String cs = CSeq_Write cs"

definition cseq_ok :: "CSeq \<Rightarrow> bool" where
  "cseq_ok cs \<longleftrightarrow> go_int (Seq cs) \<and> no_space (CSeq_Method cs) \<and> CSeq_Method cs \<noteq> []"

lemma ParseCSeq_String: "cseq_ok cs \<Longrightarrow> ParseCSeq (CSeq_String cs) = Inr cs"
  by (simp add: ParseCSeq_def CSeq_String_def CSeq_Write_def cseq_ok_def Fields_Cons Fields_one)

interpretation cseq: codec ParseCSeq CSeq_String cseq_ok
  by unfold_locales (rule ParseCSeq_String)

record Dialog =
  callID :: string
  localTag :: string
  remoteTag :: string

definition NewDialog :: "string \<Rightarrow> string \<Rightarrow> string \<Rightarrow> Dialog" where
  "NewDialog cid ltag rtag = \<lparr>callID = cid, localTag = ltag, remoteTag = rtag\<rparr>"

definition Dialog_String :: "Dialog \<Rightarrow> string" where
  "Dialog_String d = callID d @ ''-'' @ localTag d @ ''-'' @ remoteTag d"

record ClientTransaction =
  TransId :: string
  ct_Method :: string

definition NewClientTransaction :: "string \<Rightarrow> string \<Rightarrow> ClientTransaction" where
  "NewClientTransaction branch method = \<lparr>TransId = branch, ct_Method = method\<rparr>"

definition ClientTransaction_String :: "ClientTransaction \<Rightarrow> string" where
  "ClientTransaction_String ct = ct_Method ct @ ''-'' @ TransId ct"

lemmas transaction_eval [go_eval] =
  ParseCSeq_def CSeq_Write_def CSeq_String_def cseq_ok_def NewDialog_def Dialog_String_def
  NewClientTransaction_def ClientTransaction_String_def

end
