(* ===== verification/GoNet.thy ===== *)
theory GoNet
  imports GoStrconv
begin

text \<open>
  What the source uses of Go's \<open>net\<close> package on strings: \<open>JoinHostPort\<close>, \<open>SplitHostPort\<close>, and
  whether \<open>ParseIP\<close> accepts a text; and the two address tests of \<open>util.go\<close>.
\<close>

definition JoinHostPort :: "string \<Rightarrow> string \<Rightarrow> string" where
  "JoinHostPort host port =
     (if ContainsByte host (CHR '':'') then ''['' @ host @ '']:'' @ port
      else host @ '':'' @ port)"

definition SplitHostPort :: "string \<Rightarrow> (string \<times> string) result" where
  "SplitHostPort hostport =
     (case LastIndexByte hostport (CHR '':'') of
        None \<Rightarrow> Inl (Errorf ''missing port in address'')
      | Some i \<Rightarrow>
          if hd hostport = CHR ''['' then
            (case IndexByte hostport (CHR '']'') of
               None \<Rightarrow> Inl (Errorf ''missing ']' in address'')
             | Some e \<Rightarrow>
                 if e + 1 = length hostport then Inl (Errorf ''missing port in address'')
                 else if e + 1 \<noteq> i then
                   (if hostport ! (e + 1) = CHR '':''
                    then Inl (Errorf ''too many colons in address'')
                    else Inl (Errorf ''missing port in address''))
                 else if ContainsByte (drop 1 hostport) (CHR ''['')
                 then Inl (Errorf ''unexpected '[' in address'')
                 else if ContainsByte (drop (e + 1) hostport) (CHR '']'')
                 then Inl (Errorf ''unexpected ']' in address'')
                 else Inr (take (e - 1) (drop 1 hostport), after i hostport))
          else if ContainsByte (before i hostport) (CHR '':'')
          then Inl (Errorf ''too many colons in address'')
          else if ContainsByte hostport (CHR ''['')
          then Inl (Errorf ''unexpected '[' in address'')
          else if ContainsByte hostport (CHR '']'')
          then Inl (Errorf ''unexpected ']' in address'')
          else Inr (before i hostport, after i hostport))"

definition plain_host :: "string \<Rightarrow> bool" where
  "plain_host h \<longleftrightarrow> CHR ''['' \<notin> set h \<and> CHR '']'' \<notin> set h"

lemma SplitHostPort_JoinHostPort:
  assumes "plain_host h" and "plain_host p" and "CHR '':'' \<notin> set p"
  shows "SplitHostPort (JoinHostPort h p) = Inr (h, p)"
proof (cases "CHR '':'' \<in> set h")
  case True
  have "LastIndexByte (''['' @ h @ '']:'' @ p) (CHR '':'') = Some (length h + 2)"
    using LastIndexByte_append [OF assms(3), of "''['' @ h @ '']''"] by simp
  moreover have "IndexByte (''['' @ h @ '']:'' @ p) (CHR '']'') = Some (length h + 1)"
    using IndexByte_append [of "CHR '']''" "''['' @ h" "'':'' @ p"] assms(1)
    by (simp add: plain_host_def)
  ultimately show ?thesis
    using True assms by (simp add: SplitHostPort_def JoinHostPort_def plain_host_def after_def)
next
  case False
  have "LastIndexByte (h @ '':'' @ p) (CHR '':'') = Some (length h)"
    using LastIndexByte_append [OF assms(3), of h] by simp
  moreover have "hd (h @ '':'' @ p) \<noteq> CHR ''[''"
    using assms(1) by (cases h) (auto simp: plain_host_def)
  ultimately show ?thesis
    using False assms by (simp add: SplitHostPort_def JoinHostPort_def plain_host_def)
qed

text \<open>
  A host that already is in brackets is bracketed again: the result no longer splits.
\<close>

lemma JoinHostPort_bracketed_twice:
  assumes "CHR '':'' \<in> set a"
  shows "\<exists>e. SplitHostPort (JoinHostPort (''['' @ a @ '']'') p) = Inl e"
  using assms
  by (auto simp: SplitHostPort_def JoinHostPort_def split: option.splits)

section \<open>IP addresses\<close>

definition ipv4_field :: "string \<Rightarrow> bool" where
  "ipv4_field f \<longleftrightarrow>
     f \<noteq> [] \<and> length f \<le> 3 \<and> list_all is_digit f \<and> (length f > 1 \<longrightarrow> hd f \<noteq> CHR ''0'') \<and>
     foldl (\<lambda>n c. n * 10 + digit_val c) 0 f \<le> 255"

definition is_ipv4 :: "string \<Rightarrow> bool" where
  "is_ipv4 s \<longleftrightarrow> (let fs = Split s (CHR ''.'') in length fs = 4 \<and> list_all ipv4_field fs)"

definition is_hex :: "char \<Rightarrow> bool" where
  "is_hex c \<longleftrightarrow> is_digit c \<or> lower_char c \<in> set ''abcdef''"

text \<open>
  The loop over the groups of an IPv6 address: \<open>i\<close> bytes are read and \<open>ell\<close> says whether the
  ellipsis was seen.
\<close>

function ipv6_loop :: "nat \<Rightarrow> bool \<Rightarrow> string \<Rightarrow> bool" where
  "ipv6_loop i ell s =
     (if i \<ge> 16 then s = [] \<and> \<not> ell
      else
        let group = takeWhile is_hex s; rest = dropWhile is_hex s in
        if group = [] \<or> length group > 4 then False
        else
          (case rest of
             [] \<Rightarrow> (i + 2 < 16) = ell
           | c # t \<Rightarrow>
               if c = CHR ''.'' then
                 (ell \<or> i = 12) \<and> i + 4 \<le> 16 \<and> is_ipv4 s \<and> ((i + 4 < 16) = ell)
               else if c \<noteq> CHR '':'' \<or> t = [] then False
               else if hd t = CHR '':'' then
                 (if ell then False else if tl t = [] then i + 2 < 16 else ipv6_loop (i + 2) True (tl t))
               else ipv6_loop (i + 2) ell t))"
  by pat_completeness auto

termination
  by (relation "measure (\<lambda>(i, _, _). 16 - i)") auto

declare ipv6_loop.simps [simp del]

definition is_ipv6 :: "string \<Rightarrow> bool" where
  "is_ipv6 s \<longleftrightarrow>
     (if HasPrefix s ''::'' then drop 2 s = [] \<or> ipv6_loop 0 True (drop 2 s) else ipv6_loop 0 False s)"

text \<open>\<open>net.ParseIP(s) != nil\<close>: the first dot or colon tells the family.\<close>

definition ParseIP :: "string \<Rightarrow> bool" where
  "ParseIP s \<longleftrightarrow>
     (case find (\<lambda>c. c = CHR ''.'' \<or> c = CHR '':'') s of
        None \<Rightarrow> False
      | Some c \<Rightarrow> if c = CHR ''.'' then is_ipv4 s else is_ipv6 s)"

definition isIPAddress :: "string \<Rightarrow> bool result" where
  "isIPAddress addr =
     (if HasPrefix addr ''['' \<and> HasSuffix addr '']'' then
        (if length addr < 2 then Inl (Panic ''slice bounds out of range'')
         else Inr (ParseIP (take (length addr - 2) (drop 1 addr))))
      else Inr (ParseIP addr))"

definition isIPv6 :: "string \<Rightarrow> bool" where
  "isIPv6 ip \<longleftrightarrow> ContainsByte ip (CHR '':'')"

lemmas net_eval [go_eval] =
  JoinHostPort_def SplitHostPort_def ipv4_field_def is_ipv4_def is_hex_def ipv6_loop.simps
  is_ipv6_def ParseIP_def isIPAddress_def isIPv6_def

lemma ParseIP_separator: "ParseIP s \<Longrightarrow> CHR ''.'' \<in> set s \<or> CHR '':'' \<in> set s"
  by (cases "find (\<lambda>c. c = CHR ''.'' \<or> c = CHR '':'') s = None") (auto simp: ParseIP_def find_None_iff)

end
