(* ===== verification/SipMessage.thy ===== *)
theory SipMessage
  imports AddrHeaders ViaHeader RouteHeaders Transactions GoNet
begin

text \<open>
  The data of \<open>message.go\<close> and the operations on its header list, and the data of the server
  transports of \<open>transport.go\<close>, which a message refers to. A header value is the string that
  was read until a getter parses it; the getter then stores the parsed value in the header.
  A getter therefore is a call on the message. In-place changes of a value that a getter
  returned (a pointer in the code) are written back to the header it came from.
\<close>

section \<open>Server transports\<close>

text \<open>
  The address of a UDP transport is the text of its \<open>net.UDPAddr\<close>; a connection is a number.
\<close>

datatype ServerTransport =
    UDPServerTransport (udp_localAddr: string) (udp_conn: "nat option")
  | TCPServerTransport (tcp_addr: string) (tcp_port: int) (tcp_conn: "nat option") (tcp_exit: bool)

fun ServerTransport_GetProtocol :: "ServerTransport \<Rightarrow> string" where
  "ServerTransport_GetProtocol (UDPServerTransport _ _) = ''udp''"
| "ServerTransport_GetProtocol (TCPServerTransport _ _ _ _) = ''tcp''"

fun ServerTransport_GetAddress :: "ServerTransport \<Rightarrow> string" where
  "ServerTransport_GetAddress (UDPServerTransport a _) =
     (case SplitHostPort a of Inr (host, _) \<Rightarrow> host | Inl _ \<Rightarrow> [])"
| "ServerTransport_GetAddress (TCPServerTransport a _ _ _) = a"

fun ServerTransport_GetPort :: "ServerTransport \<Rightarrow> int" where
  "ServerTransport_GetPort (UDPServerTransport a _) =
     fst (Atoi (case SplitHostPort a of Inr (_, p) \<Rightarrow> p | Inl _ \<Rightarrow> []))"
| "ServerTransport_GetPort (TCPServerTransport _ p _ _) = p"

fun ServerTransport_IsExit :: "ServerTransport \<Rightarrow> bool" where
  "ServerTransport_IsExit (UDPServerTransport _ _) = False"
| "ServerTransport_IsExit (TCPServerTransport _ _ c e) = (c \<noteq> None \<and> e)"

section \<open>Messages\<close>

record RequestLine =
  req_method :: string
  requestURI :: AddrSpec
  req_version :: string

record StatusLine =
  st_version :: string
  statusCode :: int
  reason :: string

datatype HeaderValue =
    HString string
  | HVia Via
  | HFrom FromSpec
  | HTo To
  | HRoute Route
  | HRecordRoute RecordRoute
  | HCSeq CSeq

record Header =
  hdr_name :: string
  hdr_value :: HeaderValue

record Message =
  request :: "RequestLine option"
  response :: "StatusLine option"
  headers :: "Header list"
  body :: string
  ReceivedFrom :: "ServerTransport option"

definition NewMessage :: Message where
  "NewMessage = \<lparr>request = None, response = None, headers = [], body = [], ReceivedFrom = None\<rparr>"

definition NewRequest :: "string \<Rightarrow> string \<Rightarrow> string \<Rightarrow> Message result" where
  "NewRequest method uri version =
     rbind (ParseAddrSpec uri) (\<lambda>u. Inr (NewMessage\<lparr>request :=
       Some \<lparr>req_method = method, requestURI = u, req_version = version\<rparr>\<rparr>))"

definition NewResponseOf :: "Message \<Rightarrow> int \<Rightarrow> string \<Rightarrow> Message result" where
  "NewResponseOf req code text =
     (case request req of
        None \<Rightarrow> Inl (Panic ''nil pointer dereference'')
      | Some r \<Rightarrow> Inr (NewMessage\<lparr>response :=
          Some \<lparr>st_version = req_version r, statusCode = code, reason = text\<rparr>\<rparr>))"

section \<open>Compact header names\<close>

type_synonym compactHeaderNames = "string \<rightharpoonup> string"

definition AddCompact :: "compactHeaderNames \<Rightarrow> string \<Rightarrow> string \<Rightarrow> compactHeaderNames" where
  "AddCompact ch name compactName =
     ch(ToLower name \<mapsto> ToLower compactName, ToLower compactName \<mapsto> ToLower name)"

definition GetCompact :: "compactHeaderNames \<Rightarrow> string \<Rightarrow> string option" where
  "GetCompact ch name = ch (ToLower name)"

definition compactHdr_list :: "(string \<times> string) list" where
  "compactHdr_list =
     [(''Accept-Contact'', ''a''), (''Referred-By'', ''b''), (''Content-Type'', ''c''),
      (''Content-Encoding'', ''e''), (''From'', ''f''), (''Call-ID'', ''i''),
      (''Supported'', ''k''), (''Content-Length'', ''l''), (''Contact'', ''m''),
      (''Event'', ''o''), (''Refer-To'', ''r''), (''Subject'', ''s''), (''To'', ''t''),
      (''Allow-Events'', ''u''), (''Via'', ''v'')]"

definition compactHdrNames :: compactHeaderNames where
  "compactHdrNames =
     foldl (\<lambda>ch (name, compactName). AddCompact ch name compactName) Map.empty compactHdr_list"

definition isSameHeader :: "string \<Rightarrow> string \<Rightarrow> bool" where
  "isSameHeader name_1 name_2 \<longleftrightarrow>
     (if EqualFold name_1 name_2 then True
      else case GetCompact compactHdrNames name_2 of
             None \<Rightarrow> False
           | Some compact \<Rightarrow> EqualFold name_1 compact)"

section \<open>The header list\<close>

fun find_header :: "Header list \<Rightarrow> string \<Rightarrow> nat option" where
  "find_header [] name = None"
| "find_header (h # hs) name =
     (if isSameHeader (hdr_name h) name then Some 0 else map_option Suc (find_header hs name))"

definition no_such_header :: "string \<Rightarrow> go_error" where
  "no_such_header name = Errorf (''no such header '' @ name)"

definition AddHeader :: "Message \<Rightarrow> string \<Rightarrow> string \<Rightarrow> Message" where
  "AddHeader m name v = m\<lparr>headers := headers m @ [\<lparr>hdr_name = name, hdr_value = HString v\<rparr>]\<rparr>"

definition findHeaderPos :: "Message \<Rightarrow> string \<Rightarrow> nat result" where
  "findHeaderPos m name =
     (case find_header (headers m) name of
        None \<Rightarrow> Inl (no_such_header name) | Some index \<Rightarrow> Inr index)"

definition GetHeader :: "Message \<Rightarrow> string \<Rightarrow> Header result" where
  "GetHeader m name =
     (case find_header (headers m) name of
        None \<Rightarrow> Inl (no_such_header name) | Some index \<Rightarrow> Inr (headers m ! index))"

definition GetHeaderValue :: "Message \<Rightarrow> string \<Rightarrow> HeaderValue result" where
  "GetHeaderValue m name = rbind (GetHeader m name) (\<lambda>h. Inr (hdr_value h))"

definition GetHeaderInt :: "Message \<Rightarrow> string \<Rightarrow> int result" where
  "GetHeaderInt m name =
     rbind (GetHeaderValue m name) (\<lambda>v.
       case v of
         HString s \<Rightarrow> Atoi_checked s
       | _ \<Rightarrow> Inl (Errorf ''not a string type header''))"

definition RemoveHeader :: "string \<Rightarrow> (Message, HeaderValue) call" where
  "RemoveHeader name m =
     (case find_header (headers m) name of
        None \<Rightarrow> (Inl (no_such_header name), m)
      | Some index \<Rightarrow>
          (Inr (hdr_value (headers m ! index)),
           m\<lparr>headers := take index (headers m) @ drop (index + 1) (headers m)\<rparr>))"

text \<open>\<open>header.value = v\<close> for the header that \<open>GetHeader(name)\<close> returns.\<close>

definition set_value :: "string \<Rightarrow> HeaderValue \<Rightarrow> Message \<Rightarrow> Message" where
  "set_value name v m =
     (case find_header (headers m) name of
        None \<Rightarrow> m
      | Some index \<Rightarrow>
          m\<lparr>headers := (headers m)[index := (headers m ! index)\<lparr>hdr_value := v\<rparr>]\<rparr>)"

definition insert_header :: "nat \<Rightarrow> Header \<Rightarrow> Message \<Rightarrow> Message" where
  "insert_header pos h m = m\<lparr>headers := take pos (headers m) @ [h] @ drop pos (headers m)\<rparr>"

section \<open>Names\<close>

text \<open>
  \<open>isSameHeader\<close> compares header names up to letter case and compact form: it holds exactly
  when the two names have the same canonical form, so it is an equivalence.
\<close>

definition canonical_name :: "string \<Rightarrow> string" where
  "canonical_name name =
     (case compactHdrNames (ToLower name) of
        None \<Rightarrow> ToLower name
      | Some other \<Rightarrow> if length name = 1 then other else ToLower name)"

definition compact_table :: "(string \<times> string) list" where
  "compact_table = rev (concat (map (\<lambda>(n, c). [(ToLower n, ToLower c), (ToLower c, ToLower n)]) compactHdr_list))"

lemma foldl_AddCompact:
  "foldl (\<lambda>ch (n, c). AddCompact ch n c) m ps =
   m ++ map_of (rev (concat (map (\<lambda>(n, c). [(ToLower n, ToLower c), (ToLower c, ToLower n)]) ps)))"
  by (induction ps arbitrary: m) (auto simp: AddCompact_def map_add_def fun_eq_iff split: option.splits if_splits)

lemma compactHdrNames_table: "compactHdrNames = map_of compact_table"
  by (simp add: compactHdrNames_def foldl_AddCompact compact_table_def)

lemma compact_table_eval: "compact_table =
    [(''v'', ''via''), (''via'', ''v''), (''u'', ''allow-events''), (''allow-events'', ''u''),
     (''t'', ''to''), (''to'', ''t''), (''s'', ''subject''), (''subject'', ''s''),
     (''r'', ''refer-to''), (''refer-to'', ''r''), (''o'', ''event''), (''event'', ''o''),
     (''m'', ''contact''), (''contact'', ''m''), (''l'', ''content-length''), (''content-length'', ''l''),
     (''k'', ''supported''), (''supported'', ''k''), (''i'', ''call-id''), (''call-id'', ''i''),
     (''f'', ''from''), (''from'', ''f''), (''e'', ''content-encoding''), (''content-encoding'', ''e''),
     (''c'', ''content-type''), (''content-type'', ''c''), (''b'', ''referred-by''), (''referred-by'', ''b''),
     (''a'', ''accept-contact''), (''accept-contact'', ''a'')]"
  by (simp add: compact_table_def compactHdr_list_def ToLower_def lower_char_def char_of_def bit_0)

lemma compact_table_distinct: "distinct (map fst compact_table)"
  by (simp add: compact_table_eval)

lemma compact_table_sym: "(x, y) \<in> set compact_table \<Longrightarrow> (y, x) \<in> set compact_table"
  by (auto simp: compact_table_def)

lemma compact_table_lower: "(x, y) \<in> set compact_table \<Longrightarrow> ToLower x = x \<and> ToLower y = y"
  by (auto simp: compact_table_def)

lemma compact_table_length: "(x, y) \<in> set compact_table \<Longrightarrow> (length x = 1) \<noteq> (length y = 1)"
  unfolding compact_table_eval by auto

lemma compactHdrNames_Some: "compactHdrNames x = Some y \<longleftrightarrow> (x, y) \<in> set compact_table"
  using compact_table_distinct by (simp add: compactHdrNames_table)

lemma compactHdrNames_sym: "compactHdrNames x = Some y \<Longrightarrow> compactHdrNames y = Some x"
  unfolding compactHdrNames_Some by (rule compact_table_sym)

lemma compactHdrNames_lower: "compactHdrNames x = Some y \<Longrightarrow> ToLower y = y"
  using compact_table_lower by (simp add: compactHdrNames_Some)

lemma isSameHeader_table:
  "isSameHeader a b \<longleftrightarrow> ToLower a = ToLower b \<or> compactHdrNames (ToLower b) = Some (ToLower a)"
  by (cases "compactHdrNames (ToLower b)")
    (auto simp: isSameHeader_def GetCompact_def EqualFold_def dest: compactHdrNames_lower)

lemma canonical_name_cases:
  obtains (full) "canonical_name n = ToLower n"
      "\<And>y. compactHdrNames (ToLower n) = Some y \<Longrightarrow> length n \<noteq> 1 \<and> length y = 1"
  | (compact) y where "canonical_name n = y" "compactHdrNames (ToLower n) = Some y"
      "length n = 1" "length y \<noteq> 1"
proof (cases "compactHdrNames (ToLower n)")
  case None
  then show thesis using full by (simp add: canonical_name_def)
next
  case (Some y)
  then have "(length n = 1) \<noteq> (length y = 1)"
    using compact_table_length [of "ToLower n" y] by (simp add: compactHdrNames_Some)
  with Some show thesis
    using full compact [of y] by (cases "length n = 1") (simp_all add: canonical_name_def)
qed

lemma isSameHeader_canonical: "isSameHeader a b \<longleftrightarrow> canonical_name a = canonical_name b"
proof (cases "ToLower a = ToLower b")
  case True
  then have "length a = length b" using length_ToLower by metis
  with True show ?thesis by (simp add: isSameHeader_table canonical_name_def split: option.split)
next
  case False
  note sym = compactHdrNames_sym
  show ?thesis
  proof (cases rule: canonical_name_cases [of a]; cases rule: canonical_name_cases [of b])
    assume "canonical_name a = ToLower a" "canonical_name b = ToLower b"
      "\<And>y. compactHdrNames (ToLower a) = Some y \<Longrightarrow> length a \<noteq> 1 \<and> length y = 1"
      "\<And>y. compactHdrNames (ToLower b) = Some y \<Longrightarrow> length b \<noteq> 1 \<and> length y = 1"
    then show ?thesis
      using False sym [of "ToLower b" "ToLower a"] by (auto simp: isSameHeader_table)
  next
    fix y assume "canonical_name a = ToLower a"
      "canonical_name b = y" "compactHdrNames (ToLower b) = Some y"
    then show ?thesis using False by (auto simp: isSameHeader_table)
  next
    fix y assume "canonical_name b = ToLower b"
      "canonical_name a = y" "compactHdrNames (ToLower a) = Some y"
    then show ?thesis
      using False sym [of "ToLower b" "ToLower a"] sym [of "ToLower a" "ToLower b"]
      by (auto simp: isSameHeader_table)
  next
    fix y z assume "canonical_name a = y" "compactHdrNames (ToLower a) = Some y" "length y \<noteq> 1"
      "canonical_name b = z" "compactHdrNames (ToLower b) = Some z" "length z \<noteq> 1" "length a = 1"
    then show ?thesis
      using False sym [of "ToLower a" y] sym [of "ToLower b" z] by (auto simp: isSameHeader_table)
  qed
qed

lemma isSameHeader_refl [simp]: "isSameHeader a a"
  by (simp add: isSameHeader_canonical)

lemma isSameHeader_sym: "isSameHeader a b \<Longrightarrow> isSameHeader b a"
  by (simp add: isSameHeader_canonical)

lemma isSameHeader_trans: "isSameHeader a b \<Longrightarrow> isSameHeader b c \<Longrightarrow> isSameHeader a c"
  by (simp add: isSameHeader_canonical)

end
