(* ===== verification/MessageOps.thy ===== *)
theory MessageOps
  imports SipMessage
begin

text \<open>
  The typed header operations of \<open>message.go\<close>: getters that parse and cache, the Via and
  Route stacks, insertion of Via and Record-Route, and the identifiers of dialogs, sessions
  and transactions.
\<close>

section \<open>Getters\<close>

text \<open>
  The body the getters share: the first header of the name; its value if it has the type
  already; otherwise the parse of its string, which is stored in the header.
\<close>

definition get_typed ::
  "string \<Rightarrow> (HeaderValue \<Rightarrow> 'a option) \<Rightarrow> (string \<Rightarrow> 'a result) \<Rightarrow> ('a \<Rightarrow> HeaderValue) \<Rightarrow> string \<Rightarrow>
   (Message, 'a) call"
where
  "get_typed name sel parse wrap bad_type m =
     (case GetHeaderValue m name of
        Inl e \<Rightarrow> (Inl e, m)
      | Inr v \<Rightarrow>
          (case sel v of
             Some t \<Rightarrow> (Inr t, m)
           | None \<Rightarrow>
               (case v of
                  HString s \<Rightarrow>
                    (case parse s of
                       Inl e \<Rightarrow> (Inl e, m)
                     | Inr t \<Rightarrow> (Inr t, set_value name (wrap t) m))
                | _ \<Rightarrow> (Inl (Errorf bad_type), m))))"

definition sel_Via :: "HeaderValue \<Rightarrow> Via option" where
  "sel_Via v = (case v of HVia x \<Rightarrow> Some x | _ \<Rightarrow> None)"

definition sel_From :: "HeaderValue \<Rightarrow> FromSpec option" where
  "sel_From v = (case v of HFrom x \<Rightarrow> Some x | _ \<Rightarrow> None)"

definition sel_To :: "HeaderValue \<Rightarrow> To option" where
  "sel_To v = (case v of HTo x \<Rightarrow> Some x | _ \<Rightarrow> None)"

definition sel_Route :: "HeaderValue \<Rightarrow> Route option" where
  "sel_Route v = (case v of HRoute x \<Rightarrow> Some x | _ \<Rightarrow> None)"

definition sel_RecordRoute :: "HeaderValue \<Rightarrow> RecordRoute option" where
  "sel_RecordRoute v = (case v of HRecordRoute x \<Rightarrow> Some x | _ \<Rightarrow> None)"

definition sel_CSeq :: "HeaderValue \<Rightarrow> CSeq option" where
  "sel_CSeq v = (case v of HCSeq x \<Rightarrow> Some x | _ \<Rightarrow> None)"

definition GetFrom :: "(Message, FromSpec) call" where
  "GetFrom = get_typed ''From'' sel_From ParseFromSpec HFrom
     ''type of the From header is not string or From''"

definition GetTo :: "(Message, To) call" where
  "GetTo = get_typed ''To'' sel_To ParseTo HTo ''type of the To header is not string or To''"

definition GetRoute :: "(Message, Route) call" where
  "GetRoute = get_typed ''Route'' sel_Route ParseRoute HRoute
     ''type of Route header is not string or Route''"

definition GetVia :: "(Message, Via) call" where
  "GetVia = get_typed ''Via'' sel_Via ParseVia HVia ''the header value type is not string or Via''"

definition GetCSeq :: "(Message, CSeq) call" where
  "GetCSeq = get_typed ''CSeq'' sel_CSeq ParseCSeq HCSeq
     ''the header value type is not string or CSeq''"

definition GetRecordRoute :: "(Message, RecordRoute) call" where
  "GetRecordRoute = get_typed ''Record-Route'' sel_RecordRoute ParseRecordRoute HRecordRoute
     ''the header value type is not string or Record-Route''"

section \<open>Route\<close>

definition PopRoute :: "(Message, unit) call" where
  "PopRoute = sbind GetRoute (\<lambda>route m.
     if GetRouteParamCount route > 1 then
       (case PopRouteParam route of
          (Inl e, _) \<Rightarrow> (Inl e, m)
        | (Inr _, route') \<Rightarrow> (Inr (), set_value ''Route'' (HRoute route') m))
     else
       (case RemoveHeader ''Route'' m of
          (Inl e, m') \<Rightarrow> (Inl e, m')
        | (Inr _, m') \<Rightarrow> (Inr (), m')))"

definition TryRemoveTopRoute :: "string \<Rightarrow> int \<Rightarrow> (Message, unit) call" where
  "TryRemoveTopRoute myAddr myPort =
     sbind GetRoute (\<lambda>route.
     sbind (sret (GetRouteParam route 0)) (\<lambda>routeParam m.
       case GetSIPURI (NameAddr_GetAddress (RouteParam_GetAddress routeParam)) of
         Inr sipUri \<Rightarrow>
           if Host sipUri = myAddr \<and> SIPURI_GetPort sipUri = myPort
           then (Inr (), snd (PopRoute m))
           else (Inl (Errorf ''the top route item is not my address''), m)
       | Inl _ \<Rightarrow> (Inl (Errorf ''the top route item is not my address''), m)))"

section \<open>Via\<close>

definition findViaInsertPos :: "Message \<Rightarrow> nat" where
  "findViaInsertPos m = (case find_header (headers m) ''Via'' of None \<Rightarrow> 0 | Some index \<Rightarrow> index)"

definition AddVia :: "Message \<Rightarrow> Via \<Rightarrow> Message" where
  "AddVia m via = insert_header (findViaInsertPos m) \<lparr>hdr_name = ''Via'', hdr_value = HVia via\<rparr> m"

definition PopVia :: "(Message, Via) call" where
  "PopVia = sbind GetVia (\<lambda>via m.
     if Via_Size via > 1 then
       (case PopViaParam via of
          (Inl e, _) \<Rightarrow> (Inl e, m)
        | (Inr viaParam, via') \<Rightarrow>
            (Inr (AddViaParam NewVia viaParam), set_value ''Via'' (HVia via') m))
     else
       (case RemoveHeader ''Via'' m of
          (Inl e, m') \<Rightarrow> (Inl e, m')
        | (Inr _, m') \<Rightarrow> (Inr via, m')))"

text \<open>
  \<open>ForEachVia\<close> calls its argument on the Via of every Via header, parsing and caching as it
  goes and skipping what does not parse; here it returns what the argument is called on.
\<close>

fun for_each_via :: "Header list \<Rightarrow> Via list \<times> Header list" where
  "for_each_via [] = ([], [])"
| "for_each_via (header # rest) =
     (let (vs, rest') = for_each_via rest in
      if \<not> isSameHeader (hdr_name header) ''Via'' then (vs, header # rest')
      else case hdr_value header of
             HVia v \<Rightarrow> (v # vs, header # rest')
           | HString s \<Rightarrow>
               (case ParseVia s of
                  Inl _ \<Rightarrow> (vs, header # rest')
                | Inr v \<Rightarrow> (v # vs, header\<lparr>hdr_value := HVia v\<rparr> # rest'))
           | _ \<Rightarrow> (vs, header # rest'))"

definition ForEachVia :: "Message \<Rightarrow> Via list \<times> Message" where
  "ForEachVia m = (let (vs, hs) = for_each_via (headers m) in (vs, m\<lparr>headers := hs\<rparr>))"

definition ForEachViaParam :: "Message \<Rightarrow> ViaParam list \<times> Message" where
  "ForEachViaParam m = (let (vs, m') = ForEachVia m in (concat (map via_list vs), m'))"

definition SetReceived :: "string \<Rightarrow> int \<Rightarrow> (Message, unit) call" where
  "SetReceived peerAddr peerPort =
     sbind GetVia (\<lambda>via.
     sbind (sret (Via_GetParam via 0)) (\<lambda>viaParam m.
       let p1 = ViaParam_SetReceived viaParam peerAddr;
           p2 = (if ViaParam_HasParam p1 ''rport'' then ViaParam_SetParam p1 ''rport'' (Itoa peerPort) else p1)
       in (Inr (), set_value ''Via'' (HVia (via\<lparr>via_list := (via_list via)[0 := p2]\<rparr>)) m)))"

section \<open>Record-Route\<close>

definition findRecordRoutePos :: "Message \<Rightarrow> nat" where
  "findRecordRoutePos m =
     (case findHeaderPos m ''Record-Route'' of
        Inr pos \<Rightarrow> pos
      | Inl _ \<Rightarrow>
          (case (findHeaderPos m ''From'', findHeaderPos m ''Max-Forwards'') of
             (Inr pos_1, Inr pos_2) \<Rightarrow> if pos_1 < pos_2 then pos_1 else pos_2
           | (Inr pos_1, Inl _) \<Rightarrow> pos_1
           | (Inl _, Inr pos_2) \<Rightarrow> pos_2
           | (Inl _, Inl _) \<Rightarrow> 0))"

definition AddRecordRoute :: "Message \<Rightarrow> RecordRoute \<Rightarrow> Message" where
  "AddRecordRoute m recordRoute =
     insert_header (findRecordRoutePos m)
       \<lparr>hdr_name = ''Record-Route'', hdr_value = HRecordRoute recordRoute\<rparr> m"

definition PopRecordRoute :: "(Message, RecordRoute) call" where
  "PopRecordRoute = sbind (RemoveHeader ''Record-Route'') (\<lambda>v.
     case v of
       HRecordRoute rr \<Rightarrow> sret (Inr rr)
     | HString s \<Rightarrow> sret (ParseRecordRoute s)
     | _ \<Rightarrow> sret (Inl (Errorf ''the header value type is not string or Record-Route'')))"

section \<open>Kind and method\<close>

definition IsRequest :: "Message \<Rightarrow> bool" where
  "IsRequest m \<longleftrightarrow> request m \<noteq> None"

definition IsResponse :: "Message \<Rightarrow> bool" where
  "IsResponse m \<longleftrightarrow> response m \<noteq> None"

text \<open>Division of Go integers truncates towards zero.\<close>

definition go_div :: "int \<Rightarrow> int \<Rightarrow> int" where
  "go_div a b = sgn a * sgn b * (\<bar>a\<bar> div \<bar>b\<bar>)"

definition IsFinalResponse :: "Message \<Rightarrow> bool" where
  "IsFinalResponse m =
     (case response m of
        None \<Rightarrow> False
      | Some st \<Rightarrow> go_div (statusCode st) 100 \<in> {2, 3, 4, 5, 6})"

definition GetMethod :: "(Message, string) call" where
  "GetMethod m =
     (case request m of
        Some r \<Rightarrow> (Inr (req_method r), m)
      | None \<Rightarrow> sbind GetCSeq (\<lambda>cseq. sret (Inr (CSeq_Method cseq))) m)"

definition GetRequestURI :: "Message \<Rightarrow> AddrSpec result" where
  "GetRequestURI m =
     (case request m of None \<Rightarrow> Inl (Errorf ''not a request'') | Some r \<Rightarrow> Inr (requestURI r))"

definition GetExpires :: "Message \<Rightarrow> int \<Rightarrow> int" where
  "GetExpires m defValue =
     (case GetHeaderInt m ''Expires'' of Inr expires \<Rightarrow> expires | Inl _ \<Rightarrow> defValue)"

definition GetCallID :: "Message \<Rightarrow> string result" where
  "GetCallID m =
     rbind (GetHeaderValue m ''Call-ID'') (\<lambda>v.
       case v of HString s \<Rightarrow> Inr s | _ \<Rightarrow> Inl (Errorf ''Call-ID is not a string''))"

text \<open>The copy has a header list of its own, whose headers are shared; nothing calls \<open>Clone\<close>.\<close>

definition Message_Clone :: "Message \<Rightarrow> Message" where
  "Message_Clone m =
     \<lparr>request = request m, response = response m, headers = headers m, body = body m,
      ReceivedFrom = ReceivedFrom m\<rparr>"

section \<open>Identifiers\<close>

definition getDialogAddr :: "AddrSpec \<Rightarrow> string result" where
  "getDialogAddr addr =
     (if IsSIPURI addr then rbind (GetSIPURI addr) (\<lambda>u. Inr (SIPURI_ToString u False False))
      else Inr (AddrSpec_String addr))"

definition GetDialog :: "(Message, string) call" where
  "GetDialog =
     (\<lambda>m. sbind (sret (GetCallID m)) (\<lambda>callId.
     sbind GetFrom (\<lambda>fromSpec.
     let from_tag = value_or [] (FromSpec_GetTag fromSpec) in
     sbind GetTo (\<lambda>to.
     let to_tag = value_or [] (To_GetTag to) in
     sbind (sret (FromSpec_GetAddrSpec fromSpec)) (\<lambda>from_addr.
     sbind (sret (To_GetAddrSpec to)) (\<lambda>to_addr.
     sbind (sret (getDialogAddr from_addr)) (\<lambda>from_addr_s.
     sbind (sret (getDialogAddr to_addr)) (\<lambda>to_addr_s.
     sret (Inr (
       if from_addr_s < to_addr_s
       then Dialog_String (NewDialog callId (from_tag @ ''-'' @ from_addr_s) (to_tag @ ''-'' @ to_addr_s))
       else Dialog_String (NewDialog callId (to_tag @ ''-'' @ to_addr_s) (from_tag @ ''-'' @ from_addr_s)))))))))))
     m)"

definition GetSessionId :: "(Message, string) call" where
  "GetSessionId =
     (\<lambda>m. sbind (sret (GetCallID m)) (\<lambda>callId.
     sbind GetFrom (\<lambda>fromSpec.
     sbind GetTo (\<lambda>to.
     sbind (sret (FromSpec_GetAddrSpec fromSpec)) (\<lambda>from_addr.
     sbind (sret (To_GetAddrSpec to)) (\<lambda>to_addr.
     sbind (sret (getDialogAddr from_addr)) (\<lambda>from_addr_s.
     sbind (sret (getDialogAddr to_addr)) (\<lambda>to_addr_s.
     sret (Inr (
       if from_addr_s < to_addr_s then Dialog_String (NewDialog callId from_addr_s to_addr_s)
       else Dialog_String (NewDialog callId to_addr_s from_addr_s))))))))))
     m)"

definition GetTopViaBranch :: "(Message, string) call" where
  "GetTopViaBranch =
     sbind GetVia (\<lambda>via.
     sbind (sret (Via_GetParam via 0)) (\<lambda>param. sret (ViaParam_GetBranch param)))"

definition GetTopViaSentBy :: "(Message, string) call" where
  "GetTopViaSentBy =
     sbind GetVia (\<lambda>via.
       if Via_Size via \<le> 0 then sret (Inl (Errorf ''no Via header is available''))
       else sbind (sret (Via_GetParam via 0)) (\<lambda>param. sret (Inr (ViaParam_GetSentBy param))))"

definition GetClientTransaction :: "(Message, string) call" where
  "GetClientTransaction =
     sbind GetCSeq (\<lambda>cseq.
       if CSeq_Method cseq = ''ACK'' then sret (Inl (Errorf ''no client transaction for ACK''))
       else sbind GetTopViaBranch (\<lambda>branch. sret (Inr (CSeq_Method cseq @ ''-'' @ branch))))"

definition GetServerTransaction :: "(Message, string) call" where
  "GetServerTransaction =
     sbind GetTopViaBranch (\<lambda>branch.
     sbind GetTopViaSentBy (\<lambda>sentBy.
     sbind GetMethod (\<lambda>method.
       let method' = (if method = ''CANCEL'' \<or> method = ''ACK'' then ''INVITE'' else method)
       in sret (Inr (method' @ ''-'' @ sentBy @ ''-'' @ branch)))))"

text \<open>Everything that evaluating an operation on a concrete message unfolds.\<close>

lemmas message_ops_eval =
  no_such_header_def AddHeader_def findHeaderPos_def GetHeader_def GetHeaderValue_def GetHeaderInt_def
  RemoveHeader_def set_value_def insert_header_def
  sbind_def sret_def get_typed_def sel_Via_def sel_From_def sel_To_def sel_Route_def
  sel_RecordRoute_def sel_CSeq_def GetFrom_def GetTo_def GetRoute_def GetVia_def GetCSeq_def
  GetRecordRoute_def PopRoute_def TryRemoveTopRoute_def findViaInsertPos_def AddVia_def
  PopVia_def ForEachVia_def ForEachViaParam_def SetReceived_def findRecordRoutePos_def
  AddRecordRoute_def PopRecordRoute_def IsRequest_def IsResponse_def go_div_def
  IsFinalResponse_def GetMethod_def GetRequestURI_def GetExpires_def GetCallID_def
  getDialogAddr_def GetDialog_def GetSessionId_def GetTopViaBranch_def GetTopViaSentBy_def
  GetClientTransaction_def GetServerTransaction_def

end
