(* ===== verification/PreConfig.thy ===== *)
theory PreConfig
  imports GoStrconv
begin

text \<open>
  \<open>preconfig_route.go\<close>: the routes of the configuration. A destination is looked up exactly,
  then as a pattern with stars, then under the name "default".
\<close>

section \<open>Regular expressions\<close>

text \<open>
  The fragment of \<open>regexp.MatchString\<close> that the patterns of this file are in: an ASCII text
  between \<open>^\<close> and \<open>$\<close> of plain bytes, escaped dots, and \<open>.*\<close>, which does not match a newline.
  Patterns outside the fragment go to the argument \<open>other\<close>, the rest of \<open>MatchString\<close>.
\<close>

datatype re_item = ReByte char | ReAnyStar

definition re_plain :: "char \<Rightarrow> bool" where
  "re_plain c \<longleftrightarrow> (of_char c :: nat) < 128 \<and> c \<notin> set (CHR 0x5C # ''.+*?()|[]{}^$'')"

fun re_items :: "string \<Rightarrow> re_item list option" where
  "re_items [] = None"
| "re_items (c # s) =
     (if c = CHR ''$'' \<and> s = [] then Some []
      else if c = CHR 0x5C then
        (case s of
           d # t \<Rightarrow> if d = CHR ''.'' then map_option (\<lambda>r. ReByte d # r) (re_items t) else None
         | [] \<Rightarrow> None)
      else if c = CHR ''.'' then
        (case s of
           d # t \<Rightarrow> if d = CHR ''*'' then map_option (\<lambda>r. ReAnyStar # r) (re_items t) else None
         | [] \<Rightarrow> None)
      else if re_plain c then map_option (\<lambda>r. ReByte c # r) (re_items s)
      else None)"

definition re_parse :: "string \<Rightarrow> re_item list option" where
  "re_parse pattern = (case pattern of c # s \<Rightarrow> if c = CHR ''^'' then re_items s else None | [] \<Rightarrow> None)"

fun re_match :: "re_item list \<Rightarrow> string \<Rightarrow> bool" where
  "re_match [] s = (s = [])"
| "re_match (ReByte b # r) s = (case s of [] \<Rightarrow> False | c # s' \<Rightarrow> b = c \<and> re_match r s')"
| "re_match (ReAnyStar # r) s =
     (re_match r s \<or>
      (case s of [] \<Rightarrow> False | c # s' \<Rightarrow> c \<noteq> CHR 0x0A \<and> re_match (ReAnyStar # r) s'))"

definition regexp_MatchString ::
  "(string \<Rightarrow> string \<Rightarrow> bool result) \<Rightarrow> string \<Rightarrow> string \<Rightarrow> bool result"
where
  "regexp_MatchString other pattern s =
     (case re_parse pattern of Some r \<Rightarrow> Inr (re_match r s) | None \<Rightarrow> other pattern s)"

text \<open>\<open>strings.Replace(s, c, by, -1)\<close> for a one-byte \<open>c\<close>.\<close>

definition ReplaceByte :: "string \<Rightarrow> char \<Rightarrow> string \<Rightarrow> string" where
  "ReplaceByte s c by' = concat (map (\<lambda>x. if x = c then by' else [x]) s)"

section \<open>Routes\<close>

record PreRouteItem =
  pri_protocol :: string
  pri_dest :: string
  pri_host :: string
  pri_port :: int

record PreConfigRoute =
  items :: "string \<rightharpoonup> PreRouteItem"

definition NewPreRouteItem :: "string \<Rightarrow> string \<Rightarrow> string \<Rightarrow> PreRouteItem result" where
  "NewPreRouteItem protocol dest nextHop =
     (case LastIndexByte nextHop (CHR '':'') of
        None \<Rightarrow>
          Inr \<lparr>pri_protocol = protocol, pri_dest = dest, pri_host = nextHop,
               pri_port = (if EqualFold ''tls'' protocol then 5061 else 5060)\<rparr>
      | Some pos \<Rightarrow>
          rbind (Atoi_checked (after pos nextHop)) (\<lambda>p.
            Inr \<lparr>pri_protocol = protocol, pri_dest = dest, pri_host = before pos nextHop, pri_port = p\<rparr>))"

definition NewPreConfigRoute :: PreConfigRoute where
  "NewPreConfigRoute = \<lparr>items = Map.empty\<rparr>"

definition AddRouteItem :: "string \<Rightarrow> string \<Rightarrow> string \<Rightarrow> (PreConfigRoute, unit) call" where
  "AddRouteItem protocol dest nextHop pcr =
     (case NewPreRouteItem protocol dest nextHop of
        Inl e \<Rightarrow> (Inl e, pcr)
      | Inr item \<Rightarrow> (Inr (), pcr\<lparr>items := (items pcr)(dest \<mapsto> item)\<rparr>))"

definition toRegularExp :: "string \<Rightarrow> string" where
  "toRegularExp s =
     ''^'' @ ReplaceByte (ReplaceByte s (CHR ''.'') [CHR 0x5C, CHR ''.'']) (CHR ''*'') ''.*'' @ ''$''"

definition item_route :: "PreRouteItem \<Rightarrow> string \<times> string \<times> int" where
  "item_route item = (pri_protocol item, pri_host item, pri_port item)"

text \<open>\<open>ks\<close> is the order in which this call iterates over the map.\<close>

definition FindRoute ::
  "(string \<Rightarrow> string \<Rightarrow> bool result) \<Rightarrow> string list \<Rightarrow> PreConfigRoute \<Rightarrow> string \<Rightarrow>
   (string \<times> string \<times> int) result"
where
  "FindRoute other ks pcr dest =
     (case items pcr dest of
        Some item \<Rightarrow> Inr (item_route item)
      | None \<Rightarrow>
          (case find (\<lambda>item. regexp_MatchString other (toRegularExp (pri_dest item)) dest = Inr True)
                  (map (\<lambda>k. the (items pcr k)) ks) of
             Some item \<Rightarrow> Inr (item_route item)
           | None \<Rightarrow>
               (case items pcr ''default'' of
                  Some item \<Rightarrow> Inr (item_route item)
                | None \<Rightarrow> Inl (Errorf (''fail to find route for '' @ dest)))))"

lemmas preconfig_eval [go_eval] =
  re_plain_def re_parse_def regexp_MatchString_def ReplaceByte_def NewPreRouteItem_def
  NewPreConfigRoute_def AddRouteItem_def toRegularExp_def item_route_def FindRoute_def

section \<open>The patterns are globs\<close>

text \<open>A star stands for any text without a newline, every other byte for itself.\<close>

definition glob :: "string \<Rightarrow> string \<Rightarrow> bool" where
  "glob p s \<longleftrightarrow> (\<exists>ws. list_all2 (\<lambda>c w. if c = CHR ''*'' then CHR 0x0A \<notin> set w else w = [c]) p ws \<and> concat ws = s)"

definition glob_items :: "string \<Rightarrow> re_item list" where
  "glob_items p = map (\<lambda>c. if c = CHR ''*'' then ReAnyStar else ReByte c) p"

definition glob_pattern :: "string \<Rightarrow> bool" where
  "glob_pattern p \<longleftrightarrow> (\<forall>c \<in> set p. c = CHR ''*'' \<or> c = CHR ''.'' \<or> re_plain c)"

lemma re_match_AnyStar:
  "re_match (ReAnyStar # r) s \<longleftrightarrow> (\<exists>w t. s = w @ t \<and> CHR 0x0A \<notin> set w \<and> re_match r t)"
proof (induction s)
  case (Cons c s)
  show ?case
  proof
    assume "re_match (ReAnyStar # r) (c # s)"
    then consider "re_match r (c # s)" | "c \<noteq> CHR 0x0A" "re_match (ReAnyStar # r) s" by auto
    then show "\<exists>w t. c # s = w @ t \<and> CHR 0x0A \<notin> set w \<and> re_match r t"
    proof cases
      case 2
      then obtain w t where "s = w @ t" "CHR 0x0A \<notin> set w" "re_match r t" using Cons by auto
      with 2 show ?thesis by (intro exI [of _ "c # w"] exI [of _ t]) auto
    qed fastforce
  next
    assume "\<exists>w t. c # s = w @ t \<and> CHR 0x0A \<notin> set w \<and> re_match r t"
    then obtain w t where w: "c # s = w @ t" "CHR 0x0A \<notin> set w" "re_match r t" by blast
    show "re_match (ReAnyStar # r) (c # s)"
    proof (cases w)
      case Nil
      with w show ?thesis by simp
    next
      case (Cons d v)
      then have "re_match (ReAnyStar # r) s" using w Cons.IH by auto
      moreover have "c \<noteq> CHR 0x0A" using w Cons by auto
      ultimately show ?thesis by simp
    qed
  qed
qed simp

lemma list_all2_concat_Cons: "(\<exists>ws. list_all2 R (c # p) ws \<and> concat ws = s) \<longleftrightarrow>
  (\<exists>w t. s = w @ t \<and> R c w \<and> (\<exists>ws. list_all2 R p ws \<and> concat ws = t))"
proof
  assume "\<exists>w t. s = w @ t \<and> R c w \<and> (\<exists>ws. list_all2 R p ws \<and> concat ws = t)"
  then obtain w ws where "s = w @ concat ws" "R c w" "list_all2 R p ws" by blast
  then show "\<exists>ws. list_all2 R (c # p) ws \<and> concat ws = s"
    by (intro exI [of _ "w # ws"]) simp
next
  assume "\<exists>ws. list_all2 R (c # p) ws \<and> concat ws = s"
  then obtain w ws where "R c w" "list_all2 R p ws" "s = w @ concat ws"
    by (auto simp: list_all2_Cons1)
  then show "\<exists>w t. s = w @ t \<and> R c w \<and> (\<exists>ws. list_all2 R p ws \<and> concat ws = t)" by blast
qed

lemma glob_Cons: "glob (c # p) s \<longleftrightarrow>
  (\<exists>w t. s = w @ t \<and> (if c = CHR ''*'' then CHR 0x0A \<notin> set w else w = [c]) \<and> glob p t)"
  unfolding glob_def by (rule list_all2_concat_Cons)

lemma re_match_glob: "re_match (glob_items p) s \<longleftrightarrow> glob p s"
proof (induction p arbitrary: s)
  case Nil
  then show ?case by (auto simp: glob_items_def glob_def)
next
  case (Cons c p)
  show ?case
  proof (cases "c = CHR ''*''")
    case True
    then have "glob_items (c # p) = ReAnyStar # glob_items p" by (simp add: glob_items_def)
    with True Cons show ?thesis by (simp add: re_match_AnyStar glob_Cons del: re_match.simps)
  next
    case False
    then have "glob_items (c # p) = ReByte c # glob_items p" by (simp add: glob_items_def)
    with False Cons show ?thesis by (auto simp: glob_Cons split: list.splits)
  qed
qed

lemma re_parse_toRegularExp:
  assumes "glob_pattern p"
  shows "re_parse (toRegularExp p) = Some (glob_items p)"
proof -
  have "re_items (ReplaceByte (ReplaceByte p (CHR ''.'') [CHR 0x5C, CHR ''.'']) (CHR ''*'') ''.*'' @ ''$'') =
      Some (glob_items p)"
    using assms
  proof (induction p)
    case (Cons c p)
    then show ?case
      by (cases "c = CHR ''*''"; cases "c = CHR ''.''")
        (auto simp: glob_pattern_def glob_items_def ReplaceByte_def re_plain_def)
  qed (simp add: ReplaceByte_def glob_items_def)
  then show ?thesis by (simp add: re_parse_def toRegularExp_def)
qed

lemma MatchString_glob:
  "glob_pattern p \<Longrightarrow> regexp_MatchString other (toRegularExp p) s = Inr (glob p s)"
  by (simp add: regexp_MatchString_def re_parse_toRegularExp re_match_glob)

section \<open>Lookup\<close>

text \<open>What \<open>AddRouteItem\<close> keeps: an item is stored under its own destination.\<close>

definition routes_inv :: "PreConfigRoute \<Rightarrow> bool" where
  "routes_inv pcr \<longleftrightarrow> (\<forall>k item. items pcr k = Some item \<longrightarrow> pri_dest item = k)"

lemma NewPreRouteItem_dest: "NewPreRouteItem protocol dest nextHop = Inr item \<Longrightarrow> pri_dest item = dest"
  by (auto simp: NewPreRouteItem_def rbind_eq_Inr split: option.splits)

lemma routes_inv_AddRouteItem: "routes_inv pcr \<Longrightarrow> routes_inv (snd (AddRouteItem protocol dest nextHop pcr))"
  by (auto simp: routes_inv_def AddRouteItem_def split: sum.split dest: NewPreRouteItem_dest)

lemma routes_inv_New: "routes_inv NewPreConfigRoute"
  by (simp add: routes_inv_def NewPreConfigRoute_def)

lemma FindRoute_exact: "items pcr dest = Some item \<Longrightarrow> FindRoute other ks pcr dest = Inr (item_route item)"
  by (simp add: FindRoute_def)

lemma FindRoute_pattern:
  assumes inv: "routes_inv pcr" and ks: "map_order (items pcr) ks"
    and plain: "\<And>k. k \<in> dom (items pcr) \<Longrightarrow> glob_pattern k" and none: "items pcr dest = None"
  shows "FindRoute other ks pcr dest =
    (case find (\<lambda>k. glob k dest) ks of
       Some k \<Rightarrow> Inr (item_route (the (items pcr k)))
     | None \<Rightarrow> (case items pcr ''default'' of
           Some item \<Rightarrow> Inr (item_route item)
         | None \<Rightarrow> Inl (Errorf (''fail to find route for '' @ dest))))"
proof -
  have "find (\<lambda>item. regexp_MatchString other (toRegularExp (pri_dest item)) dest = Inr True)
      (map (\<lambda>k. the (items pcr k)) ks') = map_option (\<lambda>k. the (items pcr k)) (find (\<lambda>k. glob k dest) ks')"
    if "set ks' \<subseteq> dom (items pcr)" for ks'
    using that
  proof (induction ks')
    case (Cons k ks')
    then have "pri_dest (the (items pcr k)) = k" "glob_pattern k"
      using inv plain by (auto simp: routes_inv_def)
    with Cons show ?case by (simp add: MatchString_glob)
  qed simp
  then show ?thesis
    using ks none by (simp add: FindRoute_def map_order_def split: option.split)
qed

end
