(* ===== verification/MyName.thy ===== *)
theory MyName
  imports MessageOps PreConfig
begin

text \<open>
  The names of the proxy (\<open>MyName\<close> of \<open>proxy.go\<close>), by which it decides that a request is for
  itself. Every name is used as a literal and as a regular expression that may match anywhere.
\<close>

section \<open>Searching for a pattern\<close>

text \<open>
  The fragment of \<open>regexp\<close> for names: plain ASCII bytes and dots, on ASCII texts. The rest of
  the package is the record \<open>regexps\<close>.
\<close>

record regexps =
  re_compiles :: "string \<Rightarrow> bool"
  re_searches :: "string \<Rightarrow> string \<Rightarrow> bool"
  re_other :: "string \<Rightarrow> string \<Rightarrow> bool result"

definition name_pattern :: "string \<Rightarrow> bool" where
  "name_pattern p \<longleftrightarrow> list_all (\<lambda>c. c = CHR ''.'' \<or> re_plain c) p"

definition ascii :: "string \<Rightarrow> bool" where
  "ascii s \<longleftrightarrow> list_all (\<lambda>c. (of_char c :: nat) < 128) s"

fun prefix_match :: "string \<Rightarrow> string \<Rightarrow> bool" where
  "prefix_match [] s = True"
| "prefix_match (p # ps) [] = False"
| "prefix_match (p # ps) (c # s) =
     ((if p = CHR ''.'' then c \<noteq> CHR 0x0A else p = c) \<and> prefix_match ps s)"

fun search_match :: "string \<Rightarrow> string \<Rightarrow> bool" where
  "search_match p [] = prefix_match p []"
| "search_match p (c # s) = (prefix_match p (c # s) \<or> search_match p s)"

definition regexp_Compile :: "regexps \<Rightarrow> string \<Rightarrow> bool" where
  "regexp_Compile E p = (if name_pattern p then True else re_compiles E p)"

definition pattern_MatchString :: "regexps \<Rightarrow> string \<Rightarrow> string \<Rightarrow> bool" where
  "pattern_MatchString E p s = (if name_pattern p \<and> ascii s then search_match p s else re_searches E p s)"

section \<open>Names\<close>

record MyName =
  names :: "string list"
  patterns :: "string list"

definition NewMyName :: "regexps \<Rightarrow> string \<Rightarrow> MyName" where
  "NewMyName E name =
     (let ss = map TrimSpace (Split name (CHR '',''))
      in \<lparr>names = ss, patterns = filter (regexp_Compile E) ss\<rparr>)"

definition matchAbsoluteURI :: "regexps \<Rightarrow> MyName \<Rightarrow> string \<Rightarrow> bool" where
  "matchAbsoluteURI E p uri \<longleftrightarrow>
     uri \<in> set (names p) \<or> (\<exists>pattern \<in> set (patterns p). pattern_MatchString E pattern uri)"

definition matchSIPURI :: "regexps \<Rightarrow> MyName \<Rightarrow> string \<Rightarrow> string \<Rightarrow> bool" where
  "matchSIPURI E p user hostName \<longleftrightarrow>
     (\<exists>name \<in> set (names p).
        (case IndexByte name (CHR ''@'') of
           None \<Rightarrow> hostName = name
         | Some pos \<Rightarrow> hostName = after pos name \<and> user = before pos name)) \<or>
     (\<exists>pattern \<in> set (patterns p). pattern_MatchString E pattern (user @ ''@'' @ hostName))"

definition isMyMessage :: "regexps \<Rightarrow> MyName \<Rightarrow> Message \<Rightarrow> bool" where
  "isMyMessage E p msg =
     (case GetRequestURI msg of
        Inl _ \<Rightarrow> False
      | Inr uri \<Rightarrow>
          (case AddrSpec_GetAbsoluteURI uri of
             Inr a \<Rightarrow> matchAbsoluteURI E p (AbsoluteURI_String a) | Inl _ \<Rightarrow> False) \<or>
          (case GetSIPURI uri of
             Inl _ \<Rightarrow> False
           | Inr u \<Rightarrow>
               (case ReceivedFrom msg of
                  Some t \<Rightarrow> Host u = ServerTransport_GetAddress t \<and> SIPURI_GetPort u = ServerTransport_GetPort t
                | None \<Rightarrow> False) \<or>
               matchSIPURI E p (User u) (Host u)))"

lemmas my_name_eval [go_eval] =
  name_pattern_def ascii_def regexp_Compile_def pattern_MatchString_def NewMyName_def
  matchAbsoluteURI_def matchSIPURI_def isMyMessage_def

section \<open>What a name matches\<close>

lemma prefix_match_self: "CHR 0x0A \<notin> set p \<Longrightarrow> prefix_match p (p @ s)"
  by (induction p) auto

lemma search_match_prefix: "prefix_match p s \<Longrightarrow> search_match p s"
  by (cases s) auto

lemma search_match_append: "search_match p s \<Longrightarrow> search_match p (a @ s)"
  by (induction a) auto

lemma search_match_sub: "CHR 0x0A \<notin> set p \<Longrightarrow> search_match p (a @ p @ b)"
  by (intro search_match_append search_match_prefix prefix_match_self)

text \<open>
  A request for the host of a name is the proxy's own; so is, because the patterns are not
  anchored, a request for any host whose name contains a name of the proxy.
\<close>

lemma isMyMessage_host:
  assumes "request msg = Some r" and "requestURI r = \<lparr>sipURI = Some u, absoluteURI = None\<rparr>"
    and "Host u \<in> set (names p)" and "CHR ''@'' \<notin> set (Host u)"
  shows "isMyMessage E p msg"
  using assms by (auto simp: isMyMessage_def GetRequestURI_def GetSIPURI_def AddrSpec_GetAbsoluteURI_def
      matchSIPURI_def intro!: bexI [of _ "Host u"])

lemma isMyMessage_contains:
  assumes "request msg = Some r" and "requestURI r = \<lparr>sipURI = Some u, absoluteURI = None\<rparr>"
    and "p = NewMyName E n" and "CHR '','' \<notin> set n" and "trimmed n" and "name_pattern n"
    and "CHR 0x0A \<notin> set n" and "Host u = a @ n @ b" and "ascii (User u)" "ascii (Host u)"
  shows "isMyMessage E p msg"
proof -
  have p: "patterns p = [n]"
    using assms(3-6) by (simp add: NewMyName_def Split_none TrimSpace_trimmed regexp_Compile_def Let_def)
  have "search_match n ((User u @ ''@'' @ a) @ n @ b)"
    by (rule search_match_sub [OF assms(7)])
  moreover have "ascii (User u @ ''@'' @ Host u)"
    using assms(9,10) by (simp add: ascii_def)
  ultimately have "pattern_MatchString E n (User u @ ''@'' @ Host u)"
    using assms(6,8) by (simp add: pattern_MatchString_def)
  then show ?thesis
    using assms(1,2) p by (simp add: isMyMessage_def GetRequestURI_def GetSIPURI_def
        AddrSpec_GetAbsoluteURI_def matchSIPURI_def)
qed

end
