(* ===== verification/HeaderFacts.thy ===== *)
theory HeaderFacts
  imports MessageOps
begin

text \<open>
  Facts on the header list and on the getters. The getters are instances of one locale: a
  typed header has a type whose selector recognises what its wrapper stores and never a
  string. From this follow, for all six of them, that a getter changes nothing but the value
  of its own header, that a second call returns the first call's value without changing
  the message, and that getters of different headers do not interfere.
\<close>

section \<open>Positions\<close>

lemma find_header_None: "find_header hs n = None \<longleftrightarrow> (\<forall>h \<in> set hs. \<not> isSameHeader (hdr_name h) n)"
  by (induction hs) auto

lemma find_header_Some:
  "find_header hs n = Some i \<Longrightarrow> i < length hs \<and> isSameHeader (hdr_name (hs ! i)) n"
  by (induction hs arbitrary: i) (auto split: if_splits)

lemma find_header_before:
  "find_header hs n = Some i \<Longrightarrow> find_header (take i hs) n = None"
  by (induction hs arbitrary: i) (auto split: if_splits)

lemma find_header_split:
  assumes "find_header hs n = Some i"
  obtains a h b where "hs = a @ h # b" "length a = i" "hs ! i = h"
    "isSameHeader (hdr_name h) n" "find_header a n = None"
proof
  show "hs = take i hs @ hs ! i # drop (Suc i) hs" and "length (take i hs) = i" and "hs ! i = hs ! i"
    using find_header_Some [OF assms] by (auto intro: id_take_nth_drop)
  show "isSameHeader (hdr_name (hs ! i)) n"
    using find_header_Some [OF assms] by simp
  show "find_header (take i hs) n = None"
    by (rule find_header_before [OF assms])
qed

lemma find_header_append:
  "find_header (a @ b) n =
     (case find_header a n of
        Some i \<Rightarrow> Some i
      | None \<Rightarrow> (case find_header b n of None \<Rightarrow> None | Some i \<Rightarrow> Some (length a + i)))"
  by (induction a) (auto split: option.splits)

lemma find_header_names: "map hdr_name hs = map hdr_name hs' \<Longrightarrow> find_header hs n = find_header hs' n"
proof (induction hs arbitrary: hs')
  case (Cons h hs)
  then show ?case by (cases hs') auto
qed simp

lemma find_header_same: "isSameHeader n k \<Longrightarrow> find_header hs n = find_header hs k"
  by (induction hs) (auto simp: isSameHeader_canonical)

lemma find_header_diff:
  "find_header hs n = Some i \<Longrightarrow> find_header hs k = Some i \<Longrightarrow> isSameHeader n k"
  using find_header_Some by (metis isSameHeader_canonical)

section \<open>Reading and writing a value\<close>

lemma set_value_frame [simp]:
  "request (set_value n v m) = request m" "response (set_value n v m) = response m"
  "body (set_value n v m) = body m" "ReceivedFrom (set_value n v m) = ReceivedFrom m"
  "map hdr_name (headers (set_value n v m)) = map hdr_name (headers m)"
  by (auto simp: set_value_def map_update list_update_id split: option.splits
      dest: find_header_Some) (metis list_update_id map_update find_header_Some nth_map)

lemma find_header_set_value [simp]:
  "find_header (headers (set_value n v m)) k = find_header (headers m) k"
  by (rule find_header_names) simp

lemma GetHeaderValue_eq:
  "GetHeaderValue m n = (case find_header (headers m) n of
     None \<Rightarrow> Inl (no_such_header n) | Some i \<Rightarrow> Inr (hdr_value (headers m ! i)))"
  by (simp add: GetHeaderValue_def GetHeader_def split: option.split)

lemma GetHeaderValue_set_same:
  "GetHeaderValue m n = Inr w \<Longrightarrow> GetHeaderValue (set_value n v m) n = Inr v"
  by (auto simp: GetHeaderValue_eq split: option.splits)
     (auto simp: set_value_def dest: find_header_Some)

lemma GetHeaderValue_set_other:
  "\<not> isSameHeader k n \<Longrightarrow> GetHeaderValue (set_value n v m) k = GetHeaderValue m k"
proof -
  assume d: "\<not> isSameHeader k n"
  have "hdr_value (headers (set_value n v m) ! i) = hdr_value (headers m ! i)"
    if "find_header (headers m) k = Some i" for i
  proof -
    have "find_header (headers m) n \<noteq> Some i"
      using that d find_header_diff by blast
    then show ?thesis by (auto simp: set_value_def split: option.split)
  qed
  then show ?thesis
    by (simp add: GetHeaderValue_eq split: option.split)
qed

lemma header_names_distinct [simp]:
  "\<not> isSameHeader ''Via'' ''From''" "\<not> isSameHeader ''Via'' ''To''" "\<not> isSameHeader ''Via'' ''CSeq''"
  "\<not> isSameHeader ''Via'' ''Route''" "\<not> isSameHeader ''Via'' ''Call-ID''"
  "\<not> isSameHeader ''From'' ''To''" "\<not> isSameHeader ''To'' ''From''" "\<not> isSameHeader ''From'' ''Via''"
  "\<not> isSameHeader ''To'' ''Via''" "\<not> isSameHeader ''CSeq'' ''Via''" "\<not> isSameHeader ''Route'' ''Via''"
  "\<not> isSameHeader ''Call-ID'' ''Via''" "\<not> isSameHeader ''Call-ID'' ''From''"
  "\<not> isSameHeader ''Call-ID'' ''To''" "\<not> isSameHeader ''To'' ''Route''"
  "\<not> isSameHeader ''Via'' ''Record-Route''" "\<not> isSameHeader ''Record-Route'' ''Via''"
  by (simp_all add: isSameHeader_table compactHdrNames_table compact_table_eval ToLower_def
      lower_char_def char_of_def bit_0)

section \<open>The typed getters\<close>

locale typed_header =
  fixes name :: string
    and sel :: "HeaderValue \<Rightarrow> 'a option"
    and parse :: "string \<Rightarrow> 'a result"
    and wrap :: "'a \<Rightarrow> HeaderValue"
    and bad_type :: string
  assumes sel_wrap: "sel (wrap x) = Some x"
    and sel_string: "sel (HString s) = None"
begin

lemma get_value: "fst (get_typed name sel parse wrap bad_type m) =
  rbind (GetHeaderValue m name) (\<lambda>v.
    case sel v of Some t \<Rightarrow> Inr t
    | None \<Rightarrow> (case v of HString s \<Rightarrow> parse s | _ \<Rightarrow> Inl (Errorf bad_type)))"
  by (auto simp: get_typed_def rbind_def split: sum.split option.split HeaderValue.split)

lemma get_state: "snd (get_typed name sel parse wrap bad_type m) = m \<or>
  (\<exists>s t. GetHeaderValue m name = Inr (HString s) \<and> parse s = Inr t \<and>
     snd (get_typed name sel parse wrap bad_type m) = set_value name (wrap t) m)"
  by (auto simp: get_typed_def split: sum.split option.split HeaderValue.split)

lemma get_frame:
  "request (snd (get_typed name sel parse wrap bad_type m)) = request m"
  "response (snd (get_typed name sel parse wrap bad_type m)) = response m"
  "body (snd (get_typed name sel parse wrap bad_type m)) = body m"
  "ReceivedFrom (snd (get_typed name sel parse wrap bad_type m)) = ReceivedFrom m"
  "map hdr_name (headers (snd (get_typed name sel parse wrap bad_type m))) = map hdr_name (headers m)"
  using get_state [of m] by auto

lemma get_other: "\<not> isSameHeader k name \<Longrightarrow>
  GetHeaderValue (snd (get_typed name sel parse wrap bad_type m)) k = GetHeaderValue m k"
  using get_state [of m] by (auto simp: GetHeaderValue_set_other)

lemma get_stored:
  "get_typed name sel parse wrap bad_type m = (Inr t, m') \<Longrightarrow>
   \<exists>v. GetHeaderValue m' name = Inr v \<and> sel v = Some t"
  by (auto simp: get_typed_def sel_wrap split: sum.splits option.splits HeaderValue.splits
      dest: GetHeaderValue_set_same)

lemma get_again:
  "get_typed name sel parse wrap bad_type m = (Inr t, m') \<Longrightarrow>
   get_typed name sel parse wrap bad_type m' = (Inr t, m')"
  by (drule get_stored) (auto simp: get_typed_def)

lemma get_split:
  assumes "get_typed name sel parse wrap bad_type m = (Inr t, m')"
  obtains a h0 h b where "headers m = a @ h0 # b" "headers m' = a @ h # b"
    "hdr_name h0 = hdr_name h" "isSameHeader (hdr_name h) name" "find_header a name = None"
    "sel (hdr_value h) = Some t"
    "h0 = h \<and> m' = m \<or>
     (\<exists>s. hdr_value h0 = HString s \<and> parse s = Inr t \<and> hdr_value h = wrap t)"
proof -
  from assms obtain v where v: "GetHeaderValue m name = Inr v"
    by (auto simp: get_typed_def split: sum.splits)
  then obtain i where i: "find_header (headers m) name = Some i" "hdr_value (headers m ! i) = v"
    by (auto simp: GetHeaderValue_eq split: option.splits)
  obtain a h0 b where s: "headers m = a @ h0 # b" "length a = i" "headers m ! i = h0"
      "isSameHeader (hdr_name h0) name" "find_header a name = None"
    using find_header_split [OF i(1)] .
  show thesis
  proof (cases "sel v")
    case (Some x)
    then have "m' = m" "t = x" using assms v by (auto simp: get_typed_def)
    with Some s i(2) show thesis by (intro that [of a h0 b h0]) auto
  next
    case None
    then obtain str where str: "v = HString str" "parse str = Inr t" "m' = set_value name (wrap t) m"
      using assms v by (auto simp: get_typed_def split: HeaderValue.splits sum.splits)
    have "headers m' = a @ h0\<lparr>hdr_value := wrap t\<rparr> # b"
      using i(1) s(1,2) str(3) by (auto simp: set_value_def)
    with s i(2) str show thesis
      by (intro that [of a h0 b "h0\<lparr>hdr_value := wrap t\<rparr>"]) (auto simp: sel_wrap)
  qed
qed

lemma get_error_state:
  "get_typed name sel parse wrap bad_type m = (Inl e, m') \<Longrightarrow> m' = m"
  by (auto simp: get_typed_def split: sum.splits option.splits HeaderValue.splits)

lemma fst_again:
  "fst (get_typed name sel parse wrap bad_type (snd (get_typed name sel parse wrap bad_type m))) =
   fst (get_typed name sel parse wrap bad_type m)"
proof (cases "get_typed name sel parse wrap bad_type m")
  case (Pair r m')
  show ?thesis
  proof (cases r)
    case (Inl e)
    with Pair have "m' = m" using get_error_state by blast
    with Pair show ?thesis by simp
  qed (use Pair get_again in simp)
qed

end

interpretation from_h: typed_header "''From''" sel_From ParseFromSpec HFrom
    "''type of the From header is not string or From''"
  by unfold_locales (simp_all add: sel_From_def)

interpretation to_h: typed_header "''To''" sel_To ParseTo HTo
    "''type of the To header is not string or To''"
  by unfold_locales (simp_all add: sel_To_def)

interpretation route_h: typed_header "''Route''" sel_Route ParseRoute HRoute
    "''type of Route header is not string or Route''"
  by unfold_locales (simp_all add: sel_Route_def)

interpretation via_h: typed_header "''Via''" sel_Via ParseVia HVia
    "''the header value type is not string or Via''"
  by unfold_locales (simp_all add: sel_Via_def)

interpretation cseq_h: typed_header "''CSeq''" sel_CSeq ParseCSeq HCSeq
    "''the header value type is not string or CSeq''"
  by unfold_locales (simp_all add: sel_CSeq_def)

interpretation record_route_h: typed_header "''Record-Route''" sel_RecordRoute ParseRecordRoute
    HRecordRoute "''the header value type is not string or Record-Route''"
  by unfold_locales (simp_all add: sel_RecordRoute_def)

lemmas getter_frame [simp] =
  from_h.get_frame [folded GetFrom_def] to_h.get_frame [folded GetTo_def]
  route_h.get_frame [folded GetRoute_def] via_h.get_frame [folded GetVia_def]
  cseq_h.get_frame [folded GetCSeq_def]

lemmas getter_other =
  from_h.get_other [folded GetFrom_def] to_h.get_other [folded GetTo_def]
  route_h.get_other [folded GetRoute_def] via_h.get_other [folded GetVia_def]
  cseq_h.get_other [folded GetCSeq_def]

lemmas getter_value =
  from_h.get_value [folded GetFrom_def] to_h.get_value [folded GetTo_def]
  route_h.get_value [folded GetRoute_def] via_h.get_value [folded GetVia_def]
  cseq_h.get_value [folded GetCSeq_def]

lemmas getter_again =
  from_h.get_again [folded GetFrom_def] to_h.get_again [folded GetTo_def]
  route_h.get_again [folded GetRoute_def] via_h.get_again [folded GetVia_def]
  cseq_h.get_again [folded GetCSeq_def]

lemmas getter_stored =
  from_h.get_stored [folded GetFrom_def] to_h.get_stored [folded GetTo_def]
  route_h.get_stored [folded GetRoute_def] via_h.get_stored [folded GetVia_def]
  cseq_h.get_stored [folded GetCSeq_def]

end
