(* ===== verification/HeaderStacks.thy ===== *)
theory HeaderStacks
  imports HeaderFacts
begin

text \<open>
  The Via headers of a message as one stack of via-params, the abstract view of which the
  operations \<open>AddVia\<close>, \<open>PopVia\<close>, \<open>SetReceived\<close>, \<open>GetVia\<close> and \<open>ForEachViaParam\<close> are
  implementations, and the Route headers as one stack of route-params.
\<close>

section \<open>The Via stack\<close>

definition header_vias :: "Header \<Rightarrow> ViaParam list" where
  "header_vias h =
     (if isSameHeader (hdr_name h) ''Via'' then
        (case hdr_value h of
           HVia v \<Rightarrow> via_list v
         | HString s \<Rightarrow> (case ParseVia s of Inr v \<Rightarrow> via_list v | Inl _ \<Rightarrow> [])
         | _ \<Rightarrow> [])
      else [])"

definition via_stack :: "Message \<Rightarrow> ViaParam list" where
  "via_stack m = concat (map header_vias (headers m))"

text \<open>No stored Via is empty: parsed ones are not, and neither is one that \<open>PopVia\<close> leaves.\<close>

definition vias_ok :: "Message \<Rightarrow> bool" where
  "vias_ok m \<longleftrightarrow> (\<forall>h \<in> set (headers m). hdr_value h \<noteq> HVia \<lparr>via_list = []\<rparr>)"

lemma header_vias_other: "\<not> isSameHeader (hdr_name h) ''Via'' \<Longrightarrow> header_vias h = []"
  by (simp add: header_vias_def)

lemma header_vias_none: "find_header hs ''Via'' = None \<Longrightarrow> concat (map header_vias hs) = []"
  by (auto simp: find_header_None header_vias_other)

lemma set_value_split:
  assumes "headers m = a @ h # b" and "isSameHeader (hdr_name h) n" and "find_header a n = None"
  shows "headers (set_value n v m) = a @ h\<lparr>hdr_value := v\<rparr> # b"
proof -
  have "find_header (headers m) n = Some (length a)"
    using assms by (simp add: find_header_append)
  with assms(1) show ?thesis by (simp add: set_value_def)
qed

lemma via_stack_set_value:
  assumes "\<not> isSameHeader n ''Via''"
  shows "via_stack (set_value n v m) = via_stack m"
proof (cases "find_header (headers m) n")
  case (Some i)
  obtain a h b where s: "headers m = a @ h # b" "length a = i" "headers m ! i = h"
      "isSameHeader (hdr_name h) n" "find_header a n = None"
    using find_header_split [OF Some] .
  have "\<not> isSameHeader (hdr_name h) ''Via''"
    using s(4) assms by (simp add: isSameHeader_canonical)
  moreover have "headers (set_value n v m) = a @ h\<lparr>hdr_value := v\<rparr> # b"
    using set_value_split [OF s(1,4,5)] .
  ultimately show ?thesis
    by (simp add: via_stack_def s(1) header_vias_other)
qed (simp add: set_value_def)

lemma via_split:
  assumes "GetHeaderValue m ''Via'' = Inr v"
  obtains a h b where "headers m = a @ h # b" "isSameHeader (hdr_name h) ''Via''"
    "find_header a ''Via'' = None" "hdr_value h = v"
    "find_header (headers m) ''Via'' = Some (length a)"
    "via_stack m = header_vias h @ concat (map header_vias b)"
proof -
  obtain i where i: "find_header (headers m) ''Via'' = Some i" "hdr_value (headers m ! i) = v"
    using assms by (auto simp: GetHeaderValue_eq split: option.splits)
  obtain a h b where s: "headers m = a @ h # b" "length a = i" "headers m ! i = h"
      "isSameHeader (hdr_name h) ''Via''" "find_header a ''Via'' = None"
    using find_header_split [OF i(1)] .
  show thesis
    using s i by (intro that [of a h b]) (auto simp: via_stack_def header_vias_none)
qed

lemma RemoveHeader_split:
  assumes "headers m = a @ h # b" and "isSameHeader (hdr_name h) n" and "find_header a n = None"
  shows "RemoveHeader n m = (Inr (hdr_value h), m\<lparr>headers := a @ b\<rparr>)"
proof -
  have "find_header (headers m) n = Some (length a)"
    using assms by (simp add: find_header_append)
  with assms(1) show ?thesis by (simp add: RemoveHeader_def)
qed

text \<open>What a successful \<open>GetVia\<close> returns and leaves behind.\<close>

lemma GetVia_split:
  assumes "GetVia m = (Inr v, m')"
  obtains a h b where "headers m' = a @ h # b" "isSameHeader (hdr_name h) ''Via''"
    "find_header a ''Via'' = None" "hdr_value h = HVia v"
    "via_stack m' = via_list v @ concat (map header_vias b)" "via_stack m' = via_stack m"
    "length (headers m') = length (headers m)"
proof -
  from assms obtain w where w: "GetHeaderValue m ''Via'' = Inr w"
    by (auto simp: GetVia_def get_typed_def split: sum.splits)
  obtain a h b where s: "headers m = a @ h # b" "isSameHeader (hdr_name h) ''Via''"
      "find_header a ''Via'' = None" "hdr_value h = w"
      "find_header (headers m) ''Via'' = Some (length a)"
      "via_stack m = header_vias h @ concat (map header_vias b)"
    using via_split [OF w] .
  show thesis
  proof (cases "sel_Via w")
    case (Some x)
    then have "m' = m" "v = x" "hdr_value h = HVia v"
      using assms w s(4) by (auto simp: GetVia_def get_typed_def sel_Via_def split: HeaderValue.splits)
    then show thesis
      using s by (intro that [of a h b]) (auto simp: header_vias_def)
  next
    case None
    then obtain str where str: "w = HString str" "ParseVia str = Inr v" "m' = set_value ''Via'' (HVia v) m"
      using assms w by (auto simp: GetVia_def get_typed_def split: HeaderValue.splits sum.splits)
    let ?h = "h\<lparr>hdr_value := HVia v\<rparr>"
    have hs: "headers m' = a @ ?h # b"
      using set_value_split [OF s(1-3)] str(3) by simp
    have "header_vias h = via_list v" "header_vias ?h = via_list v"
      using s(2,4) str by (auto simp: header_vias_def)
    then show thesis
      using s hs by (intro that [of a ?h b]) (auto simp: via_stack_def header_vias_none)
  qed
qed

lemma GetVia_vias_ok: "vias_ok m \<Longrightarrow> GetVia m = (Inr v, m') \<Longrightarrow> via_list v \<noteq> [] \<and> vias_ok m'"
proof -
  assume ok: "vias_ok m" and g: "GetVia m = (Inr v, m')"
  obtain w where w: "GetHeaderValue m ''Via'' = Inr w"
    using g by (auto simp: GetVia_def get_typed_def split: sum.splits)
  obtain a h b where s: "headers m = a @ h # b" "isSameHeader (hdr_name h) ''Via''"
      "find_header a ''Via'' = None" "hdr_value h = w"
    using via_split [OF w] by metis
  have "w = HVia v \<and> m' = m \<or> (\<exists>str. w = HString str \<and> ParseVia str = Inr v \<and> m' = set_value ''Via'' (HVia v) m)"
    using g w by (auto simp: GetVia_def get_typed_def sel_Via_def split: HeaderValue.splits sum.splits)
  then show ?thesis
  proof
    assume "w = HVia v \<and> m' = m"
    then show ?thesis using ok s by (cases v) (auto simp: vias_ok_def)
  next
    assume "\<exists>str. w = HString str \<and> ParseVia str = Inr v \<and> m' = set_value ''Via'' (HVia v) m"
    then obtain str where str: "ParseVia str = Inr v" "m' = set_value ''Via'' (HVia v) m" by blast
    have "via_list v \<noteq> []" using str(1) by (rule ParseVia_nonempty)
    moreover have "headers m' = a @ h\<lparr>hdr_value := HVia v\<rparr> # b"
      using set_value_split [OF s(1-3)] str(2) by simp
    ultimately show ?thesis using ok s(1) by (cases v) (auto simp: vias_ok_def)
  qed
qed

section \<open>The operations on the Via stack\<close>

lemma AddVia_stack: "via_stack (AddVia m v) = via_list v @ via_stack m"
proof (cases "find_header (headers m) ''Via''")
  case None
  then show ?thesis
    by (simp add: AddVia_def findViaInsertPos_def insert_header_def via_stack_def header_vias_def)
next
  case (Some i)
  obtain a h b where s: "headers m = a @ h # b" "length a = i" "headers m ! i = h"
      "isSameHeader (hdr_name h) ''Via''" "find_header a ''Via'' = None"
    using find_header_split [OF Some] .
  have "findViaInsertPos m = length a"
    using s(2) by (simp add: findViaInsertPos_def Some)
  then have "headers (AddVia m v) = a @ \<lparr>hdr_name = ''Via'', hdr_value = HVia v\<rparr> # h # b"
    by (simp add: AddVia_def insert_header_def s(1))
  then show ?thesis
    using s(5) by (simp add: via_stack_def s(1) header_vias_none)
      (simp add: header_vias_def isSameHeader_refl)
qed

lemma PopVia_stack:
  assumes ok: "vias_ok m" and pop: "PopVia m = (Inr v, m')"
  shows "\<exists>p. via_list v = [p] \<and> via_stack m = p # via_stack m' \<and> vias_ok m'"
proof -
  obtain w m1 where g: "GetVia m = (Inr w, m1)"
    using pop by (auto simp: PopVia_def sbind_def split: prod.splits sum.splits)
  note w = GetVia_vias_ok [OF ok g]
  then obtain p ps where ps: "via_list w = p # ps" by (cases "via_list w") auto
  obtain a h b where s: "headers m1 = a @ h # b" "isSameHeader (hdr_name h) ''Via''"
      "find_header a ''Via'' = None" "hdr_value h = HVia w"
      "via_stack m1 = via_list w @ concat (map header_vias b)" "via_stack m1 = via_stack m"
    using GetVia_split [OF g] by metis
  show ?thesis
  proof (cases "ps = []")
    case True
    then have "m' = m1\<lparr>headers := a @ b\<rparr>" "v = w"
      using pop ps RemoveHeader_split [OF s(1-3)]
      by (auto simp: PopVia_def sbind_def g Via_Size_def)
    then show ?thesis
      using s w ps True by (auto simp: via_stack_def header_vias_none vias_ok_def)
  next
    case False
    let ?w = "w\<lparr>via_list := ps\<rparr>"
    have v: "v = \<lparr>via_list = [p]\<rparr>" "m' = set_value ''Via'' (HVia ?w) m1"
      using pop ps False
      by (auto simp: PopVia_def sbind_def g Via_Size_def PopViaParam_def AddViaParam_def NewVia_def)
    have hs: "headers m' = a @ h\<lparr>hdr_value := HVia ?w\<rparr> # b"
      using set_value_split [OF s(1-3)] v(2) by simp
    have "vias_ok m'" using w False hs s(1) by (cases w) (auto simp: vias_ok_def)
    moreover have "via_stack m' = ps @ concat (map header_vias b)"
      using hs s(2,3) by (simp add: via_stack_def header_vias_none) (simp add: header_vias_def)
    ultimately show ?thesis using v(1) s(5,6) ps by simp
  qed
qed

lemma PopVia_succeeds: "GetVia m = (Inr v, m1) \<Longrightarrow> \<exists>w m'. PopVia m = (Inr w, m')"
proof -
  assume g: "GetVia m = (Inr v, m1)"
  obtain a h b where s: "headers m1 = a @ h # b" "isSameHeader (hdr_name h) ''Via''"
      "find_header a ''Via'' = None"
    using GetVia_split [OF g] by metis
  show ?thesis
    using RemoveHeader_split [OF s] by (auto simp: PopVia_def sbind_def g Via_Size_def PopViaParam_def
        split: list.split)
qed

lemma find_header_insert_via:
  "find_header (headers (AddVia m v)) ''Via'' = Some (findViaInsertPos m)"
proof (cases "find_header (headers m) ''Via''")
  case (Some i)
  obtain a h b where "headers m = a @ h # b" "length a = i" "headers m ! i = h"
      "isSameHeader (hdr_name h) ''Via''" "find_header a ''Via'' = None"
    using find_header_split [OF Some] .
  then show ?thesis
    by (simp add: AddVia_def findViaInsertPos_def insert_header_def Some find_header_append)
qed (simp add: AddVia_def findViaInsertPos_def insert_header_def)

text \<open>Popping right after adding returns the Via that was added and the message as it was.\<close>

lemma PopVia_AddVia:
  assumes "length (via_list v) \<le> 1"
  shows "PopVia (AddVia m v) = (Inr v, m)"
proof -
  let ?m = "AddVia m v"
  let ?i = "findViaInsertPos m"
  have le: "?i \<le> length (headers m)"
    using find_header_Some by (fastforce simp: findViaInsertPos_def split: option.splits)
  have f: "find_header (headers ?m) ''Via'' = Some ?i" by (rule find_header_insert_via)
  have nth: "headers ?m ! ?i = \<lparr>hdr_name = ''Via'', hdr_value = HVia v\<rparr>"
    using le by (simp add: AddVia_def insert_header_def nth_append)
  have g: "GetVia ?m = (Inr v, ?m)"
    by (simp add: GetVia_def get_typed_def GetHeaderValue_eq f nth sel_Via_def)
  have "RemoveHeader ''Via'' ?m = (Inr (HVia v), m)"
    using le by (simp add: RemoveHeader_def f nth) (simp add: AddVia_def insert_header_def)
  with assms show ?thesis
    by (simp add: PopVia_def sbind_def g Via_Size_def)
qed

text \<open>\<open>ForEachViaParam\<close> visits the whole stack, top first, and leaves it as it is.\<close>

lemma for_each_via_stack:
  "for_each_via hs = (vs, hs') \<Longrightarrow>
   concat (map via_list vs) = concat (map header_vias hs) \<and>
   map header_vias hs' = map header_vias hs \<and> map hdr_name hs' = map hdr_name hs"
proof (induction hs arbitrary: vs hs')
  case (Cons h hs)
  obtain vs1 hs1 where 1: "for_each_via hs = (vs1, hs1)" by fastforce
  from Cons.IH [OF 1] Cons.prems 1 show ?case
    by (auto simp: header_vias_def split: if_splits HeaderValue.splits sum.splits)
qed simp

lemma ForEachViaParam_stack:
  "ForEachViaParam m = (ps, m') \<Longrightarrow> ps = via_stack m \<and> via_stack m' = via_stack m"
  using for_each_via_stack [of "headers m"]
  by (auto simp: ForEachViaParam_def ForEachVia_def via_stack_def split: prod.splits)

lemma SetReceived_stack:
  assumes ok: "vias_ok m" and r: "SetReceived a n m = (Inr (), m')"
  shows "\<exists>p p' rest. via_stack m = p # rest \<and> via_stack m' = p' # rest \<and> vias_ok m' \<and>
    p' = (let p1 = ViaParam_SetReceived p a in
          if ViaParam_HasParam p1 ''rport'' then ViaParam_SetParam p1 ''rport'' (Itoa n) else p1)"
proof -
  obtain w m1 where g: "GetVia m = (Inr w, m1)"
    using r by (auto simp: SetReceived_def sbind_def split: prod.splits sum.splits)
  note w = GetVia_vias_ok [OF ok g]
  then obtain p ps where ps: "via_list w = p # ps" by (cases "via_list w") auto
  obtain x h b where s: "headers m1 = x @ h # b" "isSameHeader (hdr_name h) ''Via''"
      "find_header x ''Via'' = None" "hdr_value h = HVia w"
      "via_stack m1 = via_list w @ concat (map header_vias b)" "via_stack m1 = via_stack m"
    using GetVia_split [OF g] by metis
  define p' where "p' = (let p1 = ViaParam_SetReceived p a in
      if ViaParam_HasParam p1 ''rport'' then ViaParam_SetParam p1 ''rport'' (Itoa n) else p1)"
  have m': "m' = set_value ''Via'' (HVia (w\<lparr>via_list := p' # ps\<rparr>)) m1"
    using r ps by (auto simp: SetReceived_def sbind_def g Via_GetParam_def p'_def Let_def)
  have hs: "headers m' = x @ h\<lparr>hdr_value := HVia (w\<lparr>via_list := p' # ps\<rparr>)\<rparr> # b"
    using set_value_split [OF s(1-3)] m' by simp
  have "via_stack m' = p' # ps @ concat (map header_vias b)"
    using hs s(2,3) by (simp add: via_stack_def header_vias_none) (simp add: header_vias_def)
  moreover have "vias_ok m'"
    using w hs s(1) by (cases w) (auto simp: vias_ok_def)
  ultimately show ?thesis
    using s(5,6) ps unfolding p'_def by auto
qed

section \<open>The Route stack\<close>

definition header_routes :: "Header \<Rightarrow> RouteParam list" where
  "header_routes h =
     (if isSameHeader (hdr_name h) ''Route'' then
        (case hdr_value h of
           HRoute r \<Rightarrow> routeParams r
         | HString s \<Rightarrow> (case ParseRoute s of Inr r \<Rightarrow> routeParams r | Inl _ \<Rightarrow> [])
         | _ \<Rightarrow> [])
      else [])"

definition route_stack :: "Message \<Rightarrow> RouteParam list" where
  "route_stack m = concat (map header_routes (headers m))"

definition routes_ok :: "Message \<Rightarrow> bool" where
  "routes_ok m \<longleftrightarrow> (\<forall>h \<in> set (headers m). hdr_value h \<noteq> HRoute \<lparr>routeParams = []\<rparr>)"

lemma header_routes_none:
  "find_header hs ''Route'' = None \<Longrightarrow> concat (map header_routes hs) = []"
  by (auto simp: find_header_None header_routes_def)

lemma GetRoute_stack:
  assumes ok: "routes_ok m" and g: "GetRoute m = (Inr r, m')"
  obtains a h b where "headers m' = a @ h # b" "isSameHeader (hdr_name h) ''Route''"
    "find_header a ''Route'' = None" "hdr_value h = HRoute r" "routeParams r \<noteq> []" "routes_ok m'"
    "route_stack m' = routeParams r @ concat (map header_routes b)" "route_stack m' = route_stack m"
proof -
  obtain a h0 h b where s: "headers m = a @ h0 # b" "headers m' = a @ h # b"
      "hdr_name h0 = hdr_name h" "isSameHeader (hdr_name h) ''Route''" "find_header a ''Route'' = None"
      "sel_Route (hdr_value h) = Some r"
      "h0 = h \<and> m' = m \<or>
       (\<exists>s. hdr_value h0 = HString s \<and> ParseRoute s = Inr r \<and> hdr_value h = HRoute r)"
    using route_h.get_split [OF g [unfolded GetRoute_def]] .
  have h: "hdr_value h = HRoute r"
    using s(6) by (auto simp: sel_Route_def split: HeaderValue.splits)
  have ne: "routeParams r \<noteq> []"
    using s(7) ok s(1) h by (cases r) (auto simp: routes_ok_def dest: ParseRoute_nonempty)
  then have "routes_ok m'"
    using ok s(1,2) h by (auto simp: routes_ok_def)
  moreover have "header_routes h0 = routeParams r" "header_routes h = routeParams r"
    using s(3,4,7) h by (auto simp: header_routes_def)
  ultimately show thesis
    using s h ne by (intro that [of a h b]) (auto simp: route_stack_def header_routes_none)
qed

lemma PopRoute_stack:
  assumes ok: "routes_ok m" and g: "GetRoute m = (Inr r, m1)"
  shows "\<exists>m'. PopRoute m = (Inr (), m') \<and> routes_ok m' \<and> route_stack m \<noteq> [] \<and>
    route_stack m' = tl (route_stack m) \<and> hd (route_stack m) = hd (routeParams r)"
proof -
  obtain a h b where s: "headers m1 = a @ h # b" "isSameHeader (hdr_name h) ''Route''"
      "find_header a ''Route'' = None" "hdr_value h = HRoute r" "routeParams r \<noteq> []" "routes_ok m1"
      "route_stack m1 = routeParams r @ concat (map header_routes b)"
      "route_stack m1 = route_stack m"
    using GetRoute_stack [OF ok g] .
  obtain p ps where ps: "routeParams r = p # ps" using s(5) by (cases "routeParams r") auto
  show ?thesis
  proof (cases "ps = []")
    case True
    have "PopRoute m = (Inr (), m1\<lparr>headers := a @ b\<rparr>)"
      using RemoveHeader_split [OF s(1-3)] ps True
      by (simp add: PopRoute_def sbind_def g GetRouteParamCount_def)
    moreover have "routes_ok (m1\<lparr>headers := a @ b\<rparr>)" "route_stack (m1\<lparr>headers := a @ b\<rparr>) = concat (map header_routes b)"
      using s(1,3,6) by (auto simp: route_stack_def header_routes_none routes_ok_def)
    ultimately show ?thesis using s(7,8) ps True by simp
  next
    case False
    let ?r = "r\<lparr>routeParams := ps\<rparr>"
    have e: "PopRoute m = (Inr (), set_value ''Route'' (HRoute ?r) m1)"
      using ps False by (simp add: PopRoute_def sbind_def g GetRouteParamCount_def PopRouteParam_def)
    have hs: "headers (set_value ''Route'' (HRoute ?r) m1) = a @ h\<lparr>hdr_value := HRoute ?r\<rparr> # b"
      by (rule set_value_split [OF s(1-3)])
    have "routes_ok (set_value ''Route'' (HRoute ?r) m1)"
      using s(1,6) False hs by (cases r) (auto simp: routes_ok_def)
    moreover have "route_stack (set_value ''Route'' (HRoute ?r) m1) = ps @ concat (map header_routes b)"
      using hs s(2,3) by (simp add: route_stack_def header_routes_none) (simp add: header_routes_def)
    ultimately show ?thesis using e s(7,8) ps by simp
  qed
qed

end
