(* ===== verification/SessionIds.thy ===== *)
theory SessionIds
  imports HeaderStacks
begin

text \<open>
  The identifiers of sessions, dialogs and transactions that \<open>message.go\<close> computes, as functions
  of the values of the headers they are made of: the getters cache what they parse and do not
  interfere, so an identifier depends on the header values only.
\<close>

section \<open>The parts of an identifier\<close>

text \<open>The address strings of the From and To headers.\<close>

definition from_part :: "Message \<Rightarrow> (FromSpec \<times> string) result" where
  "from_part m = rbind (fst (GetFrom m)) (\<lambda>f.
     rbind (FromSpec_GetAddrSpec f) (\<lambda>a. rbind (getDialogAddr a) (\<lambda>s. Inr (f, s))))"

definition to_part :: "Message \<Rightarrow> (To \<times> string) result" where
  "to_part m = rbind (fst (GetTo m)) (\<lambda>t.
     rbind (To_GetAddrSpec t) (\<lambda>a. rbind (getDialogAddr a) (\<lambda>s. Inr (t, s))))"

lemma GetTo_after_From: "fst (GetTo (snd (GetFrom m))) = fst (GetTo m)"
  by (simp add: getter_value getter_other)

lemma from_partD:
  "from_part m = Inr (f, s) \<Longrightarrow> \<exists>m' a. GetFrom m = (Inr f, m') \<and> FromSpec_GetAddrSpec f = Inr a \<and>
     getDialogAddr a = Inr s"
  by (cases "GetFrom m") (auto simp: from_part_def rbind_eq_Inr)

lemma to_partD:
  "to_part m = Inr (t, s) \<Longrightarrow> \<exists>m' a. GetTo m = (Inr t, m') \<and> To_GetAddrSpec t = Inr a \<and>
     getDialogAddr a = Inr s"
  by (cases "GetTo m") (auto simp: to_part_def rbind_eq_Inr)

definition ordered_dialog :: "string \<Rightarrow> string \<Rightarrow> string \<Rightarrow> string" where
  "ordered_dialog callId a b =
     (if a < b then Dialog_String (NewDialog callId a b) else Dialog_String (NewDialog callId b a))"

lemma ordered_dialog_commute: "ordered_dialog c a b = ordered_dialog c b a"
  by (auto simp: ordered_dialog_def)

lemma GetSessionId_parts:
  assumes "GetCallID m = Inr c" and "from_part m = Inr (f, a)" and "to_part m = Inr (t, b)"
  shows "fst (GetSessionId m) = Inr (ordered_dialog c a b)"
proof -
  obtain m1 x where f: "GetFrom m = (Inr f, m1)" "FromSpec_GetAddrSpec f = Inr x" "getDialogAddr x = Inr a"
    using from_partD [OF assms(2)] by blast
  obtain m2 y where t: "GetTo m = (Inr t, m2)" "To_GetAddrSpec t = Inr y" "getDialogAddr y = Inr b"
    using to_partD [OF assms(3)] by blast
  have "fst (GetTo m1) = Inr t"
    using GetTo_after_From [of m] f(1) t(1) by simp
  then obtain m3 where "GetTo m1 = (Inr t, m3)"
    by (cases "GetTo m1") auto
  then show ?thesis
    using assms(1) f t by (simp add: GetSessionId_def sbind_def ordered_dialog_def)
qed

lemma GetDialog_parts:
  assumes "GetCallID m = Inr c" and "from_part m = Inr (f, a)" and "to_part m = Inr (t, b)"
  shows "fst (GetDialog m) = Inr
    (let x = value_or [] (FromSpec_GetTag f) @ ''-'' @ a; y = value_or [] (To_GetTag t) @ ''-'' @ b in
     if a < b then Dialog_String (NewDialog c x y) else Dialog_String (NewDialog c y x))"
proof -
  obtain m1 x where f: "GetFrom m = (Inr f, m1)" "FromSpec_GetAddrSpec f = Inr x" "getDialogAddr x = Inr a"
    using from_partD [OF assms(2)] by blast
  obtain m2 y where t: "GetTo m = (Inr t, m2)" "To_GetAddrSpec t = Inr y" "getDialogAddr y = Inr b"
    using to_partD [OF assms(3)] by blast
  have "fst (GetTo m1) = Inr t"
    using GetTo_after_From [of m] f(1) t(1) by simp
  then obtain m3 where "GetTo m1 = (Inr t, m3)"
    by (cases "GetTo m1") auto
  then show ?thesis
    using assms(1) f t by (simp add: GetDialog_def sbind_def Let_def)
qed

end
