(* ===== verification/MessageCodec.thy ===== *)
theory MessageCodec
  imports SessionIds
begin

text \<open>
  Writing and reading messages (\<open>Write\<close> and \<open>ParseMessage\<close> of \<open>message.go\<close>). A reader is the
  list of the bytes it has still to deliver; a read that fails has consumed what it looked at.
\<close>

section \<open>Writing\<close>

text \<open>The \<open>%v\<close> of a header value calls its \<open>String\<close> method.\<close>

fun HeaderValue_String :: "HeaderValue \<Rightarrow> string" where
  "HeaderValue_String (HString s) = s"
| "HeaderValue_String (HVia v) = Via_String v"
| "HeaderValue_String (HFrom f) = FromSpec_String f"
| "HeaderValue_String (HTo t) = To_String t"
| "HeaderValue_String (HRoute r) = Route_String r"
| "HeaderValue_String (HRecordRoute r) = RecordRoute_String r"
| "HeaderValue_String (HCSeq c) = CSeq_String c"

definition CRLF :: string where
  "CRLF = [CHR 0x0D, CHR 0x0A]"

definition encodeFirstLine :: "Message \<Rightarrow> string" where
  "encodeFirstLine m =
     (case request m of
        Some r \<Rightarrow> req_method r @ '' '' @ AddrSpec_String (requestURI r) @ '' '' @ req_version r @ CRLF
      | None \<Rightarrow>
          (case response m of
             Some st \<Rightarrow> st_version st @ '' '' @ Itoa (statusCode st) @ '' '' @ reason st @ CRLF
           | None \<Rightarrow> []))"

definition encodeHeader :: "Message \<Rightarrow> string" where
  "encodeHeader m =
     concat (map (\<lambda>header.
       if hdr_name header = ''Content-Length'' then []
       else hdr_name header @ '': '' @ HeaderValue_String (hdr_value header) @ CRLF) (headers m))"

definition Message_Write :: "Message \<Rightarrow> string" where
  "Message_Write m =
     encodeFirstLine m @ encodeHeader m @
     ''Content-Length: '' @ Itoa (int (length (body m))) @ CRLF @ CRLF @ body m"

definition Message_Bytes :: "Message \<Rightarrow> string result" where
  "Message_Bytes m = Inr (Message_Write m)"

definition Message_String :: "Message \<Rightarrow> string" where
  "Message_String m = Message_Write m"

section \<open>Reading\<close>

definition readLine :: "(string, string) call" where
  "readLine reader =
     (case IndexByte reader (CHR 0x0A) of
        None \<Rightarrow> (Inl EOF, [])
      | Some i \<Rightarrow>
          let line = take (i + 1) reader;
              n = length line
          in (Inr (if n > 1 \<and> line ! (n - 2) = CHR 0x0D then take (n - 2) line else take (n - 1) line),
              drop (i + 1) reader))"

definition isWhiteSpace :: "char \<Rightarrow> bool" where
  "isWhiteSpace b \<longleftrightarrow>
     b = CHR 0x09 \<or> b = CHR 0x0A \<or> b = CHR 0x0B \<or> b = CHR 0x0C \<or> b = CHR 0x0D \<or> b = CHR 0x20"

fun skipWhiteSpace :: "(string, unit) call" where
  "skipWhiteSpace [] = (Inl EOF, [])"
| "skipWhiteSpace (b # reader) = (if isWhiteSpace b then skipWhiteSpace reader else (Inr (), b # reader))"

definition isRequestLine :: "string \<Rightarrow> bool" where
  "isRequestLine line \<longleftrightarrow> \<not> HasPrefix line ''SIP/''"

definition parseRequestLine :: "string \<Rightarrow> RequestLine result" where
  "parseRequestLine line =
     (let fields = Fields line in
      if length fields = 3 then
        rbind (ParseAddrSpec (fields ! 1)) (\<lambda>u.
          Inr \<lparr>req_method = fields ! 0, requestURI = u, req_version = fields ! 2\<rparr>)
      else Inl (Errorf (''not a valid sip request line:'' @ line)))"

definition parseStatusLine :: "string \<Rightarrow> StatusLine result" where
  "parseStatusLine line =
     (let fields = Fields line in
      if length fields \<ge> 3 then
        rbind (Atoi_checked (fields ! 1)) (\<lambda>code.
          Inr \<lparr>st_version = fields ! 0, statusCode = code, reason = Join (drop 2 fields) '' ''\<rparr>)
      else Inl (Errorf ''not a valid sip response''))"

text \<open>The two branches of the body of the loop, for the first line and for the others.\<close>

definition parse_first_line :: "string \<Rightarrow> Message \<Rightarrow> Message result" where
  "parse_first_line line msg =
     (if isRequestLine line
      then rbind (parseRequestLine line) (\<lambda>r. Inr (msg\<lparr>request := Some r\<rparr>))
      else rbind (parseStatusLine line) (\<lambda>st. Inr (msg\<lparr>response := Some st\<rparr>)))"

definition parse_header_line :: "string \<Rightarrow> Message \<Rightarrow> Message result" where
  "parse_header_line line msg =
     (case IndexByte line (CHR '':'') of
        None \<Rightarrow> Inl (Errorf (''not a valid sip header line:'' @ line))
      | Some pos \<Rightarrow> Inr (AddHeader msg (before pos line) (TrimSpace (after pos line))))"

lemma readLine_shorter: "readLine s = (Inr l, s') \<Longrightarrow> length s' < length s"
  by (auto simp: readLine_def Let_def split: option.splits elim!: IndexByte_SomeE)

function parse_lines :: "bool \<Rightarrow> Message \<Rightarrow> (string, Message) call" where
  "parse_lines firstLine msg reader =
     (case readLine reader of
        (Inl e, reader') \<Rightarrow> (Inl e, reader')
      | (Inr line, reader') \<Rightarrow>
          if line = [] then (Inr msg, reader')
          else
            (case (if firstLine then parse_first_line line msg else parse_header_line line msg) of
               Inl e \<Rightarrow> (Inl e, reader')
             | Inr msg' \<Rightarrow> parse_lines False msg' reader'))"
  by pat_completeness auto

termination
  by (relation "measure (\<lambda>(_, _, s). length s)") (auto dest: readLine_shorter [OF sym])

declare parse_lines.simps [simp del]

text \<open>The longest slice that \<open>make\<close> can allocate on a 64-bit platform.\<close>

definition maxAlloc :: int where
  "maxAlloc = 2 ^ 48"

definition ReadFull :: "nat \<Rightarrow> (string, string) call" where
  "ReadFull n reader =
     (if n \<le> length reader then (Inr (take n reader), drop n reader)
      else if reader = [] then (Inl EOF, []) else (Inl UnexpectedEOF, []))"

definition ParseMessage :: "(string, Message) call" where
  "ParseMessage reader =
     (let (_, reader1) = skipWhiteSpace reader in
      (case parse_lines True NewMessage reader1 of
         (Inl e, reader2) \<Rightarrow> (Inl e, reader2)
       | (Inr msg, reader2) \<Rightarrow>
           (case GetHeaderInt msg ''Content-Length'' of
              Inl e \<Rightarrow> (Inl e, reader2)
            | Inr contentLength \<Rightarrow>
                if contentLength < 0 then
                  (Inl (Errorf ''invalid negative Content-Length field''), reader2)
                else if contentLength > maxAlloc then
                  (Inl (Panic ''makeslice: len out of range''), reader2)
                else
                  (case ReadFull (nat contentLength) reader2 of
                     (Inl e, reader3) \<Rightarrow> (Inl e, reader3)
                   | (Inr b, reader3) \<Rightarrow> (Inr (msg\<lparr>body := b\<rparr>), reader3)))))"

lemmas codec_eval [go_eval] =
  CRLF_def encodeFirstLine_def encodeHeader_def Message_Write_def readLine_def isWhiteSpace_def
  isRequestLine_def parseRequestLine_def parseStatusLine_def parse_first_line_def
  parse_header_line_def parse_lines.simps maxAlloc_def ReadFull_def ParseMessage_def

section \<open>Reading back what was written\<close>

text \<open>
  \<open>wire m\<close> is the message that a peer reads from what \<open>Write\<close> sends for \<open>m\<close>: the header values
  are strings, the headers written as Content-Length are replaced by one at the end, and
  the transport is not known.
\<close>

definition wire_header :: "Header \<Rightarrow> Header" where
  "wire_header h = h\<lparr>hdr_value := HString (HeaderValue_String (hdr_value h))\<rparr>"

definition wire_headers :: "Message \<Rightarrow> Header list" where
  "wire_headers m = map wire_header (filter (\<lambda>h. hdr_name h \<noteq> ''Content-Length'') (headers m))"

definition wire :: "Message \<Rightarrow> Message" where
  "wire m =
     \<lparr>request = request m,
      response = (if request m = None then response m else None),
      headers = wire_headers m @
        [\<lparr>hdr_name = ''Content-Length'', hdr_value = HString (Itoa (int (length (body m))))\<rparr>],
      body = body m,
      ReceivedFrom = None\<rparr>"

definition request_ok :: "RequestLine \<Rightarrow> bool" where
  "request_ok r \<longleftrightarrow> req_method r \<noteq> [] \<and> no_space (req_method r) \<and> \<not> HasPrefix (req_method r) ''SIP/'' \<and>
     addr_ok (requestURI r) \<and> AddrSpec_String (requestURI r) \<noteq> [] \<and> no_space (AddrSpec_String (requestURI r)) \<and>
     req_version r \<noteq> [] \<and> no_space (req_version r)"

definition status_ok :: "StatusLine \<Rightarrow> bool" where
  "status_ok st \<longleftrightarrow> HasPrefix (st_version st) ''SIP/'' \<and> no_space (st_version st) \<and> go_int (statusCode st) \<and>
     reason st \<noteq> [] \<and> reason st = Join (Fields (reason st)) '' '' \<and> CHR 0x0A \<notin> set (reason st)"

definition header_ok :: "Header \<Rightarrow> bool" where
  "header_ok h \<longleftrightarrow> CHR '':'' \<notin> set (hdr_name h) \<and> CHR 0x0A \<notin> set (hdr_name h) \<and>
     (hdr_name h = ''Content-Length'' \<or> \<not> isSameHeader (hdr_name h) ''Content-Length'') \<and>
     trimmed (HeaderValue_String (hdr_value h)) \<and> CHR 0x0A \<notin> set (HeaderValue_String (hdr_value h))"

definition message_ok :: "Message \<Rightarrow> bool" where
  "message_ok m \<longleftrightarrow>
     (case request m of
        Some r \<Rightarrow> request_ok r
      | None \<Rightarrow> (case response m of Some st \<Rightarrow> status_ok st | None \<Rightarrow> False)) \<and>
     (\<forall>h \<in> set (headers m). header_ok h) \<and> int (length (body m)) \<le> maxAlloc"

lemma readLine_CRLF:
  assumes "CHR 0x0A \<notin> set l"
  shows "readLine (l @ CRLF @ rest) = (Inr l, rest)"
proof -
  have "IndexByte ((l @ [CHR 0x0D]) @ CHR 0x0A # rest) (CHR 0x0A) = Some (length (l @ [CHR 0x0D]))"
    using assms by (intro IndexByte_append) simp
  then show ?thesis
    by (simp add: readLine_def Let_def nth_append CRLF_def)
qed

lemma parse_lines_step:
  assumes "CHR 0x0A \<notin> set l" and "l \<noteq> []"
  shows "parse_lines first msg (l @ CRLF @ rest) =
    (case (if first then parse_first_line l msg else parse_header_line l msg) of
       Inl e \<Rightarrow> (Inl e, rest) | Inr msg' \<Rightarrow> parse_lines False msg' rest)"
  using assms by (subst parse_lines.simps) (simp add: readLine_CRLF)

lemma parse_lines_end: "parse_lines first msg (CRLF @ rest) = (Inr msg, rest)"
  using readLine_CRLF [of "[]" rest] by (subst parse_lines.simps) simp

lemma TrimSpace_blank: "trimmed v \<Longrightarrow> TrimSpace (CHR '' '' # v) = v"
  using TrimSpace_trimmed [of v] by (simp add: TrimSpace_def)

lemma parse_header_line_print:
  "CHR '':'' \<notin> set n \<Longrightarrow> trimmed v \<Longrightarrow> parse_header_line (n @ '': '' @ v) msg = Inr (AddHeader msg n v)"
  using after_append [of n "CHR '':''" "CHR '' '' # v"]
  by (simp add: parse_header_line_def TrimSpace_blank)

lemma parse_headers_print:
  assumes "\<And>h. h \<in> set hs \<Longrightarrow> header_ok h"
  shows "parse_lines False msg
      (concat (map (\<lambda>h. if hdr_name h = ''Content-Length'' then []
         else hdr_name h @ '': '' @ HeaderValue_String (hdr_value h) @ CRLF) hs) @ rest) =
    parse_lines False (msg\<lparr>headers := headers msg @
      map wire_header (filter (\<lambda>h. hdr_name h \<noteq> ''Content-Length'') hs)\<rparr>) rest"
  using assms
proof (induction hs arbitrary: msg)
  case (Cons h hs)
  have ok: "header_ok h" using Cons.prems by simp
  let ?line = "hdr_name h @ '': '' @ HeaderValue_String (hdr_value h)"
  have 1: "parse_lines False msg (?line @ CRLF @ t) =
      parse_lines False (AddHeader msg (hdr_name h) (HeaderValue_String (hdr_value h))) t" for t
    using ok parse_lines_step [of ?line False msg t]
      parse_header_line_print [of "hdr_name h" "HeaderValue_String (hdr_value h)" msg]
    by (simp add: header_ok_def)
  show ?case
    using 1 Cons.IH Cons.prems by (cases h) (simp add: AddHeader_def wire_header_def)
qed simp

lemma parse_content_length:
  "parse_lines False msg (''Content-Length: '' @ Itoa n @ CRLF @ CRLF @ rest) =
   (Inr (AddHeader msg ''Content-Length'' (Itoa n)), rest)"
proof -
  have "CHR 0x0A \<notin> set (Itoa n)" by (simp add: is_digit_def)
  then have "parse_lines False msg ((''Content-Length: '' @ Itoa n) @ CRLF @ CRLF @ rest) =
      parse_lines False (AddHeader msg ''Content-Length'' (Itoa n)) (CRLF @ rest)"
    using parse_header_line_print [of "''Content-Length''" "Itoa n" msg]
    by (subst parse_lines_step) (simp_all add: no_space_trimmed)
  then show ?thesis by (simp add: parse_lines_end)
qed

lemma prefix_before_blank:
  "CHR '' '' \<notin> set p \<Longrightarrow> HasPrefix (a @ CHR '' '' # b) p \<Longrightarrow> HasPrefix a p"
proof (induction p arbitrary: a)
  case (Cons x p)
  then show ?case by (cases a) (auto simp: HasPrefix_def)
qed (simp add: HasPrefix_def)

lemma parse_request_line:
  assumes ok: "request_ok r"
  shows "parse_first_line (req_method r @ '' '' @ AddrSpec_String (requestURI r) @ '' '' @ req_version r) msg =
    Inr (msg\<lparr>request := Some r\<rparr>)"
proof -
  let ?line = "req_method r @ CHR '' '' # AddrSpec_String (requestURI r) @ CHR '' '' # req_version r"
  have "ParseAddrSpec (AddrSpec_String (requestURI r)) = Inr (requestURI r)"
    using ok by (simp add: request_ok_def AddrSpec_String_Write ParseAddrSpec_Write)
  moreover have "Fields ?line = [req_method r, AddrSpec_String (requestURI r), req_version r]"
    using ok by (simp add: request_ok_def Fields_Cons Fields_one)
  moreover have "isRequestLine ?line"
    using ok prefix_before_blank [of "''SIP/''" "req_method r"] by (auto simp: isRequestLine_def request_ok_def)
  ultimately show ?thesis
    by (simp add: parse_first_line_def parseRequestLine_def)
qed

lemma parse_status_line:
  assumes ok: "status_ok st"
  shows "parse_first_line (st_version st @ '' '' @ Itoa (statusCode st) @ '' '' @ reason st) msg =
    Inr (msg\<lparr>response := Some st\<rparr>)"
proof -
  let ?line = "st_version st @ CHR '' '' # Itoa (statusCode st) @ CHR '' '' # reason st"
  have "st_version st \<noteq> []" using ok by (auto simp: status_ok_def HasPrefix_def)
  then have "Fields ?line = st_version st # Itoa (statusCode st) # Fields (reason st)"
    using ok by (simp add: status_ok_def Fields_Cons)
  moreover have "Fields (reason st) \<noteq> []"
    using ok by (cases "Fields (reason st)") (auto simp: status_ok_def)
  moreover have "\<not> isRequestLine ?line"
    using ok by (auto simp: isRequestLine_def status_ok_def HasPrefix_iff)
  ultimately show ?thesis
    using ok by (cases "Fields (reason st)") (auto simp: parse_first_line_def parseStatusLine_def status_ok_def)
qed

definition first_line :: "Message \<Rightarrow> string" where
  "first_line m =
     (case request m of
        Some r \<Rightarrow> req_method r @ '' '' @ AddrSpec_String (requestURI r) @ '' '' @ req_version r
      | None \<Rightarrow>
          (case response m of
             Some st \<Rightarrow> st_version st @ '' '' @ Itoa (statusCode st) @ '' '' @ reason st
           | None \<Rightarrow> []))"

lemma no_space_no_newline: "no_space s \<Longrightarrow> CHR 0x0A \<notin> set s"
  by (auto simp: no_space_def isSpace_def)

lemma isWhiteSpace_isSpace: "isWhiteSpace = isSpace"
  by (auto simp: isWhiteSpace_def isSpace_def fun_eq_iff)

lemma first_line_ok:
  assumes "message_ok m"
  shows "CHR 0x0A \<notin> set (first_line m)" "first_line m \<noteq> []" "\<not> isWhiteSpace (hd (first_line m))"
    "encodeFirstLine m = first_line m @ CRLF"
    "parse_first_line (first_line m) NewMessage =
       Inr (NewMessage\<lparr>request := request m, response := (if request m = None then response m else None)\<rparr>)"
proof -
  consider (req) r where "request m = Some r" "request_ok r"
    | (res) st where "request m = None" "response m = Some st" "status_ok st"
    using assms by (auto simp: message_ok_def split: option.splits)
  then have "CHR 0x0A \<notin> set (first_line m) \<and> first_line m \<noteq> [] \<and> \<not> isWhiteSpace (hd (first_line m)) \<and>
    encodeFirstLine m = first_line m @ CRLF \<and> parse_first_line (first_line m) NewMessage =
       Inr (NewMessage\<lparr>request := request m, response := (if request m = None then response m else None)\<rparr>)"
  proof cases
    case req
    then have "\<not> isSpace (hd (req_method r))" "req_method r \<noteq> []"
      by (auto simp: request_ok_def no_space_def)
    with req show ?thesis
      using parse_request_line [of r NewMessage]
      by (auto simp: first_line_def encodeFirstLine_def request_ok_def no_space_no_newline isWhiteSpace_isSpace
          NewMessage_def)
  next
    case res
    then have "st_version st \<noteq> []" "no_space (st_version st)"
      by (auto simp: status_ok_def HasPrefix_def)
    then have "\<not> isSpace (hd (st_version st))" by (auto simp: no_space_def)
    with res \<open>st_version st \<noteq> []\<close> show ?thesis
      using parse_status_line [of st NewMessage]
      by (auto simp: first_line_def encodeFirstLine_def status_ok_def no_space_no_newline isWhiteSpace_isSpace
          NewMessage_def)
  qed
  then show "CHR 0x0A \<notin> set (first_line m)" "first_line m \<noteq> []" "\<not> isWhiteSpace (hd (first_line m))"
    "encodeFirstLine m = first_line m @ CRLF"
    "parse_first_line (first_line m) NewMessage =
       Inr (NewMessage\<lparr>request := request m, response := (if request m = None then response m else None)\<rparr>)"
    by auto
qed

lemma skipWhiteSpace_stop: "s \<noteq> [] \<Longrightarrow> \<not> isWhiteSpace (hd s) \<Longrightarrow> skipWhiteSpace s = (Inr (), s)"
  by (cases s) auto

lemma find_header_wire_headers:
  assumes "\<And>h. h \<in> set (headers m) \<Longrightarrow> header_ok h"
  shows "find_header (wire_headers m) ''Content-Length'' = None"
  using assms by (auto simp: find_header_None wire_headers_def wire_header_def header_ok_def)

text \<open>
  The reader after a head that announces \<open>n\<close> bytes of body: every outcome of
  \<open>ParseMessage\<close>, by the value of \<open>n\<close> and by what follows.
\<close>

definition framed :: "Message \<Rightarrow> int \<Rightarrow> string \<Rightarrow> string" where
  "framed m n rest =
     encodeFirstLine m @ encodeHeader m @ ''Content-Length: '' @ Itoa n @ CRLF @ CRLF @ rest"

definition framed_message :: "Message \<Rightarrow> int \<Rightarrow> string \<Rightarrow> Message" where
  "framed_message m n b = (wire (m\<lparr>body := b\<rparr>))\<lparr>headers := wire_headers m @
     [\<lparr>hdr_name = ''Content-Length'', hdr_value = HString (Itoa n)\<rparr>]\<rparr>"

lemma parse_lines_framed:
  assumes ok: "message_ok m"
  shows "skipWhiteSpace (framed m n rest) = (Inr (), framed m n rest)"
    and "parse_lines True NewMessage (framed m n rest) = (Inr (framed_message m n []), rest)"
proof -
  note f = first_line_ok [OF ok]
  have hs: "\<And>h. h \<in> set (headers m) \<Longrightarrow> header_ok h"
    using ok by (auto simp: message_ok_def)
  show "skipWhiteSpace (framed m n rest) = (Inr (), framed m n rest)"
    using f(2,3) by (intro skipWhiteSpace_stop) (simp_all add: framed_def f(4))
  define m0 where "m0 = NewMessage\<lparr>request := request m, response := (if request m = None then response m else None)\<rparr>"
  let ?cl = "''Content-Length: '' @ Itoa n @ CRLF @ CRLF @ rest"
  have "parse_lines True NewMessage (framed m n rest) = parse_lines False m0 (encodeHeader m @ ?cl)"
    using parse_lines_step [OF f(1,2), of True NewMessage "encodeHeader m @ ?cl"]
    by (simp add: framed_def f(4,5) m0_def)
  also have "\<dots> = parse_lines False (m0\<lparr>headers := wire_headers m\<rparr>) ?cl"
    unfolding encodeHeader_def using hs
    by (subst parse_headers_print) (simp_all add: wire_headers_def m0_def NewMessage_def)
  also have "\<dots> = (Inr (framed_message m n []), rest)"
    unfolding parse_content_length
    by (simp add: framed_message_def m0_def wire_def NewMessage_def AddHeader_def)
  finally show "parse_lines True NewMessage (framed m n rest) = (Inr (framed_message m n []), rest)" .
qed

lemma ParseMessage_framed:
  assumes ok: "message_ok m" and n: "go_int n"
  shows "ParseMessage (framed m n rest) =
    (if n < 0 then (Inl (Errorf ''invalid negative Content-Length field''), rest)
     else if n > maxAlloc then (Inl (Panic ''makeslice: len out of range''), rest)
     else if nat n \<le> length rest then
       (Inr (framed_message m n (take (nat n) rest)), drop (nat n) rest)
     else (Inl (if rest = [] then EOF else UnexpectedEOF), []))"
proof -
  have hs: "\<And>h. h \<in> set (headers m) \<Longrightarrow> header_ok h"
    using ok by (auto simp: message_ok_def)
  have "GetHeaderInt (framed_message m n []) ''Content-Length'' = Inr n"
    using n find_header_wire_headers [of m, OF hs]
    by (simp add: GetHeaderInt_def GetHeaderValue_eq framed_message_def find_header_append)
  then show ?thesis
    by (simp add: ParseMessage_def parse_lines_framed [OF ok] ReadFull_def framed_message_def wire_def)
qed

lemma ParseMessage_Write:
  assumes ok: "message_ok m"
  shows "ParseMessage (Message_Write m @ rest) = (Inr (wire m), rest)"
proof -
  let ?n = "int (length (body m))"
  have "Message_Write m @ rest = framed m ?n (body m @ rest)"
    by (simp add: Message_Write_def framed_def)
  moreover have "framed_message m ?n (body m) = wire m"
    by (simp add: framed_message_def wire_def)
  moreover have "\<not> ?n > maxAlloc" "go_int ?n"
    using ok by (auto simp: message_ok_def maxAlloc_def go_int_def)
  ultimately show ?thesis
    using ParseMessage_framed [OF ok, of ?n "body m @ rest"] by simp
qed

text \<open>
  The read loop of a TCP connection: messages are parsed one after the other from the same
  reader until a parse fails.
\<close>

fun parse_all :: "nat \<Rightarrow> string \<Rightarrow> Message list" where
  "parse_all 0 reader = []"
| "parse_all (Suc fuel) reader =
     (case ParseMessage reader of
        (Inl e, _) \<Rightarrow> []
      | (Inr m, reader') \<Rightarrow> m # parse_all fuel reader')"

lemma skipWhiteSpace_length: "length (snd (skipWhiteSpace s)) \<le> length s"
  by (induction s rule: skipWhiteSpace.induct) auto

lemma parse_lines_length:
  "parse_lines first msg s = (r, s') \<Longrightarrow> length s' \<le> length s \<and> (is_ok r \<longrightarrow> length s' < length s)"
proof (induction "length s" arbitrary: first msg s rule: less_induct)
  case less
  obtain q t where q: "readLine s = (q, t)" by (cases "readLine s")
  show ?case
  proof (cases q)
    case (Inl e)
    with q have "t = []" by (auto simp: readLine_def Let_def split: option.splits)
    with Inl q less.prems show ?thesis by (subst (asm) parse_lines.simps) auto
  next
    case (Inr l)
    then have t: "length t < length s" using q readLine_shorter by simp
    consider "s' = t" | msg' where "parse_lines False msg' t = (r, s')"
      using less.prems Inr q by (subst (asm) parse_lines.simps) (auto split: if_splits sum.splits)
    then show ?thesis
      using t less.hyps [OF t] by cases fastforce+
  qed
qed

text \<open>Every message that is read consumes bytes, so the loop ends.\<close>

lemma ParseMessage_shorter: "ParseMessage s = (Inr m, s') \<Longrightarrow> length s' < length s"
proof -
  assume p: "ParseMessage s = (Inr m, s')"
  obtain q s1 where s1: "skipWhiteSpace s = (q, s1)" by (cases "skipWhiteSpace s")
  obtain r s2 where s2: "parse_lines True NewMessage s1 = (r, s2)"
    by (cases "parse_lines True NewMessage s1")
  have "is_ok r" "length s' \<le> length s2"
    using p by (auto simp: ParseMessage_def s1 s2 ReadFull_def Let_def split: sum.splits if_splits)
  then show ?thesis
    using parse_lines_length [OF s2] skipWhiteSpace_length [of s] s1 by simp
qed

lemma parse_all_fuel: "length s < fuel \<Longrightarrow> length s < fuel' \<Longrightarrow> parse_all fuel s = parse_all fuel' s"
proof (induction fuel arbitrary: s fuel')
  case (Suc fuel)
  obtain k where k: "fuel' = Suc k" using Suc.prems by (cases fuel') auto
  have "parse_all fuel s' = parse_all k s'" if "ParseMessage s = (Inr m, s')" for m s'
    using ParseMessage_shorter [OF that] Suc.prems k by (intro Suc.IH) auto
  then show ?case unfolding k by (auto split: prod.splits sum.splits)
qed simp

definition ParseAll :: "string \<Rightarrow> Message list" where
  "ParseAll reader = parse_all (Suc (length reader)) reader"

lemma ParseAll_step:
  "ParseAll s = (case ParseMessage s of (Inl e, _) \<Rightarrow> [] | (Inr m, s') \<Rightarrow> m # ParseAll s')"
proof -
  have "parse_all (length s) s' = parse_all (Suc (length s')) s'" if "ParseMessage s = (Inr m, s')" for m s'
    using ParseMessage_shorter [OF that] by (intro parse_all_fuel) auto
  then show ?thesis by (auto simp: ParseAll_def split: prod.splits sum.splits)
qed

lemma ParseAll_Nil: "ParseAll [] = []"
  by (subst ParseAll_step) (simp add: ParseMessage_def readLine_def parse_lines.simps)

lemma ParseAll_Writes:
  "(\<And>m. m \<in> set ms \<Longrightarrow> message_ok m) \<Longrightarrow> ParseAll (concat (map Message_Write ms)) = map wire ms"
proof (induction ms)
  case (Cons m ms)
  then show ?case
    by (subst ParseAll_step) (simp add: ParseMessage_Write)
qed (simp add: ParseAll_Nil)

section \<open>The type of a parsed message\<close>

text \<open>
  A message that was read is a request or a response, not both, every header of it is a
  string, and its body has the length that its Content-Length says.
\<close>

definition string_headers :: "Message \<Rightarrow> bool" where
  "string_headers m \<longleftrightarrow> (\<forall>h \<in> set (headers m). \<exists>v. hdr_value h = HString v)"

lemma parse_header_line_type:
  "parse_header_line l m = Inr m' \<Longrightarrow> string_headers m \<Longrightarrow>
   string_headers m' \<and> request m' = request m \<and> response m' = response m \<and> ReceivedFrom m' = ReceivedFrom m"
  by (auto simp: parse_header_line_def AddHeader_def string_headers_def split: option.splits)

lemma parse_lines_type:
  "parse_lines False m s = (Inr m', s') \<Longrightarrow> string_headers m \<Longrightarrow>
   string_headers m' \<and> request m' = request m \<and> response m' = response m \<and> ReceivedFrom m' = ReceivedFrom m"
proof (induction "False" m s rule: parse_lines.induct)
  case (1 m s)
  obtain r s1 where r: "readLine s = (r, s1)" by fastforce
  show ?case
  proof (cases "\<exists>l m1. r = Inr l \<and> l \<noteq> [] \<and> parse_header_line l m = Inr m1")
    case True
    then obtain l m1 where l: "r = Inr l" "l \<noteq> []" "parse_header_line l m = Inr m1" by blast
    have "parse_lines False m1 s1 = (Inr m', s')"
      using "1.prems"(1) r l by (simp add: parse_lines.simps [of _ m])
    with 1(1) [OF r [symmetric] l(1,2) _] l(3) parse_header_line_type [OF l(3) "1.prems"(2)] show ?thesis by simp
  next
    case False
    then show ?thesis
      using 1(2,3) r by (auto simp: parse_lines.simps [of _ m] split: sum.splits if_splits)
  qed
qed

lemma skipWhiteSpace_first: "skipWhiteSpace s = (q, b # s') \<Longrightarrow> \<not> isWhiteSpace b"
  by (induction s) (auto split: if_splits)

lemma readLine_nonempty: "readLine (b # s) = (Inr l, s') \<Longrightarrow> \<not> isWhiteSpace b \<Longrightarrow> l \<noteq> []"
  by (auto simp: readLine_def isWhiteSpace_def Let_def take_Cons' nth_Cons' split: option.splits if_splits
      elim!: IndexByte_SomeE)

lemma parse_first_line_type:
  "parse_first_line l NewMessage = Inr m \<Longrightarrow>
   (request m = None) \<noteq> (response m = None) \<and> string_headers m \<and> ReceivedFrom m = None"
  by (auto simp: parse_first_line_def rbind_eq_Inr NewMessage_def string_headers_def split: if_splits)

lemma ParseMessage_type:
  assumes "ParseMessage s = (Inr m, s')"
  shows "(request m = None) \<noteq> (response m = None) \<and> string_headers m \<and> ReceivedFrom m = None \<and>
    GetHeaderInt m ''Content-Length'' = Inr (int (length (body m)))"
proof -
  obtain q s1 where s1: "skipWhiteSpace s = (q, s1)" by fastforce
  obtain r s2 where s2: "parse_lines True NewMessage s1 = (r, s2)" by fastforce
  obtain m0 n b where m0: "r = Inr m0" "GetHeaderInt m0 ''Content-Length'' = Inr n" "0 \<le> n"
      "ReadFull (nat n) s2 = (Inr b, s')" "m = m0\<lparr>body := b\<rparr>"
    using assms s1 s2 by (auto simp: ParseMessage_def split: sum.splits if_splits prod.splits)
  obtain x l s3 where l: "readLine s1 = (Inr l, s3)" "s1 \<noteq> []"
    using s2 m0(1) by (cases s1) (auto simp: parse_lines.simps readLine_def split: prod.splits sum.splits)
  then have "l \<noteq> []" using skipWhiteSpace_first s1 readLine_nonempty by (metis neq_Nil_conv)
  then obtain m1 where m1: "parse_first_line l NewMessage = Inr m1" "parse_lines False m1 s3 = (Inr m0, s2)"
    using s2 m0(1) l by (auto simp: parse_lines.simps [of True] split: sum.splits)
  have "GetHeaderInt (m0\<lparr>body := b\<rparr>) ''Content-Length'' = GetHeaderInt m0 ''Content-Length''"
    by (simp add: GetHeaderInt_def GetHeaderValue_def GetHeader_def cong: option.case_cong)
  moreover have "length b = nat n" using m0(4) by (auto simp: ReadFull_def split: if_splits)
  ultimately show ?thesis
    using parse_lines_type [OF m1(2)] parse_first_line_type [OF m1(1)] m0 by (simp add: string_headers_def)
qed

end
