(* ===== verification/BufferPool.thy ===== *)
theory BufferPool
  imports MessageCodec
begin

text \<open>
  \<open>byte_array_pool.go\<close>, and the way the UDP server transport of \<open>transport.go\<close> uses it: a packet
  is read into a pooled buffer and the message is parsed from the buffer. The mutex makes
  every operation one step, so the operations are functions on the state of the pool.
\<close>

section \<open>The pool\<close>

record ByteArrayPool =
  maxCap :: int
  arraySize :: int
  pool :: "string list"

definition NewByteArrayPool :: "int \<Rightarrow> int \<Rightarrow> ByteArrayPool" where
  "NewByteArrayPool cap sz = \<lparr>maxCap = cap, arraySize = sz, pool = []\<rparr>"

text \<open>\<open>make([]byte, size)\<close> is a buffer of zero bytes; a negative size panics.\<close>

definition Alloc :: "(ByteArrayPool, string) call" where
  "Alloc bp =
     (let n = length (pool bp) in
      if n \<le> 0 then
        (if arraySize bp < 0 then (Inl (Panic ''makeslice: len out of range''), bp)
         else (Inr (replicate (nat (arraySize bp)) (CHR 0x00)), bp))
      else (Inr (pool bp ! (n - 1)), bp\<lparr>pool := take (n - 1) (pool bp)\<rparr>))"

definition Size :: "ByteArrayPool \<Rightarrow> int" where
  "Size bp = int (length (pool bp))"

definition Free :: "ByteArrayPool \<Rightarrow> string \<Rightarrow> ByteArrayPool" where
  "Free bp b =
     (let n = int (length (pool bp)) in
      if n \<le> 0 \<or> n < maxCap bp then bp\<lparr>pool := pool bp @ [b]\<rparr> else bp)"

text \<open>
  The life of a pool: buffers are handed out, written to (their length stays) and given back.
  The second component holds the buffers handed out.
\<close>

inductive pool_step :: "ByteArrayPool \<times> string list \<Rightarrow> ByteArrayPool \<times> string list \<Rightarrow> bool" where
  alloc: "Alloc bp = (Inr b, bp') \<Longrightarrow> pool_step (bp, out) (bp', b # out)"
| fill: "length b' = length b \<Longrightarrow> pool_step (bp, out1 @ b # out2) (bp, out1 @ b' # out2)"
| free: "pool_step (bp, out1 @ b # out2) (Free bp b, out1 @ out2)"

inductive pool_reachable :: "int \<Rightarrow> int \<Rightarrow> ByteArrayPool \<times> string list \<Rightarrow> bool" for cap sz where
  init: "pool_reachable cap sz (NewByteArrayPool cap sz, [])"
| step: "pool_reachable cap sz s \<Longrightarrow> pool_step s t \<Longrightarrow> pool_reachable cap sz t"

inductive_cases pool_stepE: "pool_step s t"

definition pool_inv :: "int \<Rightarrow> int \<Rightarrow> ByteArrayPool \<times> string list \<Rightarrow> bool" where
  "pool_inv cap sz = (\<lambda>(bp, out).
     maxCap bp = cap \<and> arraySize bp = sz \<and> Size bp \<le> max 1 cap \<and>
     (\<forall>b \<in> set (pool bp) \<union> set out. int (length b) = sz))"

lemma Alloc_inv:
  assumes "pool_inv cap sz (bp, out)" and "Alloc bp = (Inr b, bp')"
  shows "pool_inv cap sz (bp', b # out)"
proof (cases "pool bp = []")
  case True
  with assms show ?thesis
    by (auto simp: pool_inv_def Alloc_def Size_def Let_def split: if_splits)
next
  case False
  then have "b \<in> set (pool bp)" and "bp' = bp\<lparr>pool := take (length (pool bp) - 1) (pool bp)\<rparr>"
    using assms(2) by (auto simp: Alloc_def Let_def)
  with assms(1) show ?thesis
    by (auto simp: pool_inv_def Size_def dest: in_set_takeD)
qed

lemma Free_inv:
  "pool_inv cap sz (bp, out1 @ b # out2) \<Longrightarrow> pool_inv cap sz (Free bp b, out1 @ out2)"
  by (auto simp: pool_inv_def Free_def Size_def Let_def)

lemma pool_step_inv: "pool_step s t \<Longrightarrow> pool_inv cap sz s \<Longrightarrow> pool_inv cap sz t"
  by (erule pool_stepE) (auto simp: Alloc_inv Free_inv, auto simp: pool_inv_def)

lemma pool_reachable_inv: "pool_reachable cap sz s \<Longrightarrow> pool_inv cap sz s"
  by (induction rule: pool_reachable.induct)
    (auto simp: pool_step_inv, simp add: pool_inv_def NewByteArrayPool_def Size_def)

text \<open>The pool is a stack: the buffer given back last is the one handed out next.\<close>

lemma Alloc_Free:
  "Size bp \<le> 0 \<or> Size bp < maxCap bp \<Longrightarrow> Alloc (Free bp b) = (Inr b, bp)"
  by (auto simp: Alloc_def Free_def Size_def Let_def)

section \<open>Receiving a UDP packet\<close>

text \<open>
  \<open>ReadFromUDP(buf)\<close> overwrites the beginning of the buffer with the packet and returns the
  number of bytes it wrote; \<open>startParseMessage\<close> parses the whole buffer.
\<close>

definition ReadFromUDP :: "string \<Rightarrow> string \<Rightarrow> string \<times> nat" where
  "ReadFromUDP buf packet =
     (let n = min (length packet) (length buf) in (take n packet @ drop n buf, n))"

definition udp_receive :: "string \<Rightarrow> (ByteArrayPool, Message) call" where
  "udp_receive packet = sbind Alloc (\<lambda>buf bp.
     let (b, n) = ReadFromUDP buf packet;
         (msg, _) = ParseMessage b
     in (msg, Free bp b))"

lemma ReadFromUDP_short:
  "length packet \<le> length buf \<Longrightarrow> ReadFromUDP buf packet = (packet @ drop (length packet) buf, length packet)"
  by (simp add: ReadFromUDP_def Let_def)

lemma udp_receive_message:
  assumes "Alloc bp = (Inr buf, bp')" and "message_ok m" and "length (Message_Write m) \<le> length buf"
  shows "fst (udp_receive (Message_Write m) bp) = Inr (wire m)"
  using assms by (simp add: udp_receive_def sbind_def ReadFromUDP_short ParseMessage_Write)

lemma udp_receive_framed:
  assumes a: "Alloc bp = (Inr buf, bp')" and ok: "message_ok m" and n: "int n \<le> maxAlloc"
    and packet: "packet = framed m (int n) b" and short: "length b < n"
    and fits: "length packet + (n - length b) \<le> length buf"
  shows "fst (udp_receive packet bp) =
    Inr (framed_message m (int n) (b @ take (n - length b) (drop (length packet) buf)))"
proof -
  have "go_int (int n)" using n by (simp add: go_int_def maxAlloc_def)
  moreover have "packet @ drop (length packet) buf = framed m (int n) (b @ drop (length packet) buf)"
    by (simp add: packet framed_def)
  moreover have "n \<le> length (b @ drop (length packet) buf)"
    using short fits by simp
  ultimately have "fst (ParseMessage (packet @ drop (length packet) buf)) =
      Inr (framed_message m (int n) (b @ take (n - length b) (drop (length packet) buf)))"
    using ParseMessage_framed [OF ok, of "int n"] n short by simp
  with a fits show ?thesis
    by (simp add: udp_receive_def sbind_def ReadFromUDP_short split: prod.split)
      (metis fst_conv)
qed

end
