(* ===== verification/SelfLearn.thy ===== *)
theory SelfLearn
  imports SipMessage
begin

text \<open>
  \<open>self_learn_route.go\<close>: the table from a destination address to the local transport a message
  from that address came in on. The clock (\<open>time.Now().Unix()\<close>) is an argument, one for each
  of its calls. The mutex makes every operation one step.
\<close>

record SelfLearnItem =
  sli_transport :: ServerTransport
  sli_expire :: int

record SelfLearnRoute =
  cleanInterval :: int
  lastCleanTime :: int
  sl_expire :: int
  sl_route :: "string \<rightharpoonup> SelfLearnItem"

definition NewSelfLearnRoute :: "int \<Rightarrow> SelfLearnRoute" where
  "NewSelfLearnRoute now =
     \<lparr>cleanInterval = 60, lastCleanTime = now, sl_expire = 20 * 60, sl_route = Map.empty\<rparr>"

definition isSameTransport :: "ServerTransport \<Rightarrow> ServerTransport \<Rightarrow> bool" where
  "isSameTransport transport1 transport2 \<longleftrightarrow>
     ServerTransport_GetProtocol transport1 = ServerTransport_GetProtocol transport2 \<and>
     ServerTransport_GetAddress transport1 = ServerTransport_GetAddress transport2 \<and>
     ServerTransport_GetPort transport1 = ServerTransport_GetPort transport2"

definition cleanExpires :: "int \<Rightarrow> SelfLearnRoute \<Rightarrow> SelfLearnRoute" where
  "cleanExpires now sl =
     (if now - lastCleanTime sl < cleanInterval sl \<or> card (dom (sl_route sl)) < 10000 then sl
      else sl\<lparr>lastCleanTime := now,
              sl_route := map_without (sl_route sl)
                {ip. \<exists>item. sl_route sl ip = Some item \<and> sli_expire item < now}\<rparr>)"

definition route_key :: "string \<Rightarrow> string \<Rightarrow> string" where
  "route_key ip protocol = ip @ '':'' @ protocol"

definition SelfLearnRoute_AddRoute ::
  "int \<Rightarrow> int \<Rightarrow> string \<Rightarrow> ServerTransport \<Rightarrow> SelfLearnRoute \<Rightarrow> SelfLearnRoute"
where
  "SelfLearnRoute_AddRoute now1 now2 ip transport sl =
     (let sl1 = cleanExpires now1 sl;
          key = route_key ip (ServerTransport_GetProtocol transport);
          add = sl1\<lparr>sl_route := (sl_route sl1)(key \<mapsto>
                  \<lparr>sli_transport = transport, sli_expire = now2 + sl_expire sl1\<rparr>)\<rparr>
      in case sl_route sl1 key of
           Some item \<Rightarrow> if isSameTransport (sli_transport item) transport then sl1 else add
         | None \<Rightarrow> add)"

definition SelfLearnRoute_GetRoute :: "SelfLearnRoute \<Rightarrow> string \<Rightarrow> string \<Rightarrow> ServerTransport option" where
  "SelfLearnRoute_GetRoute sl ip protocol =
     map_option sli_transport (sl_route sl (route_key ip protocol))"

definition GetRouteAddress :: "SelfLearnRoute \<Rightarrow> string \<Rightarrow> string \<Rightarrow> string" where
  "GetRouteAddress sl ip protocol =
     (case SelfLearnRoute_GetRoute sl ip protocol of
        Some transport \<Rightarrow> ServerTransport_GetAddress transport
      | None \<Rightarrow> [])"

lemmas self_learn_eval [go_eval] =
  NewSelfLearnRoute_def isSameTransport_def cleanExpires_def route_key_def
  SelfLearnRoute_AddRoute_def SelfLearnRoute_GetRoute_def GetRouteAddress_def

section \<open>What is learned is found\<close>

lemma isSameTransport_equiv:
  "isSameTransport t t" "isSameTransport s t \<Longrightarrow> isSameTransport t s"
  "isSameTransport s t \<Longrightarrow> isSameTransport t u \<Longrightarrow> isSameTransport s u"
  by (auto simp: isSameTransport_def)

lemma protocol_no_colon: "CHR '':'' \<notin> set (ServerTransport_GetProtocol t)"
  by (cases t) auto

text \<open>No two (address, protocol) pairs share a key: the protocols hold no colon.\<close>

lemma route_key_inj:
  assumes "CHR '':'' \<notin> set p" and "CHR '':'' \<notin> set q"
  shows "route_key ip p = route_key ip' q \<longleftrightarrow> ip = ip' \<and> p = q"
proof
  assume "route_key ip p = route_key ip' q"
  then have e: "ip @ CHR '':'' # p = ip' @ CHR '':'' # q" by (simp add: route_key_def)
  have "length ip = length ip'"
    using LastIndexByte_append [OF assms(1), of ip] LastIndexByte_append [OF assms(2), of ip']
    by (simp only: e option.inject)
  with e show "ip = ip' \<and> p = q" by simp
qed simp

lemma AddRoute_found:
  "\<exists>t. SelfLearnRoute_GetRoute (SelfLearnRoute_AddRoute now1 now2 ip transport sl) ip
         (ServerTransport_GetProtocol transport) = Some t \<and> isSameTransport t transport"
proof -
  let ?k = "route_key ip (ServerTransport_GetProtocol transport)"
  consider "sl_route (cleanExpires now1 sl) ?k = None"
    | item where "sl_route (cleanExpires now1 sl) ?k = Some item" by fastforce
  then show ?thesis
    by cases (simp_all add: SelfLearnRoute_AddRoute_def SelfLearnRoute_GetRoute_def Let_def
        isSameTransport_equiv(1))
qed

lemma cleanExpires_lookup:
  "sl_route (cleanExpires now sl) k = sl_route sl k \<or>
   (sl_route (cleanExpires now sl) k = None \<and> (\<exists>item. sl_route sl k = Some item \<and> sli_expire item < now))"
  by (auto simp: cleanExpires_def)

lemma AddRoute_other:
  assumes "route_key ip' p \<noteq> route_key ip (ServerTransport_GetProtocol transport)"
    and "sl_route sl (route_key ip' p) = Some item" and "now1 \<le> sli_expire item"
  shows "SelfLearnRoute_GetRoute (SelfLearnRoute_AddRoute now1 now2 ip transport sl) ip' p =
    Some (sli_transport item)"
  using assms cleanExpires_lookup [of now1 sl "route_key ip' p"]
  by (auto simp: SelfLearnRoute_AddRoute_def SelfLearnRoute_GetRoute_def Let_def split: option.split)

text \<open>
  A transport that is seen again keeps the expiry time of the first time it was seen, so a
  peer that sends all the time is forgotten as early as one that sent once.
\<close>

lemma AddRoute_same_expire:
  assumes "sl_route (cleanExpires now1 sl) (route_key ip (ServerTransport_GetProtocol t)) = Some item"
    and "isSameTransport (sli_transport item) t"
  shows "sl_route (SelfLearnRoute_AddRoute now1 now2 ip t sl) (route_key ip (ServerTransport_GetProtocol t)) = Some item"
  using assms by (simp add: SelfLearnRoute_AddRoute_def Let_def)

section \<open>The protocols of the table\<close>

text \<open>
  The keys carry the protocol as the transports spell it, in lower case, while a Via header
  spells it in upper case: a lookup with the protocol of a Via never finds anything.
\<close>

definition learned_inv :: "SelfLearnRoute \<Rightarrow> bool" where
  "learned_inv sl \<longleftrightarrow> (\<forall>k \<in> dom (sl_route sl). \<exists>ip. k = route_key ip ''udp'' \<or> k = route_key ip ''tcp'')"

lemma GetProtocol_cases: "ServerTransport_GetProtocol t = ''udp'' \<or> ServerTransport_GetProtocol t = ''tcp''"
  by (cases t) auto

lemma learned_inv_New: "learned_inv (NewSelfLearnRoute now)"
  by (simp add: learned_inv_def NewSelfLearnRoute_def)

lemma learned_inv_AddRoute: "learned_inv sl \<Longrightarrow> learned_inv (SelfLearnRoute_AddRoute now1 now2 ip t sl)"
  using GetProtocol_cases [of t]
  by (auto simp: learned_inv_def SelfLearnRoute_AddRoute_def cleanExpires_def Let_def dom_def split: option.splits if_splits)

lemma learned_inv_GetRoute:
  assumes "learned_inv sl" and "CHR '':'' \<notin> set protocol" and "protocol \<noteq> ''udp''" and "protocol \<noteq> ''tcp''"
  shows "SelfLearnRoute_GetRoute sl ip protocol = None"
proof -
  have "route_key ip protocol \<notin> dom (sl_route sl)"
  proof
    assume "route_key ip protocol \<in> dom (sl_route sl)"
    then obtain ip' where "route_key ip protocol = route_key ip' ''udp'' \<or> route_key ip protocol = route_key ip' ''tcp''"
      using assms(1) by (auto simp: learned_inv_def)
    then show False
      using assms(2-4) by (auto simp: route_key_inj)
  qed
  then show ?thesis by (auto simp: SelfLearnRoute_GetRoute_def)
qed

end
