(* ===== verification/Network.thy ===== *)
theory Network
  imports GoNet
begin

text \<open>
  The environment of the proxy: the clock, the resolver of the operating system, the sockets,
  the source of UUIDs and the iteration order of maps. Its operations are the fields of a
  record over an arbitrary type of worlds; the models take the record as an argument, so
  that their theorems hold for every behaviour of the environment. A connection is a number.
\<close>

record 'w net =
  time_now :: "'w \<Rightarrow> int \<times> 'w"
  lookup_ip :: "string \<Rightarrow> 'w \<Rightarrow> string list result \<times> 'w"
  resolve_addr :: "string \<Rightarrow> 'w \<Rightarrow> string result \<times> 'w"
  dial_udp :: "string option \<Rightarrow> string \<Rightarrow> 'w \<Rightarrow> nat result \<times> 'w"
  dial_tcp :: "string option \<Rightarrow> string \<Rightarrow> 'w \<Rightarrow> nat result \<times> 'w"
  conn_write :: "nat \<Rightarrow> string \<Rightarrow> 'w \<Rightarrow> unit result \<times> 'w"
  conn_write_to :: "nat \<Rightarrow> string \<Rightarrow> string \<Rightarrow> 'w \<Rightarrow> unit result \<times> 'w"
  conn_close :: "nat \<Rightarrow> 'w \<Rightarrow> unit result \<times> 'w"
  listen_udp :: "string \<Rightarrow> 'w \<Rightarrow> nat result \<times> 'w"
  listen_tcp :: "string \<Rightarrow> 'w \<Rightarrow> nat result \<times> 'w"
  local_addr :: "nat \<Rightarrow> string"
  remote_addr :: "nat \<Rightarrow> string"
  new_uuid :: "'w \<Rightarrow> string result \<times> 'w"
  map_keys :: "string set \<Rightarrow> 'w \<Rightarrow> string list \<times> 'w"

text \<open>
  \<open>time_now\<close> counts nanoseconds, as \<open>time.Time\<close> does; \<open>Unix()\<close> counts whole seconds. Iterating
  over a map meets each of its keys once, in some order.
\<close>

definition unix_now :: "'w net \<Rightarrow> 'w \<Rightarrow> int \<times> 'w" where
  "unix_now net w = (case time_now net w of (t, w') \<Rightarrow> (t div 10 ^ 9, w'))"

definition iterates :: "'w net \<Rightarrow> bool" where
  "iterates net \<longleftrightarrow> (\<forall>K w. finite K \<longrightarrow> distinct (fst (map_keys net K w)) \<and> set (fst (map_keys net K w)) = K)"

section \<open>A scripted environment\<close>

text \<open>
  An environment for examples: what was done to the sockets is logged, the clock stands,
  every name resolves to the address a table gives it, and dialling the addresses of a list
  fails.
\<close>

datatype event = Dialed string nat | Wrote nat string | Closed nat | Listening string nat

record script =
  clock :: int
  hosts :: "(string \<times> string list) list"
  dead :: "string list"
  broken :: "nat list"
  next_conn :: nat
  log :: "event list"

definition script_dial :: "string option \<Rightarrow> string \<Rightarrow> script \<Rightarrow> nat result \<times> script" where
  "script_dial l a w =
     (if a \<in> set (dead w) then (Inl (Errorf ''connection refused''), w)
      else (Inr (next_conn w), w\<lparr>next_conn := Suc (next_conn w), log := log w @ [Dialed a (next_conn w)]\<rparr>))"

definition script_listen :: "string \<Rightarrow> script \<Rightarrow> nat result \<times> script" where
  "script_listen a w =
     (Inr (next_conn w), w\<lparr>next_conn := Suc (next_conn w), log := log w @ [Listening a (next_conn w)]\<rparr>)"

definition script_write :: "nat \<Rightarrow> string \<Rightarrow> script \<Rightarrow> unit result \<times> script" where
  "script_write c b w =
     (if c \<in> set (broken w) then (Inl (Errorf ''broken pipe''), w)
      else (Inr (), w\<lparr>log := log w @ [Wrote c b]\<rparr>))"

definition script_close :: "nat \<Rightarrow> script \<Rightarrow> unit result \<times> script" where
  "script_close c w = (Inr (), w\<lparr>broken := c # broken w, log := log w @ [Closed c]\<rparr>)"

definition script_net :: "script net" where
  "script_net =
     \<lparr>time_now = (\<lambda>w. (clock w, w)),
      lookup_ip = (\<lambda>n w. (case map_of (hosts w) n of
         Some ips \<Rightarrow> Inr ips | None \<Rightarrow> Inl (Errorf ''no such host''), w)),
      resolve_addr = (\<lambda>a w. (Inr a, w)),
      dial_udp = script_dial, dial_tcp = script_dial,
      conn_write = script_write, conn_write_to = (\<lambda>c b a. script_write c b), conn_close = script_close,
      listen_udp = script_listen, listen_tcp = script_listen,
      local_addr = (\<lambda>c. ''10.0.0.1:'' @ Itoa (int c)), remote_addr = (\<lambda>c. ''10.0.0.2:'' @ Itoa (int c)),
      new_uuid = (\<lambda>w. (Inr ''6ba7b810-9dad-11d1-80b4-00c04fd430c8'', w)),
      map_keys = (\<lambda>K w. (if finite K then sorted_list_of_set K else [], w))\<rparr>"

lemma script_net_simps [simp, go_eval]:
  "time_now script_net w = (clock w, w)"
  "lookup_ip script_net n w = (case map_of (hosts w) n of
         Some ips \<Rightarrow> Inr ips | None \<Rightarrow> Inl (Errorf ''no such host''), w)"
  "resolve_addr script_net a w = (Inr a, w)"
  "dial_udp script_net = script_dial" "dial_tcp script_net = script_dial"
  "conn_write script_net = script_write" "conn_write_to script_net c b a = script_write c b"
  "conn_close script_net = script_close"
  "listen_udp script_net = script_listen" "listen_tcp script_net = script_listen"
  "local_addr script_net c = ''10.0.0.1:'' @ Itoa (int c)"
  "remote_addr script_net c = ''10.0.0.2:'' @ Itoa (int c)"
  "new_uuid script_net w = (Inr ''6ba7b810-9dad-11d1-80b4-00c04fd430c8'', w)"
  "map_keys script_net K w = (if finite K then sorted_list_of_set K else [], w)"
  by (simp_all add: script_net_def)

lemmas script_eval [go_eval] = script_dial_def script_listen_def script_write_def script_close_def unix_now_def

lemma script_net_iterates: "iterates script_net"
  by (simp add: iterates_def)

end
