(* ===== verification/Resolver.thy ===== *)
theory Resolver
  imports Network
begin

text \<open>
  \<open>resolver.go\<close> and the array functions of \<open>util.go\<close>: the resolver of pre-configured hosts that
  the client transports use, and the resolver that follows the addresses of a host and tells
  its subscribers what changed.
\<close>

section \<open>Arrays of strings\<close>

fun inStrArray :: "string \<Rightarrow> string list \<Rightarrow> bool" where
  "inStrArray s [] = False"
| "inStrArray s (t # a) = (if t = s then True else inStrArray s a)"

definition strArraySub :: "string list \<Rightarrow> string list \<Rightarrow> string list" where
  "strArraySub a1 a2 = filter (\<lambda>s. \<not> inStrArray s a2) a1"

lemma inStrArray_set [simp]: "inStrArray s a \<longleftrightarrow> s \<in> set a"
  by (induction a) auto

lemma set_strArraySub [simp]: "set (strArraySub a1 a2) = set a1 - set a2"
  by (auto simp: strArraySub_def)

lemma strArraySub_Nil [simp]: "strArraySub a1 a2 = [] \<longleftrightarrow> set a1 \<subseteq> set a2"
  by (auto simp: strArraySub_def filter_empty_conv)

section \<open>Pre-configured hosts\<close>

record PreConfigSolvedHost =
  nextResolveTime :: int
  IPs :: "string list"

type_synonym PreConfigHostResolver = "string \<rightharpoonup> PreConfigSolvedHost"

definition NewPreConfigHostResolver :: PreConfigHostResolver where
  "NewPreConfigHostResolver = Map.empty"

definition AddHostIP :: "string \<Rightarrow> string \<Rightarrow> PreConfigHostResolver \<Rightarrow> PreConfigHostResolver" where
  "AddHostIP name ip hr =
     (let h = (case hr name of None \<Rightarrow> \<lparr>nextResolveTime = 0, IPs = []\<rparr> | Some h \<Rightarrow> h)
      in hr(name \<mapsto> h\<lparr>IPs := IPs h @ [ip]\<rparr>))"

definition PreConfig_doResolve :: "'w net \<Rightarrow> string \<Rightarrow> 'w \<Rightarrow> string list \<times> 'w" where
  "PreConfig_doResolve net name w =
     (case lookup_ip net name w of
        (Inl _, w') \<Rightarrow> ([name], w')
      | (Inr ips, w') \<Rightarrow> (ips, w'))"

text \<open>
  The entry of a name is made on demand, to be resolved at once; the entries of the
  configuration have the time 0 and are never resolved.
\<close>

definition ensure_host :: "'w net \<Rightarrow> string \<Rightarrow> PreConfigHostResolver \<times> 'w \<Rightarrow> PreConfigSolvedHost \<times> PreConfigHostResolver \<times> 'w" where
  "ensure_host net name = (\<lambda>(hr, w).
     case hr name of
       Some h \<Rightarrow> (h, hr, w)
     | None \<Rightarrow>
         (let (now, w') = unix_now net w; h = \<lparr>nextResolveTime = now, IPs = []\<rparr>
          in (h, hr(name \<mapsto> h), w')))"

definition refresh_host :: "'w net \<Rightarrow> string \<Rightarrow> PreConfigSolvedHost \<times> PreConfigHostResolver \<times> 'w \<Rightarrow> PreConfigSolvedHost \<times> PreConfigHostResolver \<times> 'w" where
  "refresh_host net name = (\<lambda>(h, hr, w).
     if nextResolveTime h > 0 then
       (let (now, w1) = unix_now net w in
        if nextResolveTime h \<le> now then
          (let (now', w2) = unix_now net w1;
               (ips, w3) = PreConfig_doResolve net name w2;
               h' = \<lparr>nextResolveTime = now' + 10, IPs = ips\<rparr>
           in (h', hr(name \<mapsto> h'), w3))
        else (h, hr, w1))
     else (h, hr, w))"

definition GetIps :: "'w net \<Rightarrow> string \<Rightarrow> (PreConfigHostResolver \<times> 'w, string list) call" where
  "GetIps net name s =
     (if ParseIP name then (Inr [name], s)
      else
        (let (h, s') = refresh_host net name (ensure_host net name s)
         in (Inr (if length (IPs h) > 0 then IPs h else [name]), s')))"

lemmas resolver_eval [go_eval] =
  NewPreConfigHostResolver_def AddHostIP_def PreConfig_doResolve_def ensure_host_def refresh_host_def
  GetIps_def strArraySub_def

lemma GetIps_nonempty: "\<exists>ips s'. GetIps net name s = (Inr ips, s') \<and> ips \<noteq> []"
  by (auto simp: GetIps_def Let_def split: prod.split)

lemma GetIps_ip: "ParseIP name \<Longrightarrow> GetIps net name s = (Inr [name], s)"
  by (simp add: GetIps_def)

text \<open>What the configuration says of a host is the answer, and nothing is looked up.\<close>

lemma GetIps_configured:
  assumes "hr name = Some h" and "nextResolveTime h = 0" and "\<not> ParseIP name"
  shows "GetIps net name (hr, w) = (Inr (if IPs h = [] then [name] else IPs h), (hr, w))"
  using assms by (simp add: GetIps_def ensure_host_def refresh_host_def Let_def)

lemma GetIps_other: "k \<noteq> name \<Longrightarrow> fst (snd (GetIps net name (hr, w))) k = hr k"
  by (auto simp: GetIps_def ensure_host_def refresh_host_def Let_def split: prod.split option.split)

lemma AddHostIP_configured:
  assumes "\<And>h. hr name = Some h \<Longrightarrow> nextResolveTime h = 0"
  shows "\<exists>h. AddHostIP name ip hr name = Some h \<and> nextResolveTime h = 0 \<and> ip \<in> set (IPs h)"
  using assms by (auto simp: AddHostIP_def Let_def split: option.split)

section \<open>Hosts that are followed\<close>

text \<open>
  Callbacks are values of a type \<open>'cb\<close>. \<open>callback(hostname, new, removed)\<close> run by the caller is
  a \<open>Call\<close>; \<open>go notifyAddressChanged\<close> starts a goroutine, which reads the list of callbacks when
  it runs: it is a \<open>Notify\<close>, which \<open>notifyAddressChanged\<close> turns into calls later.
\<close>

record 'cb AddressWithCallback =
  addrs :: "string list"
  failed :: int
  callbacks :: "'cb list"

record 'cb DynamicHostResolver =
  dhr_interval :: int
  dhr_stop :: int
  dhr_hostIPs :: "string \<rightharpoonup> 'cb AddressWithCallback"

datatype 'cb notice =
    Call 'cb string "string list" "string list"
  | Notify string "string list" "string list"

definition NewAddressWithCallback :: "'cb AddressWithCallback" where
  "NewAddressWithCallback = \<lparr>addrs = [], failed = 0, callbacks = []\<rparr>"

definition NewDynamicHostResolver :: "int \<Rightarrow> 'cb DynamicHostResolver" where
  "NewDynamicHostResolver interval =
     \<lparr>dhr_interval = interval * 10 ^ 9, dhr_stop = 0, dhr_hostIPs = Map.empty\<rparr>"

definition Dynamic_doResolve :: "'w net \<Rightarrow> string \<Rightarrow> 'w \<Rightarrow> string list result \<times> 'w" where
  "Dynamic_doResolve net hostname w =
     (case lookup_ip net hostname w of
        (Inl e, w') \<Rightarrow> (Inl e, w')
      | (Inr ips, w') \<Rightarrow> (Inr (map (\<lambda>s. if ContainsByte s (CHR '':'') then ''['' @ s @ '']'' else s) ips), w'))"

definition entry_resolved ::
  "string \<Rightarrow> string list result \<Rightarrow> 'cb AddressWithCallback \<Rightarrow> 'cb AddressWithCallback \<times> 'cb notice list"
where
  "entry_resolved hostname r entry =
     (case r of
        Inl _ \<Rightarrow>
          (let entry1 = entry\<lparr>failed := failed entry + 1\<rparr> in
           if failed entry1 > 3 \<and> length (addrs entry1) > 0
           then (entry1\<lparr>addrs := [], failed := 0\<rparr>, [Notify hostname [] (addrs entry1)])
           else (entry1, []))
      | Inr new \<Rightarrow>
          (let newAddrs = strArraySub new (addrs entry);
               removedAddrs = strArraySub (addrs entry) new
           in (entry\<lparr>failed := 0, addrs := new\<rparr>,
               if length newAddrs > 0 \<or> length removedAddrs > 0
               then [Notify hostname newAddrs removedAddrs] else [])))"

definition addressResolved ::
  "string \<Rightarrow> string list result \<Rightarrow> 'cb DynamicHostResolver \<Rightarrow> 'cb DynamicHostResolver \<times> 'cb notice list"
where
  "addressResolved hostname r dhr =
     (case dhr_hostIPs dhr hostname of
        None \<Rightarrow> (dhr, [])
      | Some entry \<Rightarrow>
          (let (entry', notices) = entry_resolved hostname r entry
           in (dhr\<lparr>dhr_hostIPs := (dhr_hostIPs dhr)(hostname \<mapsto> entry')\<rparr>, notices)))"

definition ResolveHost ::
  "'w net \<Rightarrow> string \<Rightarrow> 'cb \<Rightarrow> 'cb DynamicHostResolver \<times> 'w \<Rightarrow> ('cb DynamicHostResolver \<times> 'w) \<times> 'cb notice list"
where
  "ResolveHost net addr callback = (\<lambda>(dhr, w).
     case dhr_hostIPs dhr addr of
       None \<Rightarrow>
         (let entry = NewAddressWithCallback\<lparr>callbacks := [callback]\<rparr>;
              dhr1 = dhr\<lparr>dhr_hostIPs := (dhr_hostIPs dhr)(addr \<mapsto> entry)\<rparr>;
              (r, w') = Dynamic_doResolve net addr w
          in case r of
               Inr as \<Rightarrow>
                 if length as > 0 then
                   (let (dhr2, notices) = addressResolved addr (Inr as) dhr1 in ((dhr2, w'), notices))
                 else ((dhr1, w'), [])
             | Inl _ \<Rightarrow> ((dhr1, w'), []))
     | Some entry \<Rightarrow>
         ((dhr\<lparr>dhr_hostIPs := (dhr_hostIPs dhr)(addr \<mapsto> entry\<lparr>callbacks := callbacks entry @ [callback]\<rparr>)\<rparr>, w),
          [Call callback addr (addrs entry) []]))"

definition GetAddrsOfHost :: "'cb DynamicHostResolver \<Rightarrow> string \<Rightarrow> string list" where
  "GetAddrsOfHost dhr hostname =
     (case dhr_hostIPs dhr hostname of Some v \<Rightarrow> addrs v | None \<Rightarrow> [])"

definition Stop :: "'cb DynamicHostResolver \<Rightarrow> 'cb DynamicHostResolver" where
  "Stop dhr = (if dhr_stop dhr = 0 then dhr\<lparr>dhr_stop := 1\<rparr> else dhr)"

definition isStopped :: "'cb DynamicHostResolver \<Rightarrow> bool" where
  "isStopped dhr \<longleftrightarrow> dhr_stop dhr \<noteq> 0"

definition getHostnames :: "'w net \<Rightarrow> 'cb DynamicHostResolver \<Rightarrow> 'w \<Rightarrow> string list \<times> 'w" where
  "getHostnames net dhr w = map_keys net (dom (dhr_hostIPs dhr)) w"

definition notifyAddressChanged :: "'cb DynamicHostResolver \<Rightarrow> 'cb notice \<Rightarrow> 'cb notice list" where
  "notifyAddressChanged dhr n =
     (case n of
        Call cb h new removed \<Rightarrow> [n]
      | Notify h new removed \<Rightarrow>
          (case dhr_hostIPs dhr h of
             None \<Rightarrow> []
           | Some entry \<Rightarrow> map (\<lambda>cb. Call cb h new removed) (callbacks entry)))"

text \<open>One round of \<open>periodicalResolve\<close>.\<close>

fun resolve_hosts ::
  "'w net \<Rightarrow> string list \<Rightarrow> 'cb DynamicHostResolver \<times> 'w \<Rightarrow> ('cb DynamicHostResolver \<times> 'w) \<times> 'cb notice list"
where
  "resolve_hosts net [] s = (s, [])"
| "resolve_hosts net (h # hs) (dhr, w) =
     (let (r, w1) = Dynamic_doResolve net h w;
          (dhr1, n1) = addressResolved h r dhr;
          (s2, n2) = resolve_hosts net hs (dhr1, w1)
      in (s2, n1 @ n2))"

definition periodicalResolve ::
  "'w net \<Rightarrow> 'cb DynamicHostResolver \<times> 'w \<Rightarrow> ('cb DynamicHostResolver \<times> 'w) \<times> 'cb notice list"
where
  "periodicalResolve net = (\<lambda>(dhr, w).
     if isStopped dhr then ((dhr, w), [])
     else (let (hs, w1) = getHostnames net dhr w in resolve_hosts net hs (dhr, w1)))"

lemmas dynamic_eval [go_eval] =
  NewAddressWithCallback_def NewDynamicHostResolver_def Dynamic_doResolve_def entry_resolved_def
  addressResolved_def ResolveHost_def GetAddrsOfHost_def Stop_def isStopped_def getHostnames_def
  notifyAddressChanged_def periodicalResolve_def

section \<open>Subscribers that apply the notices in order follow the addresses\<close>

fun apply_notice :: "'cb notice \<Rightarrow> string set \<Rightarrow> string set" where
  "apply_notice (Call _ _ new removed) S = (S \<union> set new) - set removed"
| "apply_notice (Notify _ new removed) S = (S \<union> set new) - set removed"

lemma entry_resolved_follow:
  assumes "entry_resolved h r entry = (entry', ns)"
  shows "fold apply_notice ns (set (addrs entry)) = set (addrs entry')"
  using assms by (auto simp: entry_resolved_def Let_def split: sum.splits if_splits)

lemma entry_resolved_callbacks: "callbacks (fst (entry_resolved h r entry)) = callbacks entry"
  by (simp add: entry_resolved_def Let_def split: sum.split)

text \<open>The results of a sequence of lookups of one host.\<close>

fun resolve_run ::
  "string \<Rightarrow> string list result list \<Rightarrow> 'cb AddressWithCallback \<Rightarrow> 'cb AddressWithCallback \<times> 'cb notice list"
where
  "resolve_run h [] entry = (entry, [])"
| "resolve_run h (r # rs) entry =
     (let (entry1, n1) = entry_resolved h r entry; (entry2, n2) = resolve_run h rs entry1
      in (entry2, n1 @ n2))"

lemma resolve_run_follow:
  "resolve_run h rs entry = (entry', ns) \<Longrightarrow> fold apply_notice ns (set (addrs entry)) = set (addrs entry')"
proof (induction rs arbitrary: entry ns)
  case (Cons r rs)
  obtain e1 n1 where 1: "entry_resolved h r entry = (e1, n1)" by fastforce
  obtain e2 n2 where 2: "resolve_run h rs e1 = (e2, n2)" by fastforce
  have "entry' = e2" "ns = n1 @ n2" using Cons.prems 1 2 by auto
  then show ?case
    using Cons.IH 2 entry_resolved_follow [OF 1] by simp
qed simp

text \<open>The addresses survive three failures in a row, not four.\<close>

lemma resolve_run_failures:
  assumes "failed entry = 0" and "addrs entry \<noteq> []"
  shows "addrs (fst (resolve_run h [Inl e1, Inl e2, Inl e3] entry)) = addrs entry"
    "addrs (fst (resolve_run h [Inl e1, Inl e2, Inl e3, Inl e4] entry)) = []"
  using assms by (simp_all add: entry_resolved_def Let_def)

end
