(* ===== verification/Transports.thy ===== *)
theory Transports
  imports BufferPool SelfLearn Resolver
begin

text \<open>
  The client side of \<open>transport.go\<close>: UDP and TCP client transports, the factory that shares
  them, the fail-over transport and the manager that keeps one of these for every peer and
  for every transaction over TCP. Client transports and fail-over transports are pointers
  that several tables share: they live in stores under numbers. The callback
  \<open>connectionEstablished\<close> of the manager is recorded as a list of the connections it is given; it starts
  a reader on each of them, whose messages are inputs of the proxy, and the address of a connection that was dialled
  is one that splits into host and port.
\<close>

record UDPClient =
  uc_host :: string
  uc_port :: int
  uc_preConnected :: bool
  uc_conn :: "nat option"
  uc_localAddr :: "string option"

record TCPClient =
  tc_has_resolver :: bool
  tc_host :: string
  tc_port :: string
  tc_localAddress :: string
  tc_reconnectable :: bool
  tc_conn :: "nat option"
  tc_expire :: int
  tc_has_callback :: bool

datatype ClientTransport = UDPClientTransport UDPClient | TCPClientTransport TCPClient

record FailOver =
  fo_primary :: "nat option"
  fo_secondaries :: "nat list"

record 'w Clients =
  clients :: "nat \<rightharpoonup> ClientTransport"
  next_client :: nat
  client_table :: "string \<rightharpoonup> nat"
  failovers :: "nat \<rightharpoonup> FailOver"
  next_failover :: nat
  mgr_transports :: "string \<rightharpoonup> nat"
  mgr_lastCleanTime :: int
  cl_resolver :: PreConfigHostResolver
  cl_established :: "nat list"
  cl_world :: 'w

section \<open>Client transports\<close>

definition nil_pointer :: go_error where
  "nil_pointer = Panic ''nil pointer dereference''"

definition with_world :: "('w \<Rightarrow> 'a \<times> 'w) \<Rightarrow> 'w Clients \<Rightarrow> 'a \<times> 'w Clients" where
  "with_world f st = (case f (cl_world st) of (a, w) \<Rightarrow> (a, st\<lparr>cl_world := w\<rparr>))"

definition put_client :: "nat \<Rightarrow> ClientTransport \<Rightarrow> 'w Clients \<Rightarrow> 'w Clients" where
  "put_client i c st = st\<lparr>clients := (clients st)(i \<mapsto> c)\<rparr>"

definition new_client :: "ClientTransport \<Rightarrow> 'w Clients \<Rightarrow> nat \<times> 'w Clients" where
  "new_client c st =
     (next_client st, st\<lparr>clients := (clients st)(next_client st \<mapsto> c), next_client := Suc (next_client st)\<rparr>)"

definition resolve_host :: "'w net \<Rightarrow> string \<Rightarrow> ('w Clients, string list) call" where
  "resolve_host net host st =
     (case GetIps net host (cl_resolver st, cl_world st) of
        (r, (hr, w)) \<Rightarrow> (r, st\<lparr>cl_resolver := hr, cl_world := w\<rparr>))"

definition NewUDPClientTransport :: "'w net \<Rightarrow> string \<Rightarrow> int \<Rightarrow> string \<Rightarrow> 'w Clients \<Rightarrow> ClientTransport \<times> 'w Clients" where
  "NewUDPClientTransport net host p localAddress st =
     (let (laddr, st') =
        (if length localAddress > 0 then
           (case with_world (resolve_addr net (JoinHostPort localAddress ''0'')) st of
              (Inr a, st') \<Rightarrow> (Some a, st') | (Inl _, st') \<Rightarrow> (None, st'))
         else (None, st))
      in (UDPClientTransport \<lparr>uc_host = host, uc_port = p, uc_preConnected = True, uc_conn = None,
            uc_localAddr = laddr\<rparr>, st'))"

definition NewUDPClientTransportWithConn :: "string \<Rightarrow> int \<Rightarrow> nat option \<Rightarrow> ClientTransport" where
  "NewUDPClientTransportWithConn host p conn =
     UDPClientTransport \<lparr>uc_host = host, uc_port = p, uc_preConnected = False, uc_conn = conn, uc_localAddr = None\<rparr>"

definition NewTCPClientTransport :: "string \<Rightarrow> int \<Rightarrow> string \<Rightarrow> ClientTransport" where
  "NewTCPClientTransport host p localAddress =
     TCPClientTransport \<lparr>tc_has_resolver = True, tc_host = host, tc_port = Itoa p,
       tc_localAddress = localAddress, tc_reconnectable = True, tc_conn = None, tc_expire = 0,
       tc_has_callback = True\<rparr>"

definition NewTCPClientTransportWithConn :: "'w net \<Rightarrow> int \<Rightarrow> nat \<Rightarrow> ClientTransport" where
  "NewTCPClientTransportWithConn net now conn =
     (let (host, p) = value_or ([], []) (SplitHostPort (remote_addr net conn))
      in TCPClientTransport \<lparr>tc_has_resolver = False, tc_host = host, tc_port = p, tc_localAddress = [],
           tc_reconnectable = False, tc_conn = Some conn, tc_expire = now + 3600, tc_has_callback = False\<rparr>)"

section \<open>Sending over UDP\<close>

text \<open>The addresses \<open>net.UDPAddr{IP, Port}\<close> of the peer, as texts.\<close>

definition getPeerAddrs :: "'w net \<Rightarrow> UDPClient \<Rightarrow> ('w Clients, string list) call" where
  "getPeerAddrs net u =
     sbind (resolve_host net (uc_host u)) (\<lambda>ips.
       let peerAddrs = map (\<lambda>ip. JoinHostPort ip (Itoa (uc_port u))) (filter ParseIP ips)
       in sret (if length peerAddrs = 0 then Inl (Errorf ''no available remote addresses'') else Inr peerAddrs))"

fun dial_peers :: "'w net \<Rightarrow> string option \<Rightarrow> string list \<Rightarrow> 'w Clients \<Rightarrow> nat option \<times> 'w Clients" where
  "dial_peers net laddr [] st = (None, st)"
| "dial_peers net laddr (a # as) st =
     (case with_world (dial_udp net laddr a) st of
        (Inr c, st') \<Rightarrow> (Some c, st')
      | (Inl _, st') \<Rightarrow> dial_peers net laddr as st')"

definition UDPClient_connect :: "'w net \<Rightarrow> UDPClient \<Rightarrow> ('w Clients, UDPClient) call" where
  "UDPClient_connect net u =
     (if uc_conn u \<noteq> None then sret (Inr u)
      else sbind (getPeerAddrs net u) (\<lambda>peerAddrs st.
        case dial_peers net (uc_localAddr u) peerAddrs st of
          (Some c, st') \<Rightarrow> (Inr (u\<lparr>uc_conn := Some c\<rparr>), st')
        | (None, st') \<Rightarrow>
            (Inl (Errorf (Fprintf0 (''fail to listen on UDP'' @
               (case uc_localAddr u of Some a \<Rightarrow> a | None \<Rightarrow> ''<nil>'')))), st')))"

fun write_to_peers :: "'w net \<Rightarrow> nat \<Rightarrow> string \<Rightarrow> string list \<Rightarrow> 'w Clients \<Rightarrow> bool \<times> 'w Clients" where
  "write_to_peers net c b [] st = (False, st)"
| "write_to_peers net c b (a # as) st =
     (case with_world (conn_write_to net c b a) st of
        (Inr _, st') \<Rightarrow> (True, st')
      | (Inl _, st') \<Rightarrow> write_to_peers net c b as st')"

definition UDPClient_sendData :: "'w net \<Rightarrow> UDPClient \<Rightarrow> string \<Rightarrow> ('w Clients, unit) call" where
  "UDPClient_sendData net u b st =
     (case uc_conn u of
        None \<Rightarrow> (Inl nil_pointer, st)
      | Some c \<Rightarrow>
          if uc_preConnected u then with_world (conn_write net c b) st
          else
            (let failure = Inl (Errorf (Fprintf0 (''fail to send data to '' @ uc_host u @ '':'' @ Itoa (uc_port u)))) in
             case getPeerAddrs net u st of
               (Inl _, st') \<Rightarrow> (failure, st')
             | (Inr peerAddrs, st') \<Rightarrow>
                 (case write_to_peers net c b peerAddrs st' of
                    (True, st'') \<Rightarrow> (Inr (), st'')
                  | (False, st'') \<Rightarrow> (failure, st''))))"

definition UDPClient_Send :: "'w net \<Rightarrow> Message \<Rightarrow> nat \<Rightarrow> UDPClient \<Rightarrow> ('w Clients, unit) call" where
  "UDPClient_Send net msg i u =
     sbind (UDPClient_connect net u) (\<lambda>u' st.
       UDPClient_sendData net u' (Message_Write msg) (put_client i (UDPClientTransport u') st))"

section \<open>Sending over TCP\<close>

fun tcp_dial_ips ::
  "'w net \<Rightarrow> string option \<Rightarrow> string \<Rightarrow> string list \<Rightarrow> 'w Clients \<Rightarrow> nat option \<times> 'w Clients"
where
  "tcp_dial_ips net laddr p [] st = (None, st)"
| "tcp_dial_ips net laddr p (ip # ips) st =
     (case with_world (resolve_addr net (JoinHostPort ip p)) st of
        (Inl _, st') \<Rightarrow> tcp_dial_ips net laddr p ips st'
      | (Inr raddr, st') \<Rightarrow>
          (case with_world (dial_tcp net laddr raddr) st' of
             (Inl _, st'') \<Rightarrow> tcp_dial_ips net laddr p ips st''
           | (Inr c, st'') \<Rightarrow> (Some c, st'')))"

definition tcp_client_resolve :: "'w net \<Rightarrow> TCPClient \<Rightarrow> ('w Clients, string list) call" where
  "tcp_client_resolve net t =
     (if tc_has_resolver t then resolve_host net (tc_host t) else sret (Inr [tc_host t]))"

definition TCPClient_createConnection :: "'w net \<Rightarrow> TCPClient \<Rightarrow> ('w Clients, TCPClient) call" where
  "TCPClient_createConnection net t =
     sbind (tcp_client_resolve net t) (\<lambda>ips st.
       case with_world (resolve_addr net (JoinHostPort (tc_localAddress t) ''0'')) st of
         (l, st1) \<Rightarrow>
           (case tcp_dial_ips net (case l of Inr a \<Rightarrow> Some a | Inl _ \<Rightarrow> None) (tc_port t) ips st1 of
              (None, st2) \<Rightarrow>
                (Inl (Errorf (Fprintf0 (''fail to connect tcp server '' @ tc_host t @ '':'' @ tc_port t))), st2)
            | (Some c, st2) \<Rightarrow>
                (Inr (t\<lparr>tc_conn := Some c\<rparr>),
                 if tc_has_callback t then st2\<lparr>cl_established := cl_established st2 @ [c]\<rparr> else st2)))"

text \<open>The loop of \<open>Send\<close>, \<open>n\<close> more times.\<close>

fun TCPClient_try ::
  "'w net \<Rightarrow> nat \<Rightarrow> string \<Rightarrow> nat \<Rightarrow> TCPClient \<Rightarrow> 'w Clients \<Rightarrow> bool \<times> 'w Clients"
where
  "TCPClient_try net 0 b i t st = (False, put_client i (TCPClientTransport t) st)"
| "TCPClient_try net (Suc n) b i t st =
     (let (t1, st1) =
        (if tc_conn t = None \<and> tc_reconnectable t then
           (case TCPClient_createConnection net t st of (Inr t', st') \<Rightarrow> (t', st') | (Inl _, st') \<Rightarrow> (t, st'))
         else (t, st))
      in case tc_conn t1 of
           None \<Rightarrow> TCPClient_try net n b i t1 st1
         | Some c \<Rightarrow>
             (case with_world (conn_write net c b) st1 of
                (Inr _, st2) \<Rightarrow> (True, put_client i (TCPClientTransport t1) st2)
              | (Inl _, st2) \<Rightarrow>
                  TCPClient_try net n b i (t1\<lparr>tc_conn := None\<rparr>) (snd (with_world (conn_close net c) st2))))"

definition TCPClient_Send :: "'w net \<Rightarrow> Message \<Rightarrow> nat \<Rightarrow> TCPClient \<Rightarrow> ('w Clients, unit) call" where
  "TCPClient_Send net msg i t st =
     (case TCPClient_try net 2 (Message_Write msg) i t st of
        (True, st') \<Rightarrow> (Inr (), st')
      | (False, st') \<Rightarrow>
          (Inl (Errorf (Fprintf0 (''fail to send message to '' @ tc_host t @ '':'' @ tc_port t))), st'))"

definition Client_Send :: "'w net \<Rightarrow> Message \<Rightarrow> nat \<Rightarrow> ('w Clients, unit) call" where
  "Client_Send net msg i st =
     (case clients st i of
        None \<Rightarrow> (Inl nil_pointer, st)
      | Some (UDPClientTransport u) \<Rightarrow> UDPClient_Send net msg i u st
      | Some (TCPClientTransport t) \<Rightarrow> TCPClient_Send net msg i t st)"

definition Client_IsExpired :: "int \<Rightarrow> nat \<Rightarrow> 'w Clients \<Rightarrow> bool" where
  "Client_IsExpired now i st =
     (case clients st i of
        Some (TCPClientTransport t) \<Rightarrow> tc_expire t > 0 \<and> now > tc_expire t
      | _ \<Rightarrow> False)"

section \<open>Fail-over\<close>

text \<open>The constructor does not use its second argument.\<close>

definition NewFailOverClientTransport :: "nat option \<Rightarrow> nat list \<Rightarrow> FailOver" where
  "NewFailOverClientTransport primary secondaries = \<lparr>fo_primary = primary, fo_secondaries = []\<rparr>"

definition SetPrimary :: "nat \<Rightarrow> FailOver \<Rightarrow> FailOver" where
  "SetPrimary client f = f\<lparr>fo_primary := Some client\<rparr>"

definition AddSecondary :: "nat \<Rightarrow> FailOver \<Rightarrow> FailOver" where
  "AddSecondary client f = f\<lparr>fo_secondaries := fo_secondaries f @ [client]\<rparr>"

definition SetSecondaries :: "nat list \<Rightarrow> FailOver \<Rightarrow> FailOver" where
  "SetSecondaries cs f = f\<lparr>fo_secondaries := cs\<rparr>"

fun send_secondaries :: "'w net \<Rightarrow> Message \<Rightarrow> nat list \<Rightarrow> ('w Clients, unit) call" where
  "send_secondaries net msg [] st = (Inl (Errorf ''fail to send message''), st)"
| "send_secondaries net msg (i # is) st =
     (case Client_Send net msg i st of
        (Inr _, st') \<Rightarrow> (Inr (), st')
      | (Inl _, st') \<Rightarrow> send_secondaries net msg is st')"

definition FailOver_Send :: "'w net \<Rightarrow> Message \<Rightarrow> FailOver \<Rightarrow> ('w Clients, unit) call" where
  "FailOver_Send net msg f st =
     (case fo_primary f of
        None \<Rightarrow> send_secondaries net msg (fo_secondaries f) st
      | Some i \<Rightarrow>
          (case Client_Send net msg i st of
             (Inr _, st') \<Rightarrow> (Inr (), st')
           | (Inl _, st') \<Rightarrow> send_secondaries net msg (fo_secondaries f) st'))"

definition IsConnected :: "FailOver \<Rightarrow> bool" where
  "IsConnected f \<longleftrightarrow> fo_primary f \<noteq> None \<or> length (fo_secondaries f) > 0"

text \<open>\<open>now i\<close> is the reading of the clock for client \<open>i\<close>.\<close>

definition FailOver_IsExpired :: "(nat \<Rightarrow> int) \<Rightarrow> FailOver \<Rightarrow> 'w Clients \<Rightarrow> bool" where
  "FailOver_IsExpired now f st \<longleftrightarrow>
     (case fo_primary f of Some i \<Rightarrow> Client_IsExpired (now i) i st | None \<Rightarrow> False) \<or>
     (\<exists>i \<in> set (fo_secondaries f). Client_IsExpired (now i) i st)"

end
