(* ===== verification/TransportMgr.thy ===== *)
theory TransportMgr
  imports Transports
begin

text \<open>
  The factory and the manager of client transports of \<open>transport.go\<close>, and what they guarantee:
  which transport a message to a peer goes out on, and when a transport is shared.
\<close>

section \<open>The factory\<close>

definition client_key :: "string \<Rightarrow> string \<Rightarrow> int \<Rightarrow> string \<Rightarrow> string" where
  "client_key protocol host p local = protocol @ '':'' @ host @ '':'' @ Itoa p @ '':'' @ local"

definition cached_client :: "string \<Rightarrow> ('w Clients \<Rightarrow> ClientTransport \<times> 'w Clients) \<Rightarrow> 'w Clients \<Rightarrow> nat \<times> 'w Clients" where
  "cached_client key create st =
     (case client_table st key of
        Some i \<Rightarrow> (i, st)
      | None \<Rightarrow>
          (let (c, st1) = create st; (i, st2) = new_client c st1
           in (i, st2\<lparr>client_table := (client_table st2)(key \<mapsto> i)\<rparr>)))"

definition CreateUDPClientTransport :: "'w net \<Rightarrow> string \<Rightarrow> int \<Rightarrow> string \<Rightarrow> 'w Clients \<Rightarrow> nat \<times> 'w Clients" where
  "CreateUDPClientTransport net host p localAddress =
     cached_client (client_key ''udp'' host p localAddress) (NewUDPClientTransport net host p localAddress)"

text \<open>The \<open>%p\<close> of a connection is a text that differs for different connections.\<close>

definition ptr_text :: "nat option \<Rightarrow> string" where
  "ptr_text conn = (case conn of None \<Rightarrow> ''0x0'' | Some c \<Rightarrow> ''0xc'' @ Itoa (int c))"

definition CreateUDPClientTransportWithConn :: "string \<Rightarrow> int \<Rightarrow> nat option \<Rightarrow> 'w Clients \<Rightarrow> nat \<times> 'w Clients" where
  "CreateUDPClientTransportWithConn host p conn =
     cached_client (client_key ''udp'' host p (ptr_text conn)) (\<lambda>st. (NewUDPClientTransportWithConn host p conn, st))"

definition CreateTCPClientTransport :: "string \<Rightarrow> int \<Rightarrow> string \<Rightarrow> 'w Clients \<Rightarrow> nat \<times> 'w Clients" where
  "CreateTCPClientTransport host p localAddress =
     cached_client (client_key ''tcp'' host p localAddress) (\<lambda>st. (NewTCPClientTransport host p localAddress, st))"

definition RemoveUDPClientTransport :: "string \<Rightarrow> int \<Rightarrow> string \<Rightarrow> 'w Clients \<Rightarrow> 'w Clients" where
  "RemoveUDPClientTransport host p localAddress st =
     st\<lparr>client_table := (client_table st)(client_key ''udp'' host p localAddress := None)\<rparr>"

definition RemoveTCPClientTransport :: "string \<Rightarrow> int \<Rightarrow> string \<Rightarrow> 'w Clients \<Rightarrow> 'w Clients" where
  "RemoveTCPClientTransport host p localAddress st =
     st\<lparr>client_table := (client_table st)(client_key ''tcp'' host p localAddress := None)\<rparr>"

section \<open>The manager\<close>

definition SupportedProtocol :: "string \<Rightarrow> bool" where
  "SupportedProtocol protocol \<longleftrightarrow> protocol \<in> {''udp'', ''tcp''}"

definition getFullAddr :: "string \<Rightarrow> string \<Rightarrow> int \<Rightarrow> string \<Rightarrow> string" where
  "getFullAddr protocol host p transId =
     (let fullAddr = protocol @ ''://'' @ JoinHostPort host (Itoa p) in
      if protocol = ''tcp'' \<and> transId \<noteq> [] then fullAddr @ ''-'' @ transId else fullAddr)"

definition new_failover :: "FailOver \<Rightarrow> 'w Clients \<Rightarrow> nat \<times> 'w Clients" where
  "new_failover f st =
     (next_failover st,
      st\<lparr>failovers := (failovers st)(next_failover st \<mapsto> f), next_failover := Suc (next_failover st)\<rparr>)"

definition put_transport :: "string \<Rightarrow> nat \<Rightarrow> 'w Clients \<Rightarrow> 'w Clients" where
  "put_transport key f st = st\<lparr>mgr_transports := (mgr_transports st)(key \<mapsto> f)\<rparr>"

definition create_udp :: "'w net \<Rightarrow> SelfLearnRoute \<Rightarrow> string \<Rightarrow> int \<Rightarrow> string \<Rightarrow> 'w Clients \<Rightarrow> nat \<times> 'w Clients" where
  "create_udp net sl host p localAddress st =
     (let (client, st') =
        (case SelfLearnRoute_GetRoute sl host ''udp'' of
           Some (UDPServerTransport _ conn) \<Rightarrow> CreateUDPClientTransportWithConn host p conn st
         | _ \<Rightarrow> CreateUDPClientTransport net host p localAddress st)
      in new_failover (NewFailOverClientTransport (Some client) []) st')"

definition create_tcp :: "string \<Rightarrow> int \<Rightarrow> string \<Rightarrow> 'w Clients \<Rightarrow> nat \<times> 'w Clients" where
  "create_tcp host p localAddress st =
     (let addr = getFullAddr ''tcp'' host p [] in
      case mgr_transports st addr of
        Some f \<Rightarrow>
          new_failover (NewFailOverClientTransport None
            (case failovers st f of Some fo \<Rightarrow> fo_secondaries fo | None \<Rightarrow> [])) st
      | None \<Rightarrow>
          (let (client, st1) = CreateTCPClientTransport host p localAddress st;
               (f, st2) = new_failover (NewFailOverClientTransport None [client]) st1
           in (f, put_transport addr f st2)))"

definition getLocalAddress :: "SelfLearnRoute \<Rightarrow> string \<Rightarrow> string \<Rightarrow> string" where
  [simp]: "getLocalAddress sl host protocol = GetRouteAddress sl host protocol"

definition createClientTransport ::
  "'w net \<Rightarrow> SelfLearnRoute \<Rightarrow> string \<Rightarrow> string \<Rightarrow> int \<Rightarrow> ('w Clients, nat) call"
where
  "createClientTransport net sl protocol host p st =
     (let localAddress = getLocalAddress sl host protocol in
      if protocol = ''udp'' then (case create_udp net sl host p localAddress st of (f, st') \<Rightarrow> (Inr f, st'))
      else if protocol = ''tcp'' then (case create_tcp host p localAddress st of (f, st') \<Rightarrow> (Inr f, st'))
      else (Inl (Errorf (''not support '' @ protocol)), st))"

text \<open>
  \<open>now\<close> is the reading at the start, \<open>at key i\<close> the one for client \<open>i\<close> of the transport under \<open>key\<close>.
\<close>

definition cleanExpiredTransport :: "int \<Rightarrow> (string \<Rightarrow> nat \<Rightarrow> int) \<Rightarrow> 'w Clients \<Rightarrow> 'w Clients" where
  "cleanExpiredTransport now at st =
     (if now - mgr_lastCleanTime st < 60 then st
      else st\<lparr>mgr_lastCleanTime := now,
              mgr_transports := map_without (mgr_transports st)
                {key. \<exists>f fo. mgr_transports st key = Some f \<and> failovers st f = Some fo \<and>
                   FailOver_IsExpired (at key) fo st}\<rparr>)"

definition GetTransport ::
  "'w net \<Rightarrow> SelfLearnRoute \<Rightarrow> int \<Rightarrow> (string \<Rightarrow> nat \<Rightarrow> int) \<Rightarrow> string \<Rightarrow> string \<Rightarrow> int \<Rightarrow> string \<Rightarrow> ('w Clients, nat) call"
where
  "GetTransport net sl now at protocol host p transId st =
     (let st1 = cleanExpiredTransport now at st;
          proto = ToLower protocol
      in if \<not> SupportedProtocol proto then (Inl (Errorf (''not support '' @ proto)), st1)
         else
           (let fullAddr = getFullAddr proto host p transId in
            case mgr_transports st1 fullAddr of
              Some f \<Rightarrow> (Inr f, st1)
            | None \<Rightarrow>
                (case createClientTransport net sl proto host p st1 of
                   (Inl e, st2) \<Rightarrow> (Inl e, st2)
                 | (Inr f, st2) \<Rightarrow> (Inr f, put_transport fullAddr f st2))))"

definition RemoveTransport :: "string \<Rightarrow> string \<Rightarrow> int \<Rightarrow> string \<Rightarrow> 'w Clients \<Rightarrow> 'w Clients" where
  "RemoveTransport protocol host p transId st =
     (let proto = ToLower protocol in
      if \<not> SupportedProtocol proto then st
      else st\<lparr>mgr_transports := (mgr_transports st)(getFullAddr proto host p transId := None)\<rparr>)"

text \<open>\<open>trans.primary, _ = NewTCPClientTransportWithConn(conn)\<close>\<close>

definition set_primary_conn :: "'w net \<Rightarrow> int \<Rightarrow> nat \<Rightarrow> nat \<Rightarrow> 'w Clients \<Rightarrow> 'w Clients" where
  "set_primary_conn net now conn f st =
     (let (i, st1) = new_client (NewTCPClientTransportWithConn net now conn) st in
      st1\<lparr>failovers := (failovers st1)(f :=
        map_option (\<lambda>fo. fo\<lparr>fo_primary := Some i\<rparr>) (failovers st1 f))\<rparr>)"

definition Transport_Send :: "'w net \<Rightarrow> Message \<Rightarrow> nat \<Rightarrow> ('w Clients, unit) call" where
  "Transport_Send net msg f st =
     (case failovers st f of None \<Rightarrow> (Inl nil_pointer, st) | Some fo \<Rightarrow> FailOver_Send net msg fo st)"

lemmas transports_eval [go_eval] =
  with_world_def put_client_def new_client_def resolve_host_def NewUDPClientTransport_def
  NewUDPClientTransportWithConn_def NewTCPClientTransport_def NewTCPClientTransportWithConn_def
  getPeerAddrs_def UDPClient_connect_def UDPClient_sendData_def UDPClient_Send_def
  tcp_client_resolve_def TCPClient_createConnection_def TCPClient_Send_def Client_Send_def
  Client_IsExpired_def NewFailOverClientTransport_def SetPrimary_def AddSecondary_def
  SetSecondaries_def FailOver_Send_def IsConnected_def FailOver_IsExpired_def client_key_def
  cached_client_def CreateUDPClientTransport_def ptr_text_def CreateUDPClientTransportWithConn_def
  CreateTCPClientTransport_def RemoveUDPClientTransport_def RemoveTCPClientTransport_def
  SupportedProtocol_def getFullAddr_def new_failover_def put_transport_def create_udp_def
  create_tcp_def getLocalAddress_def createClientTransport_def cleanExpiredTransport_def GetTransport_def
  RemoveTransport_def set_primary_conn_def Transport_Send_def nil_pointer_def

section \<open>The stores\<close>

text \<open>
  Every number in a table is the number of an object, the objects that were made are those
  below the next number, and no transport has secondaries: the constructor drops them and
  nothing adds any later.
\<close>

definition clients_inv :: "'w Clients \<Rightarrow> bool" where
  "clients_inv st \<longleftrightarrow>
     (\<forall>i. clients st i \<noteq> None \<longleftrightarrow> i < next_client st) \<and>
     (\<forall>f. failovers st f \<noteq> None \<longleftrightarrow> f < next_failover st) \<and>
     (\<forall>k i. client_table st k = Some i \<longrightarrow> i < next_client st) \<and>
     (\<forall>k f. mgr_transports st k = Some f \<longrightarrow> f < next_failover st) \<and>
     (\<forall>f fo i. failovers st f = Some fo \<longrightarrow> fo_primary fo = Some i \<longrightarrow> i < next_client st) \<and>
     (\<forall>f fo. failovers st f = Some fo \<longrightarrow> fo_secondaries fo = [])"

text \<open>What the factory may change: it adds clients and entries of its table.\<close>

definition grows :: "'w Clients \<Rightarrow> 'w Clients \<Rightarrow> bool" where
  "grows st st' \<longleftrightarrow> failovers st' = failovers st \<and> mgr_transports st' = mgr_transports st \<and>
     next_failover st' = next_failover st \<and> next_client st \<le> next_client st'"

lemma clients_inv_new_client:
  assumes "clients_inv st" and "new_client c st = (i, st')"
  shows "clients_inv st'" and "i < next_client st'" and "clients st' i = Some c" and "grows st st'"
    and "client_table st' = client_table st"
proof -
  have st': "i = next_client st"
      "st' = st\<lparr>clients := (clients st)(next_client st \<mapsto> c), next_client := Suc (next_client st)\<rparr>"
    using assms(2) by (auto simp: new_client_def)
  show "clients_inv st'"
    using assms(1) unfolding st' clients_inv_def by (simp add: less_Suc_eq)
  show "i < next_client st'" "clients st' i = Some c" "grows st st'" "client_table st' = client_table st"
    unfolding st' grows_def by simp_all
qed

definition client_creator :: "('w Clients \<Rightarrow> ClientTransport \<times> 'w Clients) \<Rightarrow> bool" where
  "client_creator create \<longleftrightarrow> (\<forall>st c st'. create st = (c, st') \<longrightarrow> (\<exists>w. st' = st\<lparr>cl_world := w\<rparr>))"

lemma world_self: "\<exists>w. (st :: 'w Clients) = st\<lparr>cl_world := w\<rparr>"
  by (rule exI [of _ "cl_world st"]) simp

lemma client_creators:
  "client_creator (\<lambda>st. (c, st))" "client_creator (NewUDPClientTransport net host p localAddress)"
proof -
  show "client_creator (\<lambda>st. (c, st))"
    by (simp add: client_creator_def world_self)
  show "client_creator (NewUDPClientTransport net host p localAddress)"
    by (auto simp: client_creator_def NewUDPClientTransport_def with_world_def world_self
        split: prod.splits sum.splits if_splits)
qed

lemma clients_inv_world [simp]: "clients_inv (st\<lparr>cl_world := w\<rparr>) = clients_inv st"
  by (simp add: clients_inv_def)

lemma clients_inv_cached_client:
  assumes inv: "clients_inv st" and cr: "client_creator create" and c: "cached_client key create st = (i, st')"
  shows "clients_inv st' \<and> i < next_client st' \<and> client_table st' key = Some i \<and> grows st st'"
proof (cases "client_table st key")
  case (Some j)
  then have "i = j" "st' = st" using c by (auto simp: cached_client_def)
  with Some inv show ?thesis by (simp add: clients_inv_def grows_def)
next
  case None
  obtain cl st1 where 1: "create st = (cl, st1)" by fastforce
  obtain j st2 where 2: "new_client cl st1 = (j, st2)" by fastforce
  from cr 1 have "\<exists>w. st1 = st\<lparr>cl_world := w\<rparr>" unfolding client_creator_def by blast
  then obtain w where w: "st1 = st\<lparr>cl_world := w\<rparr>" by blast
  then have "clients_inv st1" using inv by simp
  note n = clients_inv_new_client [OF this 2]
  have i: "i = j" "st' = st2\<lparr>client_table := (client_table st2)(key \<mapsto> j)\<rparr>"
    using c None 1 2 by (auto simp: cached_client_def)
  have "clients_inv st'"
    using n(1,2) unfolding i clients_inv_def by (simp split: if_splits)
  moreover have "grows st st'"
    using n(4) unfolding i w grows_def by simp
  ultimately show ?thesis using n(2) i by simp
qed

lemma clients_inv_new_failover:
  assumes inv: "clients_inv st" and f: "new_failover (NewFailOverClientTransport pr sec) st = (f, st')"
    and p: "\<And>i. pr = Some i \<Longrightarrow> i < next_client st"
  shows "clients_inv st'" and "f < next_failover st'" and "mgr_transports st' = mgr_transports st"
    and "failovers st' f = Some \<lparr>fo_primary = pr, fo_secondaries = []\<rparr>"
    and "clients st' = clients st"
proof -
  have st': "f = next_failover st"
      "st' = st\<lparr>failovers := (failovers st)(next_failover st \<mapsto> \<lparr>fo_primary = pr, fo_secondaries = []\<rparr>),
         next_failover := Suc (next_failover st)\<rparr>"
    using f by (auto simp: new_failover_def NewFailOverClientTransport_def)
  show "clients_inv st'"
    using inv p unfolding st' clients_inv_def by (simp add: less_Suc_eq)
  show "f < next_failover st'" "mgr_transports st' = mgr_transports st" "clients st' = clients st"
    "failovers st' f = Some \<lparr>fo_primary = pr, fo_secondaries = []\<rparr>"
    unfolding st' by simp_all
qed

lemma clients_inv_put_transport:
  "clients_inv st \<Longrightarrow> f < next_failover st \<Longrightarrow> clients_inv (put_transport key f st)"
  by (simp add: clients_inv_def put_transport_def)

lemma clients_inv_clean: "clients_inv st \<Longrightarrow> clients_inv (cleanExpiredTransport now at st)"
  by (simp add: clients_inv_def cleanExpiredTransport_def)

lemma clients_inv_create_udp:
  assumes inv: "clients_inv st" and c: "create_udp net sl host p l st = (f, st')"
  shows "clients_inv st' \<and> f < next_failover st' \<and> mgr_transports st' = mgr_transports st \<and>
    (\<exists>i. failovers st' f = Some \<lparr>fo_primary = Some i, fo_secondaries = []\<rparr>)"
proof -
  have "\<exists>create key. client_creator create \<and> (case SelfLearnRoute_GetRoute sl host ''udp'' of
           Some (UDPServerTransport _ conn) \<Rightarrow> CreateUDPClientTransportWithConn host p conn st
         | _ \<Rightarrow> CreateUDPClientTransport net host p l st) = cached_client key create st"
    unfolding CreateUDPClientTransportWithConn_def CreateUDPClientTransport_def
    using client_creators by (auto split: option.split ServerTransport.split) blast+
  then obtain create key where cr: "client_creator create"
      and e: "(case SelfLearnRoute_GetRoute sl host ''udp'' of
           Some (UDPServerTransport _ conn) \<Rightarrow> CreateUDPClientTransportWithConn host p conn st
         | _ \<Rightarrow> CreateUDPClientTransport net host p l st) = cached_client key create st"
    by blast
  obtain i st1 where 1: "cached_client key create st = (i, st1)" by fastforce
  note n = clients_inv_cached_client [OF inv cr 1]
  have f: "new_failover (NewFailOverClientTransport (Some i) []) st1 = (f, st')"
    using c unfolding create_udp_def e 1 by simp
  show ?thesis
    using clients_inv_new_failover [OF conjunct1 [OF n] f] n by (auto simp: grows_def)
qed

lemma clients_inv_create_tcp:
  assumes inv: "clients_inv st" and c: "create_tcp host p l st = (f, st')"
  shows "clients_inv st' \<and> f < next_failover st' \<and>
    failovers st' f = Some \<lparr>fo_primary = None, fo_secondaries = []\<rparr>"
proof (cases "mgr_transports st (getFullAddr ''tcp'' host p [])")
  case (Some g)
  then have f: "new_failover (NewFailOverClientTransport None
      (case failovers st g of Some fo \<Rightarrow> fo_secondaries fo | None \<Rightarrow> [])) st = (f, st')"
    using c by (simp add: create_tcp_def Let_def)
  show ?thesis using clients_inv_new_failover [OF inv f] by simp
next
  case None
  obtain i st1 where 1: "cached_client (client_key ''tcp'' host p l) (\<lambda>st. (NewTCPClientTransport host p l, st)) st = (i, st1)"
    by fastforce
  note n = clients_inv_cached_client [OF inv client_creators(1) 1]
  obtain g st2 where 2: "new_failover (NewFailOverClientTransport None [i]) st1 = (g, st2)" by fastforce
  note m = clients_inv_new_failover [OF conjunct1 [OF n] 2]
  have "f = g" "st' = put_transport (getFullAddr ''tcp'' host p []) g st2"
    using c None 1 2 by (auto simp: create_tcp_def CreateTCPClientTransport_def Let_def)
  with m show ?thesis by (simp add: clients_inv_put_transport) (simp add: put_transport_def)
qed

lemma clients_inv_createClientTransport:
  assumes inv: "clients_inv st" and sp: "SupportedProtocol protocol"
    and c: "createClientTransport net sl protocol host p st = (r, st')"
  shows "\<exists>f. r = Inr f \<and> clients_inv st' \<and> f < next_failover st'"
proof (cases "protocol = ''udp''")
  case True
  obtain f st1 where 1: "create_udp net sl host p (GetRouteAddress sl host protocol) st = (f, st1)" by fastforce
  then have "r = Inr f \<and> st' = st1" using c True by (simp add: createClientTransport_def Let_def)
  with clients_inv_create_udp [OF inv 1] show ?thesis by simp
next
  case False
  obtain f st1 where 1: "create_tcp host p (GetRouteAddress sl host protocol) st = (f, st1)" by fastforce
  then have "r = Inr f \<and> st' = st1"
    using c False sp by (simp add: createClientTransport_def SupportedProtocol_def Let_def)
  with clients_inv_create_tcp [OF inv 1] show ?thesis by simp
qed

lemma GetTransport_inv:
  assumes inv: "clients_inv st" and g: "GetTransport net sl now at protocol host p transId st = (r, st')"
  shows "clients_inv st' \<and> (\<forall>f. r = Inr f \<longrightarrow>
    mgr_transports st' (getFullAddr (ToLower protocol) host p transId) = Some f \<and> f < next_failover st')"
proof -
  define st1 where "st1 = cleanExpiredTransport now at st"
  let ?a = "getFullAddr (ToLower protocol) host p transId"
  have i1: "clients_inv st1" using inv by (simp add: st1_def clients_inv_clean)
  consider "\<not> SupportedProtocol (ToLower protocol)" | f where "SupportedProtocol (ToLower protocol)" "mgr_transports st1 ?a = Some f"
    | "SupportedProtocol (ToLower protocol)" "mgr_transports st1 ?a = None" by fastforce
  then show ?thesis
  proof cases
    case 1
    then have "st' = st1 \<and> \<not> is_ok r" using g by (auto simp: GetTransport_def Let_def st1_def)
    then show ?thesis using i1 by auto
  next
    case 2
    then have "st' = st1 \<and> r = Inr f" using g by (auto simp: GetTransport_def Let_def st1_def)
    with 2 i1 show ?thesis by (auto simp: clients_inv_def)
  next
    case 3
    obtain q st2 where 4: "createClientTransport net sl (ToLower protocol) host p st1 = (q, st2)" by fastforce
    have "\<exists>f. q = Inr f \<and> clients_inv st2 \<and> f < next_failover st2"
      by (rule clients_inv_createClientTransport [OF i1 3(1) 4])
    then obtain f where f: "q = Inr f" "clients_inv st2" "f < next_failover st2" by blast
    then have "r = Inr f" "st' = put_transport ?a f st2"
      using g 3 4 by (auto simp: GetTransport_def Let_def st1_def)
    with f show ?thesis
      by (auto simp: clients_inv_put_transport) (simp_all add: put_transport_def)
  qed
qed

end
