(* ===== verification/TransportFacts.thy ===== *)
theory TransportFacts
  imports TransportMgr
begin

text \<open>
  What a message to a peer goes out on: the transport of the manager is the same at every
  call until it is removed or expires, a transport given a connection writes to it, and a
  new transport over TCP has no client at all.
\<close>

lemma GetTransport_cached:
  assumes "SupportedProtocol (ToLower protocol)"
    and "mgr_transports (cleanExpiredTransport now at st) (getFullAddr (ToLower protocol) host p transId) = Some f"
  shows "GetTransport net sl now at protocol host p transId st = (Inr f, cleanExpiredTransport now at st)"
  using assms by (simp add: GetTransport_def Let_def)

lemma clean_keeps:
  assumes "mgr_transports st key = Some f"
    and "\<And>fo. failovers st f = Some fo \<Longrightarrow> \<not> FailOver_IsExpired (at key) fo st"
  shows "mgr_transports (cleanExpiredTransport now at st) key = Some f"
  using assms by (auto simp: cleanExpiredTransport_def)

lemma GetTransport_Inr_supported:
  "GetTransport net sl now at protocol host p transId st = (Inr f, st') \<Longrightarrow> SupportedProtocol (ToLower protocol)"
  by (auto simp: GetTransport_def Let_def split: if_splits)

lemma GetTransport_again:
  assumes inv: "clients_inv st" and g: "GetTransport net sl now at protocol host p transId st = (Inr f, st')"
    and e: "\<And>fo. failovers st' f = Some fo \<Longrightarrow>
      \<not> FailOver_IsExpired (at' (getFullAddr (ToLower protocol) host p transId)) fo st'"
  shows "fst (GetTransport net' sl' now' at' protocol host p transId st') = Inr f"
proof -
  have "mgr_transports st' (getFullAddr (ToLower protocol) host p transId) = Some f"
    using GetTransport_inv [OF inv g] by simp
  then have "mgr_transports (cleanExpiredTransport now' at' st') (getFullAddr (ToLower protocol) host p transId) = Some f"
    using e by (rule clean_keeps)
  from GetTransport_cached [OF GetTransport_Inr_supported [OF g] this]
  show ?thesis by simp
qed

lemma GetTransport_unsupported:
  "\<not> SupportedProtocol (ToLower protocol) \<Longrightarrow>
   fst (GetTransport net sl now at protocol host p transId st) = Inl (Errorf (''not support '' @ ToLower protocol))"
  by (simp add: GetTransport_def Let_def)

lemma RemoveTransport_gone:
  "SupportedProtocol (ToLower protocol) \<Longrightarrow>
   mgr_transports (RemoveTransport protocol host p transId st) k =
     (if k = getFullAddr (ToLower protocol) host p transId then None else mgr_transports st k)"
  by (simp add: RemoveTransport_def Let_def)

text \<open>A response for one transaction does not take away the transport of another.\<close>

lemma getFullAddr_transId:
  "getFullAddr ''tcp'' host p t1 = getFullAddr ''tcp'' host p t2 \<longleftrightarrow> t1 = t2"
  by (auto simp: getFullAddr_def Let_def)

section \<open>Transports over TCP\<close>

lemma GetTransport_tcp_fresh:
  assumes inv: "clients_inv st"
    and none: "mgr_transports (cleanExpiredTransport now at st) (getFullAddr ''tcp'' host p transId) = None"
    and g: "GetTransport net sl now at ''tcp'' host p transId st = (r, st')"
  shows "\<exists>f. r = Inr f \<and> failovers st' f = Some \<lparr>fo_primary = None, fo_secondaries = []\<rparr>"
proof -
  have l: "ToLower ''tcp'' = ''tcp''" by (simp add: ToLower_def lower_char_def char_of_def bit_0)
  let ?st = "cleanExpiredTransport now at st"
  obtain f st1 where 1: "create_tcp host p (GetRouteAddress sl host ''tcp'') ?st = (f, st1)" by fastforce
  have "r = Inr f" "st' = put_transport (getFullAddr ''tcp'' host p transId) f st1"
    using g none 1 by (auto simp: GetTransport_def Let_def l SupportedProtocol_def createClientTransport_def)
  with clients_inv_create_tcp [OF clients_inv_clean [OF inv] 1] show ?thesis
    by (simp add: put_transport_def)
qed

lemma Transport_Send_no_client:
  "failovers st f = Some \<lparr>fo_primary = None, fo_secondaries = []\<rparr> \<Longrightarrow>
   Transport_Send net msg f st = (Inl (Errorf ''fail to send message''), st)"
  by (simp add: Transport_Send_def FailOver_Send_def)

lemma set_primary_conn_send:
  assumes fo: "failovers st f = Some fo"
    and w: "conn_write net conn (Message_Write msg) (cl_world st) = (Inr (), w)"
  shows "\<exists>st'. Transport_Send net msg f (set_primary_conn net now conn f st) = (Inr (), st') \<and>
    cl_world st' = w \<and> failovers st' = failovers (set_primary_conn net now conn f st) \<and>
    mgr_transports st' = mgr_transports st"
  using assms
  by (simp add: Transport_Send_def FailOver_Send_def set_primary_conn_def new_client_def Client_Send_def
      NewTCPClientTransportWithConn_def TCPClient_Send_def numeral_2_eq_2 with_world_def put_client_def Let_def
      split: prod.split)

lemma set_primary_conn_inv:
  assumes "clients_inv st"
  shows "clients_inv (set_primary_conn net now conn f st)"
proof -
  obtain i st1 where 1: "new_client (NewTCPClientTransportWithConn net now conn) st = (i, st1)" by fastforce
  note n = clients_inv_new_client [OF assms 1]
  show ?thesis
  proof (cases "failovers st1 f")
    case None
    then have "set_primary_conn net now conn f st = st1"
      unfolding set_primary_conn_def 1 by (simp add: fun_upd_idem)
    with n(1) show ?thesis by simp
  next
    case (Some fo)
    with n(1,2) show ?thesis unfolding set_primary_conn_def 1 by (auto simp: clients_inv_def)
  qed
qed

text \<open>
  The first transaction from a peer shares its transport with the peer's address: what is sent
  to that address without a transaction goes out on the connection of the transaction.
\<close>

lemma first_transaction_shares:
  assumes inv: "clients_inv st"
    and none: "mgr_transports (cleanExpiredTransport now at st) (getFullAddr ''tcp'' host p transId) = None"
      "mgr_transports (cleanExpiredTransport now at st) (getFullAddr ''tcp'' host p []) = None"
    and g: "GetTransport net sl now at ''tcp'' host p transId st = (Inr f, st')"
  shows "mgr_transports st' (getFullAddr ''tcp'' host p []) = Some f"
proof -
  have l: "ToLower ''tcp'' = ''tcp''" by (simp add: ToLower_def lower_char_def char_of_def bit_0)
  show ?thesis
    using g none by (auto simp: GetTransport_def Let_def l SupportedProtocol_def createClientTransport_def
        create_tcp_def put_transport_def getFullAddr_transId split: prod.splits)
qed

section \<open>Binding to a local address\<close>

text \<open>
  The text that \<open>NewUDPClientTransport\<close> resolves for its local address when it is given
  \<open>address:0\<close>, as the proxy does: the pair of the host \<open>address:0\<close> and the port 0.
\<close>

lemma local_address_joined_twice:
  assumes "plain_host a"
  shows "SplitHostPort (JoinHostPort (JoinHostPort a ''0'') ''0'') =
    (if CHR '':'' \<in> set a then SplitHostPort (''[['' @ a @ '']:0]:0'') else Inr (a @ '':0'', ''0''))"
proof (cases "CHR '':'' \<in> set a")
  case False
  then have "plain_host (a @ '':0'')" using assms by (simp add: plain_host_def)
  then show ?thesis
    using False SplitHostPort_JoinHostPort [of "a @ '':0''" "''0''"]
    by (simp add: JoinHostPort_def [of a] plain_host_def)
qed (simp add: JoinHostPort_def)

end
