(* ===== verification/Backends.thy ===== *)
theory Backends
  imports MessageCodec Resolver
begin

text \<open>
  The first half of \<open>backend.go\<close>: UDP and TCP backends, the factory that shares them, and the
  round-robin backend of a listener with its reaction to address changes. A UDP or TCP
  backend never changes but for the connection of a TCP backend, which is kept in the state
  under the number of the backend. \<open>connectionEstablished\<close>, the callback of a listener, is the
  number of the listener; its calls are recorded in the state in order, for the proxy to run.
\<close>

datatype Backend =
    UDPBackend (ub_addr: string) (ub_conn: nat)
  | TCPBackend (tb_id: nat) (tb_localAddr: string) (tb_addr: string) (tb_established: nat)

record 'w BackendState =
  tcp_conns :: "nat \<rightharpoonup> nat"
  next_backend :: nat
  factory :: "string \<rightharpoonup> Backend"
  established :: "(nat \<times> nat) list"
  bworld :: 'w

fun Backend_GetAddress :: "Backend \<Rightarrow> string" where
  "Backend_GetAddress (UDPBackend a _) = ''udp://'' @ a"
| "Backend_GetAddress (TCPBackend _ _ a _) = ''tcp://'' @ a"

definition close_conn :: "'w net \<Rightarrow> nat \<Rightarrow> 'w BackendState \<Rightarrow> 'w BackendState" where
  "close_conn net c s = s\<lparr>bworld := snd (conn_close net c (bworld s))\<rparr>"

fun Backend_Close :: "'w net \<Rightarrow> Backend \<Rightarrow> 'w BackendState \<Rightarrow> 'w BackendState" where
  "Backend_Close net (UDPBackend _ c) s = close_conn net c s"
| "Backend_Close net (TCPBackend i _ _ _) s =
     (case tcp_conns s i of None \<Rightarrow> s | Some c \<Rightarrow> close_conn net c s)"

section \<open>Sending\<close>

definition TCPBackend_connect :: "'w net \<Rightarrow> nat \<Rightarrow> string \<Rightarrow> nat \<Rightarrow> 'w BackendState \<Rightarrow> 'w BackendState" where
  "TCPBackend_connect net i addr cb s =
     (case dial_tcp net None addr (bworld s) of
        (Inl _, w) \<Rightarrow> s\<lparr>bworld := w, tcp_conns := (tcp_conns s)(i := None)\<rparr>
      | (Inr c, w) \<Rightarrow>
          s\<lparr>bworld := w, tcp_conns := (tcp_conns s)(i \<mapsto> c), established := established s @ [(cb, c)]\<rparr>)"

text \<open>The loop of \<open>TCPBackend.Send\<close>, \<open>n\<close> more times.\<close>

fun TCPBackend_try ::
  "'w net \<Rightarrow> nat \<Rightarrow> nat \<Rightarrow> string \<Rightarrow> nat \<Rightarrow> string \<Rightarrow> 'w BackendState \<Rightarrow> bool \<times> 'w BackendState"
where
  "TCPBackend_try net 0 i addr cb b s = (False, s)"
| "TCPBackend_try net (Suc n) i addr cb b s =
     (let s1 = (if tcp_conns s i = None then TCPBackend_connect net i addr cb s else s) in
      case tcp_conns s1 i of
        None \<Rightarrow> TCPBackend_try net n i addr cb b s1
      | Some c \<Rightarrow>
          (case conn_write net c b (bworld s1) of
             (Inr _, w) \<Rightarrow> (True, s1\<lparr>bworld := w\<rparr>)
           | (Inl _, w) \<Rightarrow>
               TCPBackend_try net n i addr cb b
                 ((close_conn net c (s1\<lparr>bworld := w\<rparr>))\<lparr>tcp_conns := (tcp_conns s1)(i := None)\<rparr>)))"

fun Backend_Send :: "'w net \<Rightarrow> Message \<Rightarrow> Backend \<Rightarrow> ('w BackendState, Backend) call" where
  "Backend_Send net msg (UDPBackend a c) s =
     (case conn_write net c (Message_Write msg) (bworld s) of
        (Inr _, w) \<Rightarrow> (Inr (UDPBackend a c), s\<lparr>bworld := w\<rparr>)
      | (Inl e, w) \<Rightarrow> (Inl e, s\<lparr>bworld := w\<rparr>))"
| "Backend_Send net msg (TCPBackend i l a cb) s =
     (case TCPBackend_try net 2 i a cb (Message_Write msg) s of
        (True, s') \<Rightarrow> (Inr (TCPBackend i l a cb), s')
      | (False, s') \<Rightarrow> (Inl (Errorf (''fail to send message to backend '' @ a)), s'))"

section \<open>The factory\<close>

definition factory_key :: "string \<Rightarrow> string \<Rightarrow> string \<Rightarrow> string" where
  "factory_key protocol localAddr hostport = protocol @ '':'' @ localAddr @ ''-'' @ hostport"

definition NewUDPBackend :: "'w net \<Rightarrow> string \<Rightarrow> string \<Rightarrow> ('w BackendState, Backend) call" where
  "NewUDPBackend net localhostport hostport s =
     (case resolve_addr net hostport (bworld s) of
        (Inl e, w) \<Rightarrow> (Inl e, s\<lparr>bworld := w\<rparr>)
      | (Inr backendAddr, w) \<Rightarrow>
          (case resolve_addr net localhostport w of
             (Inl e, w) \<Rightarrow> (Inl e, s\<lparr>bworld := w\<rparr>)
           | (Inr localAddr, w) \<Rightarrow>
               (case dial_udp net (Some localAddr) backendAddr w of
                  (Inl e, w) \<Rightarrow> (Inl e, s\<lparr>bworld := w\<rparr>)
                | (Inr c, w) \<Rightarrow> (Inr (UDPBackend hostport c), s\<lparr>bworld := w\<rparr>))))"

definition NewTCPBackend :: "string \<Rightarrow> string \<Rightarrow> nat \<Rightarrow> ('w BackendState, Backend) call" where
  "NewTCPBackend localhostport hostport cb s =
     (let i = next_backend s in
      (Inr (TCPBackend i localhostport hostport cb),
       s\<lparr>next_backend := Suc i, tcp_conns := (tcp_conns s)(i := None)\<rparr>))"

definition cached_backend :: "string \<Rightarrow> ('w BackendState, Backend) call \<Rightarrow> ('w BackendState, Backend) call" where
  "cached_backend key create s =
     (case factory s key of
        Some backend \<Rightarrow> (Inr backend, s)
      | None \<Rightarrow>
          (case create s of
             (Inl e, s') \<Rightarrow> (Inl e, s')
           | (Inr backend, s') \<Rightarrow> (Inr backend, s'\<lparr>factory := (factory s')(key \<mapsto> backend)\<rparr>)))"

definition CreateUDPBackend :: "'w net \<Rightarrow> string \<Rightarrow> string \<Rightarrow> ('w BackendState, Backend) call" where
  "CreateUDPBackend net localAddr hostport =
     cached_backend (factory_key ''udp'' localAddr hostport) (NewUDPBackend net localAddr hostport)"

definition CreateTCPBackend :: "string \<Rightarrow> string \<Rightarrow> nat \<Rightarrow> ('w BackendState, Backend) call" where
  "CreateTCPBackend localAddr hostport cb =
     cached_backend (factory_key ''tcp'' localAddr hostport) (NewTCPBackend localAddr hostport cb)"

definition removeBackend :: "string \<Rightarrow> ('w BackendState, Backend) call" where
  "removeBackend key s =
     (case factory s key of
        Some backend \<Rightarrow> (Inr backend, s\<lparr>factory := (factory s)(key := None)\<rparr>)
      | None \<Rightarrow> (Inl (Errorf (''fail to find backend '' @ key)), s))"

definition RemoveTCPBackend :: "string \<Rightarrow> string \<Rightarrow> ('w BackendState, Backend) call" where
  "RemoveTCPBackend localAddr hostport = removeBackend (factory_key ''tcp'' localAddr hostport)"

definition RemoveUDPBackend :: "string \<Rightarrow> string \<Rightarrow> ('w BackendState, Backend) call" where
  "RemoveUDPBackend localAddr hostport = removeBackend (factory_key ''udp'' localAddr hostport)"

section \<open>Round robin\<close>

record RoundRobinBackend =
  rr_index :: int
  rr_backends :: "Backend list"
  rr_backendMap :: "string \<rightharpoonup> Backend"

definition NewRoundRobinBackend :: RoundRobinBackend where
  "NewRoundRobinBackend = \<lparr>rr_index = 0, rr_backends = [], rr_backendMap = Map.empty\<rparr>"

text \<open>The list without the first backend of an address.\<close>

fun without_address :: "string \<Rightarrow> Backend list \<Rightarrow> Backend list" where
  "without_address a [] = []"
| "without_address a (p # ps) = (if a = Backend_GetAddress p then ps else p # without_address a ps)"

definition AddBackend ::
  "'w net \<Rightarrow> Backend \<Rightarrow> RoundRobinBackend \<times> 'w BackendState \<Rightarrow> RoundRobinBackend \<times> 'w BackendState"
where
  "AddBackend net backend = (\<lambda>(rb, s).
     let a = Backend_GetAddress backend;
         (rb1, s1) =
           (case rr_backendMap rb a of
              Some _ \<Rightarrow>
                (rb\<lparr>rr_backends := without_address a (rr_backends rb),
                    rr_backendMap := (rr_backendMap rb)(a := None)\<rparr>, Backend_Close net backend s)
            | None \<Rightarrow> (rb, s))
     in (rb1\<lparr>rr_backends := rr_backends rb1 @ [backend], rr_backendMap := (rr_backendMap rb1)(a \<mapsto> backend)\<rparr>, s1))"

definition GetBackend :: "RoundRobinBackend \<Rightarrow> string \<Rightarrow> Backend result" where
  "GetBackend rb address =
     (case rr_backendMap rb address of
        Some v \<Rightarrow> Inr v | None \<Rightarrow> Inl (Errorf (''fail to find backend by '' @ address)))"

definition RemoveBackend ::
  "'w net \<Rightarrow> string \<Rightarrow> RoundRobinBackend \<times> 'w BackendState \<Rightarrow> RoundRobinBackend \<times> 'w BackendState"
where
  "RemoveBackend net address = (\<lambda>(rb, s).
     case rr_backendMap rb address of
       None \<Rightarrow> (rb, s)
     | Some _ \<Rightarrow>
         (rb\<lparr>rr_backends := without_address address (rr_backends rb),
             rr_backendMap := (rr_backendMap rb)(address := None)\<rparr>,
          (case find (\<lambda>p. address = Backend_GetAddress p) (rr_backends rb) of
             Some p \<Rightarrow> Backend_Close net p s | None \<Rightarrow> s)))"

definition GetAllBackend :: "RoundRobinBackend \<Rightarrow> (string \<rightharpoonup> Backend)" where
  "GetAllBackend rb = rr_backendMap rb"

definition RoundRobin_GetAddress :: "RoundRobinBackend \<Rightarrow> string" where
  "RoundRobin_GetAddress rb =
     ''RoundRobin://'' @
     concat (map (\<lambda>(index, backend). (if index \<noteq> 0 then '','' else []) @ Backend_GetAddress backend)
       (enumerate 0 (rr_backends rb)))"

definition getNextBackendIndex :: "(RoundRobinBackend, int) call" where
  "getNextBackendIndex rb =
     (let n = int (length (rr_backends rb)) in
      if n \<le> 0 then (Inl (Errorf ''no backend available''), rb)
      else (let i = (rr_index rb + 1) mod n in (Inr i, rb\<lparr>rr_index := i\<rparr>)))"

definition getBackend :: "RoundRobinBackend \<Rightarrow> int \<Rightarrow> Backend result" where
  "getBackend rb index =
     (let n = int (length (rr_backends rb)) in
      if n \<le> 0 then Inl (Errorf (''no backend available at '' @ Itoa index))
      else Inr (rr_backends rb ! nat (index mod n)))"

definition getBackendCount :: "RoundRobinBackend \<Rightarrow> int" where
  "getBackendCount rb = int (length (rr_backends rb))"

fun RoundRobin_try ::
  "'w net \<Rightarrow> Message \<Rightarrow> RoundRobinBackend \<Rightarrow> nat \<Rightarrow> int \<Rightarrow> ('w BackendState, Backend) call"
where
  "RoundRobin_try net msg rb 0 index s = (Inl (Errorf ''fail to send msg to all the backend''), s)"
| "RoundRobin_try net msg rb (Suc n) index s =
     (case getBackend rb index of
        Inl _ \<Rightarrow> RoundRobin_try net msg rb n (index + 1) s
      | Inr backend \<Rightarrow>
          (case Backend_Send net msg backend s of
             (Inr r, s') \<Rightarrow> (Inr r, s')
           | (Inl _, s') \<Rightarrow> RoundRobin_try net msg rb n (index + 1) s'))"

definition RoundRobin_Send ::
  "'w net \<Rightarrow> Message \<Rightarrow> (RoundRobinBackend \<times> 'w BackendState, Backend) call"
where
  "RoundRobin_Send net msg = (\<lambda>(rb, s).
     case getNextBackendIndex rb of
       (Inl _, rb') \<Rightarrow> (Inl (Errorf ''fail to get next backend''), (rb', s))
     | (Inr index, rb') \<Rightarrow>
         (let (r, s') = RoundRobin_try net msg rb' (nat (getBackendCount rb')) index s
          in (r, (rb', s'))))"

definition RoundRobin_Close :: "'w net \<Rightarrow> RoundRobinBackend \<Rightarrow> 'w BackendState \<Rightarrow> 'w BackendState" where
  "RoundRobin_Close net rb s = fold (Backend_Close net) (rr_backends rb) s"

section \<open>Address changes\<close>

definition host_ip_added ::
  "'w net \<Rightarrow> string \<Rightarrow> string \<Rightarrow> string \<Rightarrow> nat \<Rightarrow> string \<Rightarrow>
   RoundRobinBackend \<times> 'w BackendState \<Rightarrow> RoundRobinBackend \<times> 'w BackendState"
where
  "host_ip_added net protocol localhostport p cb ip = (\<lambda>(rb, s).
     let hostport = JoinHostPort ip p;
         created = (if protocol = ''udp'' then Some (CreateUDPBackend net localhostport hostport s)
                    else if protocol = ''tcp'' then Some (CreateTCPBackend localhostport hostport cb s)
                    else None)
     in case created of
          Some (Inr backend, s') \<Rightarrow> AddBackend net backend (rb, s')
        | Some (Inl _, s') \<Rightarrow> (rb, s')
        | None \<Rightarrow> (rb, s))"

definition host_ip_removed ::
  "'w net \<Rightarrow> string \<Rightarrow> string \<Rightarrow> string \<Rightarrow> string \<Rightarrow>
   RoundRobinBackend \<times> 'w BackendState \<Rightarrow> RoundRobinBackend \<times> 'w BackendState"
where
  "host_ip_removed net protocol localhostport p ip st =
     (let hostport = JoinHostPort ip p in
      if protocol = ''udp'' then
        (case RemoveBackend net (''udp://'' @ hostport) st of
           (rb, s) \<Rightarrow> (rb, snd (RemoveUDPBackend localhostport hostport s)))
      else if protocol = ''tcp'' then
        (case RemoveBackend net (''tcp://'' @ hostport) st of
           (rb, s) \<Rightarrow> (rb, snd (RemoveTCPBackend localhostport hostport s)))
      else st)"

definition hostIPChanged ::
  "'w net \<Rightarrow> string \<Rightarrow> string \<Rightarrow> string list \<Rightarrow> string list \<Rightarrow> string \<Rightarrow> nat \<Rightarrow>
   RoundRobinBackend \<times> 'w BackendState \<Rightarrow> RoundRobinBackend \<times> 'w BackendState"
where
  "hostIPChanged net protocol localhostport newIPs removedIPs p cb st =
     fold (host_ip_removed net protocol localhostport p) removedIPs
       (fold (host_ip_added net protocol localhostport p cb) newIPs st)"

lemmas backends_eval [go_eval] =
  close_conn_def TCPBackend_connect_def factory_key_def NewUDPBackend_def NewTCPBackend_def
  cached_backend_def CreateUDPBackend_def CreateTCPBackend_def removeBackend_def RemoveTCPBackend_def
  RemoveUDPBackend_def NewRoundRobinBackend_def AddBackend_def GetBackend_def RemoveBackend_def
  GetAllBackend_def RoundRobin_GetAddress_def getNextBackendIndex_def getBackend_def
  getBackendCount_def RoundRobin_Send_def RoundRobin_Close_def host_ip_added_def host_ip_removed_def
  hostIPChanged_def

end
