(* ===== verification/BackendFacts.thy ===== *)
theory BackendFacts
  imports Backends
begin

text \<open>
  Facts on the backends: what a send does, the rotation of the round-robin backend against a
  reference that walks a list, and the invariant of its list and map of backends.
\<close>

section \<open>Sending to one backend\<close>

lemma Backend_Send_self: "Backend_Send net msg b s = (Inr r, s') \<Longrightarrow> r = b"
  by (cases b) (auto split: prod.splits sum.splits bool.splits)

text \<open>
  A send over TCP that fails leaves the backend without a connection, so that the next send
  dials again; one that succeeds leaves the connection it wrote the message to.
\<close>

lemma TCPBackend_try_conn:
  "TCPBackend_try net n i a cb b s = (ok, s') \<Longrightarrow> 0 < n \<Longrightarrow> (tcp_conns s' i \<noteq> None) = ok"
proof (induction n arbitrary: s)
  case (Suc n)
  define s1 where "s1 = (if tcp_conns s i = None then TCPBackend_connect net i a cb s else s)"
  show ?case
  proof (cases "tcp_conns s1 i")
    case None
    with Suc.prems(1) have "TCPBackend_try net n i a cb b s1 = (ok, s')" by (simp add: s1_def Let_def)
    with None Suc.IH [of s1] show ?thesis by (cases n) auto
  next
    case (Some c)
    define s2 where "s2 = (close_conn net c (s1\<lparr>bworld := snd (conn_write net c b (bworld s1))\<rparr>))\<lparr>tcp_conns := (tcp_conns s1)(i := None)\<rparr>"
    obtain r w where w: "conn_write net c b (bworld s1) = (r, w)" by fastforce
    show ?thesis
    proof (cases r)
      case (Inr u)
      with Suc.prems(1) Some w have "ok" "s' = s1\<lparr>bworld := w\<rparr>" by (auto simp: s1_def Let_def)
      with Some show ?thesis by simp
    next
      case (Inl e)
      with Suc.prems(1) Some w have "TCPBackend_try net n i a cb b s2 = (ok, s')"
        by (simp add: s1_def [symmetric] s2_def Let_def)
      moreover have "tcp_conns s2 i = None" by (simp add: s2_def)
      ultimately show ?thesis using Suc.IH [of s2] by (cases n) auto
    qed
  qed
qed simp

lemma TCPBackend_Send_conn:
  "Backend_Send net msg (TCPBackend i l a cb) s = (r, s') \<Longrightarrow> (tcp_conns s' i \<noteq> None) = is_ok r"
  by (auto split: prod.splits bool.splits dest: TCPBackend_try_conn)

text \<open>A connection that broke since the last message costs one reconnection, not the message.\<close>

lemma TCPBackend_Send_reconnects:
  assumes "tcp_conns s i = Some c" and "conn_write net c (Message_Write msg) (bworld s) = (Inl e, w1)"
    and "conn_close net c w1 = (x, w2)" and "dial_tcp net None a w2 = (Inr d, w3)"
    and "conn_write net d (Message_Write msg) w3 = (Inr (), w4)"
  shows "\<exists>s'. Backend_Send net msg (TCPBackend i l a cb) s = (Inr (TCPBackend i l a cb), s') \<and>
    tcp_conns s' = (tcp_conns s)(i \<mapsto> d) \<and> established s' = established s @ [(cb, d)] \<and> bworld s' = w4"
  using assms by (simp add: numeral_2_eq_2 close_conn_def TCPBackend_connect_def)

section \<open>Rotation\<close>

text \<open>The reference: the backends of a list in order, until one takes the message.\<close>

fun send_first :: "'w net \<Rightarrow> Message \<Rightarrow> Backend list \<Rightarrow> ('w BackendState, Backend) call" where
  "send_first net msg [] s = (Inl (Errorf ''fail to send msg to all the backend''), s)"
| "send_first net msg (b # bs) s =
     (case Backend_Send net msg b s of (Inr r, s') \<Rightarrow> (Inr r, s') | (Inl _, s') \<Rightarrow> send_first net msg bs s')"

lemma rotate_map_nth: "rotate m xs = map (\<lambda>j. xs ! ((m + j) mod length xs)) [0..<length xs]"
  by (rule nth_equalityI) (simp_all add: nth_rotate)

lemma RoundRobin_try_send_first:
  assumes "rr_backends rb \<noteq> []"
  shows "RoundRobin_try net msg rb k (int i) s =
    send_first net msg (map (\<lambda>j. rr_backends rb ! ((i + j) mod length (rr_backends rb))) [0..<k]) s"
proof (induction k arbitrary: i s)
  case (Suc k)
  let ?n = "length (rr_backends rb)"
  have 1: "getBackend rb (int i) = Inr (rr_backends rb ! (i mod ?n))"
    using assms by (simp add: getBackend_def Let_def zmod_int [symmetric])
  have 2: "map (\<lambda>j. rr_backends rb ! ((i + j) mod ?n)) [0..<Suc k] =
      rr_backends rb ! (i mod ?n) # map (\<lambda>j. rr_backends rb ! ((Suc i + j) mod ?n)) [0..<k]"
    by (simp add: upt_conv_Cons map_Suc_upt [symmetric] del: upt_Suc)
  show ?case
    unfolding 2 using Suc.IH [of "Suc i"]
    by (simp add: 1 add.commute split: prod.split sum.split)
qed simp

definition rr_start :: "RoundRobinBackend \<Rightarrow> nat" where
  "rr_start rb = nat ((rr_index rb + 1) mod int (length (rr_backends rb)))"

lemma RoundRobin_Send_rotate:
  assumes "rr_backends rb \<noteq> []"
  shows "RoundRobin_Send net msg (rb, s) =
    (case send_first net msg (rotate (rr_start rb) (rr_backends rb)) s of
       (r, s') \<Rightarrow> (r, (rb\<lparr>rr_index := int (rr_start rb)\<rparr>, s')))"
proof -
  let ?n = "length (rr_backends rb)"
  let ?rb = "rb\<lparr>rr_index := int (rr_start rb)\<rparr>"
  have "0 < int ?n" using assms by simp
  then have "0 \<le> (rr_index rb + 1) mod int ?n" by (rule pos_mod_sign)
  then have "getNextBackendIndex rb = (Inr (int (rr_start rb)), ?rb)"
    using assms by (simp add: getNextBackendIndex_def rr_start_def Let_def)
  moreover have "RoundRobin_try net msg ?rb ?n (int (rr_start rb)) s =
      send_first net msg (rotate (rr_start rb) (rr_backends rb)) s"
    using RoundRobin_try_send_first [of ?rb net msg ?n "rr_start rb" s] assms by (simp add: rotate_map_nth)
  ultimately show ?thesis
    by (simp add: RoundRobin_Send_def getBackendCount_def split: prod.split)
qed

lemma send_first_mem: "send_first net msg bs s = (Inr b, s') \<Longrightarrow> b \<in> set bs"
  by (induction bs arbitrary: s) (auto split: prod.splits sum.splits dest: Backend_Send_self)

lemma send_first_fails:
  "send_first net msg bs s = (Inl e, s') \<Longrightarrow> b \<in> set bs \<Longrightarrow> \<exists>t. \<not> is_ok (fst (Backend_Send net msg b t))"
proof (induction bs arbitrary: s)
  case (Cons x bs)
  obtain r t where 1: "Backend_Send net msg x s = (r, t)" by fastforce
  then have "\<not> is_ok r" and 2: "send_first net msg bs t = (Inl e, s')"
    using Cons.prems(1) by (auto split: sum.splits)
  then show ?case using Cons.IH [OF 2] Cons.prems(2) 1 by (metis fst_conv set_ConsD)
qed simp

text \<open>\<open>k\<close> messages in a row, and the backends that took them.\<close>

fun send_many :: "'w net \<Rightarrow> Message list \<Rightarrow> RoundRobinBackend \<times> 'w BackendState \<Rightarrow> Backend result list" where
  "send_many net [] st = []"
| "send_many net (m # ms) st = (case RoundRobin_Send net m st of (r, st') \<Rightarrow> r # send_many net ms st')"

lemma send_many_rotation:
  assumes ok: "\<And>b m s. b \<in> set (rr_backends rb) \<Longrightarrow> m \<in> set ms \<Longrightarrow> is_ok (fst (Backend_Send net m b s))"
    and ne: "rr_backends rb \<noteq> []"
  shows "send_many net ms (rb, s) =
    map (\<lambda>j. Inr (rr_backends rb ! ((rr_start rb + j) mod length (rr_backends rb)))) [0..<length ms]"
  using assms
proof (induction ms arbitrary: rb s)
  case (Cons m ms)
  let ?bs = "rr_backends rb" and ?n = "length (rr_backends rb)" and ?i = "rr_start rb"
  have i: "?i < ?n"
    using Cons.prems(2) by (simp add: rr_start_def nat_less_iff)
  obtain r s' where b: "Backend_Send net m (?bs ! ?i) s = (r, s')" by fastforce
  then have "is_ok r" using Cons.prems(1) [of "?bs ! ?i" m s] i by simp
  then have r: "r = Inr (?bs ! ?i)" using b Backend_Send_self by (fastforce simp: is_ok_iff)
  have "rotate ?i ?bs = ?bs ! ?i # tl (rotate ?i ?bs)"
    using Cons.prems(2) i by (metis hd_rotate_conv_nth list.collapse mod_less rotate_is_Nil_conv)
  then have "send_first net m (rotate ?i ?bs) s = (Inr (?bs ! ?i), s')"
    using b r by (metis (no_types, lifting) case_prod_conv send_first.simps(2) sum.simps(6))
  then have 1: "RoundRobin_Send net m (rb, s) = (Inr (?bs ! ?i), rb\<lparr>rr_index := int ?i\<rparr>, s')"
    using Cons.prems(2) by (simp add: RoundRobin_Send_rotate)
  have st: "rr_start (rb\<lparr>rr_index := int ?i\<rparr>) = (?i + 1) mod ?n"
    by (simp add: rr_start_def nat_mod_distrib nat_add_distrib)
  have "send_many net ms (rb\<lparr>rr_index := int ?i\<rparr>, s') =
      map (\<lambda>j. Inr (?bs ! ((?i + Suc j) mod ?n))) [0..<length ms]"
    using Cons.IH [of "rb\<lparr>rr_index := int ?i\<rparr>" s'] Cons.prems by (simp add: st mod_simps)
  then show ?case
    using 1 i by (simp add: upt_conv_Cons map_Suc_upt [symmetric] comp_def del: upt_Suc)
qed simp

lemma send_many_round:
  assumes "\<And>b m s. b \<in> set (rr_backends rb) \<Longrightarrow> m \<in> set ms \<Longrightarrow> is_ok (fst (Backend_Send net m b s))"
    and "length ms = length (rr_backends rb)"
  shows "send_many net ms (rb, s) = map Inr (rotate (rr_start rb) (rr_backends rb))"
proof (cases "rr_backends rb = []")
  case False
  then show ?thesis
    using send_many_rotation [OF assms(1) False] assms(2) by (simp add: rotate_map_nth comp_def)
qed (use assms(2) in simp)

lemma count_list_distinct: "distinct xs \<Longrightarrow> x \<in> set xs \<Longrightarrow> count_list xs x = 1"
  by (induction xs) (auto simp: count_notin)

lemma count_cycle:
  assumes "distinct xs" and "x \<in> set xs"
  shows "count_list (map (\<lambda>j. xs ! ((i + j) mod length xs)) [0..<k * length xs]) x = k"
proof (induction k)
  case (Suc k)
  let ?n = "length xs" and ?f = "\<lambda>j. xs ! ((i + j) mod length xs)"
  have "[0..<Suc k * ?n] = [0..<?n] @ map (\<lambda>j. j + ?n) [0..<k * ?n]"
    by (simp add: upt_add_eq_append [of 0 ?n "k * ?n", simplified] map_add_upt add.commute)
  moreover have "map ?f [0..<?n] = rotate i xs" by (rule rotate_map_nth [symmetric])
  moreover have "?f (j + ?n) = ?f j" for j by (metis add.assoc mod_add_self2)
  ultimately have "map ?f [0..<Suc k * ?n] = rotate i xs @ map ?f [0..<k * ?n]"
    by (simp add: comp_def)
  then show ?case
    using Suc count_list_distinct [of "rotate i xs" x] assms by simp
qed simp

lemma send_many_fair:
  assumes ok: "\<And>b m s. b \<in> set (rr_backends rb) \<Longrightarrow> m \<in> set ms \<Longrightarrow> is_ok (fst (Backend_Send net m b s))"
    and ne: "rr_backends rb \<noteq> []" and "distinct (rr_backends rb)" and "b \<in> set (rr_backends rb)"
    and "length ms = k * length (rr_backends rb)"
  shows "count_list (send_many net ms (rb, s)) (Inr b) = k"
proof -
  let ?xs = "rr_backends rb"
  have "send_many net ms (rb, s) =
      map Inr (map (\<lambda>j. ?xs ! ((rr_start rb + j) mod length ?xs)) [0..<k * length ?xs])"
    using send_many_rotation [OF ok ne] assms(5) by (simp add: comp_def)
  then show ?thesis
    using count_cycle [OF assms(3,4)] by (simp only: count_list_map_conv [OF inj_Inr])
qed

section \<open>The list and the map of backends\<close>

definition rr_inv :: "RoundRobinBackend \<Rightarrow> bool" where
  "rr_inv rb \<longleftrightarrow> distinct (map Backend_GetAddress (rr_backends rb)) \<and>
     (\<forall>a b. rr_backendMap rb a = Some b \<longleftrightarrow> b \<in> set (rr_backends rb) \<and> Backend_GetAddress b = a)"

definition rr_addresses :: "RoundRobinBackend \<Rightarrow> string set" where
  "rr_addresses rb = Backend_GetAddress ` set (rr_backends rb)"

lemma rr_inv_New: "rr_inv NewRoundRobinBackend"
  by (simp add: rr_inv_def NewRoundRobinBackend_def)

lemma without_address_filter:
  "distinct (map Backend_GetAddress bs) \<Longrightarrow>
   without_address a bs = filter (\<lambda>b. Backend_GetAddress b \<noteq> a) bs"
  by (induction bs) (auto simp: filter_empty_conv image_iff intro!: filter_True [symmetric])

lemma rr_inv_distinct: "rr_inv rb \<Longrightarrow> distinct (map Backend_GetAddress (rr_backends rb))"
  by (simp add: rr_inv_def)

lemma rr_inv_Some: "rr_inv rb \<Longrightarrow>
  rr_backendMap rb a = Some b \<longleftrightarrow> b \<in> set (rr_backends rb) \<and> Backend_GetAddress b = a"
  by (simp add: rr_inv_def)

lemma rr_inv_lookup: "rr_inv rb \<Longrightarrow> (rr_backendMap rb a = None) = (a \<notin> rr_addresses rb)"
proof -
  assume inv: "rr_inv rb"
  have "rr_backendMap rb a \<noteq> None \<longleftrightarrow> (\<exists>b \<in> set (rr_backends rb). Backend_GetAddress b = a)"
    using rr_inv_Some [OF inv, of a] by (metis not_None_eq)
  then show ?thesis by (auto simp: rr_addresses_def)
qed

lemma rr_inv_filter_None:
  "rr_inv rb \<Longrightarrow> rr_backendMap rb a = None \<Longrightarrow>
   filter (\<lambda>p. Backend_GetAddress p \<noteq> a) (rr_backends rb) = rr_backends rb"
  using rr_inv_lookup [of rb a] by (auto simp: rr_addresses_def image_iff intro!: filter_True)

lemma AddBackend_backends:
  assumes "rr_inv rb" and "AddBackend net b (rb, s) = (rb', s')"
  shows "rr_backends rb' = filter (\<lambda>p. Backend_GetAddress p \<noteq> Backend_GetAddress b) (rr_backends rb) @ [b]"
    and "rr_backendMap rb' = (rr_backendMap rb)(Backend_GetAddress b \<mapsto> b)"
  using assms(2) rr_inv_filter_None [OF assms(1)] without_address_filter [OF rr_inv_distinct [OF assms(1)]]
  by (auto simp: AddBackend_def Let_def split: option.splits)

lemma AddBackend_inv:
  assumes "rr_inv rb" and "AddBackend net b (rb, s) = (rb', s')"
  shows "rr_inv rb'"
  unfolding rr_inv_def AddBackend_backends [OF assms]
  using rr_inv_distinct [OF assms(1)] rr_inv_Some [OF assms(1)] by (auto simp: distinct_map_filter)

lemma AddBackend_addresses:
  "rr_inv rb \<Longrightarrow> AddBackend net b (rb, s) = (rb', s') \<Longrightarrow>
   rr_addresses rb' = insert (Backend_GetAddress b) (rr_addresses rb)"
  by (drule (1) AddBackend_backends(1)) (auto simp: rr_addresses_def)

lemma RemoveBackend_backends:
  assumes "rr_inv rb" and "RemoveBackend net a (rb, s) = (rb', s')"
  shows "rr_backends rb' = filter (\<lambda>p. Backend_GetAddress p \<noteq> a) (rr_backends rb)"
    and "rr_backendMap rb' = (rr_backendMap rb)(a := None)"
  using assms(2) rr_inv_filter_None [OF assms(1)] without_address_filter [OF rr_inv_distinct [OF assms(1)]]
  by (auto simp: RemoveBackend_def split: option.splits)

lemma RemoveBackend_inv:
  assumes "rr_inv rb" and "RemoveBackend net a (rb, s) = (rb', s')"
  shows "rr_inv rb'"
  unfolding rr_inv_def RemoveBackend_backends [OF assms]
  using rr_inv_distinct [OF assms(1)] rr_inv_Some [OF assms(1)] by (auto simp: distinct_map_filter)

lemma RemoveBackend_addresses:
  "rr_inv rb \<Longrightarrow> RemoveBackend net a (rb, s) = (rb', s') \<Longrightarrow> rr_addresses rb' = rr_addresses rb - {a}"
  by (drule (1) RemoveBackend_backends(1)) (auto simp: rr_addresses_def)

section \<open>Following the addresses of a host\<close>

definition tcp_backend_of :: "string \<Rightarrow> string \<Rightarrow> string" where
  "tcp_backend_of p ip = ''tcp://'' @ JoinHostPort ip p"

lemma close_conn_simps [simp]:
  "factory (close_conn net c s) = factory s" "established (close_conn net c s) = established s"
  "tcp_conns (close_conn net c s) = tcp_conns s" "next_backend (close_conn net c s) = next_backend s"
  by (simp_all add: close_conn_def)

lemma Backend_Close_factory [simp]: "factory (Backend_Close net b s) = factory s"
  by (cases b) (auto split: option.split)

lemma AddBackend_factory: "AddBackend net b (rb, s) = (rb', s') \<Longrightarrow> factory s' = factory s"
  by (auto simp: AddBackend_def Let_def split: option.splits)

lemma RemoveBackend_factory: "RemoveBackend net a (rb, s) = (rb', s') \<Longrightarrow> factory s' = factory s"
  by (auto simp: RemoveBackend_def split: option.splits)

text \<open>The keys of one local address and port determine the host and port they are for.\<close>

definition local_inv :: "string \<Rightarrow> 'w BackendState \<Rightarrow> bool" where
  "local_inv l s \<longleftrightarrow> (\<forall>h b. factory s (factory_key ''tcp'' l h) = Some b \<longrightarrow> Backend_GetAddress b = ''tcp://'' @ h)"

lemma CreateTCPBackend_address:
  assumes "local_inv l s" and "CreateTCPBackend l h cb s = (r, s')"
  shows "\<exists>b. r = Inr b \<and> Backend_GetAddress b = ''tcp://'' @ h \<and> local_inv l s'"
  using assms by (auto simp: CreateTCPBackend_def cached_backend_def NewTCPBackend_def local_inv_def
      factory_key_def Let_def split: option.splits)

lemma host_ip_added_tcp:
  assumes "rr_inv rb" and "local_inv l s" and "host_ip_added net ''tcp'' l p cb ip (rb, s) = (rb', s')"
  shows "rr_inv rb' \<and> local_inv l s' \<and> rr_addresses rb' = insert (tcp_backend_of p ip) (rr_addresses rb)"
proof -
  obtain r s1 where c: "CreateTCPBackend l (JoinHostPort ip p) cb s = (r, s1)" by fastforce
  then obtain b where b: "r = Inr b" "Backend_GetAddress b = ''tcp://'' @ JoinHostPort ip p" "local_inv l s1"
    using CreateTCPBackend_address [OF assms(2)] by blast
  then have a: "AddBackend net b (rb, s1) = (rb', s')"
    using assms(3) c by (simp add: host_ip_added_def Let_def)
  show ?thesis
    using AddBackend_inv [OF assms(1) a] AddBackend_addresses [OF assms(1) a] AddBackend_factory [OF a] b
    by (simp add: local_inv_def tcp_backend_of_def)
qed

lemma host_ip_removed_tcp:
  assumes "rr_inv rb" and "local_inv l s" and "host_ip_removed net ''tcp'' l p ip (rb, s) = (rb', s')"
  shows "rr_inv rb' \<and> local_inv l s' \<and> rr_addresses rb' = rr_addresses rb - {tcp_backend_of p ip}"
proof -
  obtain rb1 s1 where r: "RemoveBackend net (''tcp://'' @ JoinHostPort ip p) (rb, s) = (rb1, s1)" by fastforce
  then have "rb' = rb1" "s' = snd (RemoveTCPBackend l (JoinHostPort ip p) s1)"
    using assms(3) by (auto simp: host_ip_removed_def Let_def)
  then show ?thesis
    using RemoveBackend_inv [OF assms(1) r] RemoveBackend_addresses [OF assms(1) r] RemoveBackend_factory [OF r] assms(2)
    by (auto simp: local_inv_def tcp_backend_of_def RemoveTCPBackend_def removeBackend_def split: option.split)
qed

lemma fold_host_ip_added:
  "rr_inv rb \<Longrightarrow> local_inv l s \<Longrightarrow> fold (host_ip_added net ''tcp'' l p cb) ips (rb, s) = (rb', s') \<Longrightarrow>
   rr_inv rb' \<and> local_inv l s' \<and> rr_addresses rb' = rr_addresses rb \<union> tcp_backend_of p ` set ips"
proof (induction ips arbitrary: rb s)
  case (Cons ip ips)
  obtain rb1 s1 where 1: "host_ip_added net ''tcp'' l p cb ip (rb, s) = (rb1, s1)" by fastforce
  show ?case
    using host_ip_added_tcp [OF Cons.prems(1,2) 1] Cons.IH [of rb1 s1] Cons.prems(3) 1 by auto
qed simp

lemma fold_host_ip_removed:
  "rr_inv rb \<Longrightarrow> local_inv l s \<Longrightarrow> fold (host_ip_removed net ''tcp'' l p) ips (rb, s) = (rb', s') \<Longrightarrow>
   rr_inv rb' \<and> local_inv l s' \<and> rr_addresses rb' = rr_addresses rb - tcp_backend_of p ` set ips"
proof (induction ips arbitrary: rb s)
  case (Cons ip ips)
  obtain rb1 s1 where 1: "host_ip_removed net ''tcp'' l p ip (rb, s) = (rb1, s1)" by fastforce
  show ?case
    using host_ip_removed_tcp [OF Cons.prems(1,2) 1] Cons.IH [of rb1 s1] Cons.prems(3) 1 by auto
qed simp

lemma hostIPChanged_tcp:
  assumes "rr_inv rb" and "local_inv l s" and "hostIPChanged net ''tcp'' l new removed p cb (rb, s) = (rb', s')"
  shows "rr_inv rb' \<and> local_inv l s' \<and>
    rr_addresses rb' = (rr_addresses rb \<union> tcp_backend_of p ` set new) - tcp_backend_of p ` set removed"
proof -
  obtain rb1 s1 where 1: "fold (host_ip_added net ''tcp'' l p cb) new (rb, s) = (rb1, s1)" by fastforce
  then have 2: "fold (host_ip_removed net ''tcp'' l p) removed (rb1, s1) = (rb', s')"
    using assms(3) by (simp add: hostIPChanged_def)
  show ?thesis
    using fold_host_ip_added [OF assms(1,2) 1] fold_host_ip_removed [OF _ _ 2] by auto
qed

text \<open>Different addresses of a host make different backends.\<close>

lemma JoinHostPort_inj: "JoinHostPort a p = JoinHostPort b p \<longleftrightarrow> a = b"
proof -
  define br :: "string \<Rightarrow> string" where "br h = (if CHR '':'' \<in> set h then ''['' @ h @ '']'' else h)" for h
  have "JoinHostPort h p = br h @ CHR '':'' # p" for h
    by (simp add: JoinHostPort_def br_def)
  moreover have "br a = br b \<Longrightarrow> a = b"
    by (auto simp: br_def split: if_splits)
  ultimately show ?thesis by auto
qed

lemma tcp_backend_of_inj: "inj (tcp_backend_of p)"
  by (simp add: inj_def tcp_backend_of_def JoinHostPort_inj)

end
