(* ===== verification/Listeners.thy ===== *)
theory Listeners
  imports BackendFacts
begin

text \<open>
  How a listener gets its backends: the parsing of backend and via addresses,
  \<open>CreateRoundRobinBackend\<close> and \<open>createViaConfig\<close> of \<open>backend.go\<close>, and the callbacks that the
  resolver runs on the round-robin backend.
\<close>

section \<open>Addresses with a scheme\<close>

text \<open>
  \<open>url.Parse\<close> on \<open>scheme://host\<close>, with an optional final slash, where the host is made of
  letters, digits, dots, dashes and underscores, with an optional port: the fragment the
  addresses of a configuration are in. The argument \<open>other\<close> is the rest of \<open>url.Parse\<close>.
\<close>

record URL =
  u_Scheme :: string
  u_Host :: string

definition host_char :: "char \<Rightarrow> bool" where
  "host_char c \<longleftrightarrow> is_digit c \<or> c \<in> set ''abcdefghijklmnopqrstuvwxyzABCDEFGHIJKLMNOPQRSTUVWXYZ.-_''"

definition scheme_ok :: "string \<Rightarrow> bool" where
  "scheme_ok s \<longleftrightarrow> s \<noteq> [] \<and> list_all (\<lambda>c. c \<in> set ''abcdefghijklmnopqrstuvwxyz'') (ToLower s)"

definition authority_ok :: "string \<Rightarrow> bool" where
  "authority_ok a \<longleftrightarrow>
     (case IndexByte a (CHR '':'') of
        None \<Rightarrow> list_all host_char a
      | Some i \<Rightarrow> list_all host_char (before i a) \<and> list_all is_digit (after i a))"

definition url_Parse :: "(string \<Rightarrow> URL result) \<Rightarrow> string \<Rightarrow> URL result" where
  "url_Parse other s =
     (case IndexByte s (CHR '':'') of
        None \<Rightarrow> other s
      | Some i \<Rightarrow>
          (let scheme = before i s; rest = after i s;
               host = (if HasSuffix rest ''/'' \<and> length rest > 2 then take (length rest - 3) (drop 2 rest) else drop 2 rest)
           in if scheme_ok scheme \<and> HasPrefix rest ''//'' \<and> authority_ok host
              then Inr \<lparr>u_Scheme = ToLower scheme, u_Host = host\<rparr> else other s))"

record ViaConfig =
  vc_Protocol :: string
  vc_Address :: string
  vc_Port :: int

definition createViaConfig :: "(string \<Rightarrow> URL result) \<Rightarrow> string \<Rightarrow> ViaConfig option" where
  "createViaConfig other via =
     (case url_Parse other via of
        Inl _ \<Rightarrow> None
      | Inr u \<Rightarrow>
          if u_Scheme u \<noteq> ''tcp'' \<and> u_Scheme u \<noteq> ''udp'' then None
          else
            (let (host, s_port) = value_or ([], []) (SplitHostPort (u_Host u)) in
             case Atoi_checked s_port of
               Inl _ \<Rightarrow> None
             | Inr p \<Rightarrow> Some \<lparr>vc_Protocol = u_Scheme u, vc_Address = host, vc_Port = p\<rparr>))"

definition ViaConfig_String :: "ViaConfig \<Rightarrow> string" where
  "ViaConfig_String vc = vc_Protocol vc @ ''://'' @ vc_Address vc @ '':'' @ Itoa (vc_Port vc)"

section \<open>The callbacks of the resolver\<close>

text \<open>What the closure given to \<open>ResolveHost\<close> captures; \<open>hc_item\<close> is the listener.\<close>

record HostCallback =
  hc_item :: nat
  hc_scheme :: string
  hc_local :: string
  hc_port :: string

definition run_callback ::
  "'w net \<Rightarrow> HostCallback \<Rightarrow> string list \<Rightarrow> string list \<Rightarrow>
   RoundRobinBackend \<times> 'w BackendState \<Rightarrow> RoundRobinBackend \<times> 'w BackendState"
where
  "run_callback net hc newIPs removedIPs =
     hostIPChanged net (hc_scheme hc) (hc_local hc) newIPs removedIPs (hc_port hc) (hc_item hc)"

definition notice_changes :: "'cb notice \<Rightarrow> string list \<times> string list" where
  "notice_changes n = (case n of Call _ _ new removed \<Rightarrow> (new, removed) | Notify _ new removed \<Rightarrow> (new, removed))"

section \<open>Creating the backends of a listener\<close>

record BackendConfig =
  bc_Address :: string
  bc_LocalAddress :: string

record 'w SetupState =
  su_rb :: RoundRobinBackend
  su_resolver :: "HostCallback DynamicHostResolver"
  su_backends :: "'w BackendState"
  su_pending :: "HostCallback notice list"

definition add_ip_backend ::
  "'w net \<Rightarrow> nat \<Rightarrow> string \<Rightarrow> URL \<Rightarrow> ('w SetupState, unit) call"
where
  "add_ip_backend net item localBind u st =
     (case (if u_Scheme u = ''udp'' then CreateUDPBackend net localBind (u_Host u) (su_backends st)
            else CreateTCPBackend localBind (u_Host u) item (su_backends st)) of
        (Inl e, s) \<Rightarrow> (Inl e, st\<lparr>su_backends := s\<rparr>)
      | (Inr backend, s) \<Rightarrow>
          (let (rb, s') = AddBackend net backend (su_rb st, s)
           in (Inr (), st\<lparr>su_rb := rb, su_backends := s'\<rparr>)))"

definition add_host_backend ::
  "'w net \<Rightarrow> HostCallback \<Rightarrow> string \<Rightarrow> 'w SetupState \<Rightarrow> 'w SetupState"
where
  "add_host_backend net hc host st =
     (let ((dhr, w), notices) = ResolveHost net host hc (su_resolver st, bworld (su_backends st));
          st1 = st\<lparr>su_resolver := dhr, su_backends := (su_backends st)\<lparr>bworld := w\<rparr>\<rparr>
      in case notices of
           Call _ _ new removed # _ \<Rightarrow>
             (let (rb, s) = run_callback net hc new removed (su_rb st1, su_backends st1)
              in st1\<lparr>su_rb := rb, su_backends := s\<rparr>)
         | _ \<Rightarrow> st1\<lparr>su_pending := su_pending st1 @ notices\<rparr>)"

fun create_backends ::
  "'w net \<Rightarrow> (string \<Rightarrow> URL result) \<Rightarrow> nat \<Rightarrow> BackendConfig list \<Rightarrow> ('w SetupState, unit) call"
where
  "create_backends net other item [] st = (Inr (), st)"
| "create_backends net other item (conf # confs) st =
     (let localBind = JoinHostPort (bc_LocalAddress conf) ''0'' in
      case url_Parse other (bc_Address conf) of
        Inl e \<Rightarrow> (Inl e, st)
      | Inr u \<Rightarrow>
          if u_Scheme u = ''udp'' \<or> u_Scheme u = ''tcp'' then
            (case LastIndexByte (u_Host u) (CHR '':'') of
               None \<Rightarrow> create_backends net other item confs st
             | Some pos \<Rightarrow>
                 (let host = before pos (u_Host u); p = after pos (u_Host u) in
                  case isIPAddress host of
                    Inl e \<Rightarrow> (Inl e, st)
                  | Inr True \<Rightarrow>
                      (case add_ip_backend net item localBind u st of
                         (Inl e, st') \<Rightarrow> (Inl e, st')
                       | (Inr _, st') \<Rightarrow> create_backends net other item confs st')
                  | Inr False \<Rightarrow>
                      create_backends net other item confs
                        (add_host_backend net
                          \<lparr>hc_item = item, hc_scheme = u_Scheme u, hc_local = localBind, hc_port = p\<rparr> host st)))
          else (Inl (Errorf (''unsupported protocol '' @ u_Scheme u)), st))"

definition CreateRoundRobinBackend ::
  "'w net \<Rightarrow> (string \<Rightarrow> URL result) \<Rightarrow> nat \<Rightarrow> BackendConfig list \<Rightarrow> ('w SetupState, RoundRobinBackend) call"
where
  "CreateRoundRobinBackend net other item backends st =
     (if length backends \<le> 0 then (Inl (Errorf ''no backends''), st)
      else
        (case create_backends net other item backends (st\<lparr>su_rb := NewRoundRobinBackend\<rparr>) of
           (Inl e, st') \<Rightarrow> (Inl e, st')
         | (Inr _, st') \<Rightarrow> (Inr (su_rb st'), st')))"

definition getAllBackendAddresses :: "RoundRobinBackend + Backend \<Rightarrow> string list" where
  "getAllBackendAddresses backend =
     (case backend of Inl rb \<Rightarrow> map Backend_GetAddress (rr_backends rb) | Inr b \<Rightarrow> [Backend_GetAddress b])"

lemmas listeners_eval [go_eval] =
  ViaConfig_String_def host_char_def scheme_ok_def authority_ok_def url_Parse_def createViaConfig_def run_callback_def
  notice_changes_def add_ip_backend_def add_host_backend_def CreateRoundRobinBackend_def
  getAllBackendAddresses_def

section \<open>The backends of a followed host\<close>

text \<open>
  Run in the order they were raised, the notices of the resolver keep the backends of a
  listener equal to the addresses of its host.
\<close>

definition apply_to_backends ::
  "'w net \<Rightarrow> HostCallback \<Rightarrow> HostCallback notice \<Rightarrow>
   RoundRobinBackend \<times> 'w BackendState \<Rightarrow> RoundRobinBackend \<times> 'w BackendState"
where
  "apply_to_backends net hc n = (case notice_changes n of (new, removed) \<Rightarrow> run_callback net hc new removed)"

lemma apply_to_backends_tcp:
  assumes "hc_scheme hc = ''tcp''" and "rr_inv rb" and "local_inv (hc_local hc) s"
    and "apply_to_backends net hc n (rb, s) = (rb', s')" and "rr_addresses rb = tcp_backend_of (hc_port hc) ` S"
  shows "rr_inv rb' \<and> local_inv (hc_local hc) s' \<and>
    rr_addresses rb' = tcp_backend_of (hc_port hc) ` apply_notice n S"
proof -
  obtain new removed where n: "notice_changes n = (new, removed)" by fastforce
  then have a: "apply_notice n S = (S \<union> set new) - set removed"
    by (cases n) (auto simp: notice_changes_def)
  have "hostIPChanged net ''tcp'' (hc_local hc) new removed (hc_port hc) (hc_item hc) (rb, s) = (rb', s')"
    using assms(1,4) n by (simp add: apply_to_backends_def run_callback_def)
  from hostIPChanged_tcp [OF assms(2,3) this] assms(5) show ?thesis
    unfolding a by (auto simp: image_Un [symmetric] image_set_diff [OF tcp_backend_of_inj, symmetric])
qed

lemma fold_apply_to_backends_tcp:
  "hc_scheme hc = ''tcp'' \<Longrightarrow> rr_inv rb \<Longrightarrow> local_inv (hc_local hc) s \<Longrightarrow>
   fold (apply_to_backends net hc) ns (rb, s) = (rb', s') \<Longrightarrow>
   rr_addresses rb = tcp_backend_of (hc_port hc) ` S \<Longrightarrow>
   rr_inv rb' \<and> rr_addresses rb' = tcp_backend_of (hc_port hc) ` fold apply_notice ns S"
proof (induction ns arbitrary: rb s S)
  case (Cons n ns)
  obtain rb1 s1 where 1: "apply_to_backends net hc n (rb, s) = (rb1, s1)" by fastforce
  show ?case
    using apply_to_backends_tcp [OF Cons.prems(1-3) 1 Cons.prems(5)]
      Cons.IH [OF Cons.prems(1), of rb1 s1 "apply_notice n S"] Cons.prems(4) 1 by simp
qed simp

lemma resolve_run_backends:
  assumes "hc_scheme hc = ''tcp''" and "rr_inv rb" and "local_inv (hc_local hc) s"
    and "resolve_run h rs entry = (entry', ns)"
    and "rr_addresses rb = tcp_backend_of (hc_port hc) ` set (addrs entry)"
    and "fold (apply_to_backends net hc) ns (rb, s) = (rb', s')"
  shows "rr_inv rb' \<and> rr_addresses rb' = tcp_backend_of (hc_port hc) ` set (addrs entry')"
  using fold_apply_to_backends_tcp [OF assms(1,2,3,6,5)] resolve_run_follow [OF assms(4)] by simp

end
