(* ===== verification/Sessions.thy ===== *)
theory Sessions
  imports Listeners
begin

text \<open>
  The second half of \<open>backend.go\<close>: the stores that bind a session to the backend that serves it,
  in memory and through Redis, and their composition. Every reading of the clock is an
  argument; the loops over a map, which read it once for every key, take a function of the
  key. The clients of Redis are a parameter.
\<close>

section \<open>Durations\<close>

text \<open>\<open>time.Duration\<close> is a 64-bit number of nanoseconds, and multiplication wraps.\<close>

definition int64 :: "int \<Rightarrow> int" where
  "int64 i = (i + 2 ^ 63) mod 2 ^ 64 - 2 ^ 63"

definition seconds :: "int \<Rightarrow> int" where
  "seconds n = int64 (n * 10 ^ 9)"

text \<open>
  \<open>float64(n) > d.Seconds()\<close>, compared exactly. A duration of whole seconds, as every timeout of
  up to 292 years is, converts to floating point exactly; for larger \<open>n\<close> rounding keeps the order.
\<close>

definition longer_than :: "int \<Rightarrow> int \<Rightarrow> bool" where
  "longer_than n d \<longleftrightarrow> n * 10 ^ 9 > d"

definition session_timeout :: "int \<Rightarrow> int \<Rightarrow> int" where
  "session_timeout timeout expireSeconds =
     (if longer_than expireSeconds timeout then seconds expireSeconds else timeout)"

lemma int64_small: "go_int i \<Longrightarrow> int64 i = i"
  by (simp add: int64_def go_int_def mod_pos_pos_trivial)

lemma go_int_int64: "go_int (int64 i)"
  by (simp add: int64_def go_int_def)

lemma session_timeout_ge:
  assumes "go_int (expireSeconds * 10 ^ 9)"
  shows "session_timeout timeout expireSeconds = max timeout (expireSeconds * 10 ^ 9)"
  using assms by (simp add: session_timeout_def longer_than_def seconds_def int64_small max_def)

section \<open>Sessions in memory\<close>

record ExpireBackend =
  eb_backend :: Backend
  eb_expire :: int

record LocalSessions =
  ls_timeout :: int
  ls_backends :: "string \<rightharpoonup> ExpireBackend"
  ls_nextCleanTime :: int

text \<open>The readings of the clock that \<open>AddBackend\<close> and the cleaning make.\<close>

record readings =
  at_add :: int
  at_check :: int
  at_next :: int
  at_key :: "string \<Rightarrow> int"

definition NewLocalSessions :: "int \<Rightarrow> int \<Rightarrow> LocalSessions" where
  "NewLocalSessions now timeoutSeconds =
     \<lparr>ls_timeout = seconds timeoutSeconds, ls_backends = Map.empty,
      ls_nextCleanTime = now + seconds timeoutSeconds\<rparr>"

definition Local_GetBackend :: "int \<Rightarrow> string \<Rightarrow> (LocalSessions, Backend) call" where
  "Local_GetBackend now sessionId ls =
     (let none = Inl (Errorf (''no backend related with dialog '' @ sessionId)) in
      case ls_backends ls sessionId of
        None \<Rightarrow> (none, ls)
      | Some v \<Rightarrow>
          if eb_expire v > now then (Inr (eb_backend v), ls)
          else (none, ls\<lparr>ls_backends := (ls_backends ls)(sessionId := None)\<rparr>))"

definition Local_cleanExpiredSession :: "readings \<Rightarrow> LocalSessions \<Rightarrow> LocalSessions" where
  "Local_cleanExpiredSession t ls =
     (if ls_nextCleanTime ls > at_check t then ls
      else ls\<lparr>ls_nextCleanTime := at_next t + ls_timeout ls,
              ls_backends := map_without (ls_backends ls)
                {k. \<exists>v. ls_backends ls k = Some v \<and> eb_expire v < at_key t k}\<rparr>)"

definition Local_AddBackend :: "readings \<Rightarrow> string \<Rightarrow> Backend \<Rightarrow> int \<Rightarrow> LocalSessions \<Rightarrow> LocalSessions" where
  "Local_AddBackend t sessionId backend expireSeconds ls =
     (let expire = at_add t + session_timeout (ls_timeout ls) expireSeconds
      in Local_cleanExpiredSession t
           (ls\<lparr>ls_backends := (ls_backends ls)(sessionId \<mapsto> \<lparr>eb_backend = backend, eb_expire = expire\<rparr>)\<rparr>))"

definition Local_RemoveSession :: "string \<Rightarrow> LocalSessions \<Rightarrow> LocalSessions" where
  "Local_RemoveSession sessionId ls = ls\<lparr>ls_backends := (ls_backends ls)(sessionId := None)\<rparr>"

section \<open>The addresses learned from Redis\<close>

record AddrInfo =
  ai_address :: string
  ai_expires :: int

record AddrMgr =
  am_addrs :: "string \<rightharpoonup> AddrInfo"
  am_nextCleanTime :: int

definition NewAddrMgr :: AddrMgr where
  "NewAddrMgr = \<lparr>am_addrs = Map.empty, am_nextCleanTime = 0\<rparr>"

text \<open>Here the readings are Unix times.\<close>

definition AddrMgr_cleanExpiredSession :: "readings \<Rightarrow> AddrMgr \<Rightarrow> AddrMgr" where
  "AddrMgr_cleanExpiredSession t am =
     (if am_nextCleanTime am > at_check t then am
      else \<lparr>am_addrs = map_without (am_addrs am)
              {k. \<exists>v. am_addrs am k = Some v \<and> ai_expires v \<le> at_key t k},
            am_nextCleanTime = at_next t + 60\<rparr>)"

definition GetBackendAddress :: "readings \<Rightarrow> string \<Rightarrow> (AddrMgr, string) call" where
  "GetBackendAddress t sessionId am =
     (let am' = AddrMgr_cleanExpiredSession t am in
      (case am_addrs am' sessionId of
         Some v \<Rightarrow>
           if ai_expires v > at_add t then Inr (ai_address v)
           else Inl (Errorf (''no backend address found for session '' @ sessionId))
       | None \<Rightarrow> Inl (Errorf (''no backend address found for session '' @ sessionId)), am'))"

definition SetBackendAddress :: "readings \<Rightarrow> string \<Rightarrow> string \<Rightarrow> int \<Rightarrow> AddrMgr \<Rightarrow> AddrMgr" where
  "SetBackendAddress t sessionId address expires am =
     (let am' = AddrMgr_cleanExpiredSession t am
      in am'\<lparr>am_addrs := (am_addrs am')(sessionId \<mapsto>
               \<lparr>ai_address = address, ai_expires = int64 (expires + at_add t)\<rparr>)\<rparr>)"

definition AddrMgr_RemoveBackend :: "string \<Rightarrow> (AddrMgr, unit) call" where
  "AddrMgr_RemoveBackend sessionId am =
     (case am_addrs am sessionId of
        Some _ \<Rightarrow> (Inr (), am\<lparr>am_addrs := (am_addrs am)(sessionId := None)\<rparr>)
      | None \<Rightarrow> (Inl (Errorf (''session backend address not found for session '' @ sessionId)), am))"

section \<open>Sessions shared through Redis\<close>

record RedisAddress =
  ra_Address :: string
  ra_Password :: string
  ra_Db :: int

record RedisSessionStore =
  rs_Addresses :: "RedisAddress list"
  rs_Channel :: string
  rs_RetryTimeout :: int

record RedisSessions =
  rdbs :: "RedisAddress list"
  rs_timeout :: int
  redisChannel :: string
  masterIndex :: int
  sessionBackendAddrs :: AddrMgr
  retryTimeout :: int

definition createRedisClient :: "RedisAddress \<Rightarrow> RedisAddress option" where
  "createRedisClient a = (if ra_Address a = [] then None else if ra_Db a < 0 then None else Some a)"

text \<open>The result \<open>None\<close> is a nil pointer.\<close>

definition NewRedisSessions :: "RedisSessionStore \<Rightarrow> int \<Rightarrow> RedisSessions option" where
  "NewRedisSessions store timeoutSeconds =
     (if length (rs_Addresses store) = 0 then None
      else Some
        \<lparr>rdbs = List.map_filter createRedisClient (rs_Addresses store),
         rs_timeout = seconds timeoutSeconds,
         redisChannel = (if rs_Channel store = [] then ''sipproxy:session'' else rs_Channel store),
         masterIndex = 0,
         sessionBackendAddrs = NewAddrMgr,
         retryTimeout = (if rs_RetryTimeout store \<le> 0 then 5 else rs_RetryTimeout store)\<rparr>)"

text \<open>\<open>process\<close> returns the text of its error, if it fails.\<close>

fun try_redis ::
  "(RedisAddress \<Rightarrow> 'w \<Rightarrow> string option \<times> 'w) \<Rightarrow> int \<Rightarrow> nat \<Rightarrow> (RedisSessions \<times> 'w, unit) call"
where
  "try_redis process i 0 st = (Inl (Errorf ''failed to process any Redis client''), st)"
| "try_redis process i (Suc k) (rsb, w) =
     (let n = int (length (rdbs rsb));
          index = (masterIndex rsb + i) mod n;
          (err, w') = process (rdbs rsb ! nat index) w
      in case err of
           Some _ \<Rightarrow> try_redis process (i + 1) k (rsb, w')
         | None \<Rightarrow> (Inr (), ((if i > 0 then rsb\<lparr>masterIndex := index\<rparr> else rsb), w')))"

definition ForEachRedis ::
  "(RedisAddress \<Rightarrow> 'w \<Rightarrow> string option \<times> 'w) \<Rightarrow> (RedisSessions \<times> 'w, unit) call"
where
  "ForEachRedis process = (\<lambda>(rsb, w).
     let n = length (rdbs rsb) in
     if n = 0 then (Inl (Errorf ''no Redis clients available''), (rsb, w))
     else try_redis process 0 n (rsb, w))"

text \<open>\<open>publish client channel payload\<close> is \<open>Publish\<close> of the Redis package.\<close>

type_synonym 'w publisher = "RedisAddress \<Rightarrow> string \<Rightarrow> string \<Rightarrow> 'w \<Rightarrow> string option \<times> 'w"

definition add_payload :: "string \<Rightarrow> string \<Rightarrow> int \<Rightarrow> string" where
  "add_payload sessionId address expire = ''add '' @ sessionId @ '' '' @ address @ '' '' @ Itoa expire"

definition delete_payload :: "string \<Rightarrow> string" where
  "delete_payload sessionId = ''delete '' @ sessionId"

definition redis_expire :: "int \<Rightarrow> int \<Rightarrow> int" where
  "redis_expire timeout expireSeconds = go_div (session_timeout timeout expireSeconds) (10 ^ 9)"

definition Redis_AddBackend ::
  "'w publisher \<Rightarrow> string \<Rightarrow> Backend \<Rightarrow> int \<Rightarrow> RedisSessions \<times> 'w \<Rightarrow> RedisSessions \<times> 'w"
where
  "Redis_AddBackend publish sessionId backend expireSeconds = (\<lambda>(rsb, w).
     snd (ForEachRedis (\<lambda>rdb. publish rdb (redisChannel rsb)
            (add_payload sessionId (Backend_GetAddress backend) (redis_expire (rs_timeout rsb) expireSeconds)))
          (rsb, w)))"

definition Redis_RemoveSession ::
  "'w publisher \<Rightarrow> string \<Rightarrow> RedisSessions \<times> 'w \<Rightarrow> RedisSessions \<times> 'w"
where
  "Redis_RemoveSession publish sessionId = (\<lambda>(rsb, w).
     case ForEachRedis (\<lambda>rdb. publish rdb (redisChannel rsb) (delete_payload sessionId)) (rsb, w) of
       (_, (rsb', w')) \<Rightarrow>
         (rsb'\<lparr>sessionBackendAddrs := snd (AddrMgr_RemoveBackend sessionId (sessionBackendAddrs rsb'))\<rparr>, w'))"

definition Redis_GetBackend ::
  "(string \<Rightarrow> Backend result) \<Rightarrow> readings \<Rightarrow> string \<Rightarrow> (RedisSessions, Backend) call"
where
  "Redis_GetBackend findBackendByAddr t sessionId rsb =
     (case GetBackendAddress t sessionId (sessionBackendAddrs rsb) of
        (r, am) \<Rightarrow>
          ((case r of
              Inr a \<Rightarrow> findBackendByAddr a
            | Inl _ \<Rightarrow> Inl (Errorf (''no Redis client available to get backend for session '' @ sessionId))),
           rsb\<lparr>sessionBackendAddrs := am\<rparr>))"

definition sessionBackendUpdated :: "readings \<Rightarrow> string \<Rightarrow> RedisSessions \<Rightarrow> RedisSessions" where
  "sessionBackendUpdated t msg rsb =
     (let fields = Split msg (CHR '' '') in
      if fields ! 0 = ''add'' \<and> length fields = 4 then
        rsb\<lparr>sessionBackendAddrs :=
          SetBackendAddress t (fields ! 1) (fields ! 2) (fst (ParseInt 32 (fields ! 3))) (sessionBackendAddrs rsb)\<rparr>
      else if fields ! 0 = ''delete'' \<and> length fields = 2 then
        rsb\<lparr>sessionBackendAddrs := snd (AddrMgr_RemoveBackend (fields ! 1) (sessionBackendAddrs rsb))\<rparr>
      else rsb)"

text \<open>
  What one server sends: \<open>doSubscribe\<close> subscribes and waits for the confirmation, and
  \<open>receiveSubscribeMessage\<close> handles messages until an error. An attempt is whether there is a
  subscription, its confirmation, and the messages with the readings of the clock at each.
\<close>

type_synonym pubsub = "(readings \<times> string result) list"

definition doSubscribe :: "bool \<Rightarrow> unit result \<Rightarrow> pubsub \<Rightarrow> pubsub option" where
  "doSubscribe created confirmed msgs =
     (if \<not> created then None
      else (case confirmed of Inl _ \<Rightarrow> None | Inr _ \<Rightarrow> Some msgs))"

fun receiveSubscribeMessage :: "pubsub \<Rightarrow> RedisSessions \<Rightarrow> RedisSessions" where
  "receiveSubscribeMessage [] rsb = rsb"
| "receiveSubscribeMessage ((t, msg) # msgs) rsb =
     (case msg of
        Inr payload \<Rightarrow> receiveSubscribeMessage msgs (sessionBackendUpdated t payload rsb)
      | Inl _ \<Rightarrow> rsb)"

fun subscribeToBackendUpdates :: "(bool \<times> unit result \<times> pubsub) list \<Rightarrow> RedisSessions \<Rightarrow> RedisSessions" where
  "subscribeToBackendUpdates [] rsb = rsb"
| "subscribeToBackendUpdates ((created, confirmed, msgs) # attempts) rsb =
     (case doSubscribe created confirmed msgs of
        Some pubsub \<Rightarrow> subscribeToBackendUpdates attempts (receiveSubscribeMessage pubsub rsb)
      | None \<Rightarrow> subscribeToBackendUpdates attempts rsb)"

section \<open>The stores of the proxy\<close>

text \<open>
  A \<open>SessionBasedBackend\<close> is the store in memory or the one on Redis; a Redis store that was
  not created is a nil pointer inside an interface value, which is not nil: a call on it panics.
\<close>

datatype SessionStore = LocalStore LocalSessions | RedisStore "RedisSessions option"

text \<open>The readings in whole seconds, which the addresses learned from Redis count.\<close>

definition unix_readings :: "readings \<Rightarrow> readings" where
  "unix_readings r =
     \<lparr>at_add = at_add r div 10 ^ 9, at_check = at_check r div 10 ^ 9, at_next = at_next r div 10 ^ 9,
      at_key = (\<lambda>k. at_key r k div 10 ^ 9)\<rparr>"

definition nil_store :: "'a result" where
  "nil_store = Inl (Panic ''nil pointer dereference'')"

fun Store_GetBackend ::
  "(string \<Rightarrow> Backend result) \<Rightarrow> readings \<Rightarrow> string \<Rightarrow> (SessionStore, Backend) call"
where
  "Store_GetBackend find_addr t sessionId (LocalStore ls) =
     (case Local_GetBackend (at_add t) sessionId ls of (r, ls') \<Rightarrow> (r, LocalStore ls'))"
| "Store_GetBackend find_addr t sessionId (RedisStore (Some rsb)) =
     (case Redis_GetBackend find_addr (unix_readings t) sessionId rsb of (r, rsb') \<Rightarrow> (r, RedisStore (Some rsb')))"
| "Store_GetBackend find_addr t sessionId (RedisStore None) = (nil_store, RedisStore None)"

fun Store_AddBackend ::
  "'w publisher \<Rightarrow> readings \<Rightarrow> string \<Rightarrow> Backend \<Rightarrow> int \<Rightarrow> (SessionStore \<times> 'w, unit) call"
where
  "Store_AddBackend publish t sessionId b e (LocalStore ls, w) =
     (Inr (), (LocalStore (Local_AddBackend t sessionId b e ls), w))"
| "Store_AddBackend publish t sessionId b e (RedisStore (Some rsb), w) =
     (case Redis_AddBackend publish sessionId b e (rsb, w) of (rsb', w') \<Rightarrow> (Inr (), (RedisStore (Some rsb'), w')))"
| "Store_AddBackend publish t sessionId b e (RedisStore None, w) = (nil_store, (RedisStore None, w))"

fun Store_RemoveSession :: "'w publisher \<Rightarrow> string \<Rightarrow> (SessionStore \<times> 'w, unit) call" where
  "Store_RemoveSession publish sessionId (LocalStore ls, w) =
     (Inr (), (LocalStore (Local_RemoveSession sessionId ls), w))"
| "Store_RemoveSession publish sessionId (RedisStore (Some rsb), w) =
     (case Redis_RemoveSession publish sessionId (rsb, w) of (rsb', w') \<Rightarrow> (Inr (), (RedisStore (Some rsb'), w')))"
| "Store_RemoveSession publish sessionId (RedisStore None, w) = (nil_store, (RedisStore None, w))"

text \<open>A composition asks its stores in order, and adds to and removes from all of them.\<close>

definition is_panic :: "'a result \<Rightarrow> bool" where
  "is_panic r = (case r of Inl (Panic _) \<Rightarrow> True | _ \<Rightarrow> False)"

fun Composite_GetBackend ::
  "(string \<Rightarrow> Backend result) \<Rightarrow> readings \<Rightarrow> string \<Rightarrow> (SessionStore list, Backend) call"
where
  "Composite_GetBackend find_addr t sessionId [] = (Inl (Errorf (''no backend found for session '' @ sessionId)), [])"
| "Composite_GetBackend find_addr t sessionId (st # sts) =
     (case Store_GetBackend find_addr t sessionId st of
        (Inr b, st') \<Rightarrow> (Inr b, st' # sts)
      | (Inl e, st') \<Rightarrow>
          if is_panic (Inl e :: Backend result) then (Inl e, st' # sts)
          else (case Composite_GetBackend find_addr t sessionId sts of (r, sts') \<Rightarrow> (r, st' # sts')))"

fun for_each_store ::
  "(SessionStore \<times> 'w \<Rightarrow> unit result \<times> (SessionStore \<times> 'w)) \<Rightarrow> (SessionStore list \<times> 'w, unit) call"
where
  "for_each_store f ([], w) = (Inr (), ([], w))"
| "for_each_store f (st # sts, w) =
     (case f (st, w) of
        (Inl e, (st', w')) \<Rightarrow> (Inl e, (st' # sts, w'))
      | (Inr _, (st', w')) \<Rightarrow>
          (case for_each_store f (sts, w') of (r, (sts', w'')) \<Rightarrow> (r, (st' # sts', w''))))"

definition Composite_AddBackend ::
  "'w publisher \<Rightarrow> readings \<Rightarrow> string \<Rightarrow> Backend \<Rightarrow> int \<Rightarrow> (SessionStore list \<times> 'w, unit) call"
where
  "Composite_AddBackend publish t sessionId b e = for_each_store (Store_AddBackend publish t sessionId b e)"

definition Composite_RemoveSession :: "'w publisher \<Rightarrow> string \<Rightarrow> (SessionStore list \<times> 'w, unit) call" where
  "Composite_RemoveSession publish sessionId = for_each_store (Store_RemoveSession publish sessionId)"

lemmas sessions_eval [go_eval] =
  int64_def seconds_def longer_than_def session_timeout_def NewLocalSessions_def Local_GetBackend_def
  Local_cleanExpiredSession_def Local_AddBackend_def Local_RemoveSession_def NewAddrMgr_def
  AddrMgr_cleanExpiredSession_def GetBackendAddress_def SetBackendAddress_def AddrMgr_RemoveBackend_def
  createRedisClient_def NewRedisSessions_def ForEachRedis_def add_payload_def delete_payload_def
  redis_expire_def Redis_AddBackend_def Redis_RemoveSession_def Redis_GetBackend_def
  sessionBackendUpdated_def doSubscribe_def unix_readings_def nil_store_def is_panic_def Composite_AddBackend_def
  Composite_RemoveSession_def

end
