(* ===== verification/SessionFacts.thy ===== *)
theory SessionFacts
  imports Sessions
begin

text \<open>
  The contract of a session store, as a locale with its two providers (the store in memory and
  the addresses learned from Redis), the messages that Redis carries, and the choice of the
  Redis server to write to.
\<close>

section \<open>The contract\<close>

text \<open>
  \<open>bound t s sid\<close> is what session \<open>sid\<close> is bound to at time \<open>t\<close>; \<open>expiry r s e\<close> is when a binding made
  with the readings \<open>r\<close> and the expiry \<open>e\<close> ends; \<open>upto t r\<close> says that the readings are not later than \<open>t\<close>.
\<close>

locale session_store =
  fixes bound :: "int \<Rightarrow> 's \<Rightarrow> string \<Rightarrow> 'b option"
    and bind :: "'r \<Rightarrow> string \<Rightarrow> 'b \<Rightarrow> int \<Rightarrow> 's \<Rightarrow> 's"
    and unbind :: "string \<Rightarrow> 's \<Rightarrow> 's"
    and expiry :: "'r \<Rightarrow> 's \<Rightarrow> int \<Rightarrow> int"
    and upto :: "int \<Rightarrow> 'r \<Rightarrow> bool"
  assumes bound_bind_same: "upto t r \<Longrightarrow> t < expiry r s e \<Longrightarrow> bound t (bind r sid b e s) sid = Some b"
    and bound_bind_other: "upto t r \<Longrightarrow> sid' \<noteq> sid \<Longrightarrow> bound t (bind r sid b e s) sid' = bound t s sid'"
    and bound_unbind_same: "bound t (unbind sid s) sid = None"
    and bound_unbind_other: "sid' \<noteq> sid \<Longrightarrow> bound t (unbind sid s) sid' = bound t s sid'"
begin

text \<open>A history is a list of bindings and removals.\<close>

definition run :: "('r \<times> string \<times> 'b \<times> int + string) list \<Rightarrow> 's \<Rightarrow> 's" where
  "run = fold (\<lambda>ev s. case ev of Inl (r, sid, b, e) \<Rightarrow> bind r sid b e s | Inr sid \<Rightarrow> unbind sid s)"

definition about :: "string \<Rightarrow> ('r \<times> string \<times> 'b \<times> int + string) \<Rightarrow> bool" where
  "about sid ev = (case ev of Inl (_, sid', _) \<Rightarrow> sid' = sid | Inr sid' \<Rightarrow> sid' = sid)"

definition past :: "int \<Rightarrow> ('r \<times> string \<times> 'b \<times> int + string) \<Rightarrow> bool" where
  "past t ev = (case ev of Inl (r, _) \<Rightarrow> upto t r | Inr _ \<Rightarrow> True)"

lemma run_others:
  "(\<And>ev. ev \<in> set evs \<Longrightarrow> \<not> about sid ev \<and> past t ev) \<Longrightarrow> bound t (run evs s) sid = bound t s sid"
proof (induction evs arbitrary: s)
  case (Cons ev evs)
  define s1 where "s1 = (case ev of Inl (r, sid, b, e) \<Rightarrow> bind r sid b e s | Inr sid \<Rightarrow> unbind sid s)"
  from Cons.prems have "\<not> about sid ev" "past t ev" by auto
  then have "bound t s1 sid = bound t s sid"
    by (auto simp: s1_def about_def past_def bound_bind_other bound_unbind_other split: sum.splits)
  moreover have "bound t (run evs s1) sid = bound t s1 sid"
    using Cons.prems by (intro Cons.IH) auto
  moreover have "run (ev # evs) s = run evs s1"
    by (simp add: run_def s1_def)
  ultimately show ?case by simp
qed (simp add: run_def)

lemma sticky:
  assumes "upto t r" and "t < expiry r s e" and "\<And>ev. ev \<in> set evs \<Longrightarrow> \<not> about sid ev \<and> past t ev"
  shows "bound t (run evs (bind r sid b e s)) sid = Some b"
  using run_others [OF assms(3)] bound_bind_same [OF assms(1,2)] by simp

lemma rebind:
  "upto t r \<Longrightarrow> upto t r' \<Longrightarrow> t < expiry r' (bind r sid b e s) e' \<Longrightarrow>
   bound t (bind r' sid b' e' (bind r sid b e s)) sid = Some b'"
  by (simp add: bound_bind_same)

lemma removed:
  assumes "\<And>ev. ev \<in> set evs \<Longrightarrow> \<not> about sid ev \<and> past t ev"
  shows "bound t (run evs (unbind sid s)) sid = None"
  using run_others [OF assms] bound_unbind_same by simp

end

section \<open>The store in memory\<close>

definition local_bound :: "int \<Rightarrow> LocalSessions \<Rightarrow> string \<Rightarrow> Backend option" where
  "local_bound t ls sid =
     (case ls_backends ls sid of Some v \<Rightarrow> if eb_expire v > t then Some (eb_backend v) else None | None \<Rightarrow> None)"

definition readings_upto :: "int \<Rightarrow> readings \<Rightarrow> bool" where
  "readings_upto t r \<longleftrightarrow> at_add r \<le> t \<and> at_check r \<le> t \<and> at_next r \<le> t \<and> (\<forall>k. at_key r k \<le> t)"

definition local_expiry :: "readings \<Rightarrow> LocalSessions \<Rightarrow> int \<Rightarrow> int" where
  "local_expiry r ls e = at_add r + session_timeout (ls_timeout ls) e"

lemma Local_GetBackend_bound:
  "fst (Local_GetBackend t sid ls) =
     (case local_bound t ls sid of
        Some b \<Rightarrow> Inr b | None \<Rightarrow> Inl (Errorf (''no backend related with dialog '' @ sid)))"
  by (simp add: Local_GetBackend_def local_bound_def Let_def split: option.split)

lemma Local_GetBackend_state:
  "t' \<ge> t \<Longrightarrow> local_bound t' (snd (Local_GetBackend t sid ls)) = local_bound t' ls"
  by (auto simp: Local_GetBackend_def local_bound_def Let_def fun_eq_iff split: option.split)

lemma Local_clean_bound:
  "readings_upto t r \<Longrightarrow> local_bound t (Local_cleanExpiredSession r ls) sid = local_bound t ls sid"
  by (auto simp: Local_cleanExpiredSession_def local_bound_def readings_upto_def split: option.split)
    (meson linorder_not_le order.strict_trans1 order_less_trans)

interpretation local_store: session_store local_bound Local_AddBackend Local_RemoveSession local_expiry readings_upto
  by unfold_locales
    (auto simp: Local_AddBackend_def Local_clean_bound Let_def,
     auto simp: local_bound_def local_expiry_def Local_RemoveSession_def)

section \<open>The addresses learned from Redis\<close>

definition addr_bound :: "int \<Rightarrow> AddrMgr \<Rightarrow> string \<Rightarrow> string option" where
  "addr_bound t am sid =
     (case am_addrs am sid of Some v \<Rightarrow> if ai_expires v > t then Some (ai_address v) else None | None \<Rightarrow> None)"

definition addr_expiry :: "readings \<Rightarrow> AddrMgr \<Rightarrow> int \<Rightarrow> int" where
  "addr_expiry r am e = int64 (e + at_add r)"

definition addr_unbind :: "string \<Rightarrow> AddrMgr \<Rightarrow> AddrMgr" where
  "addr_unbind sid am = snd (AddrMgr_RemoveBackend sid am)"

lemma AddrMgr_clean_bound:
  "readings_upto t r \<Longrightarrow> addr_bound t (AddrMgr_cleanExpiredSession r am) sid = addr_bound t am sid"
  by (auto simp: AddrMgr_cleanExpiredSession_def addr_bound_def readings_upto_def split: option.split)
    (meson linorder_not_le order.strict_trans1 order_less_trans)

lemma GetBackendAddress_bound:
  assumes "readings_upto (at_add r) r"
  shows "fst (GetBackendAddress r sid am) =
    (case addr_bound (at_add r) am sid of
       Some a \<Rightarrow> Inr a | None \<Rightarrow> Inl (Errorf (''no backend address found for session '' @ sid)))"
  using AddrMgr_clean_bound [OF assms, of am sid]
  by (auto simp: GetBackendAddress_def addr_bound_def Let_def split: option.splits)

interpretation addr_store: session_store addr_bound SetBackendAddress addr_unbind addr_expiry readings_upto
proof unfold_locales
  fix t r s sid sid' b e
  show "readings_upto t r \<Longrightarrow> t < addr_expiry r s e \<Longrightarrow> addr_bound t (SetBackendAddress r sid b e s) sid = Some b"
    by (simp add: SetBackendAddress_def addr_bound_def addr_expiry_def Let_def)
  show "readings_upto t r \<Longrightarrow> sid' \<noteq> sid \<Longrightarrow> addr_bound t (SetBackendAddress r sid b e s) sid' = addr_bound t s sid'"
    using AddrMgr_clean_bound [of t r s sid'] by (simp add: SetBackendAddress_def addr_bound_def Let_def)
  show "addr_bound t (addr_unbind sid s) sid = None"
    by (auto simp: addr_unbind_def AddrMgr_RemoveBackend_def addr_bound_def split: option.split)
  show "sid' \<noteq> sid \<Longrightarrow> addr_bound t (addr_unbind sid s) sid' = addr_bound t s sid'"
    by (auto simp: addr_unbind_def AddrMgr_RemoveBackend_def addr_bound_def split: option.split)
qed

section \<open>The messages on the channel\<close>

lemma ParseInt_32_Itoa:
  assumes "0 \<le> i" and "i < 2 ^ 31"
  shows "ParseInt 32 (Itoa i) = (i, None)"
proof -
  have "nat i < 2 ^ 31" "\<not> i < 0" using assms by auto
  then show ?thesis
    by (simp add: ParseInt_def ParseUint_def Itoa_def Let_def ParseUintLoop_nat_digits)
qed

lemma ParseInt_32_bounds: "- (2 ^ 31) \<le> fst (ParseInt 32 s) \<and> fst (ParseInt 32 s) < 2 ^ 31"
  using ParseInt_bounds [of 32 s] by simp

lemma Split_payload:
  assumes "CHR '' '' \<notin> set sid" and "CHR '' '' \<notin> set a"
  shows "Split (add_payload sid a e) (CHR '' '') = [''add'', sid, a, Itoa e]"
    and "Split (delete_payload sid) (CHR '' '') = [''delete'', sid]"
proof -
  have i: "CHR '' '' \<notin> set (Itoa e)" by (simp add: is_digit_def)
  have n: "CHR '' '' \<notin> set ''add''" "CHR '' '' \<notin> set ''delete''" by simp_all
  have "add_payload sid a e = ''add'' @ CHR '' '' # sid @ CHR '' '' # a @ CHR '' '' # Itoa e"
    by (simp add: add_payload_def)
  then show "Split (add_payload sid a e) (CHR '' '') = [''add'', sid, a, Itoa e]"
    by (simp only: Split_append [OF n(1)] Split_append [OF assms(1)] Split_append [OF assms(2)] Split_none [OF i])
  have "delete_payload sid = ''delete'' @ CHR '' '' # sid" by (simp add: delete_payload_def)
  then show "Split (delete_payload sid) (CHR '' '') = [''delete'', sid]"
    by (simp only: Split_append [OF n(2)] Split_none [OF assms(1)])
qed

lemma sessionBackendUpdated_add:
  assumes "CHR '' '' \<notin> set sid" and "CHR '' '' \<notin> set a" and "0 \<le> e" and "e < 2 ^ 31"
  shows "sessionBackendUpdated r (add_payload sid a e) rsb =
    rsb\<lparr>sessionBackendAddrs := SetBackendAddress r sid a e (sessionBackendAddrs rsb)\<rparr>"
  using assms by (simp add: sessionBackendUpdated_def Split_payload ParseInt_32_Itoa Let_def)

lemma sessionBackendUpdated_delete:
  assumes "CHR '' '' \<notin> set sid"
  shows "sessionBackendUpdated r (delete_payload sid) rsb =
    rsb\<lparr>sessionBackendAddrs := addr_unbind sid (sessionBackendAddrs rsb)\<rparr>"
  using assms Split_payload(2) [OF assms, of "[]"]
  by (simp add: sessionBackendUpdated_def addr_unbind_def Let_def)

section \<open>The choice of the server\<close>

text \<open>
  The servers are tried from the master on, each once, until one succeeds; that one is the
  master of the next call.
\<close>

lemma try_redis_ok:
  assumes up: "\<And>rdb w. fst (process rdb w) = None \<longleftrightarrow> up rdb"
    and k: "\<And>j. j < k \<Longrightarrow> \<not> up (rdbs rsb ! nat ((masterIndex rsb + (i + int j)) mod int (length (rdbs rsb))))"
    and ok: "up (rdbs rsb ! nat ((masterIndex rsb + (i + int k)) mod int (length (rdbs rsb))))"
  shows "\<exists>w'. try_redis process i (Suc k + m) (rsb, w) =
    (Inr (), ((if i + int k > 0 then rsb\<lparr>masterIndex := (masterIndex rsb + (i + int k)) mod int (length (rdbs rsb))\<rparr> else rsb), w'))"
  using k ok
proof (induction k arbitrary: i w)
  case 0
  then show ?case
    using up [of "rdbs rsb ! nat ((masterIndex rsb + i) mod int (length (rdbs rsb)))" w]
    by (auto simp: Let_def split: prod.split option.split)
next
  case (Suc k)
  let ?r = "rdbs rsb ! nat ((masterIndex rsb + i) mod int (length (rdbs rsb)))"
  have "\<not> up ?r" using Suc.prems(1) [of 0] by simp
  then obtain x w1 where 1: "process ?r w = (Some x, w1)"
    using up [of ?r w] by (cases "process ?r w") auto
  have "\<exists>w'. try_redis process (i + 1) (Suc k + m) (rsb, w1) =
      (Inr (), ((if (i + 1) + int k > 0 then rsb\<lparr>masterIndex := (masterIndex rsb + ((i + 1) + int k)) mod int (length (rdbs rsb))\<rparr> else rsb), w'))"
  proof (rule Suc.IH)
    fix j assume "j < k"
    with Suc.prems(1) [of "Suc j"]
    show "\<not> up (rdbs rsb ! nat ((masterIndex rsb + (i + 1 + int j)) mod int (length (rdbs rsb))))"
      by (simp add: ac_simps)
  next
    show "up (rdbs rsb ! nat ((masterIndex rsb + (i + 1 + int k)) mod int (length (rdbs rsb))))"
      using Suc.prems(2) by (simp add: ac_simps)
  qed
  moreover have "try_redis process i (Suc (Suc k) + m) (rsb, w) = try_redis process (i + 1) (Suc k + m) (rsb, w1)"
    using 1 by (simp only: add_Suc [of "Suc k"] try_redis.simps(2) [of _ i] Let_def prod.case option.case)
  ultimately show ?case by (simp only: ac_simps of_nat_Suc)
qed

lemma ForEachRedis_up:
  assumes up: "\<And>rdb w. fst (process rdb w) = None \<longleftrightarrow> up rdb"
    and m: "0 \<le> masterIndex rsb" "masterIndex rsb < int (length (rdbs rsb))"
    and ex: "\<exists>rdb \<in> set (rdbs rsb). up rdb"
  shows "\<exists>rsb' w'. ForEachRedis process (rsb, w) = (Inr (), (rsb', w')) \<and> rdbs rsb' = rdbs rsb \<and>
    0 \<le> masterIndex rsb' \<and> masterIndex rsb' < int (length (rdbs rsb)) \<and>
    up (rdbs rsb ! nat (masterIndex rsb')) \<and>
    (up (rdbs rsb ! nat (masterIndex rsb)) \<longrightarrow> rsb' = rsb)"
proof -
  let ?n = "int (length (rdbs rsb))" and ?m = "masterIndex rsb"
  let ?P = "\<lambda>k. up (rdbs rsb ! nat ((?m + (0 + int k)) mod ?n))"
  obtain x where x: "x < length (rdbs rsb)" "up (rdbs rsb ! x)"
    using ex by (auto simp: in_set_conv_nth)
  have b0: "0 \<le> (int x - ?m) mod ?n" "(int x - ?m) mod ?n < ?n"
    using x by (auto intro!: pos_mod_sign pos_mod_bound)
  then have "(?m + (0 + int (nat ((int x - ?m) mod ?n)))) mod ?n = int x"
    using x m by (simp add: mod_simps)
  then have P: "?P (nat ((int x - ?m) mod ?n))" and b: "nat ((int x - ?m) mod ?n) < length (rdbs rsb)"
    using x m b0 by (simp_all add: nat_less_iff)
  define k where "k = (LEAST k. ?P k)"
  have k1: "?P k" unfolding k_def using P by (rule LeastI)
  have k2: "\<not> ?P j" if "j < k" for j
    using that unfolding k_def by (rule not_less_Least)
  have "k \<le> nat ((int x - ?m) mod ?n)" unfolding k_def using P by (rule Least_le)
  then have "k < length (rdbs rsb)" using b by (rule le_less_trans)
  note k = k1 k2 this
  then obtain d where d: "length (rdbs rsb) = Suc k + d" by (auto simp: less_iff_Suc_add)
  let ?rsb = "if 0 + int k > 0 then rsb\<lparr>masterIndex := (?m + (0 + int k)) mod ?n\<rparr> else rsb"
  obtain w' where "try_redis process 0 (Suc k + d) (rsb, w) = (Inr (), (?rsb, w'))"
    using try_redis_ok [of process up k rsb 0 d w, OF up k(2,1)] by blast
  then have "ForEachRedis process (rsb, w) = (Inr (), (?rsb, w'))"
    by (simp only: ForEachRedis_def prod.case Let_def d) simp
  moreover have "up (rdbs rsb ! nat (masterIndex ?rsb))" "0 \<le> masterIndex ?rsb" "masterIndex ?rsb < ?n"
    using k(1) m by (auto split: if_splits intro!: pos_mod_sign pos_mod_bound)
  moreover have "?rsb = rsb" if "up (rdbs rsb ! nat ?m)"
    using that k(2) [of 0] m by (cases k) auto
  ultimately show ?thesis by auto
qed

end
