(* ===== verification/ProxyState.thy ===== *)
theory ProxyState
  imports MyName TransportFacts SessionFacts
begin

text \<open>
  The state of a proxy (\<open>Proxy\<close> and \<open>ProxyItem\<close> of \<open>proxy.go\<close>), raw messages, and the operations
  on the listeners of a proxy: finding a transport, finding a backend, and the callback
  \<open>connectionEstablished\<close> that adds a transport for a new connection.
\<close>

section \<open>State\<close>

record ProxyItem =
  pi_transports :: "ServerTransport list"
  pi_viaConfig :: "ViaConfig option"
  pi_backend :: "RoundRobinBackend option"

text \<open>
  A \<open>Backend\<close> interface value: nil; the pointer to the round-robin backend of a listener, which
  is not nil as an interface value even when the pointer is; or a UDP or TCP backend.
\<close>

datatype BackendRef = NilBackend | ItemBackend nat | LeafBackend Backend

record RawMessage =
  rm_PeerAddr :: string
  rm_PeerPort :: int
  rm_Message :: Message
  rm_From :: ServerTransport
  rm_ReceivedSupport :: bool
  rm_TcpConn :: "nat option"
  rm_Backend :: BackendRef
  rm_Via :: "ViaConfig option"

definition NewRawMessage ::
  "string \<Rightarrow> int \<Rightarrow> ServerTransport \<Rightarrow> bool \<Rightarrow> Message \<Rightarrow> BackendRef \<Rightarrow> ViaConfig option \<Rightarrow> RawMessage"
where
  "NewRawMessage peerAddr peerPort from receivedSupport msg backend via =
     \<lparr>rm_PeerAddr = peerAddr, rm_PeerPort = peerPort, rm_Message = msg, rm_From = from,
      rm_ReceivedSupport = receivedSupport, rm_TcpConn = None, rm_Backend = backend, rm_Via = via\<rparr>"

definition IsFromTCP :: "RawMessage \<Rightarrow> bool" where
  "IsFromTCP rm \<longleftrightarrow> rm_TcpConn rm \<noteq> None"

definition GetRemoteTcpAddr :: "'w net \<Rightarrow> RawMessage \<Rightarrow> string" where
  "GetRemoteTcpAddr net rm = (case rm_TcpConn rm of None \<Rightarrow> [] | Some c \<Rightarrow> remote_addr net c)"

datatype ProxySessions = Single SessionStore | Composite "SessionStore list"

record 'w Proxy =
  myName :: MyName
  keepNextHopRoute :: bool
  preConfigRoute :: PreConfigRoute
  pitems :: "ProxyItem list"
  first_item :: nat
  selfLearnRoute :: SelfLearnRoute
  mustRecordRoute :: bool
  sessionBackends :: ProxySessions
  pclients :: "'w Clients"
  pbackends :: "'w BackendState"
  pworld :: 'w

text \<open>The environment of a proxy.\<close>

record 'w env =
  e_net :: "'w net"
  e_regexps :: regexps
  e_publish :: "'w publisher"

text \<open>
  The tables of client transports and of backends see the one world of the proxy.
\<close>

definition with_clients :: "('w Clients \<Rightarrow> 'a \<times> 'w Clients) \<Rightarrow> 'w Proxy \<Rightarrow> 'a \<times> 'w Proxy" where
  "with_clients f p =
     (case f ((pclients p)\<lparr>cl_world := pworld p\<rparr>) of
        (a, c) \<Rightarrow> (a, p\<lparr>pclients := c, pworld := cl_world c\<rparr>))"

definition with_backends :: "('w BackendState \<Rightarrow> 'a \<times> 'w BackendState) \<Rightarrow> 'w Proxy \<Rightarrow> 'a \<times> 'w Proxy" where
  "with_backends f p =
     (case f ((pbackends p)\<lparr>bworld := pworld p\<rparr>) of
        (a, s) \<Rightarrow> (a, p\<lparr>pbackends := s, pworld := bworld s\<rparr>))"

definition with_pworld :: "('w \<Rightarrow> 'a \<times> 'w) \<Rightarrow> 'w Proxy \<Rightarrow> 'a \<times> 'w Proxy" where
  "with_pworld f p = (case f (pworld p) of (a, w) \<Rightarrow> (a, p\<lparr>pworld := w\<rparr>))"

definition proxy_now :: "'w env \<Rightarrow> 'w Proxy \<Rightarrow> int \<times> 'w Proxy" where
  "proxy_now E = with_pworld (unix_now (e_net E))"

section \<open>Listeners\<close>

definition FindTransport :: "ProxyItem \<Rightarrow> (ServerTransport \<Rightarrow> bool) \<Rightarrow> ServerTransport result" where
  "FindTransport item cond =
     (case find cond (pi_transports item) of
        Some t \<Rightarrow> Inr t | None \<Rightarrow> Inl (Errorf ''fail to find transport''))"

definition findBackendByAddr :: "ProxyItem \<Rightarrow> string \<Rightarrow> Backend result" where
  "findBackendByAddr item address =
     (case pi_backend item of
        None \<Rightarrow> Inl (Errorf ''no backend for proxy item'')
      | Some rb \<Rightarrow> GetBackend rb address)"

definition removeExitServerTransports :: "ProxyItem \<Rightarrow> ProxyItem" where
  "removeExitServerTransports item =
     (let ok_transports = filter (\<lambda>t. \<not> ServerTransport_IsExit t) (pi_transports item)
      in if length ok_transports \<noteq> length (pi_transports item)
         then item\<lparr>pi_transports := ok_transports\<rparr> else item)"

definition NewTCPServerTransportWithConn :: "'w net \<Rightarrow> nat \<Rightarrow> ServerTransport result" where
  "NewTCPServerTransportWithConn net conn =
     (case SplitHostPort (local_addr net conn) of
        Inr (addr, p) \<Rightarrow> Inr (TCPServerTransport addr (fst (Atoi p)) (Some conn) False)
      | Inl e \<Rightarrow> Inl e)"

text \<open>A connection without a local address makes a nil transport, whose \<open>Start\<close> panics.\<close>

definition connectionEstablished :: "'w net \<Rightarrow> nat \<Rightarrow> (ProxyItem, unit) call" where
  "connectionEstablished net conn item =
     (let item1 = removeExitServerTransports item in
      case NewTCPServerTransportWithConn net conn of
        Inl _ \<Rightarrow> (Inl nil_pointer, item1)
      | Inr t \<Rightarrow> (Inr (), item1\<lparr>pi_transports := pi_transports item1 @ [t]\<rparr>))"

text \<open>
  Running the callbacks that a send has recorded, in order. The listeners of a process are
  numbered through all its proxies, since the factory of backends shares a TCP backend, with the
  callback it was made with, among them; those of a proxy start at \<open>base\<close>.
\<close>

fun run_established :: "'w net \<Rightarrow> nat \<Rightarrow> (nat \<times> nat) list \<Rightarrow> (ProxyItem list, unit) call" where
  "run_established net base [] its = (Inr (), its)"
| "run_established net base ((i, conn) # rest) its =
     (if base \<le> i \<and> i < base + length its then
        (case connectionEstablished net conn (its ! (i - base)) of
           (Inl e, item) \<Rightarrow> (Inl e, its[i - base := item])
         | (Inr _, item) \<Rightarrow> run_established net base rest (its[i - base := item]))
      else run_established net base rest its)"

definition findTransportByViaConfig :: "ProxyItem list \<Rightarrow> ViaConfig option \<Rightarrow> ServerTransport result" where
  "findTransportByViaConfig its viaConfig =
     (case viaConfig of
        None \<Rightarrow> Inl (Errorf ''no via config'')
      | Some vc \<Rightarrow>
          (case find (\<lambda>t. ServerTransport_GetProtocol t = vc_Protocol vc \<and>
                          ServerTransport_GetAddress t = vc_Address vc \<and> ServerTransport_GetPort t = vc_Port vc)
                  (concat (map pi_transports its)) of
             Some t \<Rightarrow> Inr t
           | None \<Rightarrow> Inl (Errorf ''fail to find transport by via config'')))"

definition findTransportByBackendAddr :: "ProxyItem list \<Rightarrow> string \<Rightarrow> string \<Rightarrow> ServerTransport result" where
  "findTransportByBackendAddr its addr preferProtocol =
     (case find (\<lambda>t. ServerTransport_GetAddress t = addr) (concat (map pi_transports its)) of
        Some t \<Rightarrow> Inr t
      | None \<Rightarrow>
          (case find (\<lambda>t. ServerTransport_GetProtocol t = preferProtocol) (concat (map pi_transports its)) of
             Some t \<Rightarrow> Inr t
           | None \<Rightarrow> Inl (Errorf (''fail to find backend by '' @ addr))))"

text \<open>The position of the listener.\<close>

definition findBackendProxyItem :: "ProxyItem list \<Rightarrow> string \<Rightarrow> nat option" where
  "findBackendProxyItem its protocol =
     find (\<lambda>i. case pi_backend (its ! i) of
                 None \<Rightarrow> False
               | Some rb \<Rightarrow> HasPrefix (RoundRobin_GetAddress rb) protocol) [0..<length its]"

definition findBackendByAddr_any :: "ProxyItem list \<Rightarrow> string \<Rightarrow> Backend result" where
  "findBackendByAddr_any its backendAddr =
     (case find is_ok (map (\<lambda>item. findBackendByAddr item backendAddr) its) of
        Some r \<Rightarrow> r
      | None \<Rightarrow> Inl (Errorf (''fail to find backend by address '' @ backendAddr)))"

section \<open>Sessions\<close>

definition clock_readings :: "'w env \<Rightarrow> 'w Proxy \<Rightarrow> readings \<times> 'w Proxy" where
  "clock_readings E p =
     (let (t1, p1) = with_pworld (time_now (e_net E)) p;
          (t2, p2) = with_pworld (time_now (e_net E)) p1;
          (t3, p3) = with_pworld (time_now (e_net E)) p2;
          (t4, p4) = with_pworld (time_now (e_net E)) p3
      in (\<lparr>at_add = t1, at_check = t2, at_next = t3, at_key = (\<lambda>_. t4)\<rparr>, p4))"

definition proxy_findBackendByAddr :: "'w Proxy \<Rightarrow> string \<Rightarrow> Backend result" where
  "proxy_findBackendByAddr p = findBackendByAddr_any (pitems p)"

definition sessions_GetBackend :: "'w env \<Rightarrow> string \<Rightarrow> ('w Proxy, Backend) call" where
  "sessions_GetBackend E sessionId p =
     (let (r, p1) = clock_readings E p in
      case sessionBackends p1 of
        Single st \<Rightarrow>
          (case Store_GetBackend (proxy_findBackendByAddr p1) r sessionId st of
             (b, st') \<Rightarrow> (b, p1\<lparr>sessionBackends := Single st'\<rparr>))
      | Composite sts \<Rightarrow>
          (case Composite_GetBackend (proxy_findBackendByAddr p1) r sessionId sts of
             (b, sts') \<Rightarrow> (b, p1\<lparr>sessionBackends := Composite sts'\<rparr>)))"

definition sessions_AddBackend :: "'w env \<Rightarrow> string \<Rightarrow> Backend \<Rightarrow> int \<Rightarrow> ('w Proxy, unit) call" where
  "sessions_AddBackend E sessionId backend e p =
     (let (r, p1) = clock_readings E p in
      case sessionBackends p1 of
        Single st \<Rightarrow>
          (case Store_AddBackend (e_publish E) r sessionId backend e (st, pworld p1) of
             (u, (st', w)) \<Rightarrow> (u, p1\<lparr>sessionBackends := Single st', pworld := w\<rparr>))
      | Composite sts \<Rightarrow>
          (case Composite_AddBackend (e_publish E) r sessionId backend e (sts, pworld p1) of
             (u, (sts', w)) \<Rightarrow> (u, p1\<lparr>sessionBackends := Composite sts', pworld := w\<rparr>)))"

definition sessions_RemoveSession :: "'w env \<Rightarrow> string \<Rightarrow> ('w Proxy, unit) call" where
  "sessions_RemoveSession E sessionId p =
     (case sessionBackends p of
        Single st \<Rightarrow>
          (case Store_RemoveSession (e_publish E) sessionId (st, pworld p) of
             (u, (st', w)) \<Rightarrow> (u, p\<lparr>sessionBackends := Single st', pworld := w\<rparr>))
      | Composite sts \<Rightarrow>
          (case Composite_RemoveSession (e_publish E) sessionId (sts, pworld p) of
             (u, (sts', w)) \<Rightarrow> (u, p\<lparr>sessionBackends := Composite sts', pworld := w\<rparr>)))"

lemmas proxy_state_eval [go_eval] =
  NewRawMessage_def IsFromTCP_def with_clients_def with_backends_def with_pworld_def proxy_now_def
  FindTransport_def findBackendByAddr_def removeExitServerTransports_def
  NewTCPServerTransportWithConn_def connectionEstablished_def findTransportByViaConfig_def
  findTransportByBackendAddr_def findBackendProxyItem_def findBackendByAddr_any_def
  clock_readings_def proxy_findBackendByAddr_def sessions_GetBackend_def sessions_AddBackend_def
  sessions_RemoveSession_def

end
