(* ===== verification/ProxyCore.thy ===== *)
theory ProxyCore
  imports ProxyState
begin

text \<open>
  The handlers of \<open>Proxy\<close> in \<open>proxy.go\<close>: what is done with a message as it comes in, the choice of
  the next hop, Via and Record-Route, the choice of a backend, sending, and the loop that
  serves messages and accepted connections one at a time.
\<close>

section \<open>Receiving\<close>

definition proxy_learn :: "'w env \<Rightarrow> string \<Rightarrow> ServerTransport \<Rightarrow> 'w Proxy \<Rightarrow> 'w Proxy" where
  "proxy_learn E ip t p =
     (let (now1, p1) = proxy_now E p;
          (now2, p2) = proxy_now E p1
      in p2\<lparr>selfLearnRoute := SelfLearnRoute_AddRoute now1 now2 ip t (selfLearnRoute p2)\<rparr>)"

definition getNextReponseHop :: "(Message, string \<times> int \<times> string) call" where
  "getNextReponseHop =
     sbind GetVia (\<lambda>via.
     sbind (sret (Via_GetParam via 0)) (\<lambda>viaParam.
       sret (Inr
         (case ViaParam_GetReceived viaParam of
            Inr host \<Rightarrow> (host, (case ViaParam_GetRPort viaParam of Inr q \<Rightarrow> q | Inl _ \<Rightarrow> ViaParam_GetPort viaParam),
                         via_Transport viaParam)
          | Inl _ \<Rightarrow> (via_Host viaParam, ViaParam_GetPort viaParam, via_Transport viaParam)))))"

text \<open>\<open>if strings.HasPrefix(host, "[") { host = host[1 : len(host)-1] }\<close>\<close>

definition strip_brackets :: "string \<Rightarrow> string result" where
  "strip_brackets host =
     (if HasPrefix host ''['' then
        (if length host < 2 then Inl (Panic ''slice bounds out of range'')
         else Inr (take (length host - 2) (drop 1 host)))
      else Inr host)"

definition proxy_GetTransport :: "'w env \<Rightarrow> string \<Rightarrow> string \<Rightarrow> int \<Rightarrow> string \<Rightarrow> ('w Proxy, nat) call" where
  "proxy_GetTransport E protocol host q transId p =
     (let (now, p1) = proxy_now E p;
          (now', p2) = proxy_now E p1
      in with_clients (GetTransport (e_net E) (selfLearnRoute p2) now (\<lambda>_ _. now') protocol host q transId) p2)"

definition proxy_set_conn :: "'w env \<Rightarrow> nat \<Rightarrow> nat \<Rightarrow> 'w Proxy \<Rightarrow> 'w Proxy" where
  "proxy_set_conn E conn f p =
     (let (now, p1) = proxy_now E p
      in snd (with_clients (\<lambda>c. ((), set_primary_conn (e_net E) now conn f c)) p1))"

definition bind_connection :: "'w env \<Rightarrow> nat \<Rightarrow> Message \<times> 'w Proxy \<Rightarrow> unit result \<times> (Message \<times> 'w Proxy)" where
  "bind_connection E conn = (\<lambda>(msg, p).
     case getNextReponseHop msg of
       (Inl _, msg1) \<Rightarrow> (Inr (), (msg1, p))
     | (Inr (host0, q, _), msg1) \<Rightarrow>
         (case strip_brackets host0 of
            Inl e \<Rightarrow> (Inl e, (msg1, p))
          | Inr host \<Rightarrow>
              (case GetClientTransaction msg1 of
                 (Inl _, msg2) \<Rightarrow> (Inr (), (msg2, p))
               | (Inr transId, msg2) \<Rightarrow>
                   (case proxy_GetTransport E ''tcp'' host q transId p of
                      (Inl _, p1) \<Rightarrow> (Inr (), (msg2, p1))
                    | (Inr f, p1) \<Rightarrow> (Inr (), (msg2, proxy_set_conn E conn f p1))))))"

definition isSameAddress :: "'w env \<Rightarrow> string \<Rightarrow> string \<Rightarrow> ('w Proxy, bool) call" where
  "isSameAddress E addr1 addr2 p =
     (if addr1 = addr2 then (Inr True, p)
      else
        (case with_clients (resolve_host (e_net E) addr1) p of
           (Inl _, p1) \<Rightarrow> (Inr False, p1)
         | (Inr ips1, p1) \<Rightarrow>
             (case with_clients (resolve_host (e_net E) addr2) p1 of
                (Inl _, p2) \<Rightarrow> (Inr False, p2)
              | (Inr ips2, p2) \<Rightarrow> (Inr (\<exists>ip1 \<in> set ips1. ip1 \<in> set ips2), p2))))"

definition tryRemoveTopRoute :: "'w env \<Rightarrow> ServerTransport \<Rightarrow> Message \<times> 'w Proxy \<Rightarrow> Message \<times> 'w Proxy" where
  "tryRemoveTopRoute E from = (\<lambda>(msg, p).
     case GetRoute msg of
       (Inl _, msg1) \<Rightarrow> (msg1, p)
     | (Inr route, msg1) \<Rightarrow>
         (case rbind (GetRouteParam route 0) (\<lambda>rp. GetSIPURI (NameAddr_GetAddress (RouteParam_GetAddress rp))) of
            Inl _ \<Rightarrow> (msg1, p)
          | Inr sipUri \<Rightarrow>
              if SIPURI_GetPort sipUri = ServerTransport_GetPort from then
                (case isSameAddress E (Host sipUri) (ServerTransport_GetAddress from) p of
                   (same, p1) \<Rightarrow> (if same = Inr True then snd (PopRoute msg1) else msg1, p1))
              else (msg1, p)))"

definition handleRawMessage :: "'w env \<Rightarrow> RawMessage \<Rightarrow> 'w Proxy \<Rightarrow> Message result \<times> 'w Proxy" where
  "handleRawMessage E rm p =
     (let from = rm_From rm;
          msg0 = (rm_Message rm)\<lparr>ReceivedFrom := Some from\<rparr>;
          (msg1, p1) =
            (if IsRequest msg0 then
               (let (ps, msg) = ForEachViaParam msg0
                in (msg, fold (\<lambda>vp. proxy_learn E (via_Host vp) from) ps (proxy_learn E (rm_PeerAddr rm) from p)))
             else (msg0, p));
          msg2 = (if IsRequest msg1 \<and> rm_ReceivedSupport rm
                  then snd (SetReceived (rm_PeerAddr rm) (rm_PeerPort rm) msg1) else msg1)
      in case (case (IsRequest msg2, rm_TcpConn rm) of
                 (True, Some conn) \<Rightarrow> bind_connection E conn (msg2, p1)
               | _ \<Rightarrow> (Inr (), (msg2, p1))) of
           (Inl e, (_, p2)) \<Rightarrow> (Inl e, p2)
         | (Inr _, s) \<Rightarrow> (case tryRemoveTopRoute E from s of (msg3, p3) \<Rightarrow> (Inr msg3, p3)))"

section \<open>The next hop of a request\<close>

definition getNextRequestHopByRoute :: "bool \<Rightarrow> (Message, string \<times> int \<times> string) call" where
  "getNextRequestHopByRoute keep =
     sbind GetRoute (\<lambda>route.
     sbind (sret (GetRouteParam route 0)) (\<lambda>rp msg.
       let msg1 = (if keep then msg else snd (PopRoute msg));
           addr = NameAddr_GetAddress (RouteParam_GetAddress rp)
       in case GetSIPURI addr of
            Inr u \<Rightarrow> (Inr (Host u, SIPURI_GetPort u, SIPURI_GetTransport u), msg1)
          | Inl _ \<Rightarrow> (Inl (Errorf (''address '' @ AddrSpec_String addr @ '' is not a sip URI'')), msg1)))"

definition getNextRequestHopByConfig ::
  "'w env \<Rightarrow> Message \<times> 'w Proxy \<Rightarrow> (string \<times> int \<times> string) result \<times> (Message \<times> 'w Proxy)"
where
  "getNextRequestHopByConfig E = (\<lambda>(msg, p).
     case GetTo msg of
       (Inl _, msg1) \<Rightarrow> (Inl (Errorf ''no To header in message''), (msg1, p))
     | (Inr to, msg1) \<Rightarrow>
         (case To_GetHost to of
            Inl _ \<Rightarrow> (Inl (Errorf ''fail to find Host in To header of message''), (msg1, p))
          | Inr destHost \<Rightarrow>
              (let (ks, p1) =
                 (if items (preConfigRoute p) destHost = None
                  then with_pworld (map_keys (e_net E) (dom (items (preConfigRoute p)))) p else ([], p))
               in (rbind (FindRoute (re_other (e_regexps E)) ks (preConfigRoute p) destHost)
                     (\<lambda>(transport, host, q). Inr (host, q, transport)), (msg1, p1)))))"

definition getNextRequestHop ::
  "'w env \<Rightarrow> Message \<times> 'w Proxy \<Rightarrow> (string \<times> int \<times> string) result \<times> (Message \<times> 'w Proxy)"
where
  "getNextRequestHop E = (\<lambda>(msg, p).
     case getNextRequestHopByRoute (keepNextHopRoute p) msg of
       (Inr hop, msg1) \<Rightarrow> (Inr hop, (msg1, p))
     | (Inl _, msg1) \<Rightarrow> getNextRequestHopByConfig E (msg1, p))"

section \<open>Via and Record-Route\<close>

definition addVia :: "'w env \<Rightarrow> ServerTransport \<Rightarrow> Message \<times> 'w Proxy \<Rightarrow> Message \<times> 'w Proxy" where
  "addVia E t = (\<lambda>(msg, p).
     let (uuid, p1) = with_pworld (new_uuid (e_net E)) p in
     case CreateVia uuid (ServerTransport_GetProtocol t) (ServerTransport_GetAddress t) (ServerTransport_GetPort t) of
       Inr via \<Rightarrow> (AddVia msg via, p1)
     | Inl _ \<Rightarrow> (msg, p1))"

definition addRecordRoute :: "bool \<Rightarrow> ServerTransport \<Rightarrow> Message \<Rightarrow> Message" where
  "addRecordRoute must t msg =
     (if \<not> is_ok (GetHeader msg ''Record-Route'') \<and> \<not> must then msg
      else AddRecordRoute msg (CreateRecordRoute (ServerTransport_GetAddress t) (ServerTransport_GetPort t)))"

definition add_proxy_headers :: "'w env \<Rightarrow> ServerTransport \<Rightarrow> Message \<times> 'w Proxy \<Rightarrow> Message \<times> 'w Proxy" where
  "add_proxy_headers E t s = (case addVia E t s of (msg, p) \<Rightarrow> (addRecordRoute (mustRecordRoute p) t msg, p))"

section \<open>Sending\<close>

datatype ClientRef = Direct nat | Managed nat

definition findClientTransport :: "'w env \<Rightarrow> string \<Rightarrow> int \<Rightarrow> string \<Rightarrow> string \<Rightarrow> ('w Proxy, ClientRef) call" where
  "findClientTransport E host q protocol transId p =
     (case SelfLearnRoute_GetRoute (selfLearnRoute p) host protocol of
        Some (UDPServerTransport _ conn) \<Rightarrow>
          (let localAddr =
             (case conn of
                None \<Rightarrow> '':0''
              | Some c \<Rightarrow>
                  JoinHostPort (fst (value_or ([], []) (SplitHostPort (local_addr (e_net E) c)))) ''0'')
           in case with_clients (CreateUDPClientTransport (e_net E) host q localAddr) p of
                (i, p1) \<Rightarrow> (Inr (Direct i), p1))
      | _ \<Rightarrow>
          (case proxy_GetTransport E protocol host q transId p of
             (Inl e, p1) \<Rightarrow> (Inl e, p1) | (Inr f, p1) \<Rightarrow> (Inr (Managed f), p1)))"

definition ClientRef_Send :: "'w env \<Rightarrow> Message \<Rightarrow> ClientRef \<Rightarrow> ('w Proxy, unit) call" where
  "ClientRef_Send E msg t =
     with_clients (case t of Direct i \<Rightarrow> Client_Send (e_net E) msg i | Managed f \<Rightarrow> Transport_Send (e_net E) msg f)"

definition sendRequest :: "'w env \<Rightarrow> string \<Rightarrow> int \<Rightarrow> string \<Rightarrow> Message \<Rightarrow> 'w Proxy \<Rightarrow> 'w Proxy" where
  "sendRequest E host q protocol msg p =
     (case findClientTransport E host q protocol [] p of
        (Inl _, p1) \<Rightarrow> p1 | (Inr t, p1) \<Rightarrow> snd (ClientRef_Send E msg t p1))"

definition sendResponse :: "'w env \<Rightarrow> string \<Rightarrow> int \<Rightarrow> string \<Rightarrow> Message \<Rightarrow> 'w Proxy \<Rightarrow> Message \<times> 'w Proxy" where
  "sendResponse E host q protocol msg p =
     (let (r, msg1) = GetClientTransaction msg;
          transId = value_or [] r
      in (msg1,
          case findClientTransport E host q protocol transId p of
            (Inl _, p1) \<Rightarrow> p1
          | (Inr t, p1) \<Rightarrow>
              (let p2 = (if IsFinalResponse msg1
                         then snd (with_clients (\<lambda>c. ((), RemoveTransport protocol host q transId c)) p1) else p1)
               in snd (ClientRef_Send E msg1 t p2))))"

lemmas proxy_core_eval [go_eval] =
  proxy_learn_def getNextReponseHop_def strip_brackets_def proxy_GetTransport_def proxy_set_conn_def
  bind_connection_def isSameAddress_def tryRemoveTopRoute_def handleRawMessage_def
  getNextRequestHopByRoute_def getNextRequestHopByConfig_def getNextRequestHop_def addVia_def
  addRecordRoute_def add_proxy_headers_def findClientTransport_def ClientRef_Send_def sendRequest_def
  sendResponse_def

end
