(* ===== verification/ViaRouting.thy ===== *)
theory ViaRouting
  imports ProxyCore
begin

text \<open>
  The way back of a response: the Via that the proxy records for the sender of a request, and
  the hop it finds for the response with the same Via stack.
\<close>

definition via_header_ok :: "Header \<Rightarrow> bool" where
  "via_header_ok h \<longleftrightarrow>
     (isSameHeader (hdr_name h) ''Via'' \<longrightarrow>
        (case hdr_value h of HVia v \<Rightarrow> via_list v \<noteq> [] | HString s \<Rightarrow> is_ok (ParseVia s) | _ \<Rightarrow> False))"

text \<open>Every Via header of the message can be read.\<close>

definition vias_valid :: "Message \<Rightarrow> bool" where
  "vias_valid m \<longleftrightarrow> vias_ok m \<and> list_all via_header_ok (headers m)"

lemma header_vias_nonempty:
  "via_header_ok h \<Longrightarrow> isSameHeader (hdr_name h) ''Via'' \<Longrightarrow> header_vias h \<noteq> []"
  by (auto simp: via_header_ok_def header_vias_def is_ok_iff split: HeaderValue.splits sum.splits
      dest: ParseVia_nonempty)

lemma GetVia_valid:
  assumes v: "vias_valid m" and ne: "via_stack m \<noteq> []"
  shows "\<exists>v m'. GetVia m = (Inr v, m') \<and> via_list v \<noteq> [] \<and> vias_valid m' \<and> via_stack m' = via_stack m \<and>
    hd (via_list v) = hd (via_stack m)"
proof -
  have "find_header (headers m) ''Via'' \<noteq> None"
    using ne header_vias_none by (auto simp: via_stack_def)
  then obtain i where i: "find_header (headers m) ''Via'' = Some i" by blast
  obtain a h b where s: "headers m = a @ h # b" "length a = i" "headers m ! i = h"
      "isSameHeader (hdr_name h) ''Via''" "find_header a ''Via'' = None"
    using find_header_split [OF i] .
  have hv: "via_header_ok h" using v s(1) by (simp add: vias_valid_def)
  then obtain w where "(hdr_value h = HVia w) \<or> (\<exists>str. hdr_value h = HString str \<and> ParseVia str = Inr w)"
    using s(4) by (auto simp: via_header_ok_def is_ok_iff split: HeaderValue.splits)
  then have "\<exists>m'. GetVia m = (Inr w, m')"
    using i s(3) by (auto simp: GetVia_def get_typed_def GetHeaderValue_eq sel_Via_def)
  then obtain m' where g: "GetVia m = (Inr w, m')" by blast
  have "via_list w \<noteq> []" "vias_ok m'"
    using GetVia_vias_ok [OF _ g] v by (simp_all add: vias_valid_def)
  obtain x h0 h1 y where t: "headers m = x @ h0 # y" "headers m' = x @ h1 # y" "hdr_name h0 = hdr_name h1"
      "isSameHeader (hdr_name h1) ''Via''" "find_header x ''Via'' = None" "sel_Via (hdr_value h1) = Some w"
    using via_h.get_split [OF g [unfolded GetVia_def]] by metis
  have "hdr_value h1 = HVia w" using t(6) by (auto simp: sel_Via_def split: HeaderValue.splits)
  then have "via_header_ok h1" using \<open>via_list w \<noteq> []\<close> by (simp add: via_header_ok_def)
  then have "vias_valid m'"
    using v t(1,2) \<open>vias_ok m'\<close> by (simp add: vias_valid_def)
  moreover obtain z where "via_stack m' = via_list w @ z" "via_stack m' = via_stack m"
    using GetVia_split [OF g] by metis
  ultimately show ?thesis
    using g \<open>via_list w \<noteq> []\<close> by (intro exI [of _ w] exI [of _ m']) (metis hd_append2)
qed

lemma set_value_valid:
  assumes "vias_valid m" and "via_list v \<noteq> []"
  shows "vias_valid (set_value ''Via'' (HVia v) m)"
proof (cases "find_header (headers m) ''Via''")
  case (Some i)
  obtain a h b where s: "headers m = a @ h # b" "length a = i" "headers m ! i = h"
      "isSameHeader (hdr_name h) ''Via''" "find_header a ''Via'' = None"
    using find_header_split [OF Some] .
  show ?thesis
    using assms s(1) set_value_split [OF s(1,4,5), of "HVia v"]
    by (cases v) (auto simp: vias_valid_def vias_ok_def via_header_ok_def)
qed (use assms in \<open>simp add: set_value_def\<close>)

lemma PopVia_valid:
  assumes v: "vias_valid m" and ne: "via_stack m \<noteq> []"
  shows "\<exists>p m'. PopVia m = (Inr \<lparr>via_list = [p]\<rparr>, m') \<and> via_stack m = p # via_stack m' \<and> vias_valid m'"
proof -
  obtain w m1 where g: "GetVia m = (Inr w, m1)" "via_list w \<noteq> []" "vias_valid m1"
    using GetVia_valid [OF assms] by blast
  obtain q m' where pop: "PopVia m = (Inr q, m')"
    using PopVia_succeeds [OF g(1)] by blast
  then obtain p where p: "via_list q = [p]" "via_stack m = p # via_stack m'" "vias_ok m'"
    using PopVia_stack [OF _ pop] v by (auto simp: vias_valid_def)
  obtain a h b where s: "headers m1 = a @ h # b" "isSameHeader (hdr_name h) ''Via''"
      "find_header a ''Via'' = None"
    using GetVia_split [OF g(1)] by metis
  have "vias_valid m'"
  proof (cases "Via_Size w > 1")
    case True
    then obtain c d e where w: "via_list w = c # d # e"
      by (cases "via_list w" rule: remdups_adj.cases) (auto simp: Via_Size_def)
    then have "m' = set_value ''Via'' (HVia (w\<lparr>via_list := d # e\<rparr>)) m1"
      using pop True by (auto simp: PopVia_def sbind_def g(1) PopViaParam_def)
    then show ?thesis using set_value_valid [OF g(3)] by simp
  next
    case False
    then have "m' = m1\<lparr>headers := a @ b\<rparr>"
      using pop RemoveHeader_split [OF s] by (simp add: PopVia_def sbind_def g(1))
    then show ?thesis using g(3) s(1) p(3) by (simp add: vias_valid_def)
  qed
  with pop p show ?thesis by (cases q) auto
qed

lemma SetReceived_valid:
  assumes v: "vias_valid m" and st: "via_stack m = p # rest"
  shows "\<exists>m' p'. SetReceived a n m = (Inr (), m') \<and> vias_valid m' \<and> via_stack m' = p' # rest \<and>
    p' = (let p1 = ViaParam_SetReceived p a in
          if ViaParam_HasParam p1 ''rport'' then ViaParam_SetParam p1 ''rport'' (Itoa n) else p1)"
proof -
  obtain w m1 where g: "GetVia m = (Inr w, m1)" "via_list w \<noteq> []" "vias_valid m1"
    using GetVia_valid [OF v] st by auto
  then obtain q qs where q: "via_list w = q # qs" by (cases "via_list w") auto
  then obtain m' where m': "SetReceived a n m = (Inr (), m')"
    by (simp add: SetReceived_def sbind_def g(1) Via_GetParam_def Let_def)
  then have "\<exists>v'. v' \<noteq> [] \<and> m' = set_value ''Via'' (HVia (w\<lparr>via_list := v'\<rparr>)) m1"
    using q by (auto simp: SetReceived_def sbind_def g(1) Via_GetParam_def Let_def split: if_splits)
  then have "vias_valid m'" using set_value_valid [OF g(3)] by auto
  moreover obtain p0 p' r where "via_stack m = p0 # r" "via_stack m' = p' # r"
      "p' = (let p1 = ViaParam_SetReceived p0 a in
          if ViaParam_HasParam p1 ''rport'' then ViaParam_SetParam p1 ''rport'' (Itoa n) else p1)"
    using SetReceived_stack [OF _ m'] v by (auto simp: vias_valid_def)
  ultimately show ?thesis using m' st by (intro exI [of _ m'] exI [of _ p']) simp
qed

lemma getNextReponseHop_top:
  assumes v: "vias_valid m" and st: "via_stack m = p # rest"
  shows "fst (getNextReponseHop m) = Inr
    (case ViaParam_GetReceived p of
       Inr host \<Rightarrow> (host, (case ViaParam_GetRPort p of Inr q \<Rightarrow> q | Inl _ \<Rightarrow> ViaParam_GetPort p), via_Transport p)
     | Inl _ \<Rightarrow> (via_Host p, ViaParam_GetPort p, via_Transport p))"
proof -
  obtain w m1 where g: "GetVia m = (Inr w, m1)" "via_list w \<noteq> []" "hd (via_list w) = p"
    using GetVia_valid [OF v] st by auto
  then obtain ps where "via_list w = p # ps" by (cases "via_list w") auto
  then show ?thesis by (simp add: getNextReponseHop_def sbind_def g(1) Via_GetParam_def)
qed

text \<open>
  The hop of a response to a request that came in from address \<open>a\<close> and port \<open>n\<close>, whose top Via
  entry was \<open>p\<close>.
\<close>

definition response_hop :: "string \<Rightarrow> int \<Rightarrow> ViaParam \<Rightarrow> string \<times> int \<times> string" where
  "response_hop a n p = (a, if ViaParam_HasParam p ''rport'' then n else ViaParam_GetPort p, via_Transport p)"

lemma received_hop:
  assumes n: "go_int n"
    and p': "p' = (let p1 = ViaParam_SetReceived p a in
          if ViaParam_HasParam p1 ''rport'' then ViaParam_SetParam p1 ''rport'' (Itoa n) else p1)"
  shows "(case ViaParam_GetReceived p' of
       Inr host \<Rightarrow> (host, (case ViaParam_GetRPort p' of Inr q \<Rightarrow> q | Inl _ \<Rightarrow> ViaParam_GetPort p'), via_Transport p')
     | Inl _ \<Rightarrow> (via_Host p', ViaParam_GetPort p', via_Transport p')) = response_hop a n p"
proof -
  let ?p1 = "ViaParam_SetReceived p a"
  have same: "ViaParam_GetPort (ViaParam_SetParam x k v) = ViaParam_GetPort x"
      "via_Transport (ViaParam_SetParam x k v) = via_Transport x" for x k v
    by (simp_all add: ViaParam_SetParam_def ViaParam_GetPort_def)
  have r1: "ViaParam_GetReceived ?p1 = Inr a"
    using via_params.get_put_same by (simp add: ViaParam_GetReceived_def ViaParam_SetReceived_def)
  have h: "ViaParam_HasParam ?p1 ''rport'' = ViaParam_HasParam p ''rport''"
    by (simp add: ViaParam_SetReceived_def ViaParam_HasParam_def ViaParam_SetParam_def)
  show ?thesis
  proof (cases "ViaParam_HasParam p ''rport''")
    case True
    then have e: "p' = ViaParam_SetParam ?p1 ''rport'' (Itoa n)" using p' h by (simp add: Let_def)
    have "ViaParam_GetReceived p' = Inr a"
      using r1 via_params.get_put_other unfolding e by (simp add: ViaParam_GetReceived_def)
    moreover have "ViaParam_GetRPort p' = Inr n"
      using via_params.get_put_same n unfolding e by (simp add: ViaParam_GetRPort_def)
    ultimately show ?thesis
      using True by (simp add: response_hop_def) (simp add: e same ViaParam_SetReceived_def)
  next
    case False
    then have e: "p' = ?p1" using p' h by (simp add: Let_def)
    have "\<exists>x. ViaParam_GetRPort ?p1 = Inl x"
      using False h by (cases "ViaParam_GetParam ?p1 ''rport''")
        (auto simp: ViaParam_GetRPort_def ViaParam_HasParam_iff)
    then show ?thesis
      using False r1 unfolding e by (auto simp: response_hop_def same ViaParam_SetReceived_def)
  qed
qed

section \<open>What the proxy adds to a request\<close>

lemma AddRecordRoute_via_stack: "via_stack (AddRecordRoute m r) = via_stack m"
proof -
  have "concat (map header_vias (take k hs)) @ concat (map header_vias (drop k hs)) = concat (map header_vias hs)" for k hs
    by (metis append_take_drop_id concat_append map_append)
  moreover have "header_vias \<lparr>hdr_name = ''Record-Route'', hdr_value = HRecordRoute r\<rparr> = []"
    by (simp add: header_vias_def)
  ultimately show ?thesis
    by (simp add: AddRecordRoute_def insert_header_def via_stack_def)
qed

lemma add_proxy_headers_stack:
  assumes "fst (new_uuid (e_net E) (pworld p)) = Inr u" and "add_proxy_headers E t (m, p) = (m', p')"
  shows "\<exists>q. via_Transport q = ToUpper (ServerTransport_GetProtocol t) \<and> via_Host q = ServerTransport_GetAddress t \<and>
    via_port q = ServerTransport_GetPort t \<and> via_stack m' = q # via_stack m"
  using assms
  by (auto simp: add_proxy_headers_def addVia_def addRecordRoute_def with_pworld_def CreateVia_def CreateBranch_def Let_def
      CreateViaParam_def AddViaParam_def NewVia_def ViaParam_SetBranch_def ViaParam_SetParam_def AddRecordRoute_via_stack AddVia_stack
      split: prod.splits if_splits)

lemma insert_header_valid:
  assumes "vias_valid m" and "via_header_ok h" and "hdr_value h \<noteq> HVia \<lparr>via_list = []\<rparr>"
  shows "vias_valid (insert_header i h m)"
  using assms by (auto simp: vias_valid_def vias_ok_def insert_header_def list_all_iff dest: in_set_takeD in_set_dropD)

lemma add_proxy_headers_valid:
  assumes "vias_valid m" and "add_proxy_headers E t (m, p) = (m', p')"
  shows "vias_valid m'"
proof -
  have via: "vias_valid (AddVia x v)" if "vias_valid x" "CreateVia u a b c = Inr v" for x v u a b c
    using that unfolding AddVia_def
    by (intro insert_header_valid) (auto simp: CreateVia_def rbind_eq_Inr AddViaParam_def NewVia_def via_header_ok_def Let_def)
  have rr: "vias_valid (addRecordRoute must t x)" if "vias_valid x" for x must
    using that by (auto simp: addRecordRoute_def AddRecordRoute_def via_header_ok_def
        intro!: insert_header_valid)
  show ?thesis
    using assms by (auto simp: add_proxy_headers_def addVia_def split: prod.splits sum.splits intro: via rr)
qed

lemma getNextReponseHop_stack:
  assumes "vias_valid m" and "via_stack m \<noteq> []" and "getNextReponseHop m = (r, m')"
  shows "via_stack m' = via_stack m"
proof -
  obtain v m1 where g: "GetVia m = (Inr v, m1)" "via_stack m1 = via_stack m"
    using GetVia_valid [OF assms(1,2)] by blast
  then show ?thesis
    using assms(3) by (auto simp: getNextReponseHop_def sbind_def split: sum.splits)
qed

end
