(* ===== verification/TransactionIds.thy ===== *)
theory TransactionIds
  imports ViaRouting SessionIds
begin

text \<open>
  The identifiers of transactions: both are functions of the top entry of the Via stack and of
  the method of the message.
\<close>

lemma GetTopViaBranch_top:
  assumes "vias_valid m" and "via_stack m = p # rest"
  shows "\<exists>m'. GetTopViaBranch m = (ViaParam_GetBranch p, m') \<and> vias_valid m' \<and> via_stack m' = p # rest \<and>
    request m' = request m"
proof -
  obtain v m' where g: "GetVia m = (Inr v, m')" "via_list v \<noteq> []" "vias_valid m'" "via_stack m' = via_stack m"
      "hd (via_list v) = hd (via_stack m)"
    using GetVia_valid [of m] assms by auto
  have "Via_GetParam v 0 = Inr p"
    using g assms(2) by (simp add: Via_GetParam_def hd_conv_nth)
  moreover have "request m' = request m"
    using g(1) by (metis getter_frame snd_conv)
  ultimately show ?thesis
    using g assms(2) by (simp add: GetTopViaBranch_def sbind_def)
qed

lemma GetTopViaSentBy_top:
  assumes "vias_valid m" and "via_stack m = p # rest"
  shows "\<exists>m'. GetTopViaSentBy m = (Inr (ViaParam_GetSentBy p), m') \<and> request m' = request m"
proof -
  obtain v m' where g: "GetVia m = (Inr v, m')" "via_list v \<noteq> []"
      "hd (via_list v) = hd (via_stack m)"
    using GetVia_valid [of m] assms by auto
  have "Via_GetParam v 0 = Inr p" "Via_Size v > 0"
    using g assms(2) by (simp_all add: Via_GetParam_def Via_Size_def hd_conv_nth)
  moreover have "request m' = request m"
    using g(1) by (metis getter_frame snd_conv)
  ultimately show ?thesis
    using g by (simp add: GetTopViaSentBy_def sbind_def)
qed

text \<open>The method under which a request is matched: ACK and CANCEL belong to their INVITE.\<close>

definition transaction_method :: "string \<Rightarrow> string" where
  "transaction_method method = (if method = ''CANCEL'' \<or> method = ''ACK'' then ''INVITE'' else method)"

lemma GetServerTransaction_top:
  assumes "vias_valid m" and "via_stack m = p # rest" and "ViaParam_GetBranch p = Inr b"
    and "request m = Some r"
  shows "fst (GetServerTransaction m) =
    Inr (transaction_method (req_method r) @ ''-'' @ ViaParam_GetSentBy p @ ''-'' @ b)"
proof -
  obtain m1 where 1: "GetTopViaBranch m = (Inr b, m1)" "vias_valid m1" "via_stack m1 = p # rest" "request m1 = Some r"
    using GetTopViaBranch_top [OF assms(1,2)] assms(3,4) by auto
  obtain m2 where 2: "GetTopViaSentBy m1 = (Inr (ViaParam_GetSentBy p), m2)" "request m2 = Some r"
    using GetTopViaSentBy_top [OF 1(2,3)] 1(4) by auto
  show ?thesis
    using 1 2 by (simp add: GetServerTransaction_def sbind_def GetMethod_def Let_def transaction_method_def)
qed

lemma fst_GetTopViaBranch:
  "fst (GetTopViaBranch m) = rbind (fst (GetVia m)) (\<lambda>v. rbind (Via_GetParam v 0) ViaParam_GetBranch)"
  by (cases "GetVia m"; cases "fst (GetVia m)"; cases "Via_GetParam (projr (fst (GetVia m))) 0")
    (auto simp: GetTopViaBranch_def sbind_def)

lemma GetVia_after_CSeq: "fst (GetVia (snd (GetCSeq m))) = fst (GetVia m)"
  by (simp add: getter_value getter_other)

lemma GetClientTransaction_top:
  assumes "vias_valid m" and "via_stack m = p # rest" and "ViaParam_GetBranch p = Inr b"
    and cs: "fst (GetCSeq m) = Inr cs" and "CSeq_Method cs \<noteq> ''ACK''"
  shows "fst (GetClientTransaction m) = Inr (CSeq_Method cs @ ''-'' @ b)"
proof -
  obtain m1 where g: "GetCSeq m = (Inr cs, m1)" using cs by (cases "GetCSeq m") auto
  then have "fst (GetTopViaBranch m1) = fst (GetTopViaBranch m)"
    using GetVia_after_CSeq [of m] by (simp add: fst_GetTopViaBranch)
  also have "\<dots> = Inr b"
    using GetTopViaBranch_top [OF assms(1,2)] assms(3) by auto
  finally obtain m2 where "GetTopViaBranch m1 = (Inr b, m2)"
    by (cases "GetTopViaBranch m1") auto
  then show ?thesis
    using g assms(5) by (simp add: GetClientTransaction_def sbind_def)
qed

end
