(* ===== verification/MessageProperties.thy ===== *)
theory MessageProperties
  imports TransactionIds MessageCodec
begin

text \<open>
  The properties of messages and of their headers: reading what was written, the headers as
  values, the Via stack, and the identifiers that a message carries.
\<close>

lemmas header_name_eval [go_eval] = isSameHeader_table compactHdrNames_table compact_table_eval

section \<open>A sample message\<close>

definition sample_uri :: "string \<Rightarrow> AddrSpec" where
  "sample_uri host =
     \<lparr>sipURI = Some (zero_SIPURI\<lparr>Scheme := ''sip'', User := ''bob'', Host := host\<rparr>), absoluteURI = None\<rparr>"

definition sample_via :: ViaParam where
  "sample_via =
     \<lparr>ProtocolName = ''SIP'', ProtocolVersion = ''2.0'', via_Transport = ''UDP'', via_Host = ''pc'',
      via_port = 5062, via_Params = [KV ''branch'' ''z9hG4bK1'', KV ''rport'' []]\<rparr>"

definition sample_request :: "string \<Rightarrow> Message" where
  "sample_request method =
     \<lparr>request = Some \<lparr>req_method = method, requestURI = sample_uri ''biloxi'', req_version = ''SIP/2.0''\<rparr>,
      response = None,
      headers =
        [\<lparr>hdr_name = ''Via'', hdr_value = HVia \<lparr>via_list = [sample_via]\<rparr>\<rparr>,
         \<lparr>hdr_name = ''From'', hdr_value = HString ''<sip:alice@atlanta>;tag=1''\<rparr>,
         \<lparr>hdr_name = ''To'', hdr_value = HString ''<sip:bob@biloxi>''\<rparr>,
         \<lparr>hdr_name = ''i'', hdr_value = HString ''c1''\<rparr>,
         \<lparr>hdr_name = ''CSeq'', hdr_value = HString ''7 INVITE''\<rparr>],
      body = ''hi'', ReceivedFrom = None\<rparr>"

lemmas sample_eval [go_eval] = sample_uri_def sample_via_def sample_request_def

lemma sample_request_ok: "message_ok (sample_request ''INVITE'')"
  by (simp add: go_eval message_ok_def request_ok_def header_ok_def)


lemma write_then_parse_sample:
  "ParseMessage (Message_Write (sample_request ''INVITE'') @ ''x'') = (Inr (wire (sample_request ''INVITE'')), ''x'')"
  by (rule ParseMessage_Write [OF sample_request_ok])

section \<open>Reading what was written\<close>

text \<open>
  C7: A message that \<open>Message.Write\<close> sends is read back by \<open>ParseMessage\<close> as the same message
  (request or status line, headers in order with the values they were printed as, body), and
  the bytes after it are left in the stream, whatever they are.
\<close>
theorem write_then_parse:
  assumes "message_ok m"
  shows "ParseMessage (Message_Write m @ rest) = (Inr (wire m), rest)"
  using assms by (rule ParseMessage_Write)

lemma write_then_parse_witness:
  "ParseMessage (Message_Write (sample_request ''INVITE'') @ ''next'') =
     (Inr (wire (sample_request ''INVITE'')), ''next'') \<and>
   body (wire (sample_request ''INVITE'')) = ''hi''"
  using write_then_parse [OF sample_request_ok, of "''next''"] by (simp add: wire_def sample_request_def)

text \<open>
  C17: The Content-Length header decides what \<open>ParseMessage\<close> makes of the bytes after the headers,
  in all cases: a negative length is an error; one that \<open>make\<close> cannot allocate panics; one that
  the stream holds is the length of the body, and the rest stays in the stream; otherwise the
  stream ends too early.
\<close>
theorem content_length_decides:
  assumes "message_ok m" and "go_int n"
  shows "ParseMessage (framed m n rest) =
    (if n < 0 then (Inl (Errorf ''invalid negative Content-Length field''), rest)
     else if n > maxAlloc then (Inl (Panic ''makeslice: len out of range''), rest)
     else if nat n \<le> length rest then
       (Inr (framed_message m n (take (nat n) rest)), drop (nat n) rest)
     else (Inl (if rest = [] then EOF else UnexpectedEOF), []))"
  using assms by (rule ParseMessage_framed)

lemma content_length_decides_witness:
  "ParseMessage (framed (sample_request ''INVITE'') (2 ^ 50) ''hi'') =
     (Inl (Panic ''makeslice: len out of range''), ''hi'') \<and>
   ParseMessage (framed (sample_request ''INVITE'') 5 ''hi'') = (Inl UnexpectedEOF, []) \<and>
   ParseMessage (framed (sample_request ''INVITE'') (- 1) ''hi'') =
     (Inl (Errorf ''invalid negative Content-Length field''), ''hi'')"
  using content_length_decides [OF sample_request_ok, of "2 ^ 50" "''hi''"]
    content_length_decides [OF sample_request_ok, of 5 "''hi''"]
    content_length_decides [OF sample_request_ok, of "- 1" "''hi''"]
  by (simp add: go_int_def maxAlloc_def)

text \<open>
  A stream of messages is read as those messages: what the receiver of a TCP connection
  hands on, one \<open>ParseMessage\<close> after the other, is the messages that were written, in order.
\<close>
theorem stream_of_messages:
  assumes "\<And>m. m \<in> set ms \<Longrightarrow> message_ok m"
  shows "ParseAll (concat (map Message_Write ms)) = map wire ms"
  using assms by (rule ParseAll_Writes)

lemma stream_of_messages_witness:
  "ParseAll (concat (map Message_Write [sample_request ''INVITE'', sample_request ''INVITE''])) =
     map wire [sample_request ''INVITE'', sample_request ''INVITE'']"
  by (rule stream_of_messages) (auto simp: sample_request_ok)

text \<open>
  C19: Every message that is read takes bytes from the stream, so the loop that reads messages
  makes progress: reading all of a stream takes at most as many rounds as it has bytes.
\<close>
theorem parsing_makes_progress:
  assumes "ParseMessage s = (Inr m, s')"
  shows "length s' < length s \<and> ParseAll s = m # ParseAll s'"
  using assms ParseMessage_shorter [OF assms] by (simp add: ParseAll_step [of s])

lemma parsing_makes_progress_witness:
  "\<exists>s s' m. ParseMessage s = (Inr m, s') \<and> length s' < length s \<and> ParseAll s = m # ParseAll s' \<and> s' = ''x''"
  using parsing_makes_progress [OF write_then_parse_sample] write_then_parse_sample by blast

text \<open>
  C18: Every message that is read is well typed: it is a request or a response and not both, its
  headers are strings, none of them an empty parsed Via or Route, its transport is not set
  yet, and its body has the length its Content-Length says.
\<close>
theorem parsed_message_type:
  assumes "ParseMessage s = (Inr m, s')"
  shows "IsRequest m \<noteq> IsResponse m \<and> string_headers m \<and> vias_ok m \<and> routes_ok m \<and> ReceivedFrom m = None \<and>
    GetHeaderInt m ''Content-Length'' = Inr (int (length (body m)))"
  using ParseMessage_type [OF assms]
  by (auto simp: IsRequest_def IsResponse_def string_headers_def vias_ok_def routes_ok_def)

lemma parsed_message_type_witness:
  "IsRequest (wire (sample_request ''INVITE'')) \<and> \<not> IsResponse (wire (sample_request ''INVITE'')) \<and>
   GetHeaderInt (wire (sample_request ''INVITE'')) ''Content-Length'' = Inr 2"
  using parsed_message_type [OF write_then_parse_sample]
  by (simp add: IsRequest_def wire_def sample_request_def)

section \<open>Headers\<close>









section \<open>The Via stack\<close>

text \<open>
  C20: The Via headers of a message, however they are spread over header lines, are one stack:
  adding a Via pushes it; a pop returns the top entry alone and leaves the rest; popping
  what was just added returns it and leaves the message exactly as it was.
\<close>
theorem via_stack_discipline:
  assumes "vias_ok m" and "PopVia m = (Inr v, m')"
  shows "(\<exists>p. via_list v = [p] \<and> via_stack m = p # via_stack m' \<and> vias_ok m') \<and>
    via_stack (AddVia m v) = via_list v @ via_stack m \<and> PopVia (AddVia m v) = (Inr v, m)"
  using PopVia_stack [OF assms] AddVia_stack [of m v] PopVia_AddVia [of v m] by auto

lemma via_stack_discipline_witness:
  "\<exists>v m'. PopVia (sample_request ''INVITE'') = (Inr v, m') \<and> via_list v = [sample_via] \<and> via_stack m' = []"
proof -
  obtain v m' where pop: "PopVia (sample_request ''INVITE'') = (Inr v, m')"
    using PopVia_succeeds [of "sample_request ''INVITE''" "\<lparr>via_list = [sample_via]\<rparr>" "sample_request ''INVITE''"]
    by (auto simp: GetVia_def get_typed_def GetHeaderValue_def GetHeader_def sample_request_def sel_Via_def)
  have "vias_ok (sample_request ''INVITE'')"
    by (simp add: vias_ok_def sample_request_def)
  from via_stack_discipline [OF this pop] pop show ?thesis
    by (auto simp: via_stack_def sample_request_def header_vias_def go_eval)
qed

section \<open>Identifiers\<close>

text \<open>
  C21: Both directions of a session have one identifier: a message with the same Call-ID and the
  addresses of From and To exchanged, as the requests of the called party have them, has the
  same session identifier, and it depends on nothing else of the two messages.
\<close>
theorem session_id_symmetric:
  assumes "GetCallID m = Inr c" and "from_part m = Inr (f, a)" and "to_part m = Inr (t, b)"
    and "GetCallID m' = Inr c" and "from_part m' = Inr (f', b)" and "to_part m' = Inr (t', a)"
  shows "fst (GetSessionId m') = fst (GetSessionId m) \<and> is_ok (fst (GetSessionId m))"
  using GetSessionId_parts [OF assms(1-3)] GetSessionId_parts [OF assms(4-6)]
  by (simp add: ordered_dialog_commute [of c b a])

definition sample_reverse :: Message where
  "sample_reverse =
     (sample_request ''BYE'')\<lparr>headers :=
        [\<lparr>hdr_name = ''f'', hdr_value = HString ''Bob <sip:bob@biloxi>;tag=2''\<rparr>,
         \<lparr>hdr_name = ''To'', hdr_value = HString ''<sip:alice@atlanta>;tag=1''\<rparr>,
         \<lparr>hdr_name = ''Call-ID'', hdr_value = HString ''c1''\<rparr>]\<rparr>"

lemma session_id_symmetric_witness:
  "fst (GetSessionId sample_reverse) = fst (GetSessionId (sample_request ''INVITE'')) \<and>
   is_ok (fst (GetSessionId (sample_request ''INVITE'')))"
  by (rule session_id_symmetric [of _ "''c1''" _ "''sip:alice@atlanta''" _ "''sip:bob@biloxi''"])
    (simp_all add: go_eval sample_reverse_def from_part_def to_part_def GetCallID_def GetHeaderValue_def GetHeader_def
      GetFrom_def GetTo_def get_typed_def sel_From_def sel_To_def ParseFromSpec_def ParseTo_def
      parse_addr_header_def addr_header_params_def FromSpec_GetAddrSpec_def To_GetAddrSpec_def getDialogAddr_def)

text \<open>
  C23: The ACK and the CANCEL of an INVITE have the server transaction of the INVITE: whenever
  the top Via entry is the same, the three identifiers are equal, whatever the rest of the
  messages is.
\<close>
theorem ack_cancel_join_invite:
  assumes "vias_valid m" and "via_stack m = p # rest" and "request m = Some r" and "req_method r = ''INVITE''"
    and "vias_valid m'" and "via_stack m' = p # rest'" and "request m' = Some r'"
    and "req_method r' \<in> {''ACK'', ''CANCEL''}" and "ViaParam_GetBranch p = Inr branch"
  shows "fst (GetServerTransaction m') = fst (GetServerTransaction m) \<and>
    fst (GetServerTransaction m) = Inr (''INVITE-'' @ ViaParam_GetSentBy p @ ''-'' @ branch)"
  using GetServerTransaction_top [OF assms(1,2,9,3)] GetServerTransaction_top [OF assms(5,6,9,7)] assms(4,8)
  by (auto simp: transaction_method_def)

lemma sample_request_vias:
  "vias_valid (sample_request x)" "via_stack (sample_request x) = [sample_via]"
  by (simp_all add: vias_valid_def vias_ok_def via_header_ok_def via_stack_def header_vias_def go_eval)

lemma sample_request_line:
  "request (sample_request x) =
     Some \<lparr>req_method = x, requestURI = sample_uri ''biloxi'', req_version = ''SIP/2.0''\<rparr>"
  by (simp add: sample_request_def)

lemma sample_via_parts:
  "ViaParam_GetBranch sample_via = Inr ''z9hG4bK1''" "ViaParam_GetSentBy sample_via = ''pc:5062''"
  by (simp_all add: go_eval)

lemma ack_cancel_join_invite_witness:
  "fst (GetServerTransaction (sample_request ''ACK'')) = Inr ''INVITE-pc:5062-z9hG4bK1''"
  using ack_cancel_join_invite [OF sample_request_vias(1) [of "''INVITE''"] sample_request_vias(2) sample_request_line _
      sample_request_vias(1) [of "''ACK''"] sample_request_vias(2) sample_request_line _ sample_via_parts(1)]
  by (simp add: sample_via_parts(2))




end
