(* ===== verification/BackendProperties.thy ===== *)
theory BackendProperties
  imports MessageProperties Listeners SessionFacts
begin

text \<open>
  The properties of the buffers, of the backends and their addresses, and of the bindings of
  sessions to backends.
\<close>

section \<open>Buffers\<close>

text \<open>
  C25: Whatever the order of handing out buffers, writing to them and giving them back, a pool
  keeps at most its capacity of buffers (one, if the capacity is not positive), and every
  buffer in it or handed out has the size the pool was made for.
\<close>
theorem pool_invariant:
  assumes "pool_reachable cap sz (bp, out)"
  shows "Size bp \<le> max 1 cap \<and> (\<forall>b \<in> set (pool bp) \<union> set out. int (length b) = sz) \<and>
    (\<forall>b bp'. Alloc bp = (Inr b, bp') \<longrightarrow> int (length b) = sz)"
proof -
  have "pool_inv cap sz (bp, out)" by (rule pool_reachable_inv [OF assms])
  moreover from this have "pool_inv cap sz (bp', b # out)" if "Alloc bp = (Inr b, bp')" for b bp'
    using that by (rule Alloc_inv)
  ultimately show ?thesis by (fastforce simp: pool_inv_def)
qed

lemma sample_pool: "pool_reachable 8 3 (Free (NewByteArrayPool 8 3) ''abc'', [])"
proof -
  have a: "Alloc (NewByteArrayPool 8 3) = (Inr (replicate 3 (CHR 0x00)), NewByteArrayPool 8 3)"
    by (simp add: Alloc_def NewByteArrayPool_def)
  have "pool_reachable 8 3 (NewByteArrayPool 8 3, [replicate 3 (CHR 0x00)])"
    by (rule pool_reachable.step [OF pool_reachable.init pool_step.alloc [OF a]])
  then have "pool_reachable 8 3 (NewByteArrayPool 8 3, [''abc''])"
    using pool_step.fill [of "''abc''" "replicate 3 (CHR 0x00)" "NewByteArrayPool 8 3" "[]" "[]"]
    by (auto intro: pool_reachable.step)
  then show ?thesis
    using pool_step.free [of "NewByteArrayPool 8 3" "[]" "''abc''" "[]"]
    by (auto intro: pool_reachable.step)
qed

lemma pool_invariant_witness:
  "Size (Free (NewByteArrayPool 8 3) ''abc'') = 1 \<and> pool (Free (NewByteArrayPool 8 3) ''abc'') = [''abc''] \<and>
   int (length ''abc'') = 3"
  using pool_invariant [OF sample_pool] by (simp add: Free_def NewByteArrayPool_def Size_def)

text \<open>
  C37: A message in one UDP packet is read as it was written. A packet whose Content-Length is
  larger than its body is not rejected: the rest of the body is taken from what the pooled
  buffer held before, the bytes of an earlier packet.
\<close>
theorem udp_body_from_buffer:
  assumes "Alloc bp = (Inr buf, bp')" and "message_ok m"
    and "int n \<le> maxAlloc" and "length b < n" and "length (framed m (int n) b) + (n - length b) \<le> length buf"
    and "length (Message_Write m) \<le> length buf"
  shows "fst (udp_receive (framed m (int n) b) bp) =
      Inr (framed_message m (int n) (b @ take (n - length b) (drop (length (framed m (int n) b)) buf))) \<and>
    fst (udp_receive (Message_Write m) bp) = Inr (wire m)"
  using udp_receive_framed [OF assms(1,2,3) refl assms(4,5)] udp_receive_message [OF assms(1,2,6)] by blast

lemma sample_lengths:
  "length (framed (sample_request ''INVITE'') 5 ''hi'') = 180" "length (Message_Write (sample_request ''INVITE'')) = 180"
  by (simp_all add: framed_def first_line_def wire_headers_def wire_header_def go_eval)

definition stale_pool :: ByteArrayPool where
  "stale_pool = \<lparr>maxCap = 8, arraySize = 200, pool = [replicate 200 (CHR ''s'')]\<rparr>"

lemma udp_body_from_buffer_witness:
  "\<exists>m. fst (udp_receive (framed (sample_request ''INVITE'') 5 ''hi'') stale_pool) = Inr m \<and> body m = ''hisss''"
  using udp_body_from_buffer [of stale_pool "replicate 200 (CHR ''s'')" _ "sample_request ''INVITE''" 5 "''hi''"]
    sample_request_ok sample_lengths
  by (simp add: stale_pool_def Alloc_def framed_message_def wire_def numeral_3_eq_3 maxAlloc_def)

section \<open>Round robin\<close>

text \<open>A state of the backends over the scripted environment, for examples.\<close>

definition sample_script :: script where
  "sample_script = \<lparr>clock = 0, hosts = [], dead = [], broken = [], next_conn = 10, log = []\<rparr>"

definition sample_state :: "script BackendState" where
  "sample_state =
     \<lparr>tcp_conns = Map.empty, next_backend = 0, factory = Map.empty, established = [], bworld = sample_script\<rparr>"

definition sample_rr :: RoundRobinBackend where
  "sample_rr = \<lparr>rr_index = 0, rr_backends = [UDPBackend ''a'' 1, UDPBackend ''b'' 2, UDPBackend ''c'' 3],
     rr_backendMap = [''udp://a'' \<mapsto> UDPBackend ''a'' 1, ''udp://b'' \<mapsto> UDPBackend ''b'' 2, ''udp://c'' \<mapsto> UDPBackend ''c'' 3]\<rparr>"

text \<open>
  C8: The round-robin backend is equivalent to a simple reference: it tries its backends in
  order, starting after the one where it started last and wrapping around, each of them once,
  until one takes the message; it fails exactly when all of them fail; and the next message
  starts one further, whichever backend took this one.
\<close>
theorem round_robin_reference:
  assumes "rr_backends rb \<noteq> []"
  shows "RoundRobin_Send net msg (rb, s) =
    (case send_first net msg (rotate (rr_start rb) (rr_backends rb)) s of
       (r, s') \<Rightarrow> (r, (rb\<lparr>rr_index := int (rr_start rb)\<rparr>, s')))"
  using assms by (rule RoundRobin_Send_rotate)

lemma round_robin_reference_witness:
  "fst (RoundRobin_Send script_net NewMessage
      (sample_rr, sample_state\<lparr>bworld := sample_script\<lparr>broken := [2]\<rparr>\<rparr>)) = Inr (UDPBackend ''c'' 3)"
  using round_robin_reference [of sample_rr script_net NewMessage]
  by (simp add: sample_rr_def sample_state_def sample_script_def rr_start_def script_write_def)

text \<open>
  C16: The load is spread evenly: while the backends work, of every \<open>k * n\<close> messages in a row each
  of the \<open>n\<close> backends takes exactly \<open>k\<close>.
\<close>
theorem round_robin_fair:
  assumes "\<And>b m s. b \<in> set (rr_backends rb) \<Longrightarrow> m \<in> set ms \<Longrightarrow> is_ok (fst (Backend_Send net m b s))"
    and "rr_backends rb \<noteq> []" and "distinct (rr_backends rb)" and "b \<in> set (rr_backends rb)"
    and "length ms = k * length (rr_backends rb)"
  shows "count_list (send_many net ms (rb, s)) (Inr b) = k"
  using assms by (rule send_many_fair)

definition reliable_net :: "script net" where
  "reliable_net = script_net\<lparr>conn_write := \<lambda>c b w. (Inr (), w)\<rparr>"

lemma round_robin_fair_witness:
  "count_list (send_many reliable_net (replicate 6 NewMessage) (sample_rr, sample_state)) (Inr (UDPBackend ''b'' 2)) = 2"
  by (rule round_robin_fair) (auto simp: sample_rr_def reliable_net_def)

text \<open>
  C24: A TCP connection to a backend that broke since the last message costs a reconnection, not
  the message: the backend closes it, dials again, tells its listener of the new connection,
  and sends the message on it.
\<close>
theorem backend_reconnects:
  assumes "tcp_conns s i = Some c" and "conn_write net c (Message_Write msg) (bworld s) = (Inl e, w1)"
    and "conn_close net c w1 = (x, w2)" and "dial_tcp net None a w2 = (Inr d, w3)"
    and "conn_write net d (Message_Write msg) w3 = (Inr (), w4)"
  shows "\<exists>s'. Backend_Send net msg (TCPBackend i l a cb) s = (Inr (TCPBackend i l a cb), s') \<and>
    tcp_conns s' = (tcp_conns s)(i \<mapsto> d) \<and> established s' = established s @ [(cb, d)] \<and> bworld s' = w4"
  using assms by (rule TCPBackend_Send_reconnects)

lemma backend_reconnects_witness:
  "\<exists>s'. Backend_Send script_net NewMessage (TCPBackend 0 [] ''10.0.0.9:5060'' 0)
      (sample_state\<lparr>tcp_conns := [0 \<mapsto> 4], bworld := sample_script\<lparr>broken := [4]\<rparr>\<rparr>) =
        (Inr (TCPBackend 0 [] ''10.0.0.9:5060'' 0), s') \<and> established s' = [(0, 10)] \<and>
      log (bworld s') = [Closed 4, Dialed ''10.0.0.9:5060'' 10, Wrote 10 (Message_Write NewMessage)]"
  using backend_reconnects [of "sample_state\<lparr>tcp_conns := [0 \<mapsto> 4], bworld := sample_script\<lparr>broken := [4]\<rparr>\<rparr>"
      0 4 script_net NewMessage "Errorf ''broken pipe''" "sample_script\<lparr>broken := [4]\<rparr>" "Inr ()"
      "sample_script\<lparr>broken := [4, 4], log := [Closed 4]\<rparr>" "''10.0.0.9:5060''" 10
      "sample_script\<lparr>broken := [4, 4], next_conn := 11, log := [Closed 4, Dialed ''10.0.0.9:5060'' 10]\<rparr>"
      "sample_script\<lparr>broken := [4, 4], next_conn := 11,
         log := [Closed 4, Dialed ''10.0.0.9:5060'' 10, Wrote 10 (Message_Write NewMessage)]\<rparr>" "[]" 0]
  by (auto simp: sample_state_def sample_script_def script_write_def script_close_def script_dial_def
      simp del: Backend_Send.simps)

section \<open>Following the addresses of a host\<close>




text \<open>
  C36: A host that cannot be resolved for a while keeps its addresses: they survive three failed
  lookups in a row, and the fourth takes them away (with a notice that removes them all).
\<close>
theorem addresses_survive_three_failures:
  assumes "failed entry = 0" and "addrs entry \<noteq> []"
  shows "addrs (fst (resolve_run h [Inl e1, Inl e2, Inl e3] entry)) = addrs entry \<and>
    addrs (fst (resolve_run h [Inl e1, Inl e2, Inl e3, Inl e4] entry)) = []"
  using resolve_run_failures [OF assms] by blast

lemma addresses_survive_three_failures_witness:
  "addrs (fst (resolve_run ''h'' [Inl EOF, Inl EOF, Inl EOF]
     ((NewAddressWithCallback :: unit AddressWithCallback)\<lparr>addrs := [''10.0.0.1'']\<rparr>))) = [''10.0.0.1'']"
  using addresses_survive_three_failures
    [of "(NewAddressWithCallback :: unit AddressWithCallback)\<lparr>addrs := [''10.0.0.1'']\<rparr>" "''h''" EOF EOF EOF EOF]
  by (simp add: NewAddressWithCallback_def del: resolve_run.simps)

section \<open>Sessions\<close>

text \<open>What happens to the store in memory: bindings, removals and lookups of any sessions.\<close>

datatype session_op =
    Bind readings string Backend int
  | Unbind string
  | Lookup int string

fun do_op :: "session_op \<Rightarrow> LocalSessions \<Rightarrow> LocalSessions" where
  "do_op (Bind r sid b e) ls = Local_AddBackend r sid b e ls"
| "do_op (Unbind sid) ls = Local_RemoveSession sid ls"
| "do_op (Lookup now sid) ls = snd (Local_GetBackend now sid ls)"

text \<open>Operations up to time \<open>t\<close> that neither bind nor remove the session.\<close>

fun leaves_session :: "int \<Rightarrow> string \<Rightarrow> session_op \<Rightarrow> bool" where
  "leaves_session t sid (Bind r sid' b e) = (sid' \<noteq> sid \<and> readings_upto t r)"
| "leaves_session t sid (Unbind sid') = (sid' \<noteq> sid)"
| "leaves_session t sid (Lookup now sid') = (now \<le> t)"

lemma do_op_leaves: "leaves_session t sid op \<Longrightarrow> local_bound t (do_op op ls) sid = local_bound t ls sid"
  by (cases op) (auto simp: local_store.bound_bind_other local_store.bound_unbind_other Local_GetBackend_state)

lemma do_ops_leave:
  "list_all (leaves_session t sid) ops \<Longrightarrow> local_bound t (fold do_op ops ls) sid = local_bound t ls sid"
  by (induction ops arbitrary: ls) (simp_all add: do_op_leaves)

text \<open>
  C9: Sessions stick to their backend: until the binding expires (after the dialog timeout, or
  the Expires of the message if that is longer), a lookup of a session answers the backend
  that was bound to it last, whatever else was bound, removed, looked up or cleaned up in the
  meantime; once the session is removed, a lookup fails.
\<close>
theorem session_sticks_to_backend:
  assumes "readings_upto t r" and "t < at_add r + session_timeout (ls_timeout ls) e"
    and "list_all (leaves_session t sid) ops"
  shows "fst (Local_GetBackend t sid (fold do_op ops (Local_AddBackend r sid b e ls))) = Inr b \<and>
    \<not> is_ok (fst (Local_GetBackend t sid (fold do_op ops (Local_RemoveSession sid ls))))"
  using local_store.bound_bind_same [of t r ls e sid b] local_store.bound_unbind_same [of t sid ls] assms
  by (simp add: Local_GetBackend_bound do_ops_leave local_expiry_def)

definition at_time :: "int \<Rightarrow> readings" where
  "at_time t = \<lparr>at_add = t, at_check = t, at_next = t, at_key = (\<lambda>_. t)\<rparr>"

lemma session_sticks_to_backend_witness:
  "fst (Local_GetBackend (100 * 10 ^ 9) ''s1''
     (Local_AddBackend (at_time (90 * 10 ^ 9)) ''s2'' (UDPBackend ''b'' 2) 0
       (Local_AddBackend (at_time 0) ''s1'' (UDPBackend ''a'' 1) 0 (NewLocalSessions 0 1200)))) = Inr (UDPBackend ''a'' 1)"
  using session_sticks_to_backend [of "100 * 10 ^ 9" "at_time 0" "NewLocalSessions 0 1200" 0 "''s1''"
      "[Bind (at_time (90 * 10 ^ 9)) ''s2'' (UDPBackend ''b'' 2) 0]" "UDPBackend ''a'' 1"]
  by (simp add: readings_upto_def at_time_def session_timeout_def longer_than_def NewLocalSessions_def
      seconds_def int64_def)

text \<open>
  C34: What one proxy publishes on Redis, another proxy understands: the text that \<open>AddBackend\<close>
  publishes binds the session to the address of the backend in the proxy that receives it,
  until its expiry; the text of a removal removes it. (Session identifiers have no space.)
\<close>
theorem redis_messages_understood:
  assumes "CHR '' '' \<notin> set sid" and "CHR '' '' \<notin> set (Backend_GetAddress b)" and "0 \<le> e" and "e < 2 ^ 31"
    and "readings_upto t r" and "t < int64 (e + at_add r)"
  shows "addr_bound t (sessionBackendAddrs
      (sessionBackendUpdated r (add_payload sid (Backend_GetAddress b) e) rsb)) sid = Some (Backend_GetAddress b) \<and>
    addr_bound t (sessionBackendAddrs (sessionBackendUpdated r (delete_payload sid) rsb)) sid = None"
  using assms addr_store.bound_bind_same [of t r "sessionBackendAddrs rsb" e]
  by (simp add: sessionBackendUpdated_add sessionBackendUpdated_delete addr_store.bound_unbind_same addr_expiry_def)

definition sample_redis :: RedisSessions where
  "sample_redis = \<lparr>rdbs = [\<lparr>ra_Address = ''m'', ra_Password = [], ra_Db = 0\<rparr>, \<lparr>ra_Address = ''s'', ra_Password = [], ra_Db = 0\<rparr>],
     rs_timeout = 1200 * 10 ^ 9, redisChannel = ''c'', masterIndex = 0, sessionBackendAddrs = NewAddrMgr, retryTimeout = 5\<rparr>"

lemma redis_messages_understood_witness:
  "addr_bound 100 (sessionBackendAddrs
     (sessionBackendUpdated (at_time 90) ''add s1 udp://a 1200'' sample_redis)) ''s1'' = Some ''udp://a''"
  using redis_messages_understood [of "''s1''" "UDPBackend ''a'' 1" 1200 100 "at_time 90" sample_redis]
  by (simp add: at_time_def readings_upto_def int64_def add_payload_def go_eval)

text \<open>
  C35: A publication reaches Redis as long as one server works: the servers are tried in turn from
  the last one that worked, the first that works becomes the one to start from, and when that
  was the one already, nothing changes.
\<close>
theorem redis_fails_over:
  assumes "\<And>rdb w. fst (process rdb w) = None \<longleftrightarrow> up rdb"
    and "0 \<le> masterIndex rsb" and "masterIndex rsb < int (length (rdbs rsb))"
    and "\<exists>rdb \<in> set (rdbs rsb). up rdb"
  shows "\<exists>rsb' w'. ForEachRedis process (rsb, w) = (Inr (), (rsb', w')) \<and> rdbs rsb' = rdbs rsb \<and>
    0 \<le> masterIndex rsb' \<and> masterIndex rsb' < int (length (rdbs rsb)) \<and>
    up (rdbs rsb ! nat (masterIndex rsb')) \<and>
    (up (rdbs rsb ! nat (masterIndex rsb)) \<longrightarrow> rsb' = rsb)"
  using assms by (rule ForEachRedis_up)

lemma redis_fails_over_witness:
  "\<exists>rsb' w'. ForEachRedis (\<lambda>rdb w. (if ra_Address rdb = ''m'' then Some ''down'' else None, w + 1)) (sample_redis, 0 :: nat) =
     (Inr (), (rsb', w')) \<and> masterIndex rsb' = 1"
  using redis_fails_over [of "\<lambda>rdb w. (if ra_Address rdb = ''m'' then Some ''down'' else None, w + 1)"
      "\<lambda>rdb. ra_Address rdb \<noteq> ''m''" sample_redis "0 :: nat"]
  by (auto simp: sample_redis_def go_eval)

end
