(* ===== verification/ProxyLoop.thy ===== *)
theory ProxyLoop
  imports ProxyCore
begin

text \<open>
  The rest of \<open>Proxy\<close> in \<open>proxy.go\<close>: sending to a backend, the handling of a message and of its
  session, and the service loop, a step relation over the inputs of the proxy.
\<close>

section \<open>Sending to a backend\<close>

definition index_panic :: go_error where
  "index_panic = Panic ''index out of range''"

definition to_option :: "'a result \<Rightarrow> 'a option" where
  "to_option r = (case r of Inr v \<Rightarrow> Some v | Inl _ \<Rightarrow> None)"

definition item_backend :: "ProxyItem list \<Rightarrow> nat \<Rightarrow> RoundRobinBackend result" where
  "item_backend its i =
     (if i < length its then (case pi_backend (its ! i) of Some rb \<Rightarrow> Inr rb | None \<Rightarrow> Inl nil_pointer)
      else Inl nil_pointer)"

text \<open>\<open>getAllBackendAddresses\<close> on an interface value.\<close>

definition ref_addresses :: "ProxyItem list \<Rightarrow> BackendRef \<Rightarrow> string list result" where
  "ref_addresses its ref =
     (case ref of
        NilBackend \<Rightarrow> Inl nil_pointer
      | ItemBackend i \<Rightarrow> rbind (item_backend its i) (\<lambda>rb. Inr (getAllBackendAddresses (Inl rb)))
      | LeafBackend b \<Rightarrow> Inr (getAllBackendAddresses (Inr b)))"

definition own_item :: "'w Proxy \<Rightarrow> nat \<Rightarrow> bool" where
  "own_item p i \<longleftrightarrow> first_item p \<le> i \<and> i < first_item p + length (pitems p)"

definition run_callbacks :: "'w env \<Rightarrow> ('w Proxy, unit) call" where
  "run_callbacks E p =
     (case run_established (e_net E) (first_item p) (established (pbackends p)) (pitems p) of
        (r, its) \<Rightarrow> (r, p\<lparr>pitems := its,
               pbackends := (pbackends p)\<lparr>established := filter (\<lambda>(i, _). \<not> own_item p i) (established (pbackends p))\<rparr>\<rparr>))"

definition ref_Send :: "'w env \<Rightarrow> Message \<Rightarrow> BackendRef \<Rightarrow> ('w Proxy, Backend) call" where
  "ref_Send E msg ref p =
     (let (r, p1) =
        (case ref of
           NilBackend \<Rightarrow> (Inl nil_pointer, p)
         | LeafBackend b \<Rightarrow> with_backends (Backend_Send (e_net E) msg b) p
         | ItemBackend i \<Rightarrow>
             (case item_backend (pitems p) i of
                Inl e \<Rightarrow> (Inl e, p)
              | Inr rb \<Rightarrow>
                  (case with_backends (\<lambda>s. case RoundRobin_Send (e_net E) msg (rb, s) of (q, (rb', s')) \<Rightarrow> ((q, rb'), s')) p of
                     ((q, rb'), p') \<Rightarrow>
                       (q, p'\<lparr>pitems := (pitems p')[i := (pitems p' ! i)\<lparr>pi_backend := Some rb'\<rparr>]\<rparr>))))
      in case run_callbacks E p1 of (Inl e, p2) \<Rightarrow> (Inl e, p2) | (Inr _, p2) \<Rightarrow> (r, p2))"

definition backend_transport :: "ProxyItem list \<Rightarrow> string \<Rightarrow> Backend \<Rightarrow> Backend \<times> ServerTransport option" where
  "backend_transport its protocol b = (b, to_option (findTransportByBackendAddr its (Backend_GetAddress b) protocol))"

definition findBackendBySessionId ::
  "'w env \<Rightarrow> string \<Rightarrow> string \<Rightarrow> ('w Proxy, Backend \<times> ServerTransport option) call"
where
  "findBackendBySessionId E protocol sessionId p =
     (case sessions_GetBackend E sessionId p of
        (Inl (Panic e), p1) \<Rightarrow> (Inl (Panic e), p1)
      | (Inl _, p1) \<Rightarrow> (Inl (Errorf (''fail to find backend by session id '' @ sessionId)), p1)
      | (Inr backend, p1) \<Rightarrow> (Inr (backend_transport (pitems p1) protocol backend), p1))"

text \<open>
  The first half of \<open>sendToBackend\<close>: the backend, and the transport whose address goes into the
  Via. \<open>bound\<close> is what \<open>findBackendBySessionId\<close> found for the session.
\<close>

definition first_transport :: "ProxyItem \<Rightarrow> ServerTransport result" where
  "first_transport item = (case pi_transports item of t # _ \<Rightarrow> Inr t | [] \<Rightarrow> Inl index_panic)"

definition choose_transport_by_addresses :: "ProxyItem list \<Rightarrow> string \<Rightarrow> string list \<Rightarrow> ServerTransport option" where
  "choose_transport_by_addresses its protocol as =
     (case find is_ok (map (\<lambda>a. findTransportByBackendAddr its a protocol) as) of
        Some r \<Rightarrow> to_option r | None \<Rightarrow> None)"

definition choose_backend ::
  "ProxyItem list \<Rightarrow> string \<Rightarrow> (Backend \<times> ServerTransport option) option \<Rightarrow> BackendRef \<Rightarrow> ViaConfig option \<Rightarrow>
   (BackendRef \<times> ServerTransport option) result"
where
  "choose_backend its protocol bound prefer viaConfig =
     (let backendItem = findBackendProxyItem its protocol;
          (backend0, transport0) =
            (case bound of
               Some (b, t) \<Rightarrow> (LeafBackend b, t)
             | None \<Rightarrow> (NilBackend, if viaConfig \<noteq> None then to_option (findTransportByViaConfig its viaConfig) else None));
          backend1 = (if backend0 = NilBackend then prefer else backend0)
      in rbind
           (if transport0 = None \<and> backend1 \<noteq> NilBackend
            then rbind (ref_addresses its backend1) (\<lambda>as. Inr (choose_transport_by_addresses its protocol as))
            else Inr transport0)
           (\<lambda>transport1.
              rbind
                (case (backend1, backendItem) of
                   (NilBackend, Some i) \<Rightarrow> rbind (first_transport (its ! i)) (\<lambda>t. Inr (ItemBackend i, Some t))
                 | _ \<Rightarrow> Inr (backend1, transport1))
                (\<lambda>(backend2, transport2).
                   case (transport2, backendItem) of
                     (None, Some i) \<Rightarrow>
                       (case FindTransport (its ! i) (\<lambda>t. ServerTransport_GetProtocol t = protocol) of
                          Inr t \<Rightarrow> Inr (backend2, Some t)
                        | Inl _ \<Rightarrow> rbind (first_transport (its ! i)) (\<lambda>t. Inr (backend2, Some t)))
                   | _ \<Rightarrow> Inr (backend2, transport2))))"

definition sendToBackend ::
  "'w env \<Rightarrow> string \<Rightarrow> BackendRef \<Rightarrow> ViaConfig option \<Rightarrow> Message \<times> 'w Proxy \<Rightarrow> unit result \<times> (Message \<times> 'w Proxy)"
where
  "sendToBackend E protocol prefer viaConfig = (\<lambda>(msg, p).
     if findBackendProxyItem (pitems p) protocol = None \<and> prefer = NilBackend then (Inr (), (msg, p))
     else
       (let (sid, msg1) = GetSessionId msg;
            sessionId = value_or [] sid;
            (bound, p1) = findBackendBySessionId E protocol sessionId p
        in case bound of
             Inl (Panic e) \<Rightarrow> (Inl (Panic e), (msg1, p1))
           | _ \<Rightarrow>
             (case choose_backend (pitems p1) protocol (to_option bound) prefer viaConfig of
                Inl e \<Rightarrow> (Inl e, (msg1, p1))
              | Inr (backend, transport) \<Rightarrow>
                  (let (msg2, p2) =
                     (case transport of Some t \<Rightarrow> add_proxy_headers E t (msg1, p1) | None \<Rightarrow> (msg1, p1))
                   in if backend = NilBackend then (Inr (), (msg2, p2))
                      else
                        (case ref_Send E msg2 backend p2 of
                           (Inl e, p3) \<Rightarrow>
                             ((if is_panic (Inl e :: unit result) then Inl e else Inr ()), (msg2, p3))
                         | (Inr used, p3) \<Rightarrow>
                             if length sessionId > 0 then
                               (case sessions_AddBackend E sessionId used (GetExpires msg2 0) p3 of
                                  (r, p4) \<Rightarrow> (r, (msg2, p4)))
                             else (Inr (), (msg2, p3)))))))"

section \<open>Handling a message\<close>

definition handleSession :: "'w env \<Rightarrow> Message \<times> 'w Proxy \<Rightarrow> unit result \<times> (Message \<times> 'w Proxy)" where
  "handleSession E = (\<lambda>(msg, p).
     if \<not> IsResponse msg then (Inr (), (msg, p))
     else
       (case GetSessionId msg of
          (Inl _, msg1) \<Rightarrow> (Inr (), (msg1, p))
        | (Inr sessionId, msg1) \<Rightarrow>
            (case sessions_GetBackend E sessionId p of
               (Inl (Panic e), p1) \<Rightarrow> (Inl (Panic e), (msg1, p1))
             | (Inl _, p1) \<Rightarrow> (Inr (), (msg1, p1))
             | (Inr _, p1) \<Rightarrow>
                 (case GetMethod msg1 of
                    (Inr method, msg2) \<Rightarrow>
                      if method = ''BYE'' then
                        (case sessions_RemoveSession E sessionId p1 of (r, p2) \<Rightarrow> (r, (msg2, p2)))
                      else (Inr (), (msg2, p1))
                  | (Inl _, msg2) \<Rightarrow> (Inr (), (msg2, p1))))))"

definition handleMessage ::
  "'w env \<Rightarrow> string \<Rightarrow> BackendRef \<Rightarrow> ViaConfig option \<Rightarrow> Message \<times> 'w Proxy \<Rightarrow> unit result \<times> (Message \<times> 'w Proxy)"
where
  "handleMessage E protocol backend viaConfig = (\<lambda>(msg, p).
     if IsRequest msg then
       (case getNextRequestHop E (msg, p) of
          (Inr (host, q, transport), s1) \<Rightarrow>
            (let (msg2, p2) =
               (case SelfLearnRoute_GetRoute (selfLearnRoute (snd s1)) host protocol of
                  Some t \<Rightarrow> add_proxy_headers E t s1 | None \<Rightarrow> s1)
             in (Inr (), (msg2, sendRequest E host q transport msg2 p2)))
        | (Inl _, s1) \<Rightarrow>
            if isMyMessage (e_regexps E) (myName (snd s1)) (fst s1)
            then sendToBackend E protocol backend viaConfig s1
            else (Inr (), s1))
     else
       (let (_, msg1) = PopVia msg in
        case getNextReponseHop msg1 of
          (Inl _, msg2) \<Rightarrow> (Inr (), (msg2, p))
        | (Inr (host, q, transport), msg2) \<Rightarrow> (Inr (), sendResponse E host q transport msg2 p)))"

section \<open>The service loop\<close>

definition process_raw :: "'w env \<Rightarrow> RawMessage \<Rightarrow> ('w Proxy, unit) call" where
  "process_raw E rm p =
     (case handleRawMessage E rm p of
        (Inl e, p1) \<Rightarrow> ((if is_panic (Inl e :: unit result) then Inl e else Inr ()), p1)
      | (Inr msg, p1) \<Rightarrow>
          (case handleMessage E (ServerTransport_GetProtocol (rm_From rm)) (rm_Backend rm) (rm_Via rm) (msg, p1) of
             (Inl e, (_, p2)) \<Rightarrow> (Inl e, p2)
           | (Inr _, s2) \<Rightarrow> (case handleSession E s2 of (r, (_, p3)) \<Rightarrow> (r, p3))))"

definition process_conn :: "'w env \<Rightarrow> nat \<Rightarrow> 'w Proxy \<Rightarrow> 'w Proxy" where
  "process_conn E conn p =
     (case SplitHostPort (remote_addr (e_net E) conn) of
        Inl _ \<Rightarrow> p
      | Inr (host, q) \<Rightarrow>
          (case Atoi_checked q of
             Inl _ \<Rightarrow> p
           | Inr q_i \<Rightarrow>
               (case proxy_GetTransport E ''tcp'' host q_i [] p of
                  (Inl _, p1) \<Rightarrow> p1 | (Inr f, p1) \<Rightarrow> proxy_set_conn E conn f p1)))"

text \<open>
  What other goroutines do to the state of the proxy: the resolver runs the callback of a
  listener, the reader of a connection that ends closes it and marks its transport, and a message comes in
  from the Redis channel.
\<close>

definition proxy_callback :: "'w env \<Rightarrow> HostCallback \<Rightarrow> string list \<Rightarrow> string list \<Rightarrow> 'w Proxy \<Rightarrow> 'w Proxy" where
  "proxy_callback E hc new removed p =
     (case (if own_item p (hc_item hc) then item_backend (pitems p) (hc_item hc - first_item p) else Inl nil_pointer) of
        Inl _ \<Rightarrow> p
      | Inr rb \<Rightarrow>
          (case with_backends (\<lambda>s. run_callback (e_net E) hc new removed (rb, s)) p of
             (rb', p1) \<Rightarrow>
               p1\<lparr>pitems := (pitems p1)[hc_item hc - first_item p :=
                 (pitems p1 ! (hc_item hc - first_item p))\<lparr>pi_backend := Some rb'\<rparr>]\<rparr>))"

definition mark_exit :: "nat \<Rightarrow> ServerTransport \<Rightarrow> ServerTransport" where
  "mark_exit conn t =
     (case t of
        TCPServerTransport a q (Some c) e \<Rightarrow> if c = conn then TCPServerTransport a q (Some c) True else t
      | _ \<Rightarrow> t)"

definition connection_ended :: "'w env \<Rightarrow> nat \<Rightarrow> 'w Proxy \<Rightarrow> 'w Proxy" where
  "connection_ended E conn p =
     (let p1 = snd (with_pworld (conn_close (e_net E) conn) p)
      in p1\<lparr>pitems := map (\<lambda>it. it\<lparr>pi_transports := map (mark_exit conn) (pi_transports it)\<rparr>) (pitems p1)\<rparr>)"

fun store_update :: "readings \<Rightarrow> string \<Rightarrow> SessionStore \<Rightarrow> SessionStore" where
  "store_update r msg (RedisStore (Some rsb)) = RedisStore (Some (sessionBackendUpdated (unix_readings r) msg rsb))"
| "store_update r msg st = st"

definition redis_message :: "readings \<Rightarrow> string \<Rightarrow> 'w Proxy \<Rightarrow> 'w Proxy" where
  "redis_message r msg p =
     p\<lparr>sessionBackends :=
        (case sessionBackends p of
           Single st \<Rightarrow> Single (store_update r msg st)
         | Composite sts \<Rightarrow> Composite (map (store_update r msg) sts))\<rparr>"

datatype input =
    Received RawMessage
  | Accepted nat
  | Resolved HostCallback "string list" "string list"
  | Ended nat
  | Published readings string

inductive proxy_step :: "'w env \<Rightarrow> 'w Proxy \<Rightarrow> input \<Rightarrow> 'w Proxy \<Rightarrow> bool" for E where
  received: "process_raw E rm p = (Inr (), p') \<Longrightarrow> proxy_step E p (Received rm) p'"
| accepted: "proxy_step E p (Accepted conn) (process_conn E conn p)"
| resolved: "proxy_step E p (Resolved hc new removed) (proxy_callback E hc new removed p)"
| ended: "proxy_step E p (Ended conn) (connection_ended E conn p)"
| published: "proxy_step E p (Published r msg) (redis_message r msg p)"

inductive_cases proxy_stepE: "proxy_step E p inp p'"

inductive proxy_run :: "'w env \<Rightarrow> 'w Proxy \<Rightarrow> input list \<Rightarrow> 'w Proxy \<Rightarrow> bool" for E where
  none: "proxy_run E p [] p"
| more: "proxy_step E p inp q \<Longrightarrow> proxy_run E q inps r \<Longrightarrow> proxy_run E p (inp # inps) r"

inductive_simps proxy_run_simps: "proxy_run E p [] p'" "proxy_run E p (inp # inps) p'"

lemmas proxy_loop_eval [go_eval] =
  index_panic_def to_option_def item_backend_def ref_addresses_def own_item_def run_callbacks_def ref_Send_def
  first_transport_def backend_transport_def findBackendBySessionId_def choose_transport_by_addresses_def choose_backend_def sendToBackend_def
  handleSession_def handleMessage_def process_raw_def process_conn_def proxy_callback_def
  mark_exit_def connection_ended_def redis_message_def

end
