(* ===== verification/ServerTransports.thy ===== *)
theory ServerTransports
  imports ProxyLoop BufferPool
begin

text \<open>
  The server side of \<open>transport.go\<close>: making, starting and sending on UDP and TCP server
  transports, and the loops that turn the bytes that come in into the inputs of the proxy.
\<close>

section \<open>Making and starting\<close>

definition NewUDPServerTransport :: "'w net \<Rightarrow> string \<Rightarrow> int \<Rightarrow> ('w, ServerTransport) call" where
  "NewUDPServerTransport net addr p w =
     (case resolve_addr net (JoinHostPort addr (Itoa p)) w of
        (Inl e, w') \<Rightarrow> (Inl e, w')
      | (Inr localAddr, w') \<Rightarrow> (Inr (UDPServerTransport localAddr None), w'))"

definition NewTCPServerTransport :: "string \<Rightarrow> int \<Rightarrow> ServerTransport" where
  "NewTCPServerTransport addr p = TCPServerTransport addr p None False"

text \<open>
  A TCP transport without a connection listens; one with a connection reads from it. Both start
  goroutines, whose work is \<open>udp_loop\<close>, \<open>accept_connection\<close> and \<open>receiveMessage\<close> below.
\<close>

definition UDPServerTransport_Start ::
  "'w net \<Rightarrow> string \<Rightarrow> nat option \<Rightarrow> 'w \<Rightarrow> ServerTransport result \<times> 'w"
where
  "UDPServerTransport_Start net a c w =
     (case listen_udp net a w of
        (Inl e, w') \<Rightarrow> (Inl e, w') | (Inr conn, w') \<Rightarrow> (Inr (UDPServerTransport a (Some conn)), w'))"

definition TCPServerTransport_Start ::
  "'w net \<Rightarrow> string \<Rightarrow> int \<Rightarrow> nat option \<Rightarrow> bool \<Rightarrow> 'w \<Rightarrow> ServerTransport result \<times> 'w"
where
  "TCPServerTransport_Start net a p c x w =
     (case c of
        None \<Rightarrow>
          (case listen_tcp net (JoinHostPort a (Itoa p)) w of
             (Inl e, w') \<Rightarrow> (Inl e, w') | (Inr _, w') \<Rightarrow> (Inr (TCPServerTransport a p None x), w'))
      | Some conn \<Rightarrow> (Inr (TCPServerTransport a p (Some conn) x), w))"

fun ServerTransport_Start :: "'w net \<Rightarrow> ServerTransport \<Rightarrow> 'w \<Rightarrow> ServerTransport result \<times> 'w" where
  "ServerTransport_Start net (UDPServerTransport a c) = UDPServerTransport_Start net a c"
| "ServerTransport_Start net (TCPServerTransport a p c x) = TCPServerTransport_Start net a p c x"

text \<open>\<open>WriteToUDP\<close> on a nil connection is an error; a TCP server transport sends nothing.\<close>

definition UDPServerTransport_Send ::
  "'w net \<Rightarrow> string \<Rightarrow> int \<Rightarrow> Message \<Rightarrow> nat option \<Rightarrow> 'w \<Rightarrow> unit result \<times> 'w"
where
  "UDPServerTransport_Send net host p msg c w =
     (case resolve_addr net (JoinHostPort host (Itoa p)) w of
        (Inl e, w') \<Rightarrow> (Inl e, w')
      | (Inr remoteAddr, w') \<Rightarrow>
          (case Message_Bytes msg of
             Inl e \<Rightarrow> (Inl e, w')
           | Inr b \<Rightarrow>
               (case c of
                  None \<Rightarrow> (Inl (Errorf ''invalid argument''), w')
                | Some conn \<Rightarrow> conn_write_to net conn b remoteAddr w')))"

definition TCPServerTransport_Send :: "string \<Rightarrow> int \<Rightarrow> Message \<Rightarrow> unit result" where
  "TCPServerTransport_Send host p msg = Inr ()"

fun ServerTransport_Send :: "'w net \<Rightarrow> string \<Rightarrow> int \<Rightarrow> Message \<Rightarrow> ServerTransport \<Rightarrow> 'w \<Rightarrow> unit result \<times> 'w" where
  "ServerTransport_Send net host p msg (UDPServerTransport a c) w = UDPServerTransport_Send net host p msg c w"
| "ServerTransport_Send net host p msg (TCPServerTransport a q c x) w = (TCPServerTransport_Send host p msg, w)"

section \<open>Receiving over UDP\<close>

text \<open>
  One packet: \<open>receiveMessage\<close> reads it into a buffer of the pool, \<open>startParseMessage\<close> parses the
  buffer, gives it back, and hands the message to the proxy. A packet that does not parse is
  dropped; a panic ends the program.
\<close>

definition udp_packet ::
  "ServerTransport \<Rightarrow> bool \<Rightarrow> BackendRef \<Rightarrow> ViaConfig option \<Rightarrow> string \<times> int \<times> string \<Rightarrow>
   (ByteArrayPool, input list) call"
where
  "udp_packet t received backend via = (\<lambda>(peer, q, packet) bp.
     case udp_receive packet bp of
       (Inr msg, bp') \<Rightarrow> (Inr [Received (NewRawMessage peer q t received msg backend via)], bp')
     | (Inl e, bp') \<Rightarrow> ((if is_panic (Inl e :: unit result) then Inl e else Inr []), bp'))"

fun udp_loop ::
  "ServerTransport \<Rightarrow> bool \<Rightarrow> BackendRef \<Rightarrow> ViaConfig option \<Rightarrow> (string \<times> int \<times> string) list \<Rightarrow>
   (ByteArrayPool, input list) call"
where
  "udp_loop t received backend via [] bp = (Inr [], bp)"
| "udp_loop t received backend via (packet # packets) bp =
     sbind (udp_packet t received backend via packet) (\<lambda>ins.
     sbind (udp_loop t received backend via packets) (\<lambda>rest. sret (Inr (ins @ rest)))) bp"

section \<open>Receiving over TCP\<close>

text \<open>
  The loop of \<open>receiveMessage\<close> over the bytes of a connection, with the error that ends it. Every
  message takes bytes, so that one more round than there are bytes is enough.
\<close>

fun receive_loop :: "nat \<Rightarrow> (Message \<Rightarrow> RawMessage) \<Rightarrow> string \<Rightarrow> RawMessage list \<times> go_error" where
  "receive_loop 0 mk reader = ([], EOF)"
| "receive_loop (Suc fuel) mk reader =
     (case ParseMessage reader of
        (Inl e, _) \<Rightarrow> ([], e)
      | (Inr msg, reader') \<Rightarrow>
          (case receive_loop fuel mk reader' of (rms, e) \<Rightarrow> (mk msg # rms, e)))"

definition tcp_raw_message ::
  "'w net \<Rightarrow> nat \<Rightarrow> ServerTransport \<Rightarrow> bool \<Rightarrow> BackendRef \<Rightarrow> ViaConfig option \<Rightarrow> Message \<Rightarrow> RawMessage"
where
  "tcp_raw_message net conn t received backend via msg =
     (let (peerAddr, remotePort) = value_or ([], []) (SplitHostPort (remote_addr net conn));
          peerPort = fst (Atoi remotePort)
      in (NewRawMessage peerAddr peerPort t received (msg\<lparr>ReceivedFrom := Some t\<rparr>) backend via)
           \<lparr>rm_TcpConn := Some conn\<rparr>)"

definition receiveMessage ::
  "'w net \<Rightarrow> nat \<Rightarrow> ServerTransport \<Rightarrow> bool \<Rightarrow> BackendRef \<Rightarrow> ViaConfig option \<Rightarrow> string \<Rightarrow> input list result"
where
  "receiveMessage net conn t received backend via stream =
     (case receive_loop (Suc (length stream)) (tcp_raw_message net conn t received backend via) stream of
        (rms, e) \<Rightarrow>
          if is_panic (Inl e :: unit result) then Inl e else Inr (map Received rms @ [Ended conn]))"

definition acceptConnection ::
  "'w net \<Rightarrow> nat \<Rightarrow> ServerTransport \<Rightarrow> bool \<Rightarrow> BackendRef \<Rightarrow> ViaConfig option \<Rightarrow> string \<Rightarrow> input list result"
where
  "acceptConnection net conn t received backend via stream =
     rbind (receiveMessage net conn t received backend via stream) (\<lambda>ins. Inr (Accepted conn # ins))"

lemmas server_eval [go_eval] =
  UDPServerTransport_Start_def TCPServerTransport_Start_def UDPServerTransport_Send_def TCPServerTransport_Send_def
  NewUDPServerTransport_def NewTCPServerTransport_def udp_packet_def tcp_raw_message_def
  receiveMessage_def acceptConnection_def

section \<open>What the loops deliver\<close>

lemma ParseMessage_Nil: "ParseMessage [] = (Inl EOF, [])"
  by (simp add: ParseMessage_def parse_lines.simps readLine_def)

lemma receive_loop_Writes:
  assumes "\<And>m. m \<in> set ms \<Longrightarrow> message_ok m" and "length (concat (map Message_Write ms)) < fuel"
  shows "receive_loop fuel mk (concat (map Message_Write ms)) = (map (\<lambda>m. mk (wire m)) ms, EOF)"
  using assms
proof (induction ms arbitrary: fuel)
  case Nil
  then obtain k where "fuel = Suc k" by (cases fuel) auto
  then show ?case by (simp add: ParseMessage_Nil)
next
  case (Cons m ms)
  obtain k where k: "fuel = Suc k" using Cons.prems(2) by (cases fuel) auto
  have p: "ParseMessage (Message_Write m @ concat (map Message_Write ms)) = (Inr (wire m), concat (map Message_Write ms))"
    using Cons.prems(1) by (simp add: ParseMessage_Write)
  have "length (concat (map Message_Write ms)) < length (concat (map Message_Write (m # ms)))"
    using ParseMessage_shorter [OF p] by simp
  then have "length (concat (map Message_Write ms)) < k"
    using Cons.prems(2) k by linarith
  then show ?case
    using p k Cons by simp
qed

lemma receiveMessage_Writes:
  "(\<And>m. m \<in> set ms \<Longrightarrow> message_ok m) \<Longrightarrow>
   receiveMessage net conn t received backend via (concat (map Message_Write ms)) =
     Inr (map (\<lambda>m. Received (tcp_raw_message net conn t received backend via (wire m))) ms @ [Ended conn])"
  using receive_loop_Writes [of ms "Suc (length (concat (map Message_Write ms)))"]
  by (simp add: receiveMessage_def is_panic_def comp_def del: receive_loop.simps)

text \<open>Over UDP, a buffer given back to a pool that is within its bounds keeps it so.\<close>

lemma udp_receive_inv:
  assumes inv: "pool_inv cap sz (bp, out)" and sz: "0 \<le> sz" and ok: "message_ok m"
    and fits: "int (length (Message_Write m)) \<le> sz"
  shows "\<exists>bp'. udp_receive (Message_Write m) bp = (Inr (wire m), bp') \<and> pool_inv cap sz (bp', out)"
proof -
  have "arraySize bp = sz" using inv by (simp add: pool_inv_def)
  then have "is_ok (fst (Alloc bp))" using sz by (simp add: Alloc_def Let_def)
  then obtain buf bp1 where a: "Alloc bp = (Inr buf, bp1)"
    by (metis is_ok_iff prod.collapse)
  have i1: "pool_inv cap sz (bp1, buf # out)" by (rule Alloc_inv [OF inv a])
  then have l: "length (Message_Write m) \<le> length buf" using fits by (auto simp: pool_inv_def)
  obtain b n where r: "ReadFromUDP buf (Message_Write m) = (b, n)" by fastforce
  have "length b = length buf"
    using r ReadFromUDP_short [OF l] l by auto
  then have "pool_inv cap sz (bp1, [] @ b # out)" using i1 by (simp add: pool_inv_def)
  from Free_inv [OF this] have "pool_inv cap sz (Free bp1 b, out)" by simp
  moreover have "snd (udp_receive (Message_Write m) bp) = Free bp1 b"
    using a r by (simp add: udp_receive_def sbind_def split: prod.split)
  ultimately show ?thesis
    using udp_receive_message [OF a ok l] by (intro exI [of _ "Free bp1 b"]) (simp add: prod_eq_iff)
qed

lemma udp_loop_Writes:
  assumes "pool_inv cap sz (bp, out)" and "0 \<le> sz"
    and "\<And>peer q m. (peer, q, m) \<in> set ps \<Longrightarrow> message_ok m \<and> int (length (Message_Write m)) \<le> sz"
  shows "\<exists>bp'. udp_loop t received backend via (map (\<lambda>(peer, q, m). (peer, q, Message_Write m)) ps) bp =
      (Inr (map (\<lambda>(peer, q, m). Received (NewRawMessage peer q t received (wire m) backend via)) ps), bp') \<and>
    pool_inv cap sz (bp', out)"
  using assms
proof (induction ps arbitrary: bp)
  case (Cons p ps)
  obtain peer q m where p: "p = (peer, q, m)" by (cases p)
  obtain bp1 where 1: "udp_receive (Message_Write m) bp = (Inr (wire m), bp1)" "pool_inv cap sz (bp1, out)"
    using udp_receive_inv [OF Cons.prems(1,2)] Cons.prems(3) p by (metis list.set_intros(1))
  obtain bp2 where 2: "udp_loop t received backend via (map (\<lambda>(peer, q, m). (peer, q, Message_Write m)) ps) bp1 =
      (Inr (map (\<lambda>(peer, q, m). Received (NewRawMessage peer q t received (wire m) backend via)) ps), bp2)"
      "pool_inv cap sz (bp2, out)"
    using Cons.IH [OF 1(2) Cons.prems(2)] Cons.prems(3) by (metis list.set_intros(2))
  show ?case
    using 1 2 by (simp add: p udp_packet_def sbind_def)
qed simp

end
