(* ===== verification/HandlerRelation.thy ===== *)
theory HandlerRelation
  imports ProxyLoop
begin

text \<open>
  How the handlers of the proxy change its state: what sending does to the tables of client
  transports, what the callbacks do to the listeners, and the walk over all handlers and
  steps for any relation between states that the elementary updates satisfy.
\<close>

section \<open>Sending keeps the tables of client transports\<close>

definition upd :: "'w Clients \<Rightarrow> 'w Clients \<Rightarrow> bool" where
  "upd st st' \<longleftrightarrow> client_table st' = client_table st \<and> failovers st' = failovers st \<and>
     next_failover st' = next_failover st \<and> mgr_transports st' = mgr_transports st \<and>
     next_client st' = next_client st \<and> (\<forall>i. clients st' i = None \<longleftrightarrow> clients st i = None)"

lemma upd_refl: "upd st st"
  by (simp add: upd_def)

lemma upd_trans: "upd a b \<Longrightarrow> upd b c \<Longrightarrow> upd a c"
  by (simp add: upd_def)

lemma upd_inv: "upd st st' \<Longrightarrow> clients_inv st \<Longrightarrow> clients_inv st'"
  unfolding upd_def clients_inv_def by (elim conjE) (simp del: not_None_eq)

lemma upd_exists: "upd st st' \<Longrightarrow> clients st i \<noteq> None \<Longrightarrow> clients st' i \<noteq> None"
  by (simp add: upd_def)

lemma upd_put_client: "clients st i \<noteq> None \<Longrightarrow> upd st (put_client i c st)"
  by (auto simp: upd_def put_client_def)

lemma upd_with_world: "with_world f st = (a, st') \<Longrightarrow> upd st st'"
  by (auto simp: with_world_def upd_def split: prod.splits)

lemma upd_resolve_host: "resolve_host net h st = (r, st') \<Longrightarrow> upd st st'"
  by (auto simp: resolve_host_def upd_def split: prod.splits)

lemma upd_getPeerAddrs: "getPeerAddrs net u st = (r, st') \<Longrightarrow> upd st st'"
  by (auto simp: getPeerAddrs_def sbind_def Let_def split: prod.splits sum.splits dest: upd_resolve_host)

lemma upd_dial_peers: "dial_peers net l as st = (r, st') \<Longrightarrow> upd st st'"
proof (induction as arbitrary: st)
  case (Cons a as)
  obtain q st1 where 1: "with_world (dial_udp net l a) st = (q, st1)" by fastforce
  show ?case
    using Cons.prems 1 upd_with_world [OF 1] by (auto split: sum.splits dest!: Cons.IH intro: upd_trans)
qed (simp add: upd_refl)

lemma upd_write_to_peers: "write_to_peers net c b as st = (r, st') \<Longrightarrow> upd st st'"
proof (induction as arbitrary: st)
  case (Cons a as)
  obtain q st1 where 1: "with_world (conn_write_to net c b a) st = (q, st1)" by fastforce
  show ?case
    using Cons.prems 1 upd_with_world [OF 1] by (auto split: sum.splits dest!: Cons.IH intro: upd_trans)
qed (simp add: upd_refl)

lemma upd_UDPClient_connect: "UDPClient_connect net u st = (r, st') \<Longrightarrow> upd st st'"
proof -
  assume c: "UDPClient_connect net u st = (r, st')"
  obtain q st1 where 1: "getPeerAddrs net u st = (q, st1)" by fastforce
  show ?thesis
    using c 1 upd_getPeerAddrs [OF 1]
    by (auto simp: UDPClient_connect_def sbind_def upd_refl split: if_splits sum.splits prod.splits option.splits
        dest!: upd_dial_peers intro: upd_trans)
qed

lemma upd_UDPClient_sendData: "UDPClient_sendData net u b st = (r, st') \<Longrightarrow> upd st st'"
proof -
  assume c: "UDPClient_sendData net u b st = (r, st')"
  obtain q st1 where 1: "getPeerAddrs net u st = (q, st1)" by fastforce
  show ?thesis
    using c 1 upd_getPeerAddrs [OF 1]
    by (auto simp: UDPClient_sendData_def Let_def upd_refl split: if_splits sum.splits prod.splits option.splits bool.splits
        dest: upd_with_world dest!: upd_write_to_peers intro: upd_trans)
qed

lemma upd_UDPClient_Send:
  assumes "UDPClient_Send net msg i u st = (r, st')" and e: "clients st i \<noteq> None"
  shows "upd st st'"
proof -
  obtain q st1 where 1: "UDPClient_connect net u st = (q, st1)" by fastforce
  note u1 = upd_UDPClient_connect [OF 1]
  show ?thesis
    using assms 1 u1 upd_put_client [OF upd_exists [OF u1 e]]
    by (auto simp: UDPClient_Send_def sbind_def split: sum.splits dest!: upd_UDPClient_sendData intro: upd_trans)
qed

lemma upd_tcp_dial_ips: "tcp_dial_ips net l p ips st = (r, st') \<Longrightarrow> upd st st'"
proof (induction ips arbitrary: st)
  case (Cons ip ips)
  obtain q st1 where 1: "with_world (resolve_addr net (JoinHostPort ip p)) st = (q, st1)" by fastforce
  show ?case
  proof (cases q)
    case (Inl e)
    then show ?thesis using Cons.prems 1 upd_with_world [OF 1] Cons.IH [of st1] by (auto intro: upd_trans)
  next
    case (Inr raddr)
    obtain q2 st2 where 2: "with_world (dial_tcp net l raddr) st1 = (q2, st2)" by fastforce
    have "upd st st2" using upd_with_world [OF 1] upd_with_world [OF 2] by (rule upd_trans)
    then show ?thesis
      using Cons.prems 1 2 Inr Cons.IH [of st2] by (auto split: sum.splits intro: upd_trans)
  qed
qed (simp add: upd_refl)

lemma upd_createConnection: "TCPClient_createConnection net t st = (r, st') \<Longrightarrow> upd st st'"
proof -
  assume c: "TCPClient_createConnection net t st = (r, st')"
  obtain q st1 where 1: "tcp_client_resolve net t st = (q, st1)" by fastforce
  have u1: "upd st st1"
    using 1 by (auto simp: tcp_client_resolve_def upd_refl split: if_splits dest: upd_resolve_host)
  obtain l st2 where 2: "with_world (resolve_addr net (JoinHostPort (tc_localAddress t) ''0'')) st1 = (l, st2)"
    by fastforce
  have u2: "upd st st2" using u1 upd_with_world [OF 2] by (rule upd_trans)
  have e: "upd x (x\<lparr>cl_established := z\<rparr>)" for x :: "'w Clients" and z by (simp add: upd_def)
  show ?thesis
  proof (cases q)
    case (Inl x)
    then show ?thesis using c 1 u1 by (simp add: TCPClient_createConnection_def sbind_def)
  next
    case (Inr ips)
    obtain d st3 where 3: "tcp_dial_ips net (case l of Inr a \<Rightarrow> Some a | Inl _ \<Rightarrow> None) (tc_port t) ips st2 = (d, st3)"
      by fastforce
    have u3: "upd st st3" using u2 upd_tcp_dial_ips [OF 3] by (rule upd_trans)
    then show ?thesis
      using c 1 2 3 Inr e upd_trans [OF u3 e]
      by (auto simp: TCPClient_createConnection_def sbind_def split: option.splits if_splits)
  qed
qed

lemma upd_TCPClient_try:
  "TCPClient_try net n b i t st = (r, st') \<Longrightarrow> clients st i \<noteq> None \<Longrightarrow> upd st st'"
proof (induction n arbitrary: t st)
  case 0
  then show ?case by (auto intro: upd_put_client)
next
  case (Suc n)
  define t1st1 where "t1st1 = (if tc_conn t = None \<and> tc_reconnectable t then
           (case TCPClient_createConnection net t st of (Inr t', st') \<Rightarrow> (t', st') | (Inl _, st') \<Rightarrow> (t, st'))
         else (t, st))"
  obtain t1 st1 where 1: "t1st1 = (t1, st1)" by fastforce
  have u1: "upd st st1"
    using 1 by (auto simp: t1st1_def upd_refl split: if_splits prod.splits sum.splits dest: upd_createConnection)
  note e1 = upd_exists [OF u1 Suc.prems(2)]
  show ?case
  proof (cases "tc_conn t1")
    case None
    then have "TCPClient_try net n b i t1 st1 = (r, st')"
      using Suc.prems(1) 1 by (simp add: t1st1_def [symmetric])
    from upd_trans [OF u1 Suc.IH [OF this e1]] show ?thesis .
  next
    case (Some c)
    obtain q st2 where 2: "with_world (conn_write net c b) st1 = (q, st2)" by fastforce
    have u2: "upd st st2" using u1 upd_with_world [OF 2] by (rule upd_trans)
    note e2 = upd_exists [OF u2 Suc.prems(2)]
    obtain x st3 where 3: "with_world (conn_close net c) st2 = (x, st3)" by fastforce
    have u3: "upd st st3" using u2 upd_with_world [OF 3] by (rule upd_trans)
    show ?thesis
      using Suc.prems(1) 1 2 3 Some upd_trans [OF u2 upd_put_client [OF e2]]
        upd_trans [OF u3 Suc.IH [OF _ upd_exists [OF u3 Suc.prems(2)]]]
      by (auto simp: t1st1_def [symmetric] split: sum.splits)
  qed
qed

lemma upd_Client_Send: "Client_Send net msg i st = (r, st') \<Longrightarrow> upd st st'"
  by (auto simp: Client_Send_def TCPClient_Send_def upd_refl
      split: option.splits ClientTransport.splits prod.splits bool.splits
      dest: upd_UDPClient_Send upd_TCPClient_try)

lemma upd_send_secondaries: "send_secondaries net msg is st = (r, st') \<Longrightarrow> upd st st'"
proof (induction "is" arbitrary: st)
  case (Cons i "is")
  obtain q st1 where 1: "Client_Send net msg i st = (q, st1)" by fastforce
  show ?case
    using Cons.prems 1 upd_Client_Send [OF 1] by (auto split: sum.splits dest!: Cons.IH intro: upd_trans)
qed (simp add: upd_refl)

lemma upd_Transport_Send: "Transport_Send net msg f st = (r, st') \<Longrightarrow> upd st st'"
proof (cases "failovers st f")
  case None
  assume "Transport_Send net msg f st = (r, st')"
  with None show ?thesis by (simp add: Transport_Send_def upd_refl)
next
  case (Some fo)
  assume s: "Transport_Send net msg f st = (r, st')"
  show ?thesis
  proof (cases "fo_primary fo")
    case None
    then show ?thesis
      using s Some by (auto simp: Transport_Send_def FailOver_Send_def dest: upd_send_secondaries)
  next
    case (Some i)
    obtain q st1 where 1: "Client_Send net msg i st = (q, st1)" by fastforce
    show ?thesis
      using s Some \<open>failovers st f = Some fo\<close> 1 upd_Client_Send [OF 1]
      by (auto simp: Transport_Send_def FailOver_Send_def split: sum.splits
          dest!: upd_send_secondaries intro: upd_trans)
  qed
qed
section \<open>Operations that keep the backends of a listener\<close>

definition items_inv :: "ProxyItem list \<Rightarrow> bool" where
  "items_inv its \<longleftrightarrow> (\<forall>it \<in> set its. \<forall>rb. pi_backend it = Some rb \<longrightarrow> rr_inv rb)"

lemma RoundRobin_Send_frame:
  "RoundRobin_Send net msg (rb, s) = (r, (rb', s')) \<Longrightarrow>
   rr_backends rb' = rr_backends rb \<and> rr_backendMap rb' = rr_backendMap rb"
  by (auto simp: RoundRobin_Send_def getNextBackendIndex_def Let_def split: if_splits prod.splits)

lemma rr_inv_frame:
  "rr_backends rb' = rr_backends rb \<Longrightarrow> rr_backendMap rb' = rr_backendMap rb \<Longrightarrow> rr_inv rb \<Longrightarrow> rr_inv rb'"
  by (simp add: rr_inv_def)

lemma items_inv_update:
  "items_inv its \<Longrightarrow> (\<And>rb. pi_backend it = Some rb \<Longrightarrow> rr_inv rb) \<Longrightarrow> items_inv (its[i := it])"
  by (auto simp: items_inv_def dest!: set_update_subset_insert [THEN subsetD])

lemma item_backend_inv: "items_inv its \<Longrightarrow> item_backend its i = Inr rb \<Longrightarrow> rr_inv rb"
  by (auto simp: item_backend_def items_inv_def split: if_splits option.splits)

lemma connectionEstablished_backend: "pi_backend (snd (connectionEstablished net conn it)) = pi_backend it"
  by (auto simp: connectionEstablished_def removeExitServerTransports_def Let_def split: sum.split)

lemma rr_inv_host_ip_added:
  "host_ip_added net pr l q cb ip (rb, s) = (rb', s') \<Longrightarrow> rr_inv rb \<Longrightarrow> rr_inv rb'"
  by (auto simp: host_ip_added_def Let_def split: if_splits option.splits sum.splits prod.splits
      dest: AddBackend_inv)

lemma rr_inv_host_ip_removed:
  "host_ip_removed net pr l q ip (rb, s) = (rb', s') \<Longrightarrow> rr_inv rb \<Longrightarrow> rr_inv rb'"
  by (auto simp: host_ip_removed_def Let_def split: if_splits prod.splits dest: RemoveBackend_inv)

lemma rr_inv_fold:
  assumes "\<And>ip rb s rb' s'. f ip (rb, s) = (rb', s') \<Longrightarrow> rr_inv rb \<Longrightarrow> rr_inv rb'"
  shows "fold f ips (rb, s) = (rb', s') \<Longrightarrow> rr_inv rb \<Longrightarrow> rr_inv rb'"
proof (induction ips arbitrary: rb s)
  case (Cons ip ips)
  obtain rb1 s1 where "f ip (rb, s) = (rb1, s1)" by fastforce
  with Cons assms show ?case by (metis comp_apply fold_simps(2))
qed simp

lemma rr_inv_hostIPChanged:
  "hostIPChanged net pr l new removed q cb (rb, s) = (rb', s') \<Longrightarrow> rr_inv rb \<Longrightarrow> rr_inv rb'"
proof -
  assume h: "hostIPChanged net pr l new removed q cb (rb, s) = (rb', s')" and inv: "rr_inv rb"
  obtain rb1 s1 where 1: "fold (host_ip_added net pr l q cb) new (rb, s) = (rb1, s1)" by fastforce
  have inv1: "rr_inv rb1" by (rule rr_inv_fold [OF _ 1 inv]) (rule rr_inv_host_ip_added)
  have 2: "fold (host_ip_removed net pr l q) removed (rb1, s1) = (rb', s')"
    using h 1 by (simp add: hostIPChanged_def)
  show ?thesis by (rule rr_inv_fold [OF _ 2 inv1]) (rule rr_inv_host_ip_removed)
qed

lemma clients_inv_RemoveTransport: "clients_inv c \<Longrightarrow> clients_inv (RemoveTransport pr h q tid c)"
  by (simp add: RemoveTransport_def clients_inv_def Let_def)

section \<open>The handlers\<close>

text \<open>
  A relation between a state and a later one, which every elementary update of the state
  satisfies: then the handlers that do not touch the sessions satisfy it too. The
  invariant, the settings of the proxy and its sessions are three instances.
\<close>

definition items_upd :: "ProxyItem list \<Rightarrow> ProxyItem list \<Rightarrow> bool" where
  "items_upd its its' \<longleftrightarrow> (items_inv its \<longrightarrow> items_inv its') \<and>
     map (\<lambda>it. pi_backend it = None) its' = map (\<lambda>it. pi_backend it = None) its"

lemma items_upd_refl: "items_upd its its"
  by (simp add: items_upd_def)

lemma items_upd_trans: "items_upd a b \<Longrightarrow> items_upd b c \<Longrightarrow> items_upd a c"
  by (simp add: items_upd_def)

lemma items_upd_update:
  assumes "\<And>rb. items_inv its \<Longrightarrow> pi_backend it = Some rb \<Longrightarrow> rr_inv rb"
    and "i < length its \<Longrightarrow> pi_backend it = None \<longleftrightarrow> pi_backend (its ! i) = None"
  shows "items_upd its (its[i := it])"
  using assms by (cases "i < length its") (auto simp: items_upd_def map_update list_update_same_conv list_update_beyond intro: items_inv_update)

lemma items_upd_run_established: "run_established net base cs its = (r, its') \<Longrightarrow> items_upd its its'"
proof (induction cs arbitrary: its)
  case (Cons c cs)
  obtain i conn where c: "c = (i, conn)" by fastforce
  obtain q it where 1: "connectionEstablished net conn (its ! (i - base)) = (q, it)" by fastforce
  have "items_upd its (its[i - base := it])" if "base \<le> i" "i < base + length its"
  proof -
    have "i - base < length its" using that by arith
    then have "its ! (i - base) \<in> set its" by (rule nth_mem)
    then show ?thesis
      using connectionEstablished_backend [of net conn "its ! (i - base)"] 1
      by (intro items_upd_update) (auto simp: items_inv_def)
  qed
  with Cons c 1 show ?case by (auto split: if_splits sum.splits intro: items_upd_trans items_upd_refl)
qed (simp add: items_upd_refl)

text \<open>How \<open>sendToBackend\<close> can go.\<close>

lemma findBackendBySessionId_found:
  assumes "sessions_GetBackend E sid p = (b, p1)"
  obtains f where "findBackendBySessionId E pr sid p = (f, p1)" "is_panic f = is_panic b"
    "to_option f = map_option (backend_transport (pitems p1) pr) (to_option b)"
  using assms
  by (intro that [of "fst (findBackendBySessionId E pr sid p)"])
    (auto simp: findBackendBySessionId_def is_panic_def to_option_def split: sum.split go_error.split)

lemma sendToBackend_cases:
  assumes "sendToBackend E pr pref vc (m, p) = (r, (m', p'))"
  obtains (none) "m' = m" "p' = p" "r = Inr ()"
  | (unsent) sid m1 b where "GetSessionId m = (sid, m1)" "sessions_GetBackend E (value_or [] sid) p = (b, p')" "m' = m1"
      "is_panic b \<or> (\<exists>e. choose_backend (pitems p') pr (map_option (backend_transport (pitems p') pr) (to_option b)) pref vc = Inl e)" "is_ok r = False"
  | (sent) sid m1 b p1 backend t m2 p2 u p3
    where "GetSessionId m = (sid, m1)" "sessions_GetBackend E (value_or [] sid) p = (b, p1)"
      "choose_backend (pitems p1) pr (map_option (backend_transport (pitems p1) pr) (to_option b)) pref vc = Inr (backend, t)"
      "(case t of Some t \<Rightarrow> add_proxy_headers E t (m1, p1) | None \<Rightarrow> (m1, p1)) = (m2, p2)"
      "backend \<noteq> NilBackend \<Longrightarrow> ref_Send E m2 backend p2 = (u, p3)"
      "if backend = NilBackend then p' = p2 \<and> r = Inr ()
       else case u of Inl e \<Rightarrow> p' = p3 \<and> r = (if is_panic (Inl e :: unit result) then Inl e else Inr ())
         | Inr used \<Rightarrow> if value_or [] sid = [] then p' = p3 \<and> r = Inr ()
             else sessions_AddBackend E (value_or [] sid) used (GetExpires m2 0) p3 = (r, p')"
      "m' = m2"
proof (cases "findBackendProxyItem (pitems p) pr = None \<and> pref = NilBackend")
  case True
  then show ?thesis using assms none by (simp add: sendToBackend_def)
next
  case False
  obtain sid m1 where 1: "GetSessionId m = (sid, m1)" by fastforce
  obtain b p1 where 2: "sessions_GetBackend E (value_or [] sid) p = (b, p1)" by fastforce
  obtain f where f: "findBackendBySessionId E pr (value_or [] sid) p = (f, p1)" "is_panic f = is_panic b"
      "to_option f = map_option (backend_transport (pitems p1) pr) (to_option b)"
    using findBackendBySessionId_found [OF 2] .
  show ?thesis
  proof (cases "is_panic b")
    case True
    then obtain e where e: "f = Inl (Panic e)" using f(2) by (auto simp: is_panic_def split: sum.splits go_error.splits)
    then have "p' = p1" "r = Inl (Panic e)" "m' = m1" using assms False 1 f(1) by (simp_all add: sendToBackend_def)
    with unsent [OF 1] 2 True e show ?thesis by (auto simp: is_ok_def)
  next
    case False
    then have np: "\<not> is_panic f" using f(2) by simp
    note False = \<open>\<not> (findBackendProxyItem (pitems p) pr = None \<and> pref = NilBackend)\<close>
    show ?thesis
    proof (cases "choose_backend (pitems p1) pr (map_option (backend_transport (pitems p1) pr) (to_option b)) pref vc")
      case (Inl e)
      then have "p' = p1" "r = Inl e" "m' = m1"
        using assms False 1 f(1,3) np by (simp_all add: sendToBackend_def is_panic_def split: sum.splits go_error.splits)
      with unsent [OF 1] 2 Inl show ?thesis by (auto simp: is_ok_def)
    next
      case (Inr bt)
      obtain backend t where bt: "bt = (backend, t)" by fastforce
      obtain m2 p2 where 3: "(case t of Some t \<Rightarrow> add_proxy_headers E t (m1, p1) | None \<Rightarrow> (m1, p1)) = (m2, p2)"
        by fastforce
      obtain u p3 where 4: "ref_Send E m2 backend p2 = (u, p3)" by fastforce
      have "sendToBackend E pr pref vc (m, p) =
        (if backend = NilBackend then (Inr (), (m2, p2))
         else case u of Inl e \<Rightarrow> ((if is_panic (Inl e :: unit result) then Inl e else Inr ()), (m2, p3))
           | Inr used \<Rightarrow> if value_or [] sid = [] then (Inr (), (m2, p3))
               else case sessions_AddBackend E (value_or [] sid) used (GetExpires m2 0) p3 of (r, p4) \<Rightarrow> (r, (m2, p4)))"
        using False 1 f(1,3) np Inr bt 3 4
        by (auto simp: sendToBackend_def is_panic_def split: sum.splits go_error.splits)
      then show ?thesis
        using assms sent [OF 1 2 _ 3 4] Inr bt
        by (auto split: if_splits sum.splits prod.splits)
    qed
  qed
qed

text \<open>The steps of \<open>handleRawMessage\<close>.\<close>

lemma handleRawMessage_steps:
  assumes "handleRawMessage E rm p = (r, p')"
  obtains ps m1 p1 m2 q m3 p2
  where "if IsRequest (rm_Message rm)
      then ForEachViaParam ((rm_Message rm)\<lparr>ReceivedFrom := Some (rm_From rm)\<rparr>) = (ps, m1) \<and>
        p1 = fold (\<lambda>vp. proxy_learn E (via_Host vp) (rm_From rm)) ps (proxy_learn E (rm_PeerAddr rm) (rm_From rm) p)
      else m1 = (rm_Message rm)\<lparr>ReceivedFrom := Some (rm_From rm)\<rparr> \<and> p1 = p"
    and "m2 = (if IsRequest m1 \<and> rm_ReceivedSupport rm
      then snd (SetReceived (rm_PeerAddr rm) (rm_PeerPort rm) m1) else m1)"
    and "case rm_TcpConn rm of
      Some conn \<Rightarrow> if IsRequest m2 then bind_connection E conn (m2, p1) = (q, (m3, p2)) else q = Inr () \<and> m3 = m2 \<and> p2 = p1
    | None \<Rightarrow> q = Inr () \<and> m3 = m2 \<and> p2 = p1"
    and "case q of Inl e \<Rightarrow> r = Inl e \<and> p' = p2
      | Inr _ \<Rightarrow> \<exists>m. r = Inr m \<and> tryRemoveTopRoute E (rm_From rm) (m3, p2) = (m, p')"
proof -
  let ?m0 = "(rm_Message rm)\<lparr>ReceivedFrom := Some (rm_From rm)\<rparr>"
  have k: "IsRequest ?m0 = IsRequest (rm_Message rm)" by (simp add: IsRequest_def)
  obtain ps m where v: "ForEachViaParam ?m0 = (ps, m)" by fastforce
  define m1 where "m1 = (if IsRequest (rm_Message rm) then m else ?m0)"
  define p1 where "p1 = (if IsRequest (rm_Message rm)
    then fold (\<lambda>vp. proxy_learn E (via_Host vp) (rm_From rm)) ps (proxy_learn E (rm_PeerAddr rm) (rm_From rm) p) else p)"
  define m2 where "m2 = (if IsRequest m1 \<and> rm_ReceivedSupport rm
      then snd (SetReceived (rm_PeerAddr rm) (rm_PeerPort rm) m1) else m1)"
  obtain q m3 p2 where b: "(case (IsRequest m2, rm_TcpConn rm) of
      (True, Some conn) \<Rightarrow> bind_connection E conn (m2, p1) | _ \<Rightarrow> (Inr (), (m2, p1))) = (q, (m3, p2))"
    by (metis prod.exhaust)
  have s1: "(if IsRequest ?m0
      then (case ForEachViaParam ?m0 of (ps, msg) \<Rightarrow>
        (msg, fold (\<lambda>vp. proxy_learn E (via_Host vp) (rm_From rm)) ps (proxy_learn E (rm_PeerAddr rm) (rm_From rm) p)))
      else (?m0, p)) = (m1, p1)"
    by (simp add: m1_def p1_def k v)
  have "handleRawMessage E rm p = (case (q, (m3, p2)) of
      (Inl e, (_, p2)) \<Rightarrow> (Inl e, p2)
    | (Inr _, s) \<Rightarrow> (case tryRemoveTopRoute E (rm_From rm) s of (msg3, p3) \<Rightarrow> (Inr msg3, p3)))"
    unfolding handleRawMessage_def Let_def s1 prod.case m2_def [symmetric] b [unfolded prod.case] ..
  then have "case q of Inl e \<Rightarrow> r = Inl e \<and> p' = p2
      | Inr _ \<Rightarrow> \<exists>m. r = Inr m \<and> tryRemoveTopRoute E (rm_From rm) (m3, p2) = (m, p')"
    using assms by (auto split: sum.splits prod.splits)
  with b v show ?thesis
    by (intro that [of ps m1 p1 m2 q m3 p2]) (auto simp: m1_def p1_def m2_def split: option.splits bool.splits)
qed

locale handler_relation =
  fixes R :: "'w Proxy \<Rightarrow> 'w Proxy \<Rightarrow> bool"
  assumes R_refl: "R p p"
    and R_trans: "R p q \<Longrightarrow> R q r \<Longrightarrow> R p r"
    and R_world: "R p (p\<lparr>pworld := w\<rparr>)"
    and R_clients: "(clients_inv (pclients p) \<Longrightarrow> clients_inv c) \<Longrightarrow> R p (p\<lparr>pclients := c, pworld := w\<rparr>)"
    and R_learn: "R p (p\<lparr>selfLearnRoute := SelfLearnRoute_AddRoute now now' ip t (selfLearnRoute p)\<rparr>)"
    and R_backends: "R p (p\<lparr>pbackends := s, pworld := w\<rparr>)"
    and R_items: "items_upd (pitems p) its \<Longrightarrow> R p (p\<lparr>pitems := its\<rparr>)"
begin

lemma rel_with_pworld: "with_pworld f p = (a, p') \<Longrightarrow> R p p'"
  by (auto simp: with_pworld_def R_world split: prod.splits)

lemma rel_proxy_now: "proxy_now E p = (a, p') \<Longrightarrow> R p p'"
  by (simp add: proxy_now_def rel_with_pworld)

lemma rel_with_clients:
  assumes "with_clients f p = (a, p')" and "\<And>c b c'. f c = (b, c') \<Longrightarrow> clients_inv c \<Longrightarrow> clients_inv c'"
  shows "R p p'"
proof -
  obtain b c where 1: "f ((pclients p)\<lparr>cl_world := pworld p\<rparr>) = (b, c)" by fastforce
  then have "p' = p\<lparr>pclients := c, pworld := cl_world c\<rparr>" using assms(1) by (simp add: with_clients_def)
  with assms(2) [OF 1] show ?thesis by (simp add: R_clients)
qed

lemma rel_proxy_learn: "R p (proxy_learn E ip t p)"
proof -
  obtain now1 p1 where 1: "proxy_now E p = (now1, p1)" by fastforce
  obtain now2 p2 where 2: "proxy_now E p1 = (now2, p2)" by fastforce
  have "R p2 (proxy_learn E ip t p)"
    using 1 2 by (simp add: proxy_learn_def R_learn)
  with 1 2 show ?thesis by (blast intro: R_trans rel_proxy_now)
qed

lemma rel_fold_learn: "R p (fold (\<lambda>vp. proxy_learn E (via_Host vp) t) ps p)"
  by (induction ps arbitrary: p) (auto intro: R_refl R_trans rel_proxy_learn)

lemma rel_proxy_GetTransport:
  assumes "proxy_GetTransport E pr h q tid p = (r, p')"
  shows "R p p'"
proof -
  obtain now p1 where 1: "proxy_now E p = (now, p1)" by fastforce
  obtain now' p2 where 2: "proxy_now E p1 = (now', p2)" by fastforce
  have "with_clients (GetTransport (e_net E) (selfLearnRoute p2) now (\<lambda>_ _. now') pr h q tid) p2 = (r, p')"
    using assms 1 2 by (simp add: proxy_GetTransport_def)
  then have "R p2 p'" by (rule rel_with_clients) (use GetTransport_inv in blast)
  with 1 2 show ?thesis by (blast intro: R_trans rel_proxy_now)
qed

lemma rel_proxy_set_conn: "R p (proxy_set_conn E conn f p)"
proof -
  obtain now p1 where 1: "proxy_now E p = (now, p1)" by fastforce
  obtain u p2 where 2: "with_clients (\<lambda>c. ((), set_primary_conn (e_net E) now conn f c)) p1 = (u, p2)"
    by (metis surj_pair)
  have "R p1 p2" using 2 by (rule rel_with_clients) (auto intro: set_primary_conn_inv)
  with 1 2 show ?thesis by (auto simp: proxy_set_conn_def intro: R_trans rel_proxy_now)
qed

lemma rel_bind_connection: "bind_connection E conn (m, p) = (r, (m', p')) \<Longrightarrow> R p p'"
  by (auto simp: bind_connection_def R_refl split: prod.splits sum.splits
      dest!: rel_proxy_GetTransport intro: R_trans rel_proxy_set_conn)

lemma rel_resolve_host: "with_clients (resolve_host net h) p = (r, p') \<Longrightarrow> R p p'"
  by (erule rel_with_clients) (blast intro: upd_inv upd_resolve_host)

lemma rel_isSameAddress: "isSameAddress E a b p = (r, p') \<Longrightarrow> R p p'"
  by (auto simp: isSameAddress_def R_refl split: if_splits prod.splits sum.splits
      dest!: rel_resolve_host intro: R_trans)

lemma rel_tryRemoveTopRoute: "tryRemoveTopRoute E t (m, p) = (m', p') \<Longrightarrow> R p p'"
  by (auto simp: tryRemoveTopRoute_def R_refl split: if_splits prod.splits sum.splits
      dest!: rel_isSameAddress)

lemma rel_handleRawMessage:
  assumes "handleRawMessage E rm p = (r, p')"
  shows "R p p'"
  using assms
proof (cases rule: handleRawMessage_steps)
  case (1 ps m1 p1 m2 q m3 p2)
  have "R p p1"
    using 1(1) R_trans [OF rel_proxy_learn rel_fold_learn] by (auto simp: R_refl split: if_splits)
  moreover have "R p1 p2"
    using 1(3) by (auto simp: R_refl split: if_splits option.splits dest: rel_bind_connection)
  moreover have "R p2 p'"
    using 1(4) by (auto simp: R_refl split: sum.splits dest: rel_tryRemoveTopRoute)
  ultimately show ?thesis by (blast intro: R_trans)
qed

lemma rel_getNextRequestHop: "getNextRequestHop E (m, p) = (r, (m', p')) \<Longrightarrow> R p p'"
  by (auto simp: getNextRequestHop_def getNextRequestHopByConfig_def Let_def R_refl
      split: prod.splits sum.splits if_splits dest!: rel_with_pworld)

lemma rel_addVia: "addVia E t (m, p) = (m', p') \<Longrightarrow> R p p'"
  by (auto simp: addVia_def split: prod.splits sum.splits dest!: rel_with_pworld)

lemma rel_add_proxy_headers: "add_proxy_headers E t (m, p) = (m', p') \<Longrightarrow> R p p'"
  by (auto simp: add_proxy_headers_def split: prod.splits dest!: rel_addVia)

lemma rel_findClientTransport: "findClientTransport E h q pr tid p = (r, p') \<Longrightarrow> R p p'"
proof -
  assume f: "findClientTransport E h q pr tid p = (r, p')"
  have c: "R p p1" if "with_clients (CreateUDPClientTransport net h q l) p = (i, p1)" for net l i p1
    using that by (rule rel_with_clients)
      (use conjunct1 [OF clients_inv_cached_client [OF _ client_creators(2)]] in
        \<open>simp add: CreateUDPClientTransport_def\<close>)
  show ?thesis
    using f by (auto simp: findClientTransport_def Let_def split: option.splits ServerTransport.splits prod.splits sum.splits
        dest: c rel_proxy_GetTransport)
qed

lemma rel_ClientRef_Send: "ClientRef_Send E m t p = (r, p') \<Longrightarrow> R p p'"
  unfolding ClientRef_Send_def
  by (erule rel_with_clients) (auto split: ClientRef.splits dest: upd_Client_Send upd_Transport_Send intro: upd_inv)

lemma rel_sendRequest: "R p (sendRequest E h q pr m p)"
proof -
  obtain r p1 where 1: "findClientTransport E h q pr [] p = (r, p1)" by fastforce
  show ?thesis
  proof (cases r)
    case (Inr t)
    obtain x p2 where 2: "ClientRef_Send E m t p1 = (x, p2)" by fastforce
    show ?thesis using 1 2 Inr R_trans [OF rel_findClientTransport [OF 1] rel_ClientRef_Send [OF 2]]
      by (simp add: sendRequest_def)
  qed (use 1 rel_findClientTransport [OF 1] in \<open>simp add: sendRequest_def\<close>)
qed

lemma rel_sendResponse: "sendResponse E h q pr m p = (m', p') \<Longrightarrow> R p p'"
proof -
  assume s: "sendResponse E h q pr m p = (m', p')"
  obtain x m1 where m: "GetClientTransaction m = (x, m1)" by fastforce
  obtain r p1 where 1: "findClientTransport E h q pr (value_or [] x) p = (r, p1)" by fastforce
  note k1 = rel_findClientTransport [OF 1]
  show ?thesis
  proof (cases r)
    case (Inl e)
    with s m 1 k1 show ?thesis by (simp add: sendResponse_def)
  next
    case (Inr t)
    define p2 where "p2 = (if IsFinalResponse m1
      then snd (with_clients (\<lambda>c. ((), RemoveTransport pr h q (value_or [] x) c)) p1) else p1)"
    obtain u p3 where 3: "with_clients (\<lambda>c. ((), RemoveTransport pr h q (value_or [] x) c)) p1 = (u, p3)"
      by (metis surj_pair)
    have "R p1 p3" using 3 by (rule rel_with_clients) (auto intro: clients_inv_RemoveTransport)
    then have k2: "R p p2" using k1 3 by (auto simp: p2_def intro: R_trans)
    obtain y p4 where 4: "ClientRef_Send E m1 t p2 = (y, p4)" by fastforce
    have "p' = snd (ClientRef_Send E m1 t p2)" using s m 1 Inr by (auto simp: sendResponse_def p2_def Let_def)
    then have "p' = p4" using 4 by simp
    with R_trans [OF k2 rel_ClientRef_Send [OF 4]] show ?thesis by simp
  qed
qed

lemma rel_clock_readings: "clock_readings E p = (r, p') \<Longrightarrow> R p p'"
  by (auto simp: clock_readings_def split: prod.splits dest!: rel_with_pworld intro: R_trans)

lemma rel_run_callbacks: "run_callbacks E p = (r, p') \<Longrightarrow> R p p'"
proof -
  assume s: "run_callbacks E p = (r, p')"
  obtain q its where 1: "run_established (e_net E) (first_item p) (established (pbackends p)) (pitems p) = (q, its)" by fastforce
  have "R p (p\<lparr>pitems := its\<rparr>)" using 1 by (intro R_items items_upd_run_established)
  with R_backends [where p = "p\<lparr>pitems := its\<rparr>" and w = "pworld p"] show ?thesis
    using s 1 by (auto simp: run_callbacks_def intro: R_trans)
qed

lemma rel_with_backends: "with_backends f p = (a, p') \<Longrightarrow> R p p' \<and> pitems p' = pitems p \<and> pclients p' = pclients p"
  by (auto simp: with_backends_def intro: R_backends split: prod.splits)

lemma rel_ref_Send: "ref_Send E msg ref p = (r, p') \<Longrightarrow> R p p'"
proof -
  assume s: "ref_Send E msg ref p = (r, p')"
  define s1 where "s1 = (case ref of
           NilBackend \<Rightarrow> (Inl nil_pointer, p)
         | LeafBackend b \<Rightarrow> with_backends (Backend_Send (e_net E) msg b) p
         | ItemBackend i \<Rightarrow>
             (case item_backend (pitems p) i of
                Inl e \<Rightarrow> (Inl e, p)
              | Inr rb \<Rightarrow>
                  (case with_backends (\<lambda>s. case RoundRobin_Send (e_net E) msg (rb, s) of (q, (rb', s')) \<Rightarrow> ((q, rb'), s')) p of
                     ((q, rb'), p') \<Rightarrow>
                       (q, p'\<lparr>pitems := (pitems p')[i := (pitems p' ! i)\<lparr>pi_backend := Some rb'\<rparr>]\<rparr>))))"
  obtain q p1 where 1: "s1 = (q, p1)" by fastforce
  have k1: "R p p1"
  proof (cases ref)
    case (ItemBackend i)
    show ?thesis
    proof (cases "item_backend (pitems p) i")
      case (Inr rb)
      obtain x rb' p2 where 2: "with_backends (\<lambda>s. case RoundRobin_Send (e_net E) msg (rb, s) of (q, (rb', s')) \<Rightarrow> ((q, rb'), s')) p = ((x, rb'), p2)"
        by (metis surj_pair)
      have "rr_backends rb' = rr_backends rb \<and> rr_backendMap rb' = rr_backendMap rb"
        using 2 by (auto simp: with_backends_def split: prod.splits dest: RoundRobin_Send_frame)
      then have "rr_inv rb'" if "items_inv (pitems p)"
        using item_backend_inv [OF that Inr] by (simp add: rr_inv_def)
      moreover have "p1 = p2\<lparr>pitems := (pitems p)[i := (pitems p ! i)\<lparr>pi_backend := Some rb'\<rparr>]\<rparr>"
        using 1 ItemBackend Inr 2 rel_with_backends [OF 2] by (simp add: s1_def)
      moreover have "pi_backend (pitems p ! i) \<noteq> None" if "i < length (pitems p)"
        using that Inr by (auto simp: item_backend_def split: option.splits)
      ultimately show ?thesis
        using rel_with_backends [OF 2] by (auto intro!: R_trans [OF _ R_items] items_upd_update)
    qed (use 1 ItemBackend in \<open>simp add: s1_def R_refl\<close>)
  next
    case (LeafBackend b)
    then have "with_backends (Backend_Send (e_net E) msg b) p = (q, p1)" using 1 by (simp add: s1_def)
    from rel_with_backends [OF this] show ?thesis by simp
  qed (use 1 in \<open>simp add: s1_def R_refl\<close>)
  obtain y p2 where 2: "run_callbacks E p1 = (y, p2)" by fastforce
  have "p' = p2"
    using s 1 2 unfolding ref_Send_def s1_def [symmetric] by (auto split: sum.splits)
  with R_trans [OF k1 rel_run_callbacks [OF 2]] show ?thesis by simp
qed

lemma rel_process_conn: "R p (process_conn E conn p)"
  by (auto simp: process_conn_def R_refl split: sum.split prod.split
      dest!: rel_proxy_GetTransport intro: R_trans rel_proxy_set_conn)

lemma rel_proxy_callback: "R p (proxy_callback E hc new removed p)"
proof (cases "if own_item p (hc_item hc) then item_backend (pitems p) (hc_item hc - first_item p) else Inl nil_pointer")
  case (Inr rb)
  then have rb: "item_backend (pitems p) (hc_item hc - first_item p) = Inr rb" by (simp split: if_splits)
  obtain rb' p1 where 1: "with_backends (\<lambda>s. run_callback (e_net E) hc new removed (rb, s)) p = (rb', p1)"
    by (metis surj_pair)
  have "rr_inv rb'" if "items_inv (pitems p)"
    using 1 item_backend_inv [OF that rb]
    by (auto simp: with_backends_def run_callback_def split: prod.splits dest: rr_inv_hostIPChanged)
  moreover have "pi_backend (pitems p ! (hc_item hc - first_item p)) \<noteq> None" if "hc_item hc - first_item p < length (pitems p)"
    using that rb by (auto simp: item_backend_def split: option.splits)
  ultimately show ?thesis
    using rel_with_backends [OF 1] Inr 1
    by (auto simp: proxy_callback_def intro!: R_trans [OF _ R_items] items_upd_update)
qed (simp add: proxy_callback_def R_refl)

lemma rel_connection_ended: "R p (connection_ended E conn p)"
proof -
  obtain u p1 where 1: "with_pworld (conn_close (e_net E) conn) p = (u, p1)" by fastforce
  have "items_upd (pitems p1) (map (\<lambda>it. it\<lparr>pi_transports := map (mark_exit conn) (pi_transports it)\<rparr>) (pitems p1))"
    by (auto simp: items_upd_def items_inv_def)
  then show ?thesis
    using 1 rel_with_pworld [OF 1] by (auto simp: connection_ended_def Let_def intro: R_trans R_items)
qed

end

text \<open>
  A store on Redis that was not created stays a nil pointer, and no other becomes one; with the updates
  of the sessions that keep to this, the relation holds over every step and run.
\<close>

fun nil_stores :: "ProxySessions \<Rightarrow> bool list" where
  "nil_stores (Single st) = [st = RedisStore None]"
| "nil_stores (Composite sts) = map (\<lambda>st. st = RedisStore None) sts"

lemma nil_Store_GetBackend: "Store_GetBackend by_addr t sid st = (r, st') \<Longrightarrow> (st' = RedisStore None) = (st = RedisStore None)"
  by (cases "(by_addr, t, sid, st)" rule: Store_GetBackend.cases) (auto split: prod.splits)

lemma nil_Store_AddBackend:
  "Store_AddBackend pub t sid b e (st, w) = (r, (st', w')) \<Longrightarrow> (st' = RedisStore None) = (st = RedisStore None)"
  by (cases "(pub, t, sid, b, e, (st, w))" rule: Store_AddBackend.cases) (auto split: prod.splits)

lemma nil_Store_RemoveSession:
  "Store_RemoveSession pub sid (st, w) = (r, (st', w')) \<Longrightarrow> (st' = RedisStore None) = (st = RedisStore None)"
  by (cases "(pub, sid, (st, w))" rule: Store_RemoveSession.cases) (auto split: prod.splits)

lemma nil_Composite_GetBackend:
  "Composite_GetBackend by_addr t sid sts = (r, sts') \<Longrightarrow>
   map (\<lambda>st. st = RedisStore None) sts' = map (\<lambda>st. st = RedisStore None) sts"
  by (induction sts arbitrary: r sts') (auto split: prod.splits sum.splits if_splits dest!: nil_Store_GetBackend)

lemma nil_for_each_store:
  assumes "\<And>st w r st' w'. f (st, w) = (r, (st', w')) \<Longrightarrow> (st' = RedisStore None) = (st = RedisStore None)"
  shows "for_each_store f (sts, w) = (r, (sts', w')) \<Longrightarrow>
   map (\<lambda>st. st = RedisStore None) sts' = map (\<lambda>st. st = RedisStore None) sts"
  by (induction sts arbitrary: w r sts' w') (auto split: prod.splits sum.splits dest!: assms)

lemma nil_Composite_AddBackend:
  "for_each_store (Store_AddBackend pub t sid b e) (sts, w) = (r, (sts', w')) \<Longrightarrow>
   map (\<lambda>st. st = RedisStore None) sts' = map (\<lambda>st. st = RedisStore None) sts"
  by (erule nil_for_each_store [rotated]) (rule nil_Store_AddBackend)

lemma nil_Composite_RemoveSession:
  "for_each_store (Store_RemoveSession pub sid) (sts, w) = (r, (sts', w')) \<Longrightarrow>
   map (\<lambda>st. st = RedisStore None) sts' = map (\<lambda>st. st = RedisStore None) sts"
  by (erule nil_for_each_store [rotated]) (rule nil_Store_RemoveSession)

lemma nil_store_update: "(store_update r msg st = RedisStore None) = (st = RedisStore None)"
  by (cases "(r, msg, st)" rule: store_update.cases) auto

locale session_relation = handler_relation +
  assumes R_sessions: "nil_stores s = nil_stores (sessionBackends p) \<Longrightarrow> R p (p\<lparr>sessionBackends := s, pworld := w\<rparr>)"
begin

lemma R_session_table: "nil_stores s = nil_stores (sessionBackends p) \<Longrightarrow> R p (p\<lparr>sessionBackends := s\<rparr>)"
  using R_sessions [where p = p and s = s and w = "pworld p"] by simp

lemma rel_sessions_GetBackend: "sessions_GetBackend E sid p = (r, p') \<Longrightarrow> R p p'"
proof -
  assume s: "sessions_GetBackend E sid p = (r, p')"
  obtain t p1 where 1: "clock_readings E p = (t, p1)" by fastforce
  have "R p1 p'"
    using s 1 by (auto simp: sessions_GetBackend_def split: ProxySessions.splits prod.splits
        intro!: R_session_table dest: nil_Store_GetBackend nil_Composite_GetBackend)
  with rel_clock_readings [OF 1] show ?thesis by (rule R_trans)
qed

lemma rel_sessions_AddBackend: "sessions_AddBackend E sid b e p = (r, p') \<Longrightarrow> R p p'"
proof -
  assume s: "sessions_AddBackend E sid b e p = (r, p')"
  obtain t p1 where 1: "clock_readings E p = (t, p1)" by fastforce
  have "R p1 p'"
    using s 1 by (auto simp: sessions_AddBackend_def Composite_AddBackend_def split: ProxySessions.splits prod.splits
        intro!: R_sessions dest: nil_Store_AddBackend nil_Composite_AddBackend)
  with rel_clock_readings [OF 1] show ?thesis by (rule R_trans)
qed

lemma rel_sessions_RemoveSession: "sessions_RemoveSession E sid p = (r, p') \<Longrightarrow> R p p'"
  by (auto simp: sessions_RemoveSession_def Composite_RemoveSession_def split: ProxySessions.splits prod.splits
      intro!: R_sessions dest: nil_Store_RemoveSession nil_Composite_RemoveSession)

lemma rel_sendToBackend: "sendToBackend E pr pref vc (m, p) = (r, (m', p')) \<Longrightarrow> R p p'"
proof -
  assume s: "sendToBackend E pr pref vc (m, p) = (r, (m', p'))"
  show ?thesis
    using s
  proof (cases rule: sendToBackend_cases)
    case none
    then show ?thesis by (simp add: R_refl)
  next
    case (unsent sid m1 b)
    then show ?thesis by (auto intro: rel_sessions_GetBackend)
  next
    case (sent sid m1 b p1 backend t m2 p2 u p3)
    have "R p p2"
      using rel_sessions_GetBackend [OF sent(2)] sent(4)
      by (auto split: option.splits dest: rel_add_proxy_headers intro: R_trans)
    moreover from this have "R p p3" if "backend \<noteq> NilBackend"
      using that sent(5) by (auto dest: rel_ref_Send intro: R_trans)
    ultimately show ?thesis
      using sent(6) by (auto split: if_splits sum.splits dest: rel_sessions_AddBackend intro: R_trans)
  qed
qed

lemma rel_handleSession: "handleSession E (m, p) = (r, (m', p')) \<Longrightarrow> R p p'"
proof -
  assume h: "handleSession E (m, p) = (r, (m', p'))"
  obtain sid m1 where 1: "GetSessionId m = (sid, m1)" by fastforce
  obtain meth m2 where 3: "GetMethod m1 = (meth, m2)" by fastforce
  show ?thesis
  proof (cases sid)
    case (Inl e)
    with h 1 show ?thesis by (auto simp: handleSession_def R_refl split: if_splits)
  next
    case (Inr i)
    obtain b p1 where 2: "sessions_GetBackend E i p = (b, p1)" by fastforce
    obtain x p2 where 4: "sessions_RemoveSession E i p1 = (x, p2)" by fastforce
    note k = rel_sessions_GetBackend [OF 2] rel_sessions_RemoveSession [OF 4]
    have "p' = p \<or> p' = p1 \<or> p' = p2"
      using h 1 2 3 4 Inr by (auto simp: handleSession_def split: if_splits sum.splits go_error.splits)
    then show ?thesis using k R_refl R_trans [OF k] by auto
  qed
qed

lemma rel_handleMessage: "handleMessage E pr b vc (m, p) = (r, (m', p')) \<Longrightarrow> R p p'"
proof (cases "IsRequest m")
  case True
  assume h: "handleMessage E pr b vc (m, p) = (r, (m', p'))"
  obtain hop m1 p1 where 1: "getNextRequestHop E (m, p) = (hop, (m1, p1))" by (metis prod.exhaust)
  note k1 = rel_getNextRequestHop [OF 1]
  show ?thesis
  proof (cases hop)
    case (Inl e)
    then show ?thesis
      using h True 1 k1 by (auto simp: handleMessage_def split: if_splits dest!: rel_sendToBackend intro: R_trans)
  next
    case (Inr x)
    obtain host q transport where x: "x = (host, q, transport)" by (metis prod.exhaust)
    obtain m2 p2 where 2: "(case SelfLearnRoute_GetRoute (selfLearnRoute p1) host pr of
                  Some t \<Rightarrow> add_proxy_headers E t (m1, p1) | None \<Rightarrow> (m1, p1)) = (m2, p2)" by fastforce
    then have "R p1 p2" by (auto simp: R_refl split: option.splits dest: rel_add_proxy_headers)
    moreover have "p' = sendRequest E host q transport m2 p2"
      using h True 1 Inr x 2 by (auto simp: handleMessage_def)
    ultimately show ?thesis using k1 rel_sendRequest by (blast intro: R_trans)
  qed
next
  case False
  assume "handleMessage E pr b vc (m, p) = (r, (m', p'))"
  with False show ?thesis
    by (auto simp: handleMessage_def R_refl split: prod.splits sum.splits dest: rel_sendResponse)
qed

lemma rel_process_raw: "process_raw E rm p = (r, p') \<Longrightarrow> R p p'"
proof -
  assume h: "process_raw E rm p = (r, p')"
  obtain q p1 where 1: "handleRawMessage E rm p = (q, p1)" by fastforce
  note k1 = rel_handleRawMessage [OF 1]
  show ?thesis
  proof (cases q)
    case (Inl e)
    with h 1 k1 show ?thesis by (simp add: process_raw_def)
  next
    case (Inr m)
    obtain x m2 p2 where 2: "handleMessage E (ServerTransport_GetProtocol (rm_From rm)) (rm_Backend rm) (rm_Via rm) (m, p1) = (x, (m2, p2))"
      by (metis prod.exhaust)
    have k2: "R p p2" using k1 rel_handleMessage [OF 2] by (rule R_trans)
    show ?thesis
      using h 1 2 Inr k2 by (auto simp: process_raw_def split: sum.splits prod.splits
          dest!: rel_handleSession intro: R_trans)
  qed
qed

lemma rel_redis_message: "R p (redis_message r msg p)"
  by (cases "sessionBackends p") (auto simp: redis_message_def nil_store_update intro!: R_session_table)

lemma rel_proxy_step: "proxy_step E p inp p' \<Longrightarrow> R p p'"
  by (erule proxy_stepE)
    (auto dest: rel_process_raw intro: rel_process_conn rel_proxy_callback rel_connection_ended
      rel_redis_message)

lemma rel_proxy_run: "proxy_run E p inps p' \<Longrightarrow> R p p'"
  by (induction rule: proxy_run.induct) (auto intro: R_refl R_trans rel_proxy_step)

end

end

