(* ===== verification/ProxyInvariant.thy ===== *)
theory ProxyInvariant
  imports HandlerRelation
begin

text \<open>
  The invariant of a running proxy: the tables of client transports refer to objects that
  exist, the list and the map of every round-robin backend agree, with no address twice, and
  routes are learned under the two protocols of the transports only. And the settings of a proxy,
  which never change.
\<close>

definition proxy_inv :: "'w Proxy \<Rightarrow> bool" where
  "proxy_inv p \<longleftrightarrow> clients_inv (pclients p) \<and> items_inv (pitems p) \<and> learned_inv (selfLearnRoute p)"

definition keeps :: "'w Proxy \<Rightarrow> 'w Proxy \<Rightarrow> bool" where
  "keeps p p' \<longleftrightarrow> (proxy_inv p \<longrightarrow> proxy_inv p')"

interpretation keeps: session_relation keeps
  by unfold_locales (auto simp: keeps_def proxy_inv_def items_upd_def learned_inv_AddRoute)

definition same_settings :: "'w Proxy \<Rightarrow> 'w Proxy \<Rightarrow> bool" where
  "same_settings p p' \<longleftrightarrow> myName p' = myName p \<and> first_item p' = first_item p \<and> keepNextHopRoute p' = keepNextHopRoute p \<and>
     preConfigRoute p' = preConfigRoute p \<and> mustRecordRoute p' = mustRecordRoute p \<and>
     map (\<lambda>it. pi_backend it = None) (pitems p') = map (\<lambda>it. pi_backend it = None) (pitems p) \<and>
     nil_stores (sessionBackends p') = nil_stores (sessionBackends p)"

interpretation settings: session_relation same_settings
  by unfold_locales (auto simp: same_settings_def items_upd_def)

lemma proxy_run_inv: "proxy_run E p inps p' \<Longrightarrow> proxy_inv p \<Longrightarrow> proxy_inv p'"
  using keeps.rel_proxy_run by (auto simp: keeps_def)

end
