(* ===== verification/Configuration.thy ===== *)
theory Configuration
  imports Sessions PreConfig
begin

text \<open>
  \<open>main.go\<close> up to the point where proxies are made: the flags of the command line, the types of
  the configuration and how its file is read, the options with a default, the log, and the
  tables of routes and hosts that a configuration gives. What reads files, YAML and flags is
  not part of the repository and comes in as functions.
\<close>

section \<open>The configuration\<close>

record HostIp =
  hi_Name :: string
  hi_Ip :: string

record ListenConfig =
  lc_Address :: string
  lc_Via :: string
  lc_TcpPort :: int
  lc_UdpPort :: int
  lc_Backends :: "BackendConfig list"

record RouteConfig =
  rc_Dests :: "string list"
  rc_Protocol :: string
  rc_NextHop :: string

record ProxyConfig =
  pc_Name :: string
  pc_DialogTimeout :: int
  pc_KeepNextHopRoute :: string
  pc_NoReceived :: bool
  pc_MustRecordRoute :: bool
  pc_RedisSessionStore :: "RedisSessionStore option"
  pc_Listens :: "ListenConfig list"
  pc_Route :: "RouteConfig list"
  pc_Hosts :: "HostIp list"

record ProxiesConfigure =
  Admin_Addr :: string
  Proxies :: "ProxyConfig list"
  Hosts :: "HostIp list"

text \<open>
  The environment variables are a partial map. \<open>os.Getenv\<close> gives the empty string for a
  variable that is not set.
\<close>

definition toKeepNextHopRoute :: "(string \<rightharpoonup> string) \<Rightarrow> string \<Rightarrow> bool" where
  "toKeepNextHopRoute getenv s =
     (let possibleTrueValues = [''true'', ''yes'', ''1'', ''on'', ''t'', ''y''];
          v = (if s = [] then (case getenv ''KEEP_NEXT_HOP_ROUTE'' of Some e \<Rightarrow> e | None \<Rightarrow> []) else s)
      in ToLower v \<in> set possibleTrueValues)"

definition getDefaultDialogTimeout :: "(string \<rightharpoonup> string) \<Rightarrow> int" where
  "getDefaultDialogTimeout getenv =
     (case getenv ''DEFAULT_DIALOG_TIMEOUT'' of
        None \<Rightarrow> 1200
      | Some expire \<Rightarrow> (case Atoi_checked expire of Inr val \<Rightarrow> val | Inl _ \<Rightarrow> 1200))"

text \<open>A route item that does not parse is left out: \<open>AddRouteItem\<close> reports an error nobody reads.\<close>

definition createPreConfigRoute :: "ProxyConfig \<Rightarrow> PreConfigRoute" where
  "createPreConfigRoute config =
     fold (\<lambda>routeItem. fold (\<lambda>dest r. snd (AddRouteItem (rc_Protocol routeItem) dest (rc_NextHop routeItem) r))
             (rc_Dests routeItem))
       (pc_Route config) NewPreConfigRoute"

definition createPreConfigHostResolver :: "HostIp list \<Rightarrow> ProxyConfig \<Rightarrow> PreConfigHostResolver" where
  "createPreConfigHostResolver globalHostIPs config =
     fold (\<lambda>h. AddHostIP (hi_Name h) (hi_Ip h)) (globalHostIPs @ pc_Hosts config) NewPreConfigHostResolver"

section \<open>Reading the configuration\<close>

text \<open>
  What the code calls of \<open>os\<close>, \<open>yaml\<close> and \<open>zap\<close>: \<open>yaml.Unmarshal\<close> fills in a value that is there,
  the method \<open>Set\<close> of a level takes the name of a level and the level before to the level after,
  and \<open>Error\<close> gives the text of an error of these libraries.
\<close>

record libraries =
  ReadFile :: "string \<Rightarrow> string result"
  Unmarshal :: "string \<Rightarrow> ProxiesConfigure \<Rightarrow> ProxiesConfigure result"
  DebugLevel :: int
  ErrorLevel :: int
  Level_Set :: "string \<Rightarrow> int \<Rightarrow> int"
  err_Error :: "go_error \<Rightarrow> string"

definition zero_config :: ProxiesConfigure where
  "zero_config = \<lparr>Admin_Addr = [], Proxies = [], Hosts = []\<rparr>"

definition loadConfigFromReader ::
  "('r \<Rightarrow> ProxiesConfigure \<Rightarrow> ProxiesConfigure result) \<Rightarrow> 'r \<Rightarrow> ProxiesConfigure result"
where
  "loadConfigFromReader Decode reader =
     (case Decode reader zero_config of Inl e \<Rightarrow> Inl e | Inr r \<Rightarrow> Inr r)"

definition loadConfig :: "libraries \<Rightarrow> string \<Rightarrow> ProxiesConfigure result" where
  "loadConfig lb fileName =
     (case ReadFile lb fileName of
        Inl err \<Rightarrow> Inl err
      | Inr data \<Rightarrow>
          if length data = 0 then Inl (Errorf (''configuration file '' @ fileName @ '' is empty''))
          else
            (case Unmarshal lb data zero_config of
               Inl (Panic e) \<Rightarrow> Inl (Panic e)
             | Inl err \<Rightarrow>
                 Inl (Errorf (''failed to parse configuration file '' @ fileName @ '': '' @ err_Error lb err))
             | Inr p \<Rightarrow> Inr p))"

section \<open>The log and the profiler\<close>

text \<open>
  The core of the logger: how a line is encoded, which levels it writes, and where to. The
  global logger of \<open>zap\<close> writes nothing until \<open>ReplaceGlobals\<close> gives it a core.
\<close>

datatype LogEncoder = JSONEncoder | ConsoleEncoder

record LogFile =
  Filename :: string
  LocalTime :: bool
  MaxSize :: int
  MaxBackups :: int

datatype LogOutput = Stdout | Lumberjack LogFile

record LogCore =
  logEncoder :: LogEncoder
  log_out :: LogOutput
  highPriority :: "int \<Rightarrow> bool"

definition initLog :: "libraries \<Rightarrow> string \<Rightarrow> string \<Rightarrow> string \<Rightarrow> int \<Rightarrow> int \<Rightarrow> LogCore" where
  "initLog lb logFile logLevel logFormat logSize backups =
     (let level = Level_Set lb logLevel (DebugLevel lb)
      in \<lparr>logEncoder = (if ToLower logFormat = ''json'' then JSONEncoder else ConsoleEncoder),
          log_out =
            (if length logFile > 0
             then Lumberjack \<lparr>Filename = logFile, LocalTime = True, MaxSize = logSize, MaxBackups = backups\<rparr>
             else Stdout),
          highPriority = (\<lambda>lvl. lvl \<ge> level)\<rparr>)"

text \<open>The address that the profiling server listens on, in a goroutine whose errors are dropped.\<close>

definition startProfiling :: "int \<Rightarrow> string option" where
  "startProfiling p = (if p > 0 then Some (CHR '':'' # Itoa p) else None)"

section \<open>The command line\<close>

text \<open>The flags that \<open>main\<close> declares: the name, with aliases, whether it is required, its usage and its default.\<close>

datatype FlagValue = StringValue string | IntValue int

record Flag =
  flag_Name :: string
  flag_Aliases :: "string list"
  flag_Required :: bool
  flag_Usage :: string
  flag_Value :: FlagValue

definition StringFlag :: "string \<Rightarrow> string \<Rightarrow> string \<Rightarrow> Flag" where
  "StringFlag name usage v =
     \<lparr>flag_Name = name, flag_Aliases = [], flag_Required = False, flag_Usage = usage, flag_Value = StringValue v\<rparr>"

definition IntFlag :: "string \<Rightarrow> string \<Rightarrow> int \<Rightarrow> Flag" where
  "IntFlag name usage v =
     \<lparr>flag_Name = name, flag_Aliases = [], flag_Required = False, flag_Usage = usage, flag_Value = IntValue v\<rparr>"

definition app_flags :: "Flag list" where
  "app_flags =
     [(StringFlag ''config'' ''Load configuration from `FILE`'' [])\<lparr>flag_Aliases := [''c''], flag_Required := True\<rparr>,
      StringFlag ''log-file'' ''log file name'' [],
      StringFlag ''log-level'' ''one of following level: Trace, Debug, Info, Warn, Error, Fatal, Panic'' [],
      IntFlag ''log-size'' ''size of log file in Megabytes'' 50,
      IntFlag ''log-backups'' ''number of log rotate files'' 10,
      StringFlag ''log-format'' ''must be one of: json, text'' ''text'',
      IntFlag ''profiling-port'' ''the profiling port number'' 0]"

text \<open>What an action reads from a context, and an application: its flags and its action.\<close>

record cli_Context =
  ctx_String :: "string \<Rightarrow> string"
  ctx_Int :: "string \<Rightarrow> int"

record 'act cli_App =
  app_Name :: string
  app_Usage :: string
  app_Flags :: "Flag list"
  app_Action :: 'act

section \<open>The tables of the configuration\<close>

lemma routes_inv_createPreConfigRoute: "routes_inv (createPreConfigRoute config)"
proof -
  have "routes_inv (fold (\<lambda>dest r. snd (AddRouteItem pr dest next r)) ds p)" if "routes_inv p" for pr "next" ds p
    using that by (induction ds arbitrary: p) (auto simp: routes_inv_AddRouteItem)
  then have "routes_inv (fold (\<lambda>routeItem. fold (\<lambda>dest r. snd (AddRouteItem (rc_Protocol routeItem) dest (rc_NextHop routeItem) r))
      (rc_Dests routeItem)) rs p)" if "routes_inv p" for rs :: "RouteConfig list" and p
    using that by (induction rs arbitrary: p) auto
  then show ?thesis by (simp add: createPreConfigRoute_def routes_inv_New)
qed

lemma createPreConfigHostResolver_entry:
  "createPreConfigHostResolver global config name =
    (let ips = map hi_Ip (filter (\<lambda>h. hi_Name h = name) (global @ pc_Hosts config))
     in if ips = [] then None else Some \<lparr>nextResolveTime = 0, IPs = ips\<rparr>)"
proof -
  have "fold (\<lambda>h. AddHostIP (hi_Name h) (hi_Ip h)) hs Map.empty name =
    (let ips = map hi_Ip (filter (\<lambda>h. hi_Name h = name) hs)
     in if ips = [] then None else Some \<lparr>nextResolveTime = 0, IPs = ips\<rparr>)" for hs :: "HostIp list"
  proof (induction hs rule: rev_induct)
    case (snoc h hs)
    then show ?case
      by (cases "hi_Name h = name") (auto simp: AddHostIP_def Let_def)
  qed (simp add: Let_def)
  then show ?thesis
    by (simp add: createPreConfigHostResolver_def NewPreConfigHostResolver_def del: fold_append)
qed

lemmas configuration_eval [go_eval] =
  StringFlag_def IntFlag_def app_flags_def toKeepNextHopRoute_def getDefaultDialogTimeout_def createPreConfigRoute_def createPreConfigHostResolver_def
  zero_config_def loadConfig_def loadConfigFromReader_def initLog_def startProfiling_def

end
