(* ===== verification/Startup.thy ===== *)
theory Startup
  imports ServerTransports ProxyInvariant Configuration
begin

text \<open>
  From the configuration to a running proxy: the options of \<open>main.go\<close>, \<open>NewProxy\<close>,
  \<open>NewProxyItem\<close> and the two \<open>Start\<close> methods of \<open>proxy.go\<close>. A proxy that starts satisfies
  the invariant of \<open>ProxyInvariant\<close>, and so does every state it reaches.
\<close>

section \<open>Making a proxy\<close>

definition setup_world :: "('w \<Rightarrow> 'a \<times> 'w) \<Rightarrow> 'w SetupState \<Rightarrow> 'a \<times> 'w SetupState" where
  "setup_world f st =
     (case f (bworld (su_backends st)) of
        (a, w) \<Rightarrow> (a, st\<lparr>su_backends := (su_backends st)\<lparr>bworld := w\<rparr>\<rparr>))"

text \<open>
  A listener whose backends cannot be made has none: the error of \<open>CreateRoundRobinBackend\<close> is
  dropped, a panic is not. Whether messages get a received parameter, and the via and the
  backend of the listener, are given to the loops that make raw messages.
\<close>

definition NewProxyItem ::
  "'w net \<Rightarrow> (string \<Rightarrow> URL result) \<Rightarrow> nat \<Rightarrow> ListenConfig \<Rightarrow> ('w SetupState, ProxyItem) call"
where
  "NewProxyItem net other item listenConfig st =
     (let viaConfig = createViaConfig other (lc_Via listenConfig);
          (backend, st1) = CreateRoundRobinBackend net other item (lc_Backends listenConfig) st
      in case backend of
           Inl (Panic e) \<Rightarrow> (Inl (Panic e), st1)
         | _ \<Rightarrow>
             (let (udp, st2) =
                (if lc_UdpPort listenConfig > 0 then
                   (case setup_world (NewUDPServerTransport net (lc_Address listenConfig) (lc_UdpPort listenConfig)) st1 of
                      (Inr t, s) \<Rightarrow> ([t], s) | (Inl _, s) \<Rightarrow> ([], s))
                 else ([], st1));
                  tcp =
                (if lc_TcpPort listenConfig > 0
                 then [NewTCPServerTransport (lc_Address listenConfig) (lc_TcpPort listenConfig)] else [])
              in (Inr \<lparr>pi_transports = udp @ tcp, pi_viaConfig = viaConfig, pi_backend = to_option backend\<rparr>, st2)))"

fun new_items ::
  "'w net \<Rightarrow> (string \<Rightarrow> URL result) \<Rightarrow> nat \<Rightarrow> ListenConfig list \<Rightarrow> ('w SetupState, ProxyItem list) call"
where
  "new_items net other i [] st = (Inr [], st)"
| "new_items net other i (c # cs) st =
     (case NewProxyItem net other i c st of
        (Inl e, st1) \<Rightarrow> (Inl e, st1)
      | (Inr item, st1) \<Rightarrow>
          (case new_items net other (Suc i) cs st1 of
             (Inl e, st2) \<Rightarrow> (Inl e, st2) | (Inr its, st2) \<Rightarrow> (Inr (item # its), st2)))"

definition NewClientTransportMgr :: "PreConfigHostResolver \<Rightarrow> int \<Rightarrow> 'w \<Rightarrow> 'w Clients" where
  "NewClientTransportMgr resolver now w =
     \<lparr>clients = Map.empty, next_client = 0, client_table = Map.empty, failovers = Map.empty,
      next_failover = 0, mgr_transports = Map.empty, mgr_lastCleanTime = now, cl_resolver = resolver,
      cl_established = [], cl_world = w\<rparr>"

definition new_sessions :: "RedisSessionStore option \<Rightarrow> int \<Rightarrow> int \<Rightarrow> ProxySessions" where
  "new_sessions redisSessionStore now dialogExpire =
     (let local_store = LocalStore (NewLocalSessions now dialogExpire) in
      case redisSessionStore of
        Some store \<Rightarrow> Composite [local_store, RedisStore (NewRedisSessions store dialogExpire)]
      | None \<Rightarrow> Single local_store)"

definition NewProxy ::
  "'w env \<Rightarrow> (string \<Rightarrow> URL result) \<Rightarrow> nat \<Rightarrow> string \<Rightarrow> int \<Rightarrow> ListenConfig list \<Rightarrow> bool \<Rightarrow> PreConfigRoute \<Rightarrow>
   PreConfigHostResolver \<Rightarrow> SelfLearnRoute \<Rightarrow> bool \<Rightarrow> RedisSessionStore option \<Rightarrow> ('w SetupState, 'w Proxy) call"
where
  "NewProxy E other first name dialogExpire listenConfigs keepNext route resolver learned mustRecord redisStore st =
     (case new_items (e_net E) other first listenConfigs st of
        (Inl e, st1) \<Rightarrow> (Inl e, st1)
      | (Inr its, st1) \<Rightarrow>
          (let (t, st2) = setup_world (unix_now (e_net E)) st1;
               (now, st3) = setup_world (time_now (e_net E)) st2;
               w = bworld (su_backends st3)
           in (Inr \<lparr>myName = NewMyName (e_regexps E) name, keepNextHopRoute = keepNext,
                    preConfigRoute = route, pitems = its, first_item = first, selfLearnRoute = learned,
                    mustRecordRoute = mustRecord, sessionBackends = new_sessions redisStore now dialogExpire,
                    pclients = NewClientTransportMgr resolver t w, pbackends = su_backends st3, pworld = w\<rparr>,
               st3)))"

section \<open>Starting it\<close>

text \<open>The first transport that cannot start ends the start; those before it go on running.\<close>

fun start_transports :: "'w net \<Rightarrow> ServerTransport list \<Rightarrow> 'w \<Rightarrow> unit result \<times> ServerTransport list \<times> 'w" where
  "start_transports net [] w = (Inr (), [], w)"
| "start_transports net (t # ts) w =
     (case ServerTransport_Start net t w of
        (Inl e, w1) \<Rightarrow> (Inl e, t # ts, w1)
      | (Inr t', w1) \<Rightarrow> (case start_transports net ts w1 of (r, ts', w2) \<Rightarrow> (r, t' # ts', w2)))"

definition ProxyItem_Start :: "'w net \<Rightarrow> ProxyItem \<Rightarrow> 'w \<Rightarrow> unit result \<times> ProxyItem \<times> 'w" where
  "ProxyItem_Start net item w =
     (case start_transports net (pi_transports item) w of (r, ts, w') \<Rightarrow> (r, item\<lparr>pi_transports := ts\<rparr>, w'))"

fun start_items :: "'w net \<Rightarrow> ProxyItem list \<Rightarrow> 'w \<Rightarrow> unit result \<times> ProxyItem list \<times> 'w" where
  "start_items net [] w = (Inr (), [], w)"
| "start_items net (it # its) w =
     (case ProxyItem_Start net it w of
        (Inl e, it', w1) \<Rightarrow> (Inl e, it' # its, w1)
      | (Inr _, it', w1) \<Rightarrow> (case start_items net its w1 of (r, its', w2) \<Rightarrow> (r, it' # its', w2)))"

definition Proxy_Start :: "'w env \<Rightarrow> ('w Proxy, unit) call" where
  "Proxy_Start E p =
     (case start_items (e_net E) (pitems p) (pworld p) of (r, its, w) \<Rightarrow> (r, p\<lparr>pitems := its, pworld := w\<rparr>))"

definition startProxy ::
  "'w env \<Rightarrow> (string \<Rightarrow> URL result) \<Rightarrow> (string \<rightharpoonup> string) \<Rightarrow> nat \<Rightarrow> ProxyConfig \<Rightarrow> PreConfigRoute \<Rightarrow> PreConfigHostResolver \<Rightarrow>
   ('w SetupState, 'w Proxy) call"
where
  "startProxy E other getenv first config route resolver st =
     (let (now, st0) = setup_world (unix_now (e_net E)) st;
          dialogTimeout = (if pc_DialogTimeout config \<le> 0 then getDefaultDialogTimeout getenv else pc_DialogTimeout config)
      in case NewProxy E other first (pc_Name config) dialogTimeout (pc_Listens config)
                (toKeepNextHopRoute getenv (pc_KeepNextHopRoute config)) route resolver (NewSelfLearnRoute now)
                (pc_MustRecordRoute config) (pc_RedisSessionStore config) st0 of
           (Inl e, st1) \<Rightarrow> (Inl e, st1)
         | (Inr p, st1) \<Rightarrow>
             (let (r, p1) = Proxy_Start E p; (_, st2) = setup_world (\<lambda>_. ((), pworld p1)) st1
              in (rbind r (\<lambda>_. Inr p1), st2)))"

text \<open>
  The loop of \<open>startProxies\<close> over the proxies of the configuration: the first that
  does not start ends it. They are started one after the other and share the factory of
  backends and the followed hosts, which are in the state, and their listeners are numbered in that order from \<open>first\<close> on.
\<close>

fun start_proxies ::
  "'w env \<Rightarrow> (string \<Rightarrow> URL result) \<Rightarrow> (string \<rightharpoonup> string) \<Rightarrow> HostIp list \<Rightarrow> nat \<Rightarrow> ProxyConfig list \<Rightarrow>
   ('w SetupState, 'w Proxy list) call"
where
  "start_proxies E other getenv globalHosts first [] st = (Inr [], st)"
| "start_proxies E other getenv globalHosts first (proxy # rest) st =
     (case startProxy E other getenv first proxy (createPreConfigRoute proxy) (createPreConfigHostResolver globalHosts proxy) st of
        (Inl e, st1) \<Rightarrow> (Inl e, st1)
      | (Inr p, st1) \<Rightarrow>
          (case start_proxies E other getenv globalHosts (first + length (pitems p)) rest st1 of
             (Inl e, st2) \<Rightarrow> (Inl e, st2) | (Inr ps, st2) \<Rightarrow> (Inr (p # ps), st2)))"

text \<open>
  The process: the core of the global logger, none before \<open>initLog\<close>, the address of the profiler,
  and what the proxies share. When every proxy has started, \<open>startProxies\<close> sleeps for ever: its
  result stands for the proxies that go on running.
\<close>

record 'w Process =
  pr_logger :: "LogCore option"
  pr_profiling :: "string option"
  pr_setup :: "'w SetupState"

definition startProxies ::
  "'w env \<Rightarrow> (string \<Rightarrow> URL result) \<Rightarrow> (string \<rightharpoonup> string) \<Rightarrow> libraries \<Rightarrow> cli_Context \<Rightarrow>
   ('w Process, 'w Proxy list) call"
where
  "startProxies E other getenv lb c ps =
     (case loadConfig lb (ctx_String c ''config'') of
        Inl err \<Rightarrow> (Inl err, ps)
      | Inr config \<Rightarrow>
          (let core = initLog lb (ctx_String c ''log-file'') (ctx_String c ''log-level'') (ctx_String c ''log-format'')
                        (ctx_Int c ''log-size'') (ctx_Int c ''log-backups'');
               ps1 = ps\<lparr>pr_logger := Some core, pr_profiling := startProfiling (ctx_Int c ''profiling-port'')\<rparr>;
               (r, st) = start_proxies E other getenv (Hosts config) 0 (Proxies config) (pr_setup ps1)
           in (r, ps1\<lparr>pr_setup := st\<rparr>)))"

section \<open>The program\<close>

text \<open>
  \<open>main\<close> leaves the command line to \<open>App.Run\<close>, which reads the arguments and calls the action;
  without an action, as for a request for help, it answers no proxies. The result is the line
  that \<open>main\<close> writes about an error: where to, the message and the text of the error.
\<close>

type_synonym 'w Action = "cli_Context \<Rightarrow> ('w Process, 'w Proxy list) call"

type_synonym 'w Runner = "'w Action cli_App \<Rightarrow> string list \<Rightarrow> ('w Process, 'w Proxy list) call"

definition app :: "'w env \<Rightarrow> (string \<Rightarrow> URL result) \<Rightarrow> (string \<rightharpoonup> string) \<Rightarrow> libraries \<Rightarrow> 'w Action cli_App" where
  "app E other getenv lb =
     \<lparr>app_Name = ''sipproxy'', app_Usage = ''a sip proxy in golang'', app_Flags = app_flags,
      app_Action = startProxies E other getenv lb\<rparr>"

definition log_Error :: "libraries \<Rightarrow> string \<Rightarrow> go_error \<Rightarrow> LogCore option \<Rightarrow> (LogOutput \<times> string \<times> string) option" where
  "log_Error lb msg err logger =
     (case logger of
        None \<Rightarrow> None
      | Some core \<Rightarrow>
          if highPriority core (ErrorLevel lb) then Some (log_out core, msg, err_Error lb err) else None)"

definition main ::
  "'w Runner \<Rightarrow> 'w env \<Rightarrow> (string \<Rightarrow> URL result) \<Rightarrow> (string \<rightharpoonup> string) \<Rightarrow> libraries \<Rightarrow> string list \<Rightarrow>
   ('w Process, (LogOutput \<times> string \<times> string) option) call"
where
  "main Run E other getenv lb args ps =
     (case Run (app E other getenv lb) args ps of
        (Inl (Panic e), ps1) \<Rightarrow> (Inl (Panic e), ps1)
      | (Inl err, ps1) \<Rightarrow> (Inr (log_Error lb ''Fail to start application'' err (pr_logger ps1)), ps1)
      | (Inr _, ps1) \<Rightarrow> (Inr None, ps1))"

lemmas startup_eval [go_eval] =
  setup_world_def NewProxyItem_def NewClientTransportMgr_def new_sessions_def NewProxy_def ProxyItem_Start_def
  Proxy_Start_def startProxy_def startProxies_def app_def log_Error_def main_def

section \<open>What starts satisfies the invariant\<close>

lemma add_ip_backend_inv:
  "add_ip_backend net i l u st = (r, st') \<Longrightarrow> rr_inv (su_rb st) \<Longrightarrow> rr_inv (su_rb st')"
  by (auto simp: add_ip_backend_def Let_def split: if_splits sum.splits prod.splits dest: AddBackend_inv)

lemma add_host_backend_inv: "rr_inv (su_rb st) \<Longrightarrow> rr_inv (su_rb (add_host_backend net hc h st))"
  by (auto simp: add_host_backend_def run_callback_def Let_def
      split: prod.split list.split notice.split dest: rr_inv_hostIPChanged)

lemma create_backends_inv:
  "create_backends net other i cs st = (r, st') \<Longrightarrow> rr_inv (su_rb st) \<Longrightarrow> rr_inv (su_rb st')"
proof (induction cs arbitrary: st)
  case (Cons c cs)
  then show ?case
    by (auto simp: Let_def split: if_splits sum.splits option.splits bool.splits prod.splits
        dest!: add_ip_backend_inv intro: add_host_backend_inv)
qed simp

lemma CreateRoundRobinBackend_inv: "CreateRoundRobinBackend net other i cs st = (Inr rb, st') \<Longrightarrow> rr_inv rb"
  by (auto simp: CreateRoundRobinBackend_def rr_inv_New split: if_splits sum.splits prod.splits
      dest!: create_backends_inv)

lemma NewProxyItem_inv:
  "NewProxyItem net other i c st = (Inr it, st') \<Longrightarrow> pi_backend it = Some rb \<Longrightarrow> rr_inv rb"
  by (auto simp: NewProxyItem_def Let_def to_option_def split: sum.splits go_error.splits prod.splits if_splits
      dest: CreateRoundRobinBackend_inv)

lemma new_items_inv: "new_items net other i cs st = (Inr its, st') \<Longrightarrow> items_inv its"
proof (induction cs arbitrary: i st its)
  case (Cons c cs)
  then show ?case
    by (auto simp: items_inv_def split: sum.splits prod.splits dest: NewProxyItem_inv)
qed (simp add: items_inv_def)

lemma NewProxy_inv:
  "NewProxy E other first name d cs k route res learned m redis st = (Inr p, st') \<Longrightarrow> learned_inv learned \<Longrightarrow>
   proxy_inv p"
  by (auto simp: NewProxy_def proxy_inv_def clients_inv_def NewClientTransportMgr_def Let_def
      split: sum.splits prod.splits dest: new_items_inv)

lemma start_items_inv: "start_items net its w = (r, its', w') \<Longrightarrow> items_inv its \<Longrightarrow> items_inv its'"
proof (induction its arbitrary: w its' w' r)
  case (Cons it its)
  then show ?case
    by (fastforce simp: ProxyItem_Start_def items_inv_def split: sum.splits prod.splits)
qed simp

lemma startProxy_inv:
  assumes "startProxy E other getenv first config route resolver st = (Inr p, st')"
  shows "proxy_inv p"
proof -
  obtain q st1 where "Proxy_Start E q = (Inr (), p)" and "proxy_inv q"
    using assms
    by (auto simp: startProxy_def Let_def rbind_eq_Inr split: sum.splits prod.splits
        dest!: NewProxy_inv intro: learned_inv_New)
  then show ?thesis
    by (auto simp: Proxy_Start_def proxy_inv_def split: prod.splits dest: start_items_inv)
qed

lemma start_proxies_inv:
  "start_proxies E other getenv globalHosts first cs st = (Inr ps, st') \<Longrightarrow> p \<in> set ps \<Longrightarrow> proxy_inv p"
proof (induction cs arbitrary: first st ps)
  case (Cons c cs)
  then show ?case by (auto split: sum.splits prod.splits dest: startProxy_inv)
qed simp

lemma startProxies_Inr:
  assumes "startProxies E other getenv lb c s = (Inr ps, s')"
  obtains config where "loadConfig lb (ctx_String c ''config'') = Inr config"
    and "start_proxies E other getenv (Hosts config) 0 (Proxies config) (pr_setup s) = (Inr ps, pr_setup s')"
  using assms by (auto simp: startProxies_def Let_def split: sum.splits prod.splits)

lemma startProxies_inv: "startProxies E other getenv lb c s = (Inr ps, s') \<Longrightarrow> p \<in> set ps \<Longrightarrow> proxy_inv p"
  by (blast elim: startProxies_Inr intro: start_proxies_inv)

section \<open>What starts is what the configuration says\<close>

text \<open>
  A listener of a proxy that has started: its Via, its TCP transport when it has a TCP port, and a
  UDP transport with a connection at most when it has a UDP port. A proxy: its names, options,
  routes and hosts, its sessions with their timeout, and its listeners one by one.
\<close>

definition udp_listening :: "ServerTransport \<Rightarrow> bool" where
  "udp_listening t \<longleftrightarrow> (\<exists>a c. t = UDPServerTransport a (Some c))"

definition listener_as_configured :: "(string \<Rightarrow> URL result) \<Rightarrow> ListenConfig \<Rightarrow> ProxyItem \<Rightarrow> bool" where
  "listener_as_configured other c item \<longleftrightarrow>
     pi_viaConfig item = createViaConfig other (lc_Via c) \<and>
     (\<exists>udp. pi_transports item = udp @
          (if lc_TcpPort c > 0 then [TCPServerTransport (lc_Address c) (lc_TcpPort c) None False] else []) \<and>
        list_all udp_listening udp \<and> length udp \<le> (if lc_UdpPort c > 0 then 1 else 0))"

definition dialog_timeout :: "(string \<rightharpoonup> string) \<Rightarrow> ProxyConfig \<Rightarrow> int" where
  "dialog_timeout getenv c =
     (if pc_DialogTimeout c \<le> 0 then getDefaultDialogTimeout getenv else pc_DialogTimeout c)"

definition proxy_as_configured ::
  "'w env \<Rightarrow> (string \<Rightarrow> URL result) \<Rightarrow> (string \<rightharpoonup> string) \<Rightarrow> HostIp list \<Rightarrow> ProxyConfig \<Rightarrow> 'w Proxy \<Rightarrow> bool"
where
  "proxy_as_configured E other getenv globalHosts c p \<longleftrightarrow>
     myName p = NewMyName (e_regexps E) (pc_Name c) \<and>
     keepNextHopRoute p = toKeepNextHopRoute getenv (pc_KeepNextHopRoute c) \<and>
     mustRecordRoute p = pc_MustRecordRoute c \<and>
     preConfigRoute p = createPreConfigRoute c \<and>
     cl_resolver (pclients p) = createPreConfigHostResolver globalHosts c \<and>
     (\<exists>now. sessionBackends p = new_sessions (pc_RedisSessionStore c) now (dialog_timeout getenv c)) \<and>
     list_all2 (listener_as_configured other) (pc_Listens c) (pitems p)"

text \<open>Before it starts, a listener has the same transports, the one for UDP not yet connected.\<close>

definition listener_made :: "(string \<Rightarrow> URL result) \<Rightarrow> ListenConfig \<Rightarrow> ProxyItem \<Rightarrow> bool" where
  "listener_made other c item \<longleftrightarrow>
     pi_viaConfig item = createViaConfig other (lc_Via c) \<and>
     (\<exists>udp. pi_transports item = map (\<lambda>a. UDPServerTransport a None) udp @
          (if lc_TcpPort c > 0 then [TCPServerTransport (lc_Address c) (lc_TcpPort c) None False] else []) \<and>
        length udp \<le> (if lc_UdpPort c > 0 then 1 else 0))"

lemma NewProxyItem_made:
  "NewProxyItem net other i c st = (Inr it, st') \<Longrightarrow> listener_made other c it"
  by (auto simp: NewProxyItem_def listener_made_def NewTCPServerTransport_def NewUDPServerTransport_def setup_world_def Let_def
      split: sum.splits go_error.splits prod.splits if_splits intro: exI [where x = "[]"] exI [where x = "[a]" for a])

lemma new_items_made: "new_items net other i cs st = (Inr its, st') \<Longrightarrow> list_all2 (listener_made other) cs its"
proof (induction cs arbitrary: i st its)
  case (Cons c cs)
  then show ?case by (auto split: sum.splits prod.splits dest: NewProxyItem_made)
qed simp

lemma start_transports_append:
  "start_transports net (ts @ us) w =
     (case start_transports net ts w of
        (Inl e, ts', w1) \<Rightarrow> (Inl e, ts' @ us, w1)
      | (Inr _, ts', w1) \<Rightarrow> (case start_transports net us w1 of (r, us', w2) \<Rightarrow> (r, ts' @ us', w2)))"
  by (induction ts arbitrary: w) (auto split: sum.splits prod.splits)

lemma start_transports_udp:
  "start_transports net (map (\<lambda>a. UDPServerTransport a None) as) w = (Inr r, ts, w') \<Longrightarrow>
   list_all udp_listening ts \<and> length ts = length as"
  by (induction as arbitrary: w ts)
    (auto simp: UDPServerTransport_Start_def udp_listening_def split: sum.splits prod.splits)

lemma start_transports_tcp:
  "start_transports net [TCPServerTransport a n None x] w = (Inr r, ts, w') \<Longrightarrow>
   ts = [TCPServerTransport a n None x]"
  by (auto simp: TCPServerTransport_Start_def split: sum.splits prod.splits)

lemma ProxyItem_Start_configured:
  assumes "ProxyItem_Start net it w = (Inr r, it', w')" and "listener_made other c it"
  shows "listener_as_configured other c it'"
proof -
  let ?tcp = "if lc_TcpPort c > 0 then [TCPServerTransport (lc_Address c) (lc_TcpPort c) None False] else []"
  obtain as where t: "pi_transports it = map (\<lambda>a. UDPServerTransport a None) as @ ?tcp"
    and n: "length as \<le> (if lc_UdpPort c > 0 then 1 else 0)" and v: "pi_viaConfig it = createViaConfig other (lc_Via c)"
    using assms(2) by (auto simp: listener_made_def)
  obtain ts where s: "start_transports net (map (\<lambda>a. UDPServerTransport a None) as @ ?tcp) w = (Inr r, ts, w')"
    and it': "it' = it\<lparr>pi_transports := ts\<rparr>"
    using assms(1) t by (auto simp: ProxyItem_Start_def split: prod.splits)
  then obtain udp tcp w1 w2 where u: "start_transports net (map (\<lambda>a. UDPServerTransport a None) as) w = (Inr (), udp, w1)"
    and p: "start_transports net ?tcp w1 = (Inr r, tcp, w2)" and ts: "ts = udp @ tcp"
    unfolding start_transports_append by (auto split: sum.splits prod.splits)
  have "tcp = ?tcp"
    using p by (cases "lc_TcpPort c > 0") (auto dest: start_transports_tcp simp del: start_transports.simps(2))
  then show ?thesis
    using start_transports_udp [OF u] n v it' ts by (auto simp: listener_as_configured_def)
qed

lemma start_items_configured:
  "start_items net its w = (Inr r, its', w') \<Longrightarrow> list_all2 (listener_made other) cs its \<Longrightarrow>
   list_all2 (listener_as_configured other) cs its'"
proof (induction its arbitrary: cs w its')
  case (Cons it its)
  then obtain c cs' where "cs = c # cs'" "listener_made other c it" "list_all2 (listener_made other) cs' its"
    by (auto simp: list_all2_Cons2)
  then show ?case
    using Cons.prems(1) Cons.IH by (auto split: sum.splits prod.splits dest: ProxyItem_Start_configured)
qed simp

lemma startProxy_configured:
  assumes "startProxy E other getenv first c (createPreConfigRoute c) (createPreConfigHostResolver hs c) st = (Inr p, st')"
  shows "proxy_as_configured E other getenv hs c p"
proof -
  obtain now st0 q st1 where
    "NewProxy E other first (pc_Name c) (dialog_timeout getenv c) (pc_Listens c)
       (toKeepNextHopRoute getenv (pc_KeepNextHopRoute c)) (createPreConfigRoute c) (createPreConfigHostResolver hs c)
       (NewSelfLearnRoute now) (pc_MustRecordRoute c) (pc_RedisSessionStore c) st0 = (Inr q, st1)"
    and s: "Proxy_Start E q = (Inr (), p)"
    using assms
    by (auto simp: startProxy_def Let_def rbind_eq_Inr dialog_timeout_def split: sum.splits prod.splits)
  then have "list_all2 (listener_made other) (pc_Listens c) (pitems q)"
    and "proxy_as_configured E other getenv hs c (q\<lparr>pitems := its, pworld := w\<rparr>) \<longleftrightarrow>
      list_all2 (listener_as_configured other) (pc_Listens c) its" for its w
    by (auto simp: NewProxy_def proxy_as_configured_def NewClientTransportMgr_def Let_def
        split: sum.splits prod.splits dest: new_items_made)
  then show ?thesis
    using s by (auto simp: Proxy_Start_def split: prod.splits dest: start_items_configured)
qed

lemma start_proxies_configured:
  "start_proxies E other getenv hs first cs st = (Inr ps, st') \<Longrightarrow> list_all2 (proxy_as_configured E other getenv hs) cs ps"
proof (induction cs arbitrary: first st ps)
  case (Cons c cs)
  then show ?case by (auto split: sum.splits prod.splits dest: startProxy_configured)
qed simp

section \<open>An error before the log is set up\<close>

text \<open>
  A configuration that cannot be loaded ends the program, and nothing is written about it: the
  log is set up after the configuration is loaded, so the global logger is still the one that drops everything.
\<close>

lemma main_silent:
  assumes "Run (app E other getenv lb) args s = app_Action (app E other getenv lb) c s"
    and "loadConfig lb (ctx_String c ''config'') = Inl err" and "\<And>e. err \<noteq> Panic e" and "pr_logger s = None"
  shows "main Run E other getenv lb args s = (Inr None, s)"
  using assms by (cases err) (auto simp: main_def app_def startProxies_def log_Error_def)

lemma main_reports:
  assumes "Run (app E other getenv lb) args s = app_Action (app E other getenv lb) c s"
    and "startProxies E other getenv lb c s = (Inl err, s')" and "pr_logger s' = Some core" and "\<And>e. err \<noteq> Panic e"
    and "highPriority core (ErrorLevel lb)"
  shows "main Run E other getenv lb args s =
    (Inr (Some (log_out core, ''Fail to start application'', err_Error lb err)), s')"
  using assms by (cases err) (auto simp: main_def app_def log_Error_def)

lemma loadConfig_Inr:
  "loadConfig lb f = Inr config \<longleftrightarrow>
     (\<exists>data. ReadFile lb f = Inr data \<and> data \<noteq> [] \<and> Unmarshal lb data zero_config = Inr config)"
  by (auto simp: loadConfig_def split: sum.splits go_error.splits)

end
