(* ===== verification/RoutingProperties.thy ===== *)
theory RoutingProperties
  imports MessageProperties Startup
begin

text \<open>
  The properties of the tables by which the proxy routes: learned routes, configured routes,
  its own names, and the client transports.
\<close>

section \<open>Learned and configured routes\<close>

text \<open>
  C33: A message teaches the way back: after \<open>AddRoute\<close> the address has a route over its protocol,
  to a transport with the address and port of the one the message came in on, and a route to
  another address or over another protocol that has not expired is as it was.
\<close>
theorem learned_route:
  assumes "route_key ip' p \<noteq> route_key ip (ServerTransport_GetProtocol t)"
    and "sl_route sl (route_key ip' p) = Some item" and "now1 \<le> sli_expire item"
  shows "(\<exists>t'. SelfLearnRoute_GetRoute (SelfLearnRoute_AddRoute now1 now2 ip t sl) ip
         (ServerTransport_GetProtocol t) = Some t' \<and> isSameTransport t' t) \<and>
    SelfLearnRoute_GetRoute (SelfLearnRoute_AddRoute now1 now2 ip t sl) ip' p = Some (sli_transport item)"
  using AddRoute_found AddRoute_other [OF assms] by blast

definition sample_udp :: ServerTransport where
  "sample_udp = UDPServerTransport ''10.0.0.1:5060'' (Some 0)"

definition sample_tcp :: ServerTransport where
  "sample_tcp = TCPServerTransport ''10.0.0.1'' 5060 (Some 1) False"

lemma learned_route_witness:
  "SelfLearnRoute_GetRoute (SelfLearnRoute_AddRoute 5 5 ''b'' sample_tcp
     (SelfLearnRoute_AddRoute 0 0 ''a'' sample_udp (NewSelfLearnRoute 0))) ''a'' ''udp'' = Some sample_udp"
  using learned_route [of "''a''" "''udp''" "''b''" sample_tcp "SelfLearnRoute_AddRoute 0 0 ''a'' sample_udp (NewSelfLearnRoute 0)"
      "\<lparr>sli_transport = sample_udp, sli_expire = 1200\<rparr>" 5 5]
  by (simp add: sample_udp_def sample_tcp_def NewSelfLearnRoute_def SelfLearnRoute_AddRoute_def route_key_def
      cleanExpires_def Let_def)


definition sample_routes :: ProxyConfig where
  "sample_routes =
     \<lparr>pc_Name = ''p'', pc_DialogTimeout = 0, pc_KeepNextHopRoute = [], pc_NoReceived = False, pc_MustRecordRoute = False,
      pc_RedisSessionStore = None, pc_Listens = [],
      pc_Route =
        [\<lparr>rc_Dests = [''*.example''], rc_Protocol = ''udp'', rc_NextHop = ''10.0.0.9:5080''\<rparr>,
         \<lparr>rc_Dests = [''default''], rc_Protocol = ''tls'', rc_NextHop = ''gw''\<rparr>],
      pc_Hosts = [\<lparr>hi_Name = ''db'', hi_Ip = ''10.0.0.8''\<rparr>]\<rparr>"





text \<open>
  C32: A host that the configuration gives addresses for is never looked up: \<open>GetIps\<close> answers the
  addresses configured for all proxies and then those for this proxy, each in the order of the
  configuration, without touching the world; and for any name at all the answer is not an
  error and not empty.
\<close>
theorem configured_host_not_looked_up:
  assumes "\<not> ParseIP name" and "ips = map hi_Ip (filter (\<lambda>h. hi_Name h = name) (global @ pc_Hosts config))"
    and "ips \<noteq> []" and "hr = createPreConfigHostResolver global config"
  shows "GetIps net name (hr, w) = (Inr ips, (hr, w)) \<and> (\<exists>ips' s'. GetIps net other s = (Inr ips', s') \<and> ips' \<noteq> [])"
  using GetIps_configured [of hr name _ net w] createPreConfigHostResolver_entry [of global config name]
    GetIps_nonempty [of net other s] assms by simp

lemma configured_host_not_looked_up_witness:
  "fst (GetIps script_net ''db'' (createPreConfigHostResolver [\<lparr>hi_Name = ''db'', hi_Ip = ''10.0.0.7''\<rparr>] sample_routes,
       \<lparr>clock = 0, hosts = [], dead = [], broken = [], next_conn = 0, log = []\<rparr>)) =
     Inr [''10.0.0.7'', ''10.0.0.8'']"
  using configured_host_not_looked_up [of "''db''" _ "[\<lparr>hi_Name = ''db'', hi_Ip = ''10.0.0.7''\<rparr>]" sample_routes _ script_net]
  by (simp add: sample_routes_def go_eval del: createPreConfigHostResolver_def)

section \<open>The names of the proxy\<close>

text \<open>
  C38: A request for a host of the name of the proxy is taken for the proxy itself; and, because the
  name is also searched for as a regular expression that may match anywhere, so is a request for
  every host that merely contains the name.
\<close>
theorem request_for_containing_host:
  assumes "request msg = Some r" and "requestURI r = \<lparr>sipURI = Some u, absoluteURI = None\<rparr>"
    and "p = NewMyName E n" and "CHR '','' \<notin> set n" and "trimmed n" and "name_pattern n"
    and "CHR 0x0A \<notin> set n" and "Host u = a @ n @ b" and "ascii (User u)" "ascii (Host u)"
  shows "isMyMessage E p msg"
  using assms by (rule isMyMessage_contains)

definition no_regexps :: regexps where
  "no_regexps = \<lparr>re_compiles = (\<lambda>_. False), re_searches = (\<lambda>_ _. False), re_other = (\<lambda>_ _. Inr False)\<rparr>"

lemma request_for_containing_host_witness:
  "isMyMessage no_regexps (NewMyName no_regexps ''biloxi'')
     ((sample_request ''INVITE'')\<lparr>request := Some \<lparr>req_method = ''INVITE'',
        requestURI = sample_uri ''not-biloxi-at-all'', req_version = ''SIP/2.0''\<rparr>\<rparr>)"
  by (rule request_for_containing_host [where n = "''biloxi''" and a = "''not-''" and b = "''-at-all''" and
      u = "zero_SIPURI\<lparr>Scheme := ''sip'', User := ''bob'', Host := ''not-biloxi-at-all''\<rparr>" and
      r = "\<lparr>req_method = ''INVITE'', requestURI = sample_uri ''not-biloxi-at-all'', req_version = ''SIP/2.0''\<rparr>"])
    (simp_all add: sample_uri_def go_eval name_pattern_def re_plain_def ascii_def of_char_def)

section \<open>Client transports\<close>

definition no_clients :: "script Clients" where
  "no_clients =
     \<lparr>clients = Map.empty, next_client = 0, client_table = Map.empty, failovers = Map.empty, next_failover = 0,
      mgr_transports = Map.empty, mgr_lastCleanTime = 0, cl_resolver = NewPreConfigHostResolver,
      cl_established = [],
      cl_world = \<lparr>clock = 0, hosts = [], dead = [], broken = [], next_conn = 0, log = []\<rparr>\<rparr>"

lemma no_clients_inv: "clients_inv no_clients"
  by (simp add: clients_inv_def no_clients_def)



text \<open>
  C40: A TCP transport that the manager makes for a peer it has none for has no client: whatever
  is sent over it is not sent, without any attempt to connect. (The client that
  \<open>createClientTransport\<close> makes is passed to \<open>NewFailOverClientTransport\<close>, which drops it.)
\<close>
theorem fresh_tcp_transport_mute:
  assumes "clients_inv st"
    and "mgr_transports (cleanExpiredTransport now at st) (getFullAddr ''tcp'' host p transId) = None"
    and "GetTransport net sl now at ''tcp'' host p transId st = (r, st')"
  shows "\<exists>f. r = Inr f \<and> Transport_Send net' msg f st' = (Inl (Errorf ''fail to send message''), st')"
  using GetTransport_tcp_fresh [OF assms] Transport_Send_no_client by blast

lemma fresh_tcp_transport_mute_witness:
  "\<exists>f st'. GetTransport script_net (NewSelfLearnRoute 0) 0 (\<lambda>_ _. 0) ''tcp'' ''10.0.0.2'' 5060 [] no_clients = (Inr f, st') \<and>
     Transport_Send script_net NewMessage f st' = (Inl (Errorf ''fail to send message''), st')"
proof -
  obtain r st' where g: "GetTransport script_net (NewSelfLearnRoute 0) 0 (\<lambda>_ _. 0) ''tcp'' ''10.0.0.2'' 5060 [] no_clients = (r, st')"
    by fastforce
  show ?thesis
    using fresh_tcp_transport_mute [OF no_clients_inv _ g] g
    by (force simp: no_clients_def cleanExpiredTransport_def)
qed

end
