(* ===== verification/ProxyFacts.thy ===== *)
theory ProxyFacts
  imports ProxyInvariant ViaRouting
begin

text \<open>
  What the proxy does with a message: the hop of a request with a Route, the removal of the
  proxy's own Route entry, the backend of a request of a known session, the connection that a
  response over TCP goes out on, and the requests on which it fails.
\<close>

section \<open>The way back\<close>

text \<open>
  A response with the Via stack that the proxy sent with the request goes back to where the
  request came from.
\<close>

lemma handleMessage_response:
  assumes v: "vias_valid req" and st: "via_stack req = p # rest" and n: "go_int n"
    and s: "SetReceived a n req = (Inr (), req1)"
    and u: "fst (new_uuid (e_net E) (pworld s1)) = Inr u"
    and sent: "add_proxy_headers E t (req1, s1) = (req2, s2)"
    and res: "vias_valid res" "via_stack res = via_stack req2" "\<not> IsRequest res"
  shows "\<exists>res1. handleMessage E pr b vc (res, s3) =
      (Inr (), case response_hop a n p of (host, q, transport) \<Rightarrow> sendResponse E host q transport res1 s3) \<and>
    via_stack res1 = via_stack req1"
proof -
  obtain p' where p': "vias_valid req1" "via_stack req1 = p' # rest"
      "p' = (let p1 = ViaParam_SetReceived p a in
          if ViaParam_HasParam p1 ''rport'' then ViaParam_SetParam p1 ''rport'' (Itoa n) else p1)"
    using SetReceived_valid [OF v st, of a n] s by auto
  obtain x res1 where r: "PopVia res = (Inr \<lparr>via_list = [x]\<rparr>, res1)"
      "via_stack res = x # via_stack res1" "vias_valid res1"
    using PopVia_valid [OF res(1)] add_proxy_headers_stack [OF u sent] res(2) by fastforce
  then have st1: "via_stack res1 = via_stack req1"
    using add_proxy_headers_stack [OF u sent] res(2) by auto
  obtain hop res2 where h: "getNextReponseHop res1 = (hop, res2)" by fastforce
  have "hop = Inr (response_hop a n p)"
    using getNextReponseHop_top [OF r(3), of p' rest] received_hop [OF n p'(3)] p'(2) st1 h by simp
  moreover have "via_stack res2 = via_stack req1"
    using getNextReponseHop_stack [OF r(3) _ h] st1 p'(2) by simp
  ultimately show ?thesis
    using res(3) r(1) h by (auto simp: handleMessage_def split: prod.splits)
qed

section \<open>Routes\<close>

lemma getNextRequestHopByRoute_top:
  assumes ok: "routes_ok m" and g: "GetRoute m = (Inr r, m1)"
    and u: "GetSIPURI (NameAddr_GetAddress (RouteParam_GetAddress (hd (route_stack m)))) = Inr u"
  shows "\<exists>m'. getNextRequestHopByRoute keep m = (Inr (Host u, SIPURI_GetPort u, SIPURI_GetTransport u), m') \<and>
    route_stack m' = (if keep then route_stack m else tl (route_stack m)) \<and> routes_ok m'"
proof -
  obtain z where s: "routeParams r \<noteq> []" "routes_ok m1" "route_stack m1 = routeParams r @ z"
      "route_stack m1 = route_stack m"
    using GetRoute_stack [OF ok g] .
  have again: "GetRoute m1 = (Inr r, m1)"
    using route_h.get_again [OF g [unfolded GetRoute_def]] by (simp add: GetRoute_def)
  obtain rp rps where rp: "routeParams r = rp # rps" using s(1) by (cases "routeParams r") auto
  then have hd: "hd (route_stack m) = rp" using s(3,4) by simp
  obtain m2 where m2: "PopRoute m1 = (Inr (), m2)" "routes_ok m2" "route_stack m2 = tl (route_stack m1)"
    using PopRoute_stack [OF s(2) again] by blast
  show ?thesis
    using u rp s(2,4) m2 by (simp add: getNextRequestHopByRoute_def sbind_def g GetRouteParam_def hd Let_def)
qed

lemma handleMessage_route:
  assumes "IsRequest m" and ok: "routes_ok m" and g: "GetRoute m = (Inr r, m1)"
    and u: "GetSIPURI (NameAddr_GetAddress (RouteParam_GetAddress (hd (route_stack m)))) = Inr u"
  shows "\<exists>m'. route_stack m' = (if keepNextHopRoute p then route_stack m else tl (route_stack m)) \<and>
    handleMessage E pr b vc (m, p) =
      (let (m2, p2) =
         (case SelfLearnRoute_GetRoute (selfLearnRoute p) (Host u) pr of
            Some t \<Rightarrow> add_proxy_headers E t (m', p) | None \<Rightarrow> (m', p))
       in (Inr (), (m2, sendRequest E (Host u) (SIPURI_GetPort u) (SIPURI_GetTransport u) m2 p2)))"
  using getNextRequestHopByRoute_top [OF ok g u, of "keepNextHopRoute p"] assms(1)
  by (auto simp: handleMessage_def getNextRequestHop_def)

text \<open>
  A request that has no next hop and is not for the proxy is dropped: all the proxy does is
  to look through its routes.
\<close>

lemma handleMessage_dropped:
  assumes "IsRequest m" and h: "getNextRequestHop E (m, p) = (Inl e, (m1, p1))"
    and "\<not> isMyMessage (e_regexps E) (myName p) m1"
  shows "handleMessage E pr b vc (m, p) = (Inr (), (m1, p1)) \<and>
    (p1 = p \<or> p1 = p\<lparr>pworld := snd (map_keys (e_net E) (dom (items (preConfigRoute p))) (pworld p))\<rparr>)"
proof -
  have "p1 = p \<or> p1 = p\<lparr>pworld := snd (map_keys (e_net E) (dom (items (preConfigRoute p))) (pworld p))\<rparr>"
    using h by (auto simp: getNextRequestHop_def getNextRequestHopByConfig_def with_pworld_def Let_def
        split: prod.splits sum.splits if_splits)
  moreover from this have "myName p1 = myName p" by auto
  ultimately show ?thesis
    using assms by (simp add: handleMessage_def)
qed

text \<open>
  The proxy takes its own entry, and no other, off the top of the Route.
\<close>

lemma tryRemoveTopRoute_stack:
  assumes ok: "routes_ok m" and g: "GetRoute m = (Inr r, m1)"
    and u: "GetSIPURI (NameAddr_GetAddress (RouteParam_GetAddress (hd (route_stack m)))) = Inr u"
    and t: "tryRemoveTopRoute E from (m, p) = (m', p')"
  shows "route_stack m' =
    (if SIPURI_GetPort u = ServerTransport_GetPort from \<and>
        fst (isSameAddress E (Host u) (ServerTransport_GetAddress from) p) = Inr True
     then tl (route_stack m) else route_stack m)"
proof -
  obtain z where s: "routeParams r \<noteq> []" "routes_ok m1" "route_stack m1 = routeParams r @ z"
      "route_stack m1 = route_stack m"
    using GetRoute_stack [OF ok g] .
  have again: "GetRoute m1 = (Inr r, m1)"
    using route_h.get_again [OF g [unfolded GetRoute_def]] by (simp add: GetRoute_def)
  obtain rp rps where rp: "routeParams r = rp # rps" using s(1) by (cases "routeParams r") auto
  then have hd: "hd (route_stack m) = rp" using s(3,4) by simp
  obtain m2 where m2: "PopRoute m1 = (Inr (), m2)" "route_stack m2 = tl (route_stack m1)"
    using PopRoute_stack [OF s(2) again] by blast
  show ?thesis
    using t u rp s(4) m2 by (auto simp: tryRemoveTopRoute_def g GetRouteParam_def hd split: if_splits prod.splits)
qed

lemma isSameAddress_equal: "isSameAddress E a a p = (Inr True, p)"
  by (simp add: isSameAddress_def)

text \<open>Addresses are the same when their names resolve to a common address.\<close>

lemma resolve_host_ip: "ParseIP a \<Longrightarrow> fst (with_clients (resolve_host net a) p) = Inr [a]"
  by (simp add: with_clients_def resolve_host_def GetIps_ip)

lemma isSameAddress_ips:
  assumes "ParseIP a" and "ParseIP b"
  shows "fst (isSameAddress E a b p) = Inr (a = b)"
  using assms resolve_host_ip [of a "e_net E"] resolve_host_ip [of b "e_net E"]
  by (auto simp: isSameAddress_def split: prod.split sum.split) (metis fst_conv sum.inject(2) list.set_intros(1) list.set(1,2) empty_iff insert_iff sum.distinct(1))+

text \<open>A Record-Route is added when one is there already, or when the configuration asks for it.\<close>

lemma addRecordRoute_when:
  "addRecordRoute must t m =
     (if must \<or> find_header (headers m) ''Record-Route'' \<noteq> None
      then AddRecordRoute m (CreateRecordRoute (ServerTransport_GetAddress t) (ServerTransport_GetPort t)) else m)"
  by (auto simp: addRecordRoute_def GetHeader_def split: option.split)

section \<open>Backends\<close>

lemma RoundRobin_GetAddress_prefix:
  "HasPrefix (RoundRobin_GetAddress rb) pr \<Longrightarrow> pr \<noteq> [] \<Longrightarrow> hd pr = CHR ''R''"
  by (cases pr) (auto simp: RoundRobin_GetAddress_def HasPrefix_def)

text \<open>
  The address of a round-robin backend starts with its own name, so that no listener has a
  backend for a protocol.
\<close>

lemma findBackendProxyItem_protocol:
  assumes "pr \<in> {''udp'', ''tcp''}"
  shows "findBackendProxyItem its pr = None"
proof -
  have "\<not> HasPrefix (RoundRobin_GetAddress rb) pr" for rb
    using RoundRobin_GetAddress_prefix [of rb pr] assms by auto
  then show ?thesis
    by (auto simp: findBackendProxyItem_def find_None_iff split: option.split)
qed

lemma choose_backend_bound:
  assumes "pr \<in> {''udp'', ''tcp''}"
  shows "choose_backend its pr (Some (backend_transport its pr b)) prefer vc =
    Inr (LeafBackend b, to_option (findTransportByBackendAddr its (Backend_GetAddress b) pr))"
proof -
  let ?t = "findTransportByBackendAddr its (Backend_GetAddress b) pr"
  have "choose_transport_by_addresses its pr [Backend_GetAddress b] = to_option ?t"
    by (cases ?t) (simp_all add: choose_transport_by_addresses_def to_option_def)
  then show ?thesis
    unfolding choose_backend_def findBackendProxyItem_protocol [OF assms]
    by (simp add: backend_transport_def ref_addresses_def getAllBackendAddresses_def Let_def split: option.split)
qed

lemma choose_backend_prefer:
  assumes "pr \<in> {''udp'', ''tcp''}" and "item_backend its i = Inr rb"
  shows "\<exists>t. choose_backend its pr None (ItemBackend i) vc = Inr (ItemBackend i, t)"
  unfolding choose_backend_def findBackendProxyItem_protocol [OF assms(1)]
  using assms(2) by (auto simp: ref_addresses_def Let_def split: option.split)

lemma choose_backend_nil:
  assumes "pr \<in> {''udp'', ''tcp''}" and "item_backend its i = Inl e"
  shows "choose_backend its pr None (ItemBackend i) None = Inl e"
  unfolding choose_backend_def findBackendProxyItem_protocol [OF assms(1)]
  using assms(2) by (simp add: ref_addresses_def Let_def)

text \<open>A request of a session that is bound to a backend goes to that backend.\<close>

lemma sendToBackend_bound:
  assumes pr: "pr \<in> {''udp'', ''tcp''}" and pref: "prefer \<noteq> NilBackend"
    and sid: "GetSessionId m = (Inr sid, m1)" and b: "sessions_GetBackend E sid p = (Inr b, p1)"
    and t: "(case findTransportByBackendAddr (pitems p1) (Backend_GetAddress b) pr of
       Inr t \<Rightarrow> add_proxy_headers E t (m1, p1) | Inl _ \<Rightarrow> (m1, p1)) = (m2, p2)"
    and s: "ref_Send E m2 (LeafBackend b) p2 = (Inr used, p3)"
  shows "used = b \<and> sendToBackend E pr prefer vc (m, p) =
    (if sid = [] then (Inr (), (m2, p3))
     else (case sessions_AddBackend E sid b (GetExpires m2 0) p3 of (r, p4) \<Rightarrow> (r, (m2, p4))))"
proof -
  have "used = b"
    using s by (auto simp: ref_Send_def with_backends_def run_callbacks_def Let_def
        split: prod.splits sum.splits dest: Backend_Send_self)
  moreover have "(case to_option (findTransportByBackendAddr (pitems p1) (Backend_GetAddress b) pr) of
       Some t \<Rightarrow> add_proxy_headers E t (m1, p1) | None \<Rightarrow> (m1, p1)) = (m2, p2)"
    using t by (auto simp: to_option_def split: sum.splits)
  ultimately show ?thesis
    using pref s by (simp add: sendToBackend_def findBackendBySessionId_def sid b to_option_def choose_backend_bound [OF pr])
qed

text \<open>
  A request for the proxy on a listener without backends: the pointer to its round-robin
  backend is nil inside an interface value that is not, and the proxy panics.
\<close>

lemma sendToBackend_nil:
  assumes pr: "pr \<in> {''udp'', ''tcp''}" and i: "i < length (pitems p)" "pi_backend (pitems p ! i) = None"
    and b: "sessions_GetBackend E (value_or [] (fst (GetSessionId m))) p = (Inl (Errorf e), p1)"
    and same: "pitems p1 = pitems p"
  shows "fst (sendToBackend E pr (ItemBackend i) None (m, p)) = Inl nil_pointer"
proof -
  obtain sid m1 where sid: "GetSessionId m = (sid, m1)" by fastforce
  have "item_backend (pitems p1) i = Inl nil_pointer"
    using i same by (simp add: item_backend_def)
  from choose_backend_nil [OF pr this] show ?thesis
    using b by (simp add: sendToBackend_def findBackendBySessionId_def sid to_option_def)
qed

section \<open>The end of a session\<close>

lemma handleSession_bye:
  assumes r: "IsResponse m" and sid: "GetSessionId m = (Inr sid, m1)"
    and b: "sessions_GetBackend E sid p = (Inr b, p1)" and bye: "GetMethod m1 = (Inr ''BYE'', m2)"
    and st: "sessionBackends p1 = Single (LocalStore ls)"
  shows "\<exists>p'. handleSession E (m, p) = (Inr (), (m2, p')) \<and>
    sessionBackends p' = Single (LocalStore (Local_RemoveSession sid ls))"
  using assms by (simp add: handleSession_def sessions_RemoveSession_def)

lemma handleSession_keeps:
  assumes "IsRequest m" and "response m = None"
  shows "handleSession E (m, p) = (Inr (), (m, p))"
  using assms by (simp add: handleSession_def IsResponse_def)

section \<open>Responses over TCP\<close>

text \<open>The clock of the environment stays within an hour, less than a connection is kept.\<close>

definition within_hour :: "'w net \<Rightarrow> int \<Rightarrow> bool" where
  "within_hour net a \<longleftrightarrow> (\<forall>w. a \<le> fst (unix_now net w) \<and> fst (unix_now net w) \<le> a + 3600)"

definition tcp_key :: "string \<Rightarrow> int \<Rightarrow> string \<Rightarrow> string" where
  "tcp_key host q tid = getFullAddr ''tcp'' host q tid"

text \<open>Transport \<open>f\<close> is the manager's for a peer and transaction, and writes to \<open>conn\<close>.\<close>

definition writes_to :: "'w Clients \<Rightarrow> nat \<Rightarrow> nat \<Rightarrow> int \<Rightarrow> bool" where
  "writes_to c f conn expire \<longleftrightarrow>
     (\<exists>i t. failovers c f = Some \<lparr>fo_primary = Some i, fo_secondaries = []\<rparr> \<and>
        clients c i = Some (TCPClientTransport t) \<and> tc_conn t = Some conn \<and> tc_expire t = expire)"

definition bound_to :: "'w Clients \<Rightarrow> string \<Rightarrow> nat \<Rightarrow> nat \<Rightarrow> int \<Rightarrow> bool" where
  "bound_to c key f conn expire \<longleftrightarrow>
     mgr_transports c key = Some f \<and> writes_to c f conn expire"

lemma bound_to_world [simp]: "bound_to (c\<lparr>cl_world := w\<rparr>) key f conn e = bound_to c key f conn e"
  by (simp add: bound_to_def writes_to_def)

lemma with_clients_pclients:
  "with_clients g p = (a, p') \<Longrightarrow> g ((pclients p)\<lparr>cl_world := pworld p\<rparr>) = (a, pclients p') \<and>
   selfLearnRoute p' = selfLearnRoute p \<and> pworld p' = cl_world (pclients p')"
  by (auto simp: with_clients_def split: prod.splits)

lemma proxy_now_frame:
  "proxy_now E p = (t, p') \<Longrightarrow> pclients p' = pclients p \<and> selfLearnRoute p' = selfLearnRoute p \<and>
   t = fst (unix_now (e_net E) (pworld p))"
  by (auto simp: proxy_now_def with_pworld_def split: prod.splits)

lemma set_primary_bound:
  assumes inv: "clients_inv c" and m: "mgr_transports c key = Some f"
  shows "bound_to (set_primary_conn net now conn f c) key f conn (now + 3600)"
proof -
  have "failovers c f \<noteq> None" using inv m unfolding clients_inv_def by metis
  then obtain fo where "failovers c f = Some fo" by blast
  moreover from this have "fo_secondaries fo = []" using inv unfolding clients_inv_def by metis
  ultimately show ?thesis
    using m by (cases fo) (auto simp: bound_to_def writes_to_def set_primary_conn_def new_client_def
      NewTCPClientTransportWithConn_def Let_def split: prod.split)
qed

lemma bound_not_expired:
  assumes "bound_to c key f conn e" and "n \<le> e"
  shows "mgr_transports (cleanExpiredTransport now (\<lambda>_ _. n) c) key = Some f"
  using assms by (auto simp: bound_to_def writes_to_def cleanExpiredTransport_def FailOver_IsExpired_def Client_IsExpired_def)

lemma clean_bound:
  assumes "bound_to c key f conn e" and "n \<le> e"
  shows "bound_to (cleanExpiredTransport now (\<lambda>_ _. n) c) key f conn e"
  using assms bound_not_expired [OF assms, of now] by (auto simp: bound_to_def writes_to_def cleanExpiredTransport_def)

lemma writes_to_Send:
  assumes b: "writes_to c f conn e" and w: "conn_write net conn (Message_Write msg) (cl_world c) = (Inr (), w)"
  shows "\<exists>c'. Transport_Send net msg f c = (Inr (), c') \<and> cl_world c' = w"
  using assms by (auto simp: writes_to_def Transport_Send_def FailOver_Send_def Client_Send_def TCPClient_Send_def
      numeral_2_eq_2 with_world_def put_client_def Let_def)

lemma ToLower_TCP: "ToLower ''TCP'' = ''tcp''" "ToLower ''tcp'' = ''tcp''"
  by (simp_all add: ToLower_def lower_char_def char_of_def bit_0)

text \<open>A request that comes in on a connection binds its transaction to it.\<close>

lemma bind_connection_bound:
  assumes inv: "proxy_inv p" and h: "within_hour (e_net E) a"
    and hop: "getNextReponseHop msg = (Inr (host, q, tr), msg1)" "CHR ''['' \<notin> set host"
    and tid: "GetClientTransaction msg1 = (Inr tid, msg2)"
    and b: "bind_connection E conn (msg, p) = (r, (msg', p'))"
  shows "\<exists>f e. a + 3600 \<le> e \<and> bound_to (pclients p') (tcp_key host q tid) f conn e"
proof -
  have strip: "strip_brackets host = Inr host"
    using hop(2) by (cases host) (auto simp: strip_brackets_def HasPrefix_def)
  obtain now p1 where 1: "proxy_now E p = (now, p1)" by fastforce
  obtain now' p2 where 2: "proxy_now E p1 = (now', p2)" by fastforce
  obtain g c where 3: "GetTransport (e_net E) (selfLearnRoute p2) now (\<lambda>_ _. now') ''tcp'' host q tid
      ((pclients p2)\<lparr>cl_world := pworld p2\<rparr>) = (g, c)" by fastforce
  have "clients_inv ((pclients p2)\<lparr>cl_world := pworld p2\<rparr>)"
    using inv proxy_now_frame [OF 1] proxy_now_frame [OF 2] by (simp add: proxy_inv_def)
  note c = GetTransport_inv [OF this 3]
  obtain f where f: "g = Inr f"
    using 3 by (auto simp: GetTransport_def createClientTransport_def SupportedProtocol_def ToLower_TCP Let_def
        split: option.splits prod.splits)
  define p3 where "p3 = p2\<lparr>pclients := c, pworld := cl_world c\<rparr>"
  obtain now'' p4 where 4: "proxy_now E p3 = (now'', p4)" by fastforce
  let ?c = "(pclients p4)\<lparr>cl_world := pworld p4\<rparr>"
  have "clients_inv ?c" "mgr_transports ?c (tcp_key host q tid) = Some f"
    using c f proxy_now_frame [OF 4] by (simp_all add: p3_def tcp_key_def ToLower_TCP)
  then have "bound_to (set_primary_conn (e_net E) now'' conn f ?c) (tcp_key host q tid) f conn (now'' + 3600)"
    by (rule set_primary_bound)
  moreover have "p' = p4\<lparr>pclients := set_primary_conn (e_net E) now'' conn f ?c,
      pworld := cl_world (set_primary_conn (e_net E) now'' conn f ?c)\<rparr>"
    using b hop(1) strip tid 1 2 3 4 f
    by (simp add: bind_connection_def proxy_GetTransport_def proxy_set_conn_def with_clients_def p3_def [symmetric])
  moreover have "a + 3600 \<le> now'' + 3600"
    using h proxy_now_frame [OF 4] by (simp add: within_hour_def)
  ultimately show ?thesis by (intro exI [of _ f] exI [of _ "now'' + 3600"]) simp
qed

text \<open>
  A response over TCP is written to the connection that was bound to its transaction when the
  request came in on it.
\<close>

lemma response_on_connection:
  assumes h: "within_hour (e_net E) a" and e: "a + 3600 \<le> e"
    and b: "bound_to (pclients p) (tcp_key host q tid) f conn e"
    and r: "\<And>x y. SelfLearnRoute_GetRoute (selfLearnRoute p) host ''TCP'' \<noteq> Some (UDPServerTransport x y)"
    and tid: "GetClientTransaction msg = (Inr tid, msg1)"
    and w: "\<And>w. fst (conn_write (e_net E) conn (Message_Write msg1) w) = Inr ()"
  shows "\<exists>p' w. sendResponse E host q ''TCP'' msg p = (msg1, p') \<and>
    pworld p' = snd (conn_write (e_net E) conn (Message_Write msg1) w)"
proof -
  obtain now p1 where 1: "proxy_now E p = (now, p1)" by fastforce
  obtain now' p2 where 2: "proxy_now E p1 = (now', p2)" by fastforce
  note n1 = proxy_now_frame [OF 1] and n2 = proxy_now_frame [OF 2]
  have "now' \<le> e"
    using h e n2 unfolding within_hour_def by (meson order_trans)
  let ?c = "(pclients p2)\<lparr>cl_world := pworld p2\<rparr>"
  let ?cl = "cleanExpiredTransport now (\<lambda>_ _. now') ?c"
  have bc: "bound_to ?c (tcp_key host q tid) f conn e" using b n1 n2 by simp
  have k: "mgr_transports ?cl (tcp_key host q tid) = Some f"
    by (rule bound_not_expired [OF bc \<open>now' \<le> e\<close>])
  have bcl: "bound_to ?cl (tcp_key host q tid) f conn e"
    by (rule clean_bound [OF bc \<open>now' \<le> e\<close>])
  have "GetTransport (e_net E) (selfLearnRoute p2) now (\<lambda>_ _. now') ''TCP'' host q tid ?c = (Inr f, ?cl)"
    using GetTransport_cached [of "''TCP''" now "\<lambda>_ _. now'" ?c host q tid f "e_net E" "selfLearnRoute p2"] k
    by (simp add: ToLower_TCP SupportedProtocol_def tcp_key_def)
  then obtain p3 where 3: "proxy_GetTransport E ''TCP'' host q tid p = (Inr f, p3)" "pclients p3 = ?cl"
    using 1 2 by (simp add: proxy_GetTransport_def with_clients_def)
  then have ft: "findClientTransport E host q ''TCP'' tid p = (Inr (Managed f), p3)"
    using r by (auto simp: findClientTransport_def split: option.split ServerTransport.split)
  define p4 where "p4 = (if IsFinalResponse msg1
    then snd (with_clients (\<lambda>c. ((), RemoveTransport ''TCP'' host q tid c)) p3) else p3)"
  let ?c4 = "(pclients p4)\<lparr>cl_world := pworld p4\<rparr>"
  have "failovers (pclients p4) = failovers ?cl" "clients (pclients p4) = clients ?cl"
    using 3(2) by (auto simp: p4_def with_clients_def RemoveTransport_def Let_def)
  then have b4: "writes_to ?c4 f conn e"
    using bcl by (simp add: bound_to_def writes_to_def)
  have w4: "conn_write (e_net E) conn (Message_Write msg1) (cl_world ?c4) =
      (Inr (), snd (conn_write (e_net E) conn (Message_Write msg1) (pworld p4)))"
    using w [of "pworld p4"] by (cases "conn_write (e_net E) conn (Message_Write msg1) (pworld p4)") simp
  obtain c5 where 5: "Transport_Send (e_net E) msg1 f ?c4 = (Inr (), c5)"
      "cl_world c5 = snd (conn_write (e_net E) conn (Message_Write msg1) (pworld p4))"
    using writes_to_Send [OF b4 w4] by blast
  then have "ClientRef_Send E msg1 (Managed f) p4 = (Inr (), p4\<lparr>pclients := c5, pworld := cl_world c5\<rparr>)"
    by (simp add: ClientRef_Send_def with_clients_def)
  then have "sendResponse E host q ''TCP'' msg p = (msg1, p4\<lparr>pclients := c5, pworld := cl_world c5\<rparr>)"
    by (simp add: sendResponse_def tid ft p4_def [symmetric])
  with 5(2) show ?thesis by auto
qed

end
