(* ===== verification/MessageIdentity.thy ===== *)
theory MessageIdentity
  imports ProxyCore SessionIds
begin

text \<open>
  What the proxy does to a message on its way leaves the message of its session: the operations
  on Via, Route and Record-Route, and the getters, which store what they parse, keep the values
  that its session, its method and its expiry are read from.
\<close>

section \<open>Messages of the same identity\<close>

definition same_ids :: "Message \<Rightarrow> Message \<Rightarrow> bool" where
  "same_ids m m' \<longleftrightarrow> request m' = request m \<and> response m' = response m \<and> GetCallID m' = GetCallID m \<and>
     GetHeaderValue m' ''Expires'' = GetHeaderValue m ''Expires'' \<and>
     fst (GetFrom m') = fst (GetFrom m) \<and> fst (GetTo m') = fst (GetTo m) \<and> fst (GetCSeq m') = fst (GetCSeq m)"

lemma same_ids_refl [simp]: "same_ids m m"
  by (simp add: same_ids_def)

lemma same_ids_trans: "same_ids a b \<Longrightarrow> same_ids b c \<Longrightarrow> same_ids a c"
  by (simp add: same_ids_def)

lemma same_ids_kind:
  "same_ids m m' \<Longrightarrow> IsRequest m' = IsRequest m" "same_ids m m' \<Longrightarrow> IsResponse m' = IsResponse m"
  by (simp_all add: same_ids_def IsRequest_def IsResponse_def)

section \<open>Operations on other headers\<close>

definition id_headers :: "string list" where
  "id_headers = [''Call-ID'', ''Expires'', ''From'', ''To'', ''CSeq'']"

definition path_headers :: "string list" where
  "path_headers = [''Via'', ''Route'', ''Record-Route'']"

lemma canonical_long: "length n \<noteq> 1 \<Longrightarrow> canonical_name n = ToLower n"
  by (simp add: canonical_name_def split: option.split)

lemma lower_names:
  "map ToLower id_headers = [''call-id'', ''expires'', ''from'', ''to'', ''cseq'']"
  "map ToLower path_headers = [''via'', ''route'', ''record-route'']"
  by (simp_all add: id_headers_def path_headers_def ToLower_def lower_char_def char_of_def bit_0)

lemma id_not_path:
  assumes "k \<in> set id_headers" and "n \<in> set path_headers"
  shows "\<not> isSameHeader n k" and "\<not> isSameHeader k n"
proof -
  have "canonical_name k = ToLower k" "canonical_name n = ToLower n"
    using assms by (auto simp: id_headers_def path_headers_def canonical_long)
  moreover have "ToLower k \<in> set (map ToLower id_headers)" "ToLower n \<in> set (map ToLower path_headers)"
    using assms by auto
  ultimately show "\<not> isSameHeader n k" "\<not> isSameHeader k n"
    unfolding isSameHeader_canonical lower_names by auto
qed

lemma id_distinct: "k \<in> set id_headers \<Longrightarrow> n \<in> set id_headers \<Longrightarrow> isSameHeader k n \<Longrightarrow> k = n"
  using lower_names(1) by (auto simp: id_headers_def isSameHeader_canonical canonical_long)

definition same_values :: "Message \<Rightarrow> Message \<Rightarrow> bool" where
  "same_values m m' \<longleftrightarrow> request m' = request m \<and> response m' = response m \<and>
     (\<forall>k \<in> set id_headers. GetHeaderValue m' k = GetHeaderValue m k)"

lemma same_values_ids: "same_values m m' \<Longrightarrow> same_ids m m'"
  by (simp add: same_values_def same_ids_def id_headers_def GetCallID_def getter_value)

text \<open>The first header of a name decides.\<close>

lemma GetHeaderValue_filter:
  "GetHeaderValue m k =
     (case filter (\<lambda>h. isSameHeader (hdr_name h) k) (headers m) of
        [] \<Rightarrow> Inl (no_such_header k) | h # _ \<Rightarrow> Inr (hdr_value h))"
proof -
  have "(case find_header hs k of None \<Rightarrow> Inl (no_such_header k) | Some i \<Rightarrow> Inr (hdr_value (hs ! i))) =
    (case filter (\<lambda>h. isSameHeader (hdr_name h) k) hs of
        [] \<Rightarrow> Inl (no_such_header k) | h # _ \<Rightarrow> Inr (hdr_value h))" for hs
    by (induction hs) (auto split: option.splits)
  then show ?thesis by (simp add: GetHeaderValue_eq)
qed

lemma same_valuesI:
  assumes "request m' = request m" and "response m' = response m"
    and "\<And>k. k \<in> set id_headers \<Longrightarrow>
      filter (\<lambda>h. isSameHeader (hdr_name h) k) (headers m') = filter (\<lambda>h. isSameHeader (hdr_name h) k) (headers m)"
  shows "same_values m m'"
  using assms by (simp add: same_values_def GetHeaderValue_filter)

lemma same_values_refl: "same_values m m"
  by (simp add: same_values_def)

lemma same_values_insert:
  assumes "hdr_name h \<in> set path_headers"
  shows "same_values m (insert_header i h m)"
proof (rule same_valuesI)
  fix k assume "k \<in> set id_headers"
  then have "\<not> isSameHeader (hdr_name h) k" using assms id_not_path by blast
  then show "filter (\<lambda>h. isSameHeader (hdr_name h) k) (headers (insert_header i h m)) =
      filter (\<lambda>h. isSameHeader (hdr_name h) k) (headers m)"
    by (simp add: insert_header_def) (metis append_take_drop_id filter_append)
qed (simp_all add: insert_header_def)

lemma same_values_remove:
  assumes "n \<in> set path_headers"
  shows "same_values m (snd (RemoveHeader n m))"
proof (cases "find_header (headers m) n")
  case (Some i)
  obtain a h b where s: "headers m = a @ h # b" "length a = i" "headers m ! i = h"
      "isSameHeader (hdr_name h) n" "find_header a n = None"
    using find_header_split [OF Some] .
  have "\<not> isSameHeader (hdr_name h) k" if "k \<in> set id_headers" for k
    using s(4) id_not_path [OF that assms] by (metis isSameHeader_sym isSameHeader_trans)
  then show ?thesis
    using s Some by (intro same_valuesI) (auto simp: RemoveHeader_def)
qed (simp add: RemoveHeader_def same_values_refl)

lemma same_values_set:
  assumes "n \<in> set path_headers"
  shows "same_values m (set_value n v m)"
  using assms id_not_path by (auto simp: same_values_def GetHeaderValue_set_other)

lemma same_values_for_each_via:
  assumes "k \<in> set id_headers"
  shows "filter (\<lambda>h. isSameHeader (hdr_name h) k) (snd (for_each_via hs)) = filter (\<lambda>h. isSameHeader (hdr_name h) k) hs"
proof (induction hs)
  case (Cons h hs)
  have "\<not> isSameHeader (hdr_name h) k" if "isSameHeader (hdr_name h) ''Via''"
    using that id_not_path [OF assms, of "''Via''"]
    by (auto simp: path_headers_def) (metis isSameHeader_sym isSameHeader_trans)
  with Cons show ?case
    by (auto simp: Let_def split: prod.splits HeaderValue.splits sum.splits)
qed simp

lemma same_ids_ForEachViaParam: "same_ids m (snd (ForEachViaParam m))"
proof -
  have "ForEachViaParam m = (concat (map via_list (fst (for_each_via (headers m)))), m\<lparr>headers := snd (for_each_via (headers m))\<rparr>)"
    by (simp add: ForEachViaParam_def ForEachVia_def split: prod.split)
  then show ?thesis
    by (intro same_values_ids same_valuesI) (simp_all add: same_values_for_each_via)
qed

section \<open>The operations of the proxy\<close>

text \<open>Getters of the path headers change no other header; those of the identity keep their value.\<close>

lemma same_ids_getters:
  "same_ids m (snd (GetVia m))" "same_ids m (snd (GetRoute m))"
  "same_ids m (snd (GetFrom m))" "same_ids m (snd (GetTo m))" "same_ids m (snd (GetCSeq m))"
proof -
  have "same_values m (snd (GetVia m))" "same_values m (snd (GetRoute m))"
    using id_not_path by (auto simp: same_values_def getter_other path_headers_def)
  then show "same_ids m (snd (GetVia m))" "same_ids m (snd (GetRoute m))"
    by (auto intro: same_values_ids)
  have d: "\<not> isSameHeader k n" if "k \<in> set id_headers" "n \<in> set id_headers" "k \<noteq> n" for k n
    using that id_distinct by blast
  have again: "fst (GetFrom (snd (GetFrom m))) = fst (GetFrom m)" "fst (GetTo (snd (GetTo m))) = fst (GetTo m)"
      "fst (GetCSeq (snd (GetCSeq m))) = fst (GetCSeq m)"
    using from_h.fst_again [of m] to_h.fst_again [of m] cseq_h.fst_again [of m]
    by (simp_all add: GetFrom_def GetTo_def GetCSeq_def)
  show "same_ids m (snd (GetFrom m))" "same_ids m (snd (GetTo m))" "same_ids m (snd (GetCSeq m))"
    using again d by (simp_all add: id_headers_def same_ids_def GetCallID_def getter_other getter_value)
qed

lemma same_ids_call:
  assumes "\<And>m. same_ids m (snd (f m))" and "\<And>x m. same_ids m (snd (g x m))"
  shows "same_ids m (snd (sbind f g m))"
  using assms same_ids_trans by (auto simp: sbind_def split: prod.split sum.split) (metis snd_conv)+

lemma same_ids_ret: "same_ids m (snd (sret r m))"
  by (simp add: sret_def)

lemma same_ids_path:
  "same_ids m (snd (PopVia m))" "same_ids m (snd (PopRoute m))" "same_ids m (snd (SetReceived a n m))"
  "same_ids m (AddVia m via)" "same_ids m (AddRecordRoute m rr)"
proof -
  have p: "''Via'' \<in> set path_headers" "''Route'' \<in> set path_headers" "''Record-Route'' \<in> set path_headers"
    by (simp_all add: path_headers_def)
  note set_v = same_values_ids [OF same_values_set [OF p(1)]] and set_r = same_values_ids [OF same_values_set [OF p(2)]]
  have rem: "same_ids m m'" if "RemoveHeader n m = (r, m')" "n = ''Via'' \<or> n = ''Route''" for n m r m'
    using that same_values_ids [OF same_values_remove, of n m] p by auto
  show "same_ids m (snd (PopVia m))"
    unfolding PopVia_def
    by (rule same_ids_call [OF same_ids_getters(1)]) (use set_v in \<open>auto split: prod.split sum.split intro: rem\<close>)
  show "same_ids m (snd (PopRoute m))"
    unfolding PopRoute_def
    by (rule same_ids_call [OF same_ids_getters(2)]) (use set_r in \<open>auto split: prod.split sum.split intro: rem\<close>)
  show "same_ids m (snd (SetReceived a n m))"
    unfolding SetReceived_def
    by (intro same_ids_call same_ids_getters same_ids_ret) (use set_v in \<open>simp add: Let_def\<close>)
  show "same_ids m (AddVia m via)" "same_ids m (AddRecordRoute m rr)"
    using p by (simp_all add: AddVia_def AddRecordRoute_def same_values_ids same_values_insert)
qed

lemma same_ids_identity:
  "same_ids m (snd (GetSessionId m))" "same_ids m (snd (GetMethod m))" "same_ids m (snd (GetClientTransaction m))"
  "same_ids m (snd (getNextReponseHop m))"
proof -
  have "same_ids m (snd (GetTopViaBranch m))" for m
    unfolding GetTopViaBranch_def by (intro same_ids_call same_ids_getters same_ids_ret)
  then show "same_ids m (snd (GetClientTransaction m))"
    unfolding GetClientTransaction_def
    by (intro same_ids_call same_ids_getters) (auto intro: same_ids_call same_ids_ret)
  show "same_ids m (snd (getNextReponseHop m))"
    unfolding getNextReponseHop_def by (intro same_ids_call same_ids_getters same_ids_ret)
  show "same_ids m (snd (GetMethod m))"
    unfolding GetMethod_def by (auto split: option.split intro: same_ids_call same_ids_getters same_ids_ret)
  show "same_ids m (snd (GetSessionId m))"
    unfolding GetSessionId_def by (intro same_ids_call same_ids_getters same_ids_ret)
qed

section \<open>What is read from them\<close>

lemma fst_sbind_from:
  "fst (sbind f g m) = rbind (fst (f m)) (\<lambda>x. fst (g x (snd (f m))))"
  by (simp add: sbind_def rbind_def split: prod.split sum.split)

lemma fst_sret: "fst (sret r m) = r"
  by (simp add: sret_def)

lemma same_ids_GetSessionId: "same_ids m m' \<Longrightarrow> fst (GetSessionId m') = fst (GetSessionId m)"
proof -
  assume s: "same_ids m m'"
  have t: "fst (GetTo (snd (GetFrom m))) = fst (GetTo m)" for m
    using same_ids_getters(3) [of m] by (simp add: same_ids_def)
  show ?thesis
    using s by (simp add: GetSessionId_def fst_sbind_from fst_sret t same_ids_def sret_def [abs_def])
qed

lemma same_ids_GetMethod: "same_ids m m' \<Longrightarrow> fst (GetMethod m') = fst (GetMethod m)"
  by (simp add: GetMethod_def fst_sbind_from fst_sret same_ids_def split: option.split)

lemma same_ids_GetExpires: "same_ids m m' \<Longrightarrow> GetExpires m' d = GetExpires m d"
  by (simp add: GetExpires_def GetHeaderInt_def same_ids_def)

end
