(* ===== verification/SessionAffinity.thy ===== *)
theory SessionAffinity
  imports ProxyFacts MessageIdentity
begin

text \<open>
  Session affinity over whole runs of the proxy: a session that is bound to a backend in the
  store in memory stays bound to it, whatever the proxy receives, as long as the clock does
  not run past the binding and the session is not ended by a response to a BYE.
\<close>

section \<open>Handlers that leave the sessions alone\<close>

interpretation sess: handler_relation "\<lambda>p p'. sessionBackends p' = sessionBackends p"
  by unfold_locales simp_all

lemma same_ids_ReceivedFrom: "same_ids m (m\<lparr>ReceivedFrom := f\<rparr>)"
  by (intro same_values_ids same_valuesI) simp_all

lemma same_ids_snd:
  "GetSessionId m = (r, m') \<Longrightarrow> same_ids m m'" "GetMethod m = (r', m') \<Longrightarrow> same_ids m m'"
  "GetClientTransaction m = (r, m') \<Longrightarrow> same_ids m m'" "getNextReponseHop m = (h, m') \<Longrightarrow> same_ids m m'"
  "PopVia m = (v, m') \<Longrightarrow> same_ids m m'" "PopRoute m = (u, m') \<Longrightarrow> same_ids m m'"
  "GetRoute m = (ro, m') \<Longrightarrow> same_ids m m'" "GetTo m = (to, m') \<Longrightarrow> same_ids m m'"
  "ForEachViaParam m = (vs, m') \<Longrightarrow> same_ids m m'"
  using same_ids_identity [of m] same_ids_path [of m] same_ids_getters [of m] same_ids_ForEachViaParam [of m] by auto

lemma same_ids_bind_connection: "bind_connection E conn (m, p) = (r, (m', p')) \<Longrightarrow> same_ids m m'"
  by (auto simp: bind_connection_def split: prod.splits sum.splits
      dest!: same_ids_snd(3,4) intro: same_ids_trans)

lemma same_ids_tryRemoveTopRoute: "tryRemoveTopRoute E t (m, p) = (m', p') \<Longrightarrow> same_ids m m'"
  using same_ids_path(2)
  by (auto simp: tryRemoveTopRoute_def split: prod.splits sum.splits if_splits
      dest!: same_ids_snd(7) intro: same_ids_trans)

lemma same_ids_getNextRequestHop: "getNextRequestHop E (m, p) = (r, (m', p')) \<Longrightarrow> same_ids m m'"
proof -
  have route: "same_ids m (snd (getNextRequestHopByRoute k m))" for k m
    unfolding getNextRequestHopByRoute_def
    by (intro same_ids_call same_ids_getters same_ids_ret) (use same_ids_path(2) in \<open>auto simp: Let_def split: sum.split\<close>)
  have config: "getNextRequestHopByConfig E (m, p) = (r, (m', p')) \<Longrightarrow> same_ids m m'" for m p r m' p'
    by (auto simp: getNextRequestHopByConfig_def Let_def split: prod.splits sum.splits if_splits dest!: same_ids_snd(8))
  assume "getNextRequestHop E (m, p) = (r, (m', p'))"
  then show ?thesis
    using route [of m "keepNextHopRoute p"]
    by (auto simp: getNextRequestHop_def split: prod.splits sum.splits dest!: config intro: same_ids_trans)
qed

lemma same_ids_add_proxy_headers: "add_proxy_headers E t (m, p) = (m', p') \<Longrightarrow> same_ids m m'"
  using same_ids_path(4,5) same_ids_trans [OF same_ids_path(4) same_ids_path(5)]
  by (auto simp: add_proxy_headers_def addVia_def addRecordRoute_def split: prod.splits sum.splits if_splits)

lemma same_ids_sendResponse: "sendResponse E h q pr m p = (m', p') \<Longrightarrow> same_ids m m'"
  by (auto simp: sendResponse_def Let_def split: prod.splits dest!: same_ids_snd(3))

lemma same_ids_handleRawMessage:
  assumes "handleRawMessage E rm p = (Inr m, p')"
  shows "same_ids (rm_Message rm) m"
  using assms
proof (cases rule: handleRawMessage_steps)
  case (1 ps m1 p1 m2 q m3 p2)
  have "same_ids (rm_Message rm) m1"
    using 1(1) same_ids_ReceivedFrom by (auto split: if_splits dest: same_ids_snd(9) intro: same_ids_trans)
  moreover have "same_ids m1 m2"
    using 1(2) same_ids_path(3) by simp
  moreover have "same_ids m2 m3"
    using 1(3) by (auto split: if_splits option.splits dest: same_ids_bind_connection)
  moreover have "same_ids m3 m"
    using 1(4) by (auto split: sum.splits dest: same_ids_tryRemoveTopRoute)
  ultimately show ?thesis by (blast intro: same_ids_trans)
qed

section \<open>The binding\<close>

text \<open>The store in memory is asked first, with or without a store on Redis behind it.\<close>

fun local_store :: "ProxySessions \<Rightarrow> LocalSessions option" where
  "local_store (Single (LocalStore ls)) = Some ls"
| "local_store (Composite (LocalStore ls # _)) = Some ls"
| "local_store _ = None"

text \<open>At time \<open>t\<close> session \<open>sid\<close> is bound to \<open>b\<close>, in a store whose bindings last \<open>d\<close> at least.\<close>

definition held :: "int \<Rightarrow> int \<Rightarrow> string \<Rightarrow> Backend \<Rightarrow> ProxySessions \<Rightarrow> bool" where
  "held t d sid b s \<longleftrightarrow> (\<exists>ls. local_store s = Some ls \<and> ls_timeout ls = d \<and> local_bound t ls sid = Some b)"

definition clock_within :: "'w net \<Rightarrow> int \<Rightarrow> int \<Rightarrow> bool" where
  "clock_within net a t \<longleftrightarrow> (\<forall>w. a \<le> fst (time_now net w) \<and> fst (time_now net w) \<le> t)"

lemma local_store_cases:
  assumes "local_store s = Some ls"
  obtains "s = Single (LocalStore ls)" | sts where "s = Composite (LocalStore ls # sts)"
  using assms by (cases s rule: local_store.cases) auto

lemma clock_readings_within:
  assumes "clock_readings E p = (r, p')" and "clock_within (e_net E) a t"
  shows "readings_upto t r" and "a \<le> at_add r" and "sessionBackends p' = sessionBackends p"
  using assms sess.rel_clock_readings [OF assms(1)]
  by (auto simp: clock_readings_def with_pworld_def clock_within_def readings_upto_def split: prod.splits)
    (metis fst_conv)+

lemma Local_timeouts [simp]:
  "ls_timeout (snd (Local_GetBackend now sid ls)) = ls_timeout ls"
  "ls_timeout (Local_AddBackend r sid b e ls) = ls_timeout ls"
  "ls_timeout (Local_RemoveSession sid ls) = ls_timeout ls"
  by (simp_all add: Local_GetBackend_def Local_AddBackend_def Local_cleanExpiredSession_def Local_RemoveSession_def
      Let_def split: option.split)

lemma held_GetBackend:
  assumes h: "held t d sid b (sessionBackends p)" and c: "clock_within (e_net E) a t"
    and g: "sessions_GetBackend E sid' p = (r, p')"
  shows "held t d sid b (sessionBackends p')" and "sid' = sid \<Longrightarrow> r = Inr b"
proof -
  obtain ls where ls: "local_store (sessionBackends p) = Some ls" "ls_timeout ls = d" "local_bound t ls sid = Some b"
    using h by (auto simp: held_def)
  obtain rd p1 where 1: "clock_readings E p = (rd, p1)" by fastforce
  note rd = clock_readings_within [OF 1 c]
  obtain q ls' where q: "Local_GetBackend (at_add rd) sid' ls = (q, ls')" by fastforce
  have now: "at_add rd \<le> t" using rd(1) by (simp add: readings_upto_def)
  have ls': "local_bound t ls' sid = Some b" "ls_timeout ls' = d"
    using q ls Local_GetBackend_state [OF now, of sid' ls] Local_timeouts(1) [of "at_add rd" sid' ls] by auto
  have "local_bound (at_add rd) ls sid = Some b"
    using ls(3) now by (auto simp: local_bound_def split: option.splits if_splits)
  then have found: "q = Inr b" if "sid' = sid"
    using q that Local_GetBackend_bound [of "at_add rd" sid ls] by simp
  have np: "\<not> is_panic (Inl e :: Backend result)" if "q = Inl e" for e
    using that q by (auto simp: Local_GetBackend_def is_panic_def Let_def split: option.splits if_splits)
  have s1: "sessionBackends p1 = sessionBackends p" by (rule rd)
  from ls(1) show "held t d sid b (sessionBackends p')" "sid' = sid \<Longrightarrow> r = Inr b"
    by (cases rule: local_store_cases; use g 1 s1 q ls' found np in
        \<open>auto simp: sessions_GetBackend_def held_def split: sum.splits prod.splits if_splits\<close>)+
qed

lemma held_AddBackend:
  assumes h: "held t d sid b (sessionBackends p)" and c: "clock_within (e_net E) a t"
    and g: "sessions_AddBackend E sid' b' e p = (r, p')"
    and ok: "sid' = sid \<Longrightarrow> b' = b \<and> t < a + session_timeout d e"
  shows "held t d sid b (sessionBackends p')"
proof -
  obtain ls where ls: "local_store (sessionBackends p) = Some ls" "ls_timeout ls = d" "local_bound t ls sid = Some b"
    using h by (auto simp: held_def)
  obtain rd p1 where 1: "clock_readings E p = (rd, p1)" by fastforce
  note rd = clock_readings_within [OF 1 c]
  have b: "local_bound t (Local_AddBackend rd sid' b' e ls) sid = Some b"
  proof (cases "sid' = sid")
    case True
    then have "t < local_expiry rd ls e" using ok rd(2) ls(2) by (simp add: local_expiry_def)
    then show ?thesis using local_store.bound_bind_same [OF rd(1)] ok True by simp
  next
    case False
    then show ?thesis using local_store.bound_bind_other [OF rd(1)] ls(3) by simp
  qed
  have s1: "sessionBackends p1 = sessionBackends p" by (rule rd)
  from ls(1) show ?thesis
    by (cases rule: local_store_cases; use g 1 s1 b ls(2) in
        \<open>auto simp: sessions_AddBackend_def Composite_AddBackend_def held_def split: sum.splits prod.splits\<close>)
qed

lemma held_RemoveSession:
  assumes h: "held t d sid b (sessionBackends p)" and g: "sessions_RemoveSession E sid' p = (r, p')" and n: "sid' \<noteq> sid"
  shows "held t d sid b (sessionBackends p')"
proof -
  obtain ls where ls: "local_store (sessionBackends p) = Some ls" "ls_timeout ls = d" "local_bound t ls sid = Some b"
    using h by (auto simp: held_def)
  then have b: "local_bound t (Local_RemoveSession sid' ls) sid = Some b"
    using local_store.bound_unbind_other n by metis
  from ls(1) show ?thesis
    by (cases rule: local_store_cases; use g b ls(2) in
        \<open>auto simp: sessions_RemoveSession_def Composite_RemoveSession_def held_def split: sum.splits prod.splits\<close>)
qed

lemma held_redis_message: "held t d sid b (sessionBackends (redis_message rd msg p)) = held t d sid b (sessionBackends p)"
proof -
  have u: "store_update rd msg (RedisStore v) = RedisStore (map_option (sessionBackendUpdated (unix_readings rd) msg) v)" for v
    by (cases v) simp_all
  have "local_store (case s of Single st \<Rightarrow> Single (store_update rd msg st) | Composite sts \<Rightarrow> Composite (map (store_update rd msg) sts)) =
      local_store s" for s
    by (cases s rule: local_store.cases) (simp_all add: u)
  then show ?thesis by (simp add: redis_message_def held_def)
qed

section \<open>Steps and runs\<close>

text \<open>
  A message that does not end session \<open>sid\<close>: if it is of that session, it is no response to a BYE,
  and its Expires does not overflow a duration.
\<close>

definition calm :: "string \<Rightarrow> Message \<Rightarrow> bool" where
  "calm sid m \<longleftrightarrow> (fst (GetSessionId m) = Inr sid \<longrightarrow>
     go_int (GetExpires m 0 * 10 ^ 9) \<and> \<not> (IsResponse m \<and> fst (GetMethod m) = Inr ''BYE''))"

lemma calm_same: "same_ids m m' \<Longrightarrow> calm sid m' = calm sid m"
  by (simp add: calm_def same_ids_GetSessionId same_ids_GetMethod same_ids_GetExpires same_ids_kind)

lemma ref_Send_leaf: "ref_Send E m (LeafBackend b) p = (Inr used, p') \<Longrightarrow> used = b"
  by (auto simp: ref_Send_def with_backends_def run_callbacks_def Let_def
      split: prod.splits sum.splits dest: Backend_Send_self)

lemma held_sendToBackend:
  assumes h: "held t d sid b (sessionBackends p)" and c: "clock_within (e_net E) a t" and l: "t < a + d"
    and pr: "pr \<in> {''udp'', ''tcp''}" and m: "calm sid m"
    and s: "sendToBackend E pr pref vc (m, p) = (r, (m', p'))"
  shows "held t d sid b (sessionBackends p')" and "same_ids m m'"
proof -
  have "held t d sid b (sessionBackends p') \<and> same_ids m m'"
    using s
  proof (cases rule: sendToBackend_cases)
    case none
    with h show ?thesis by simp
  next
    case (unsent x m1 y)
    with held_GetBackend(1) [OF h c unsent(2)] same_ids_snd(1) [OF unsent(1)] show ?thesis by simp
  next
    case (sent x m1 y p1 backend tr m2 p2 u p3)
    have h1: "held t d sid b (sessionBackends p1)" by (rule held_GetBackend [OF h c sent(2)])
    have s2: "same_ids m m2" "sessionBackends p2 = sessionBackends p1"
      using sent(4) same_ids_snd(1) [OF sent(1)]
      by (auto split: option.splits dest: same_ids_add_proxy_headers sess.rel_add_proxy_headers intro: same_ids_trans)
    have "held t d sid b (sessionBackends p')"
    proof (cases "backend = NilBackend")
      case True
      with sent(6) s2 h1 show ?thesis by simp
    next
      case False
      note send = sent(5) [OF False]
      have h3: "held t d sid b (sessionBackends p3)" using h1 s2 sess.rel_ref_Send [OF send] by simp
      show ?thesis
      proof (cases "is_ok u \<and> value_or [] x \<noteq> []")
        case True
        then obtain used where u: "u = Inr used" by (auto simp: is_ok_def split: sum.splits)
        have add: "sessions_AddBackend E (value_or [] x) used (GetExpires m2 0) p3 = (r, p')"
          using sent(6) False True u by simp
        have own: "used = b \<and> t < a + session_timeout d (GetExpires m2 0)" if "value_or [] x = sid"
        proof -
          have "x = Inr sid" using that True by (cases x) simp_all
          then have e: "go_int (GetExpires m 0 * 10 ^ 9)"
            using m sent(1) by (simp add: calm_def)
          have "y = Inr b" using held_GetBackend(2) [OF h c sent(2)] that by simp
          then have "backend = LeafBackend b"
            using sent(3) choose_backend_bound [OF pr] by (simp add: to_option_def)
          then have "used = b" using send u ref_Send_leaf by simp
          moreover have "d \<le> session_timeout d (GetExpires m2 0)"
            using session_timeout_ge [OF e] same_ids_GetExpires [OF s2(1)] by simp
          ultimately show ?thesis using l by simp
        qed
        show ?thesis by (rule held_AddBackend [OF h3 c add]) (rule own)
      next
        case False
        with sent(6) \<open>backend \<noteq> NilBackend\<close> h3 show ?thesis by (auto simp: is_ok_def split: sum.splits if_splits)
      qed
    qed
    with s2 sent(7) show ?thesis by simp
  qed
  then show "held t d sid b (sessionBackends p')" and "same_ids m m'" by auto
qed

lemma held_handleSession:
  assumes h: "held t d sid b (sessionBackends p)" and c: "clock_within (e_net E) a t" and m: "calm sid m"
    and s: "handleSession E (m, p) = (r, (m', p'))"
  shows "held t d sid b (sessionBackends p')"
proof -
  obtain x m1 where 1: "GetSessionId m = (x, m1)" by fastforce
  obtain y p1 where 2: "sessions_GetBackend E (value_or [] x) p = (y, p1)" by fastforce
  note h1 = held_GetBackend(1) [OF h c 2]
  obtain meth m2 where 3: "GetMethod m1 = (meth, m2)" by fastforce
  have "fst (GetMethod m) = meth" using same_ids_GetMethod [OF same_ids_snd(1) [OF 1]] 3 by simp
  moreover obtain z p2 where 4: "sessions_RemoveSession E (value_or [] x) p1 = (z, p2)" by fastforce
  ultimately have "p' = p \<or> p' = p1 \<or> p' = p2 \<and> value_or [] x \<noteq> sid"
    using s m 1 2 3 by (auto simp: handleSession_def calm_def split: if_splits sum.splits go_error.splits)
  with h h1 held_RemoveSession [OF h1 4] show ?thesis by auto
qed

lemma held_handleMessage:
  assumes h: "held t d sid b (sessionBackends p)" and c: "clock_within (e_net E) a t" and l: "t < a + d"
    and pr: "pr \<in> {''udp'', ''tcp''}" and m: "calm sid m"
    and s: "handleMessage E pr pref vc (m, p) = (r, (m', p'))"
  shows "held t d sid b (sessionBackends p') \<and> same_ids m m'"
proof (cases "IsRequest m")
  case True
  obtain hop m1 p1 where 1: "getNextRequestHop E (m, p) = (hop, (m1, p1))" by (metis prod.exhaust)
  note s1 = sess.rel_getNextRequestHop [OF 1] same_ids_getNextRequestHop [OF 1]
  show ?thesis
  proof (cases hop)
    case (Inl e)
    have h1: "held t d sid b (sessionBackends p1)" and c1: "calm sid m1"
      using h s1 m calm_same by auto
    show ?thesis
    proof (cases "isMyMessage (e_regexps E) (myName p1) m1")
      case True
      then have "sendToBackend E pr pref vc (m1, p1) = (r, (m', p'))"
        using s \<open>IsRequest m\<close> 1 Inl by (simp add: handleMessage_def)
      from held_sendToBackend [OF h1 c l pr c1 this] s1(2) show ?thesis by (blast intro: same_ids_trans)
    next
      case False
      with s \<open>IsRequest m\<close> 1 Inl h1 s1 show ?thesis by (simp add: handleMessage_def)
    qed
  next
    case (Inr x)
    obtain host q transport where x: "x = (host, q, transport)" by (metis prod.exhaust)
    obtain m2 p2 where 2: "(case SelfLearnRoute_GetRoute (selfLearnRoute p1) host pr of
                  Some t \<Rightarrow> add_proxy_headers E t (m1, p1) | None \<Rightarrow> (m1, p1)) = (m2, p2)" by fastforce
    then have "sessionBackends p2 = sessionBackends p1" "same_ids m1 m2"
      by (auto split: option.splits dest: sess.rel_add_proxy_headers same_ids_add_proxy_headers)
    moreover have "p' = sendRequest E host q transport m2 p2" "m' = m2"
      using s True 1 Inr x 2 by (auto simp: handleMessage_def)
    ultimately show ?thesis
      using h s1 sess.rel_sendRequest [where p = p2] by (auto intro: same_ids_trans)
  qed
next
  case False
  then show ?thesis
    using s h by (auto simp: handleMessage_def split: prod.splits sum.splits
        dest!: same_ids_snd(4,5) dest: sess.rel_sendResponse same_ids_sendResponse intro: same_ids_trans)
qed

lemma held_process_raw:
  assumes h: "held t d sid b (sessionBackends p)" and c: "clock_within (e_net E) a t" and l: "t < a + d"
    and m: "calm sid (rm_Message rm)" and s: "process_raw E rm p = (r, p')"
  shows "held t d sid b (sessionBackends p')"
proof -
  obtain q p1 where 1: "handleRawMessage E rm p = (q, p1)" by fastforce
  have h1: "held t d sid b (sessionBackends p1)" using h sess.rel_handleRawMessage [OF 1] by simp
  show ?thesis
  proof (cases q)
    case (Inl e)
    with s 1 h1 show ?thesis by (simp add: process_raw_def)
  next
    case (Inr m1)
    have m1: "calm sid m1" using m calm_same same_ids_handleRawMessage 1 Inr by blast
    have pr: "ServerTransport_GetProtocol (rm_From rm) \<in> {''udp'', ''tcp''}" using GetProtocol_cases by blast
    obtain x m2 p2 where 2: "handleMessage E (ServerTransport_GetProtocol (rm_From rm)) (rm_Backend rm) (rm_Via rm) (m1, p1) = (x, (m2, p2))"
      by (metis prod.exhaust)
    note h2 = held_handleMessage [OF h1 c l pr m1 2]
    have m2: "calm sid m2" using h2 m1 calm_same by blast
    obtain y m3 p3 where 3: "handleSession E (m2, p2) = (y, (m3, p3))" by (metis prod.exhaust)
    have "p' = p2 \<or> p' = p3" using s 1 Inr 2 3 by (auto simp: process_raw_def split: sum.splits)
    with h2 held_handleSession [OF _ c m2 3] show ?thesis by auto
  qed
qed

lemma held_proxy_step:
  assumes "proxy_step E p inp p'" and h: "held t d sid b (sessionBackends p)"
    and c: "clock_within (e_net E) a t" and l: "t < a + d" and "\<And>rm. inp = Received rm \<Longrightarrow> calm sid (rm_Message rm)"
  shows "held t d sid b (sessionBackends p')"
  using assms(1)
proof cases
  case (received rm)
  with held_process_raw [OF h c l] assms(5) show ?thesis by blast
next
  case (accepted conn)
  with h sess.rel_process_conn show ?thesis by metis
next
  case (resolved hc new removed)
  with h sess.rel_proxy_callback show ?thesis by metis
next
  case (ended conn)
  with h sess.rel_connection_ended show ?thesis by metis
next
  case (published rd msg)
  with h held_redis_message show ?thesis by metis
qed

lemma held_proxy_run:
  assumes "proxy_run E p inps p'" and "held t d sid b (sessionBackends p)"
    and c: "clock_within (e_net E) a t" and l: "t < a + d" and "\<And>rm. Received rm \<in> set inps \<Longrightarrow> calm sid (rm_Message rm)"
  shows "held t d sid b (sessionBackends p')"
  using assms(1,2,5)
proof (induction rule: proxy_run.induct)
  case (more p inp q inps r)
  have "held t d sid b (sessionBackends q)"
    using held_proxy_step [OF more.hyps(1) more.prems(1) c l] more.prems(2) by simp
  then show ?case using more.IH more.prems(2) by simp
qed

text \<open>A request that binds its session starts this.\<close>

lemma held_after_AddBackend:
  assumes g: "sessions_AddBackend E sid b e p = (r, p')" and c: "clock_within (e_net E) a t"
    and l: "local_store (sessionBackends p) = Some ls" "t < a + ls_timeout ls" "go_int (e * 10 ^ 9)"
  shows "held t (ls_timeout ls) sid b (sessionBackends p')"
proof -
  obtain rd p1 where 1: "clock_readings E p = (rd, p1)" by fastforce
  note rd = clock_readings_within [OF 1 c]
  have "t < local_expiry rd ls e"
    using session_timeout_ge [OF l(3), of "ls_timeout ls"] rd(2) l(2) by (simp add: local_expiry_def)
  then have b: "local_bound t (Local_AddBackend rd sid b e ls) sid = Some b"
    using local_store.bound_bind_same [OF rd(1)] by simp
  have s1: "sessionBackends p1 = sessionBackends p" by (rule rd)
  from l(1) show ?thesis
    by (cases rule: local_store_cases; use g 1 s1 b in
        \<open>auto simp: sessions_AddBackend_def Composite_AddBackend_def held_def split: sum.splits prod.splits\<close>)
qed

end
