(* ===== verification/ProxyProgress.thy ===== *)
theory ProxyProgress
  imports SessionAffinity
begin

text \<open>
  The service loop goes on: a proxy whose listeners all have backends and whose store on Redis,
  if there is one, was created handles every input without a panic, and is such a proxy again.
\<close>

section \<open>A proxy that is ready\<close>

definition ready :: "'w Proxy \<Rightarrow> bool" where
  "ready p \<longleftrightarrow> (\<forall>it \<in> set (pitems p). pi_backend it \<noteq> None) \<and> True \<notin> set (nil_stores (sessionBackends p))"

text \<open>
  The sockets return errors and do not panic, and every connection has a local address of the
  form host:port.
\<close>

definition sane :: "'w net \<Rightarrow> bool" where
  "sane net \<longleftrightarrow> (\<forall>c. is_ok (SplitHostPort (local_addr net c))) \<and> (\<forall>c b w. \<not> is_panic (fst (conn_write net c b w)))"

lemma ready_settings:
  assumes "same_settings p p'" and "ready p"
  shows "ready p'"
proof -
  have "(\<forall>it \<in> set its. pi_backend it \<noteq> None) \<longleftrightarrow> True \<notin> set (map (\<lambda>it. pi_backend it = None) its)" for its
    by (induction its) (simp_all del: not_None_eq)
  from this [of "pitems p"] this [of "pitems p'"] show ?thesis
    using assms unfolding ready_def same_settings_def by metis
qed

lemma items_settings: "same_settings p p' \<Longrightarrow> length (pitems p') = length (pitems p)"
  unfolding same_settings_def by (metis length_map)

text \<open>The listener a message names exists.\<close>

fun ref_ok :: "nat \<Rightarrow> BackendRef \<Rightarrow> bool" where
  "ref_ok n (ItemBackend i) = (i < n)"
| "ref_ok n _ = True"

lemma ready_item:
  assumes "ready p" and "i < length (pitems p)"
  shows "\<exists>rb. item_backend (pitems p) i = Inr rb"
proof -
  have "pi_backend (pitems p ! i) \<noteq> None" using assms by (auto simp: ready_def)
  then show ?thesis using assms(2) by (auto simp: item_backend_def)
qed

section \<open>Sessions\<close>

lemma is_panic_simps [simp]:
  "is_panic (Inl (Panic e))" "\<not> is_panic (Inr x)" "\<not> is_panic (Inl (Errorf e))"
  by (simp_all add: is_panic_def)

lemma find_addr_no_panic: "\<not> is_panic (proxy_findBackendByAddr p a)"
proof -
  have "\<not> is_panic r" if "find is_ok rs = Some r" for rs :: "Backend result list" and r
  proof -
    have "is_ok r" using that by (auto simp: find_Some_iff)
    then show ?thesis by (cases r) (simp_all add: is_ok_def)
  qed
  then show ?thesis
    by (auto simp: proxy_findBackendByAddr_def findBackendByAddr_any_def split: option.split)
qed

lemma Store_GetBackend_no_panic:
  assumes "\<And>a. \<not> is_panic (by_addr a)" and "st \<noteq> RedisStore None"
  shows "\<not> is_panic (fst (Store_GetBackend by_addr t sid st))"
  using assms(2)
  by (cases "(by_addr, t, sid, st)" rule: Store_GetBackend.cases)
    (auto simp: Local_GetBackend_def Redis_GetBackend_def Let_def assms(1) split: option.split sum.split prod.split)

lemma Composite_GetBackend_no_panic:
  assumes "\<And>a. \<not> is_panic (by_addr a)"
  shows "RedisStore None \<notin> set sts \<Longrightarrow> \<not> is_panic (fst (Composite_GetBackend by_addr t sid sts))"
proof (induction sts)
  case (Cons st sts)
  moreover from this have "st \<noteq> RedisStore None" by auto
  ultimately have "\<not> is_panic (fst (Store_GetBackend by_addr t sid st))"
    using Store_GetBackend_no_panic [of by_addr st, OF assms] by simp
  with Cons show ?case by (auto split: prod.splits sum.splits)
qed simp

lemma sessions_GetBackend_no_panic:
  assumes "sessions_GetBackend E sid p = (r, p')" and "ready p"
  shows "\<not> is_panic r"
proof -
  obtain t p1 where 1: "clock_readings E p = (t, p1)" by fastforce
  have "True \<notin> set (nil_stores (sessionBackends p1))"
    using assms(2) sess.rel_clock_readings [OF 1] by (simp add: ready_def)
  then show ?thesis
    using assms(1) 1 Store_GetBackend_no_panic [of "proxy_findBackendByAddr p1" _ t sid, OF find_addr_no_panic]
      Composite_GetBackend_no_panic [of "proxy_findBackendByAddr p1" _ t sid, OF find_addr_no_panic]
    by (cases "sessionBackends p1") (auto simp: sessions_GetBackend_def split: prod.splits, (metis fst_conv image_eqI)+)
qed

lemma Store_AddBackend_ok: "st \<noteq> RedisStore None \<Longrightarrow> fst (Store_AddBackend pub t sid b e (st, w)) = Inr ()"
  by (cases "(pub, t, sid, b, e, (st, w))" rule: Store_AddBackend.cases) (auto split: prod.split)

lemma Store_RemoveSession_ok: "st \<noteq> RedisStore None \<Longrightarrow> fst (Store_RemoveSession pub sid (st, w)) = Inr ()"
  by (cases "(pub, sid, (st, w))" rule: Store_RemoveSession.cases) (auto split: prod.split)

lemma for_each_store_ok:
  assumes "\<And>st w. st \<noteq> RedisStore None \<Longrightarrow> fst (f (st, w)) = Inr ()"
  shows "RedisStore None \<notin> set sts \<Longrightarrow> fst (for_each_store f (sts, w)) = Inr ()"
proof (induction sts arbitrary: w)
  case (Cons st sts)
  obtain r st' w' where 1: "f (st, w) = (r, (st', w'))" by (metis prod.exhaust)
  moreover have "st \<noteq> RedisStore None" using Cons.prems by auto
  ultimately have "r = Inr ()" using assms [of st w] by simp
  with 1 Cons show ?case by (auto split: prod.split) (metis fst_conv)
qed simp

lemma sessions_AddBackend_ok:
  assumes "sessions_AddBackend E sid b e p = (r, p')" and "ready p"
  shows "r = Inr ()"
proof -
  obtain t p1 where 1: "clock_readings E p = (t, p1)" by fastforce
  have n: "True \<notin> set (nil_stores (sessionBackends p1))"
    using assms(2) sess.rel_clock_readings [OF 1] by (simp add: ready_def)
  show ?thesis
  proof (cases "sessionBackends p1")
    case (Single st)
    with n Store_AddBackend_ok [of st "e_publish E" t sid b e "pworld p1"] show ?thesis
      using assms(1) 1 by (auto simp: sessions_AddBackend_def split: prod.splits)
  next
    case (Composite sts)
    then have "fst (for_each_store (Store_AddBackend (e_publish E) t sid b e) (sts, pworld p1)) = Inr ()"
      using n by (intro for_each_store_ok Store_AddBackend_ok) auto
    with Composite show ?thesis
      using assms(1) 1 by (auto simp: sessions_AddBackend_def Composite_AddBackend_def split: prod.splits)
  qed
qed

lemma sessions_RemoveSession_ok:
  assumes "sessions_RemoveSession E sid p = (r, p')" and "ready p"
  shows "r = Inr ()"
proof (cases "sessionBackends p")
  case (Single st)
  with assms(2) Store_RemoveSession_ok [of st "e_publish E" sid "pworld p"] show ?thesis
    using assms(1) by (auto simp: sessions_RemoveSession_def ready_def split: prod.splits)
next
  case (Composite sts)
  then have "fst (for_each_store (Store_RemoveSession (e_publish E) sid) (sts, pworld p)) = Inr ()"
    using assms(2) by (intro for_each_store_ok Store_RemoveSession_ok) (auto simp: ready_def)
  with Composite show ?thesis
    using assms(1) by (auto simp: sessions_RemoveSession_def Composite_RemoveSession_def split: prod.splits)
qed

section \<open>Sending to a backend\<close>

lemma choose_backend_ready:
  assumes pr: "pr \<in> {''udp'', ''tcp''}" and p: "ready p" and ref: "ref_ok (length (pitems p)) pref"
  shows "\<exists>t. choose_backend (pitems p) pr (map_option (backend_transport (pitems p) pr) bound) pref vc =
    Inr (case bound of Some b \<Rightarrow> LeafBackend b | None \<Rightarrow> pref, t)"
proof (cases bound)
  case (Some b)
  then show ?thesis using choose_backend_bound [OF pr] by simp
next
  case None
  have "\<exists>as. ref_addresses (pitems p) pref = Inr as" if "pref \<noteq> NilBackend"
  proof (cases pref)
    case (ItemBackend i)
    with ref obtain rb where "item_backend (pitems p) i = Inr rb" using ready_item [OF p] by auto
    with ItemBackend show ?thesis by (simp add: ref_addresses_def)
  qed (use that in \<open>simp_all add: ref_addresses_def\<close>)
  then show ?thesis
    unfolding choose_backend_def findBackendProxyItem_protocol [OF pr]
    by (cases pref) (auto simp: None Let_def split: option.split)
qed

lemma run_established_ok: "sane net \<Longrightarrow> \<exists>its'. run_established net base cs its = (Inr (), its')"
proof (induction cs arbitrary: its)
  case (Cons c cs)
  then obtain i conn where c: "c = (i, conn)" by fastforce
  obtain a q where "SplitHostPort (local_addr net conn) = Inr (a, q)"
    using Cons.prems by (auto simp: sane_def is_ok_def split: sum.splits) (metis sum.exhaust prod.exhaust)
  then obtain it where "connectionEstablished net conn (its ! (i - base)) = (Inr (), it)"
    by (auto simp: connectionEstablished_def NewTCPServerTransportWithConn_def Let_def)
  with Cons c show ?case by auto
qed simp

lemma Backend_Send_no_panic:
  assumes "sane net"
  shows "\<not> is_panic (fst (Backend_Send net m b s))"
proof (cases b)
  case (UDPBackend a c)
  obtain r w where w: "conn_write net c (Message_Write m) (bworld s) = (r, w)" by fastforce
  then have "\<not> is_panic r" using assms unfolding sane_def by (metis fst_conv)
  with UDPBackend w show ?thesis by (cases r) (auto simp: is_panic_def)
qed (auto split: prod.split bool.split)

lemma RoundRobin_try_no_panic: "\<not> is_panic (fst (RoundRobin_try net m rb n i s))"
  by (induction n arbitrary: i s) (auto split: sum.split prod.split)

lemma RoundRobin_Send_no_panic: "\<not> is_panic (fst (RoundRobin_Send net m x))"
proof -
  obtain rb s where x: "x = (rb, s)" by fastforce
  show ?thesis
    using RoundRobin_try_no_panic [of net m]
    by (auto simp: x RoundRobin_Send_def Let_def split_beta split: sum.split)
qed

lemma ref_Send_no_panic:
  assumes s: "ref_Send E m ref p = (r, p')" and e: "sane (e_net E)" and p: "ready p"
    and ref: "ref_ok (length (pitems p)) ref" "ref \<noteq> NilBackend"
  shows "\<not> is_panic r"
proof -
  have cb: "fst (run_callbacks E q) = Inr ()" for q
    using run_established_ok [OF e, of "first_item q" "established (pbackends q)" "pitems q"] by (auto simp: run_callbacks_def)
  show ?thesis
  proof (cases ref)
    case (LeafBackend b)
    obtain x p1 where 1: "with_backends (Backend_Send (e_net E) m b) p = (x, p1)" by fastforce
    then have "\<not> is_panic x"
      using Backend_Send_no_panic [OF e, of m b] by (auto simp: with_backends_def split: prod.splits) (metis fst_conv)
    moreover have "r = x"
      using s 1 LeafBackend cb [of p1] by (auto simp: ref_Send_def split: prod.splits sum.splits)
    ultimately show ?thesis by simp
  next
    case (ItemBackend i)
    then obtain rb where rb: "item_backend (pitems p) i = Inr rb" using ref ready_item [OF p] by auto
    obtain x rb' s' where 1: "RoundRobin_Send (e_net E) m (rb, (pbackends p)\<lparr>bworld := pworld p\<rparr>) = (x, (rb', s'))"
      by (metis prod.exhaust)
    then have "\<not> is_panic x" using RoundRobin_Send_no_panic [of "e_net E" m] by (metis fst_conv)
    moreover have "r = x"
      using s 1 ItemBackend rb cb by (auto simp: ref_Send_def with_backends_def Let_def split: prod.splits sum.splits)
        (metis fst_conv sum.distinct(1))+
    ultimately show ?thesis by simp
  qed (use ref in simp)
qed

lemma sendToBackend_ok:
  assumes s: "sendToBackend E pr pref vc (m, p) = (r, (m', p'))" and e: "sane (e_net E)" and p: "ready p"
    and pr: "pr \<in> {''udp'', ''tcp''}" and ref: "ref_ok (length (pitems p)) pref"
  shows "r = Inr ()"
  using s
proof (cases rule: sendToBackend_cases)
  case (unsent sid m1 b)
  note s1 = settings.rel_sessions_GetBackend [OF unsent(2)]
  have "ref_ok (length (pitems p')) pref" using ref items_settings [OF s1] by simp
  from choose_backend_ready [OF pr ready_settings [OF s1 p] this, of "to_option b" vc]
  show ?thesis using unsent(4) sessions_GetBackend_no_panic [OF unsent(2) p] by auto
next
  case (sent sid m1 b p1 backend t m2 p2 u p3)
  note s1 = settings.rel_sessions_GetBackend [OF sent(2)]
  have p1: "ready p1" "ref_ok (length (pitems p1)) pref" using ref items_settings [OF s1] ready_settings [OF s1 p] by simp_all
  have s2: "same_settings p1 p2"
    using sent(4) settings.R_refl by (auto split: option.splits dest: settings.rel_add_proxy_headers)
  have p2: "ready p2" "ref_ok (length (pitems p2)) pref" using p1 items_settings [OF s2] ready_settings [OF s2] by simp_all
  have "backend = (case to_option b of Some b \<Rightarrow> LeafBackend b | None \<Rightarrow> pref)"
    using choose_backend_ready [OF pr p1, of "to_option b" vc] sent(3) by auto
  then have ok: "ref_ok (length (pitems p2)) backend" using p2 by (auto split: option.split)
  show ?thesis
  proof (cases "backend = NilBackend")
    case False
    note send = sent(5) [OF False]
    have "\<not> is_panic u" by (rule ref_Send_no_panic [OF send e p2(1) ok False])
    moreover have "ready p3" using settings.rel_ref_Send [OF send] p2(1) by (rule ready_settings)
    ultimately show ?thesis
      using sent(6) False sessions_AddBackend_ok by (auto simp: is_panic_def split: sum.splits if_splits go_error.splits)
  qed (use sent(6) in simp)
qed

section \<open>The host of the top Via entry\<close>

definition hop_host :: "Message \<Rightarrow> string option" where
  "hop_host m = (case fst (getNextReponseHop m) of Inr (host, _) \<Rightarrow> Some host | Inl _ \<Rightarrow> None)"

definition via_hop :: "Via result \<Rightarrow> (string \<times> int \<times> string) result" where
  "via_hop via = rbind via (\<lambda>v. rbind (Via_GetParam v 0) (\<lambda>viaParam. Inr
     (case ViaParam_GetReceived viaParam of
        Inr host \<Rightarrow> (host, (case ViaParam_GetRPort viaParam of Inr q \<Rightarrow> q | Inl _ \<Rightarrow> ViaParam_GetPort viaParam),
                     via_Transport viaParam)
      | Inl _ \<Rightarrow> (via_Host viaParam, ViaParam_GetPort viaParam, via_Transport viaParam))))"

lemma getNextReponseHop_via: "fst (getNextReponseHop m) = via_hop (fst (GetVia m))"
  by (simp add: getNextReponseHop_def via_hop_def fst_sbind_from fst_sret)

lemma hop_host_via: "fst (GetVia m') = fst (GetVia m) \<Longrightarrow> hop_host m' = hop_host m"
  by (simp add: hop_host_def getNextReponseHop_via)

lemma GetVia_values: "GetHeaderValue m' ''Via'' = GetHeaderValue m ''Via'' \<Longrightarrow> fst (GetVia m') = fst (GetVia m)"
  by (simp add: getter_value)

definition via_of :: "HeaderValue \<Rightarrow> Via result" where
  "via_of v = (case v of HVia x \<Rightarrow> Inr x | HString s \<Rightarrow> ParseVia s
     | _ \<Rightarrow> Inl (Errorf ''the header value type is not string or Via''))"

lemma GetVia_of: "fst (GetVia m) = rbind (GetHeaderValue m ''Via'') via_of"
  by (auto simp: getter_value rbind_def via_of_def sel_Via_def split: sum.split HeaderValue.split)

definition via_view :: "Header \<Rightarrow> string \<times> Via result" where
  "via_view h = (hdr_name h,
     if isSameHeader (hdr_name h) ''Via'' then via_of (hdr_value h) else Inr NewVia)"

lemma for_each_via_values:
  "map via_view (snd (for_each_via hs)) =
   map via_view hs"
  by (induction hs) (auto simp: via_view_def Let_def via_of_def split: prod.splits HeaderValue.splits sum.splits)

lemma GetVia_find:
  "fst (GetVia m) = (case find (\<lambda>(n, _). isSameHeader n ''Via'')
      (map via_view (headers m)) of
    None \<Rightarrow> Inl (no_such_header ''Via'') | Some (_, v) \<Rightarrow> v)"
proof -
  have "rbind (case filter (\<lambda>h. isSameHeader (hdr_name h) ''Via'') hs of
        [] \<Rightarrow> Inl (no_such_header ''Via'') | h # _ \<Rightarrow> Inr (hdr_value h)) via_of =
    (case find (\<lambda>(n, _). isSameHeader n ''Via'')
      (map via_view hs) of
    None \<Rightarrow> Inl (no_such_header ''Via'') | Some (_, v) \<Rightarrow> v)" for hs
    by (induction hs) (auto simp: via_view_def)
  then show ?thesis unfolding GetVia_of GetHeaderValue_filter by simp
qed

lemma GetVia_ForEachViaParam:
  assumes "ForEachViaParam m = (vs, m')"
  shows "fst (GetVia m') = fst (GetVia m)"
proof -
  have "headers m' = snd (for_each_via (headers m))"
    using assms by (auto simp: ForEachViaParam_def ForEachVia_def split: prod.splits)
  then show ?thesis by (simp add: GetVia_find for_each_via_values del: map_map)
qed

lemma hop_host_SetReceived:
  assumes "hop_host (snd (SetReceived a n m)) = Some host"
  shows "host = a"
proof -
  obtain r m1 where g: "GetVia m = (r, m1)" by fastforce
  show ?thesis
  proof (cases r)
    case (Inl e)
    then have "snd (SetReceived a n m) = m1" using g by (simp add: SetReceived_def sbind_def)
    moreover have "fst (GetVia m1) = Inl e"
      using g Inl via_h.fst_again [of m] by (simp add: GetVia_def)
    ultimately show ?thesis using assms by (simp add: hop_host_def getNextReponseHop_via via_hop_def)
  next
    case (Inr via)
    have again: "GetVia m1 = (Inr via, m1)" using g Inr getter_again(4) by blast
    show ?thesis
    proof (cases "Via_GetParam via 0")
      case (Inl e)
      then have "snd (SetReceived a n m) = m1" using g Inr by (simp add: SetReceived_def sbind_def sret_def)
      with assms again Inl show ?thesis by (simp add: hop_host_def getNextReponseHop_via via_hop_def)
    next
      case p: (Inr p)
      define p2 where "p2 = (let p1 = ViaParam_SetReceived p a in
        if ViaParam_HasParam p1 ''rport'' then ViaParam_SetParam p1 ''rport'' (Itoa n) else p1)"
      let ?m = "set_value ''Via'' (HVia (via\<lparr>via_list := (via_list via)[0 := p2]\<rparr>)) m1"
      have "snd (SetReceived a n m) = ?m"
        using g Inr p by (simp add: SetReceived_def sbind_def sret_def p2_def Let_def)
      moreover obtain v where "GetHeaderValue m1 ''Via'' = Inr v"
        using getter_stored(4) [OF again] by blast
      then have "fst (GetVia ?m) = Inr (via\<lparr>via_list := (via_list via)[0 := p2]\<rparr>)"
        using GetHeaderValue_set_same by (simp add: GetVia_of via_of_def)
      moreover have "Via_GetParam (via\<lparr>via_list := (via_list via)[0 := p2]\<rparr>) 0 = Inr p2"
        using p by (auto simp: Via_GetParam_def split: if_splits)
      moreover have "ViaParam_GetReceived p2 = Inr a"
        using via_params.get_put_same via_params.get_put_other
        by (simp add: p2_def Let_def ViaParam_GetReceived_def ViaParam_SetReceived_def)
      ultimately show ?thesis using assms by (simp add: hop_host_def getNextReponseHop_via via_hop_def)
    qed
  qed
qed

section \<open>Messages\<close>

lemma strip_brackets_Inl: "strip_brackets host = Inl e \<Longrightarrow> host = ''[''"
  by (cases host) (auto simp: strip_brackets_def HasPrefix_def split: if_splits)

lemma bind_connection_ok:
  assumes "bind_connection E conn (m, p) = (r, (m', p'))" and "hop_host m \<noteq> Some ''[''"
  shows "r = Inr ()"
  using assms
  by (auto simp: bind_connection_def hop_host_def split: prod.splits sum.splits dest: strip_brackets_Inl)

text \<open>
  What a message may not do: name a listener that does not exist, and, over TCP, have a lone bracket
  as the host of its top Via entry, or as its peer where that becomes the received parameter.
\<close>

definition admissible :: "nat \<Rightarrow> RawMessage \<Rightarrow> bool" where
  "admissible n rm \<longleftrightarrow> ref_ok n (rm_Backend rm) \<and>
     (rm_TcpConn rm = None \<or>
      (if rm_ReceivedSupport rm then rm_PeerAddr rm \<noteq> ''['' else hop_host (rm_Message rm) \<noteq> Some ''[''))"

lemma handleRawMessage_ok:
  assumes "handleRawMessage E rm p = (r, p')" and "admissible n rm"
  shows "is_ok r"
  using assms(1)
proof (cases rule: handleRawMessage_steps)
  case (1 ps m1 p1 m2 q m3 p2)
  have "q = Inr ()"
  proof (cases "rm_TcpConn rm \<noteq> None \<and> IsRequest m2")
    case True
    then obtain conn where b: "bind_connection E conn (m2, p1) = (q, (m3, p2))" using 1(3) by auto
    have rf: "fst (GetVia ((rm_Message rm)\<lparr>ReceivedFrom := f\<rparr>)) = fst (GetVia (rm_Message rm))" for f
      by (rule GetVia_values) (simp add: GetHeaderValue_filter)
    have "fst (GetVia m1) = fst (GetVia (rm_Message rm))"
    proof (cases "IsRequest (rm_Message rm)")
      case True
      then have "ForEachViaParam ((rm_Message rm)\<lparr>ReceivedFrom := Some (rm_From rm)\<rparr>) = (ps, m1)" using 1(1) by simp
      from GetVia_ForEachViaParam [OF this] rf show ?thesis by simp
    next
      case False
      with 1(1) rf show ?thesis by simp
    qed
    then have "hop_host m1 = hop_host (rm_Message rm)" by (rule hop_host_via)
    moreover have "IsRequest m1 = IsRequest m2"
      using 1(2) same_ids_kind(1) [OF same_ids_path(3)] by auto
    ultimately have "hop_host m2 \<noteq> Some ''[''"
      using True assms(2) 1(2) hop_host_SetReceived by (fastforce simp: admissible_def split: if_splits)
    from bind_connection_ok [OF b this] show ?thesis .
  qed (use 1(3) in \<open>auto split: option.splits if_splits\<close>)
  with 1(4) show ?thesis by (auto simp: is_ok_def)
qed

lemma handleSession_ok:
  assumes s: "handleSession E (m, p) = (r, (m', p'))" and p: "ready p"
  shows "r = Inr ()"
proof -
  obtain x m1 where 1: "GetSessionId m = (x, m1)" by fastforce
  obtain y p1 where 2: "sessions_GetBackend E (value_or [] x) p = (y, p1)" by fastforce
  obtain meth m2 where 3: "GetMethod m1 = (meth, m2)" by fastforce
  obtain z p2 where 4: "sessions_RemoveSession E (value_or [] x) p1 = (z, p2)" by fastforce
  have "z = Inr ()"
    using 4 ready_settings [OF settings.rel_sessions_GetBackend [OF 2] p] by (rule sessions_RemoveSession_ok)
  moreover have "\<not> is_panic y" using 2 p by (rule sessions_GetBackend_no_panic)
  ultimately show ?thesis
    using s 1 2 3 4 by (auto simp: handleSession_def split: if_splits sum.splits go_error.splits)
qed

lemma handleMessage_ok:
  assumes s: "handleMessage E pr pref vc (m, p) = (r, (m', p'))" and e: "sane (e_net E)" and p: "ready p"
    and pr: "pr \<in> {''udp'', ''tcp''}" and ref: "ref_ok (length (pitems p)) pref"
  shows "r = Inr ()"
proof (cases "IsRequest m")
  case True
  obtain hop m1 p1 where 1: "getNextRequestHop E (m, p) = (hop, (m1, p1))" by (metis prod.exhaust)
  note s1 = settings.rel_getNextRequestHop [OF 1]
  have p1: "ready p1" "ref_ok (length (pitems p1)) pref" using ref items_settings [OF s1] ready_settings [OF s1 p] by simp_all
  obtain b m2 p2 where 2: "sendToBackend E pr pref vc (m1, p1) = (b, (m2, p2))" by (metis prod.exhaust)
  show ?thesis
    using s True 1 2 sendToBackend_ok [OF 2 e p1(1) pr p1(2)]
    by (auto simp: handleMessage_def Let_def split: sum.splits prod.splits if_splits)
qed (use s in \<open>auto simp: handleMessage_def split: prod.splits sum.splits\<close>)

lemma process_raw_ok:
  assumes e: "sane (e_net E)" and p: "ready p" and a: "admissible (length (pitems p)) rm"
  shows "\<exists>p'. process_raw E rm p = (Inr (), p')"
proof -
  obtain q p1 where 1: "handleRawMessage E rm p = (q, p1)" by fastforce
  note s1 = settings.rel_handleRawMessage [OF 1]
  obtain m where m: "q = Inr m" using handleRawMessage_ok [OF 1 a] by (auto simp: is_ok_def split: sum.splits)
  let ?pr = "ServerTransport_GetProtocol (rm_From rm)"
  obtain x m2 p2 where 2: "handleMessage E ?pr (rm_Backend rm) (rm_Via rm) (m, p1) = (x, (m2, p2))"
    by (metis prod.exhaust)
  have ref: "ref_ok (length (pitems p1)) (rm_Backend rm)" using a items_settings [OF s1] by (simp add: admissible_def)
  have p1: "ready p1" using s1 p by (rule ready_settings)
  have pr: "?pr \<in> {''udp'', ''tcp''}" using GetProtocol_cases by blast
  have x: "x = Inr ()" by (rule handleMessage_ok [OF 2 e p1 pr ref])
  obtain y m3 p3 where 3: "handleSession E (m2, p2) = (y, (m3, p3))" by (metis prod.exhaust)
  have "y = Inr ()"
    using 3 ready_settings [OF settings.rel_handleMessage [OF 2] p1] by (rule handleSession_ok)
  with 1 m 2 x 3 show ?thesis by (simp add: process_raw_def)
qed

section \<open>Steps and runs\<close>

lemma proxy_step_exists:
  assumes "sane (e_net E)" and "ready p" and "\<And>rm. inp = Received rm \<Longrightarrow> admissible (length (pitems p)) rm"
  shows "\<exists>p'. proxy_step E p inp p'"
proof (cases inp)
  case (Received rm)
  with process_raw_ok [OF assms(1,2)] assms(3) show ?thesis by (blast intro: proxy_step.received)
qed (blast intro: proxy_step.intros)+

lemma proxy_run_exists:
  assumes "sane (e_net E)"
  shows "ready p \<Longrightarrow> (\<And>rm. Received rm \<in> set inps \<Longrightarrow> admissible (length (pitems p)) rm) \<Longrightarrow>
    \<exists>p'. proxy_run E p inps p' \<and> ready p'"
proof (induction inps arbitrary: p)
  case (Cons inp inps)
  obtain q where q: "proxy_step E p inp q"
    using proxy_step_exists [OF assms Cons.prems(1), of inp] Cons.prems(2) by auto
  note s = settings.rel_proxy_step [OF q]
  have "\<exists>p'. proxy_run E q inps p' \<and> ready p'"
    using Cons.prems items_settings [OF s] by (intro Cons.IH ready_settings [OF s]) simp_all
  with q show ?case by (auto simp: proxy_run_simps)
qed (simp add: proxy_run_simps)

end
