(* ===== verification/ProxySystem.thy ===== *)
theory ProxySystem
  imports Startup ProxyProgress
begin

text \<open>
  The whole process: the proxies of a configuration running together. They share the factory of
  backends, whose TCP backends call the listener they were made for, and the resolver that
  follows hosts, whose goroutines call the listeners of all proxies. A step is an input of one
  proxy, the lookup of one host, or a goroutine of the resolver running up to its next call.
\<close>

section \<open>The process\<close>

record 'w System =
  sys_proxies :: "'w Proxy list"
  sys_backends :: "'w BackendState"
  sys_resolver :: "HostCallback DynamicHostResolver"
  sys_goroutines :: "HostCallback notice list list"

text \<open>A proxy sees the shared backends and the world, and leaves them behind.\<close>

definition enter :: "'w System \<Rightarrow> nat \<Rightarrow> 'w Proxy" where
  "enter s k = (sys_proxies s ! k)\<lparr>pbackends := sys_backends s, pworld := bworld (sys_backends s)\<rparr>"

definition leave :: "nat \<Rightarrow> 'w Proxy \<Rightarrow> 'w System \<Rightarrow> 'w System" where
  "leave k p s = s\<lparr>sys_proxies := (sys_proxies s)[k := p], sys_backends := (pbackends p)\<lparr>bworld := pworld p\<rparr>\<rparr>"

text \<open>
  A TCP backend that is connected while one proxy sends may have been made by another: its
  callback adds the connection to a listener of that one.
\<close>

fun run_others :: "'w env \<Rightarrow> nat list \<Rightarrow> ('w System, unit) call" where
  "run_others E [] s = (Inr (), s)"
| "run_others E (k # ks) s =
     (case run_callbacks E (enter s k) of
        (Inl e, p) \<Rightarrow> (Inl e, leave k p s)
      | (Inr _, p) \<Rightarrow> run_others E ks (leave k p s))"

definition call_listener :: "'w env \<Rightarrow> HostCallback \<Rightarrow> string list \<Rightarrow> string list \<Rightarrow> 'w System \<Rightarrow> 'w System" where
  "call_listener E hc new removed s =
     (case find (\<lambda>k. own_item (sys_proxies s ! k) (hc_item hc)) [0..<length (sys_proxies s)] of
        None \<Rightarrow> s
      | Some k \<Rightarrow> leave k (proxy_callback E hc new removed (enter s k)) s)"

text \<open>
  \<open>go notifyAddressChanged\<close>: the goroutine reads the callbacks of the host when it starts, and
  then calls them one after the other.
\<close>

definition wake :: "'w env \<Rightarrow> nat \<Rightarrow> 'w System \<Rightarrow> 'w System" where
  "wake E j s =
     (case (if j < length (sys_goroutines s) then sys_goroutines s ! j else []) of
        [] \<Rightarrow> s
      | n # rest \<Rightarrow>
          (case n of
             Notify _ _ _ \<Rightarrow>
               s\<lparr>sys_goroutines := (sys_goroutines s)[j := notifyAddressChanged (sys_resolver s) n @ rest]\<rparr>
           | Call hc _ new removed \<Rightarrow>
               call_listener E hc new removed (s\<lparr>sys_goroutines := (sys_goroutines s)[j := rest]\<rparr>)))"

text \<open>
  One turn of the inner loop in \<open>periodicalResolve\<close>, for a resolver that has not been stopped; nothing
  stops the one of a running process.
\<close>

definition lookup_host :: "'w env \<Rightarrow> string \<Rightarrow> 'w System \<Rightarrow> 'w System" where
  "lookup_host E h s =
     (if isStopped (sys_resolver s) then s
      else let (r, w) = Dynamic_doResolve (e_net E) h (bworld (sys_backends s));
          (dhr, ns) = addressResolved h r (sys_resolver s)
      in s\<lparr>sys_resolver := dhr, sys_backends := (sys_backends s)\<lparr>bworld := w\<rparr>,
           sys_goroutines := sys_goroutines s @ map (\<lambda>n. [n]) ns\<rparr>)"

text \<open>
  A goroutine that has ended, or that does not exist, does nothing when it is woken. Calls of
  listeners come from goroutines only.
\<close>

datatype sys_input = At nat input | Lookup string | Wake nat

fun of_resolver :: "input \<Rightarrow> bool" where
  "of_resolver (Resolved hc new removed) = True"
| "of_resolver _ = False"

inductive sys_step :: "'w env \<Rightarrow> 'w System \<Rightarrow> sys_input \<Rightarrow> 'w System \<Rightarrow> bool" for E where
  at_proxy: "k < length (sys_proxies s) \<Longrightarrow> \<not> of_resolver inp \<Longrightarrow> proxy_step E (enter s k) inp p \<Longrightarrow>
    run_others E [0..<length (sys_proxies s)] (leave k p s) = (Inr (), s') \<Longrightarrow> sys_step E s (At k inp) s'"
| lookup: "sys_step E s (Lookup h) (lookup_host E h s)"
| woken: "sys_step E s (Wake j) (wake E j s)"

inductive_cases sys_stepE: "sys_step E s inp s'"

inductive sys_run :: "'w env \<Rightarrow> 'w System \<Rightarrow> sys_input list \<Rightarrow> 'w System \<Rightarrow> bool" for E where
  none: "sys_run E s [] s"
| more: "sys_step E s inp t \<Longrightarrow> sys_run E t inps u \<Longrightarrow> sys_run E s (inp # inps) u"

inductive_simps sys_run_simps: "sys_run E s [] s'" "sys_run E s (inp # inps) s'"

text \<open>
  What \<open>init\<close> of \<open>backend.go\<close> sets up before \<open>main\<close>, and the process once \<open>startProxies\<close> has started
  all its proxies; the notices raised so far are goroutines that have not run.
\<close>

definition backend_init :: "'w \<Rightarrow> 'w SetupState" where
  "backend_init w =
     \<lparr>su_rb = NewRoundRobinBackend, su_resolver = NewDynamicHostResolver 2,
      su_backends = \<lparr>tcp_conns = Map.empty, next_backend = 0, factory = Map.empty, established = [], bworld = w\<rparr>,
      su_pending = []\<rparr>"

definition init_process :: "'w \<Rightarrow> 'w Process" where
  "init_process w = \<lparr>pr_logger = None, pr_profiling = None, pr_setup = backend_init w\<rparr>"

definition started_system :: "'w Proxy list \<Rightarrow> 'w SetupState \<Rightarrow> 'w System" where
  "started_system ps st =
     \<lparr>sys_proxies = ps, sys_backends = su_backends st, sys_resolver = su_resolver st,
      sys_goroutines = map (\<lambda>n. [n]) (su_pending st)\<rparr>"

lemmas system_eval [go_eval] =
  enter_def leave_def call_listener_def wake_def lookup_host_def backend_init_def init_process_def started_system_def

lemma sys_proxies_simps [simp]:
  "sys_proxies (leave k p s) = (sys_proxies s)[k := p]" "sys_proxies (lookup_host E h s) = sys_proxies s"
  "sys_resolver (leave k p s) = sys_resolver s" "sys_goroutines (leave k p s) = sys_goroutines s"
  by (simp_all add: leave_def lookup_host_def Let_def split: prod.split)

section \<open>Relations between the states of each proxy\<close>

text \<open>
  A relation that the elementary updates of one proxy satisfy holds between the states of every
  proxy before and after a step of the process.
\<close>

definition along :: "('w Proxy \<Rightarrow> 'w Proxy \<Rightarrow> bool) \<Rightarrow> 'w System \<Rightarrow> 'w System \<Rightarrow> bool" where
  "along R s t \<longleftrightarrow> list_all2 R (sys_proxies s) (sys_proxies t)"

lemma along_length: "along R s t \<Longrightarrow> length (sys_proxies t) = length (sys_proxies s)"
  by (auto simp: along_def dest: list_all2_lengthD)

lemma along_nth: "along R s t \<Longrightarrow> k < length (sys_proxies s) \<Longrightarrow> R (sys_proxies s ! k) (sys_proxies t ! k)"
  by (simp add: along_def list_all2_nthD)

context handler_relation
begin

lemma along_refl: "along R s s"
  by (simp add: along_def list_all2_refl R_refl)

lemma along_same: "sys_proxies t = sys_proxies s \<Longrightarrow> along R s t"
  by (simp add: along_def list_all2_refl R_refl)

lemma along_trans: "along R s t \<Longrightarrow> along R t u \<Longrightarrow> along R s u"
  unfolding along_def by (rule list_all2_trans [OF R_trans])

lemma rel_enter: "R (sys_proxies s ! k) (enter s k)"
  unfolding enter_def by (rule R_backends)

lemma along_leave: "R (enter s k) p \<Longrightarrow> along R s (leave k p s)"
proof -
  assume "R (enter s k) p"
  with rel_enter have "R (sys_proxies s ! k) p" by (rule R_trans)
  moreover have "list_all2 R (sys_proxies s) (sys_proxies s)" by (simp add: list_all2_refl R_refl)
  ultimately have "list_all2 R ((sys_proxies s)[k := sys_proxies s ! k]) ((sys_proxies s)[k := p])"
    by (intro list_all2_update_cong)
  then show ?thesis by (simp add: along_def)
qed

lemma along_run_others: "run_others E ks s = (r, s') \<Longrightarrow> along R s s'"
proof (induction ks arbitrary: s)
  case (Cons k ks)
  obtain q p where 1: "run_callbacks E (enter s k) = (q, p)" by fastforce
  have "along R s (leave k p s)" using rel_run_callbacks [OF 1] by (rule along_leave)
  with Cons 1 show ?case by (auto split: sum.splits intro: along_trans)
qed (simp add: along_refl)

lemma along_call_listener: "along R s (call_listener E hc new removed s)"
  by (auto simp: call_listener_def intro: along_refl along_leave rel_proxy_callback split: option.split)

lemma along_wake: "along R s (wake E j s)"
proof -
  have "along R s (s\<lparr>sys_goroutines := g\<rparr>)" for g by (rule along_same) simp
  then show ?thesis
    by (auto simp: wake_def intro: along_refl along_trans along_call_listener split: list.split notice.split)
qed

end

context session_relation
begin

lemma along_sys_step: "sys_step E s inp s' \<Longrightarrow> along R s s'"
proof (erule sys_stepE)
  fix k i p
  assume "proxy_step E (enter s k) i p" "run_others E [0..<length (sys_proxies s)] (leave k p s) = (Inr (), s')"
  then show "along R s s'" by (blast intro: along_trans along_leave rel_proxy_step along_run_others)
qed (simp_all add: along_same along_wake)

lemma along_sys_run: "sys_run E s inps s' \<Longrightarrow> along R s s'"
  by (induction rule: sys_run.induct) (auto intro: along_refl along_trans along_sys_step)

end

section \<open>The numbers of the listeners\<close>

fun numbered_from :: "nat \<Rightarrow> 'w Proxy list \<Rightarrow> bool" where
  "numbered_from n [] = True"
| "numbered_from n (p # ps) = (first_item p = n \<and> numbered_from (n + length (pitems p)) ps)"

definition listeners :: "'w Proxy list \<Rightarrow> nat" where
  "listeners ps = sum_list (map (\<lambda>p. length (pitems p)) ps)"

lemma numbered_owner_ge:
  "numbered_from n ps \<Longrightarrow> k < length ps \<Longrightarrow> own_item (ps ! k) i \<Longrightarrow> n \<le> i"
proof (induction ps arbitrary: n k)
  case (Cons p ps)
  then show ?case by (cases k) (auto simp: own_item_def dest: add_leD1)
qed simp

lemma numbered_owner_unique:
  "numbered_from n ps \<Longrightarrow> k < length ps \<Longrightarrow> l < length ps \<Longrightarrow> own_item (ps ! k) i \<Longrightarrow> own_item (ps ! l) i \<Longrightarrow> k = l"
proof (induction ps arbitrary: n k l)
  case (Cons p ps)
  have "\<not> own_item p i" if "j < length ps" "own_item (ps ! j) i" for j
    using numbered_owner_ge [of "n + length (pitems p)" ps j i] that Cons.prems(1) by (auto simp: own_item_def)
  with Cons show ?case by (cases k; cases l) auto
qed simp

lemma numbered_owner_exists:
  "numbered_from n ps \<Longrightarrow> n \<le> i \<Longrightarrow> i < n + listeners ps \<Longrightarrow> \<exists>k<length ps. own_item (ps ! k) i"
proof (induction ps arbitrary: n)
  case (Cons p ps)
  show ?case
  proof (cases "i < n + length (pitems p)")
    case True
    with Cons.prems have "own_item ((p # ps) ! 0) i" by (simp add: own_item_def)
    then show ?thesis by auto
  next
    case False
    then have "\<exists>k<length ps. own_item (ps ! k) i"
      using Cons.prems by (intro Cons.IH [of "n + length (pitems p)"]) (simp_all add: listeners_def)
    then obtain k where "k < length ps" "own_item (ps ! k) i" by blast
    then have "Suc k < length (p # ps) \<and> own_item ((p # ps) ! Suc k) i" by simp
    then show ?thesis by blast
  qed
qed (simp add: listeners_def)

lemma numbered_settings:
  "list_all2 same_settings ps ps' \<Longrightarrow> numbered_from n ps' = numbered_from n ps \<and> listeners ps' = listeners ps"
proof (induction arbitrary: n rule: list_all2_induct)
  case (Cons p ps p' ps')
  then show ?case using items_settings [of p p'] by (simp add: same_settings_def listeners_def)
qed simp

section \<open>The callbacks that are registered\<close>

definition followed_items :: "HostCallback DynamicHostResolver \<Rightarrow> nat set" where
  "followed_items dhr = {hc_item cb | cb h e. dhr_hostIPs dhr h = Some e \<and> cb \<in> set (callbacks e)}"

definition called_items :: "HostCallback notice list \<Rightarrow> nat set" where
  "called_items ns = {hc_item cb | cb h new removed. Call cb h new removed \<in> set ns}"

lemma followed_itemsI: "dhr_hostIPs dhr h = Some e \<Longrightarrow> hc_item ` set (callbacks e) \<subseteq> followed_items dhr"
  by (auto simp: followed_items_def)

lemma called_items_simps [simp]:
  "called_items [] = {}" "called_items (Notify h new removed # ns) = called_items ns"
  "called_items (Call cb h new removed # ns) = insert (hc_item cb) (called_items ns)"
  "called_items (ns @ ms) = called_items ns \<union> called_items ms"
  by (auto simp: called_items_def)

lemma followed_items_update:
  "dhr_hostIPs dhr' = (dhr_hostIPs dhr)(h \<mapsto> e) \<Longrightarrow>
   followed_items dhr' \<subseteq> followed_items dhr \<union> hc_item ` set (callbacks e)"
  by (auto simp: followed_items_def split: if_splits)

lemma addressResolved_items:
  assumes "addressResolved h r dhr = (dhr', ns)"
  shows "followed_items dhr' \<subseteq> followed_items dhr" and "called_items ns = {}"
proof -
  show "called_items ns = {}"
    using assms by (auto simp: addressResolved_def entry_resolved_def Let_def split: option.splits sum.splits if_splits)
  show "followed_items dhr' \<subseteq> followed_items dhr"
  proof (cases "dhr_hostIPs dhr h")
    case (Some e)
    obtain e' ms where 1: "entry_resolved h r e = (e', ms)" by fastforce
    then have "callbacks e' = callbacks e" using entry_resolved_callbacks [of h r e] by simp
    moreover have "dhr_hostIPs dhr' = (dhr_hostIPs dhr)(h \<mapsto> e')" using assms Some 1 by (auto simp: addressResolved_def)
    ultimately have "followed_items dhr' \<subseteq> followed_items dhr \<union> hc_item ` set (callbacks e)"
      using followed_items_update by metis
    then show ?thesis using followed_itemsI [of dhr h e] Some by blast
  qed (use assms in \<open>simp add: addressResolved_def\<close>)
qed

lemma notifyAddressChanged_items:
  "called_items [n] \<subseteq> followed_items dhr \<Longrightarrow> called_items (notifyAddressChanged dhr n) \<subseteq> followed_items dhr"
proof (cases n)
  case (Notify h new removed)
  then show ?thesis
    using followed_itemsI [of dhr h]
    by (cases "dhr_hostIPs dhr h") (auto simp: notifyAddressChanged_def called_items_def)
qed (simp add: notifyAddressChanged_def)

lemma ResolveHost_items:
  assumes "ResolveHost net h cb (dhr, w) = ((dhr', w'), ns)"
  shows "followed_items dhr' \<subseteq> insert (hc_item cb) (followed_items dhr)"
proof (cases "dhr_hostIPs dhr h")
  case None
  let ?d = "dhr\<lparr>dhr_hostIPs := (dhr_hostIPs dhr)(h \<mapsto> NewAddressWithCallback\<lparr>callbacks := [cb]\<rparr>)\<rparr>"
  have "followed_items dhr' \<subseteq> followed_items ?d"
    using assms None by (auto simp: ResolveHost_def Let_def split: prod.splits sum.splits if_splits
        dest: addressResolved_items(1))
  also have "\<dots> \<subseteq> followed_items dhr \<union> hc_item ` set [cb]"
    using followed_items_update [of ?d dhr h "NewAddressWithCallback\<lparr>callbacks := [cb]\<rparr>"] by simp
  finally show ?thesis by auto
next
  case (Some e)
  then have "dhr_hostIPs dhr' = (dhr_hostIPs dhr)(h \<mapsto> e\<lparr>callbacks := callbacks e @ [cb]\<rparr>)"
    using assms by (auto simp: ResolveHost_def)
  from followed_items_update [OF this] followed_itemsI [of dhr h e] Some show ?thesis by auto
qed

text \<open>Setting up listeners registers callbacks of these listeners only.\<close>

definition setup_below :: "nat \<Rightarrow> 'w SetupState \<Rightarrow> bool" where
  "setup_below n st \<longleftrightarrow> followed_items (su_resolver st) \<subseteq> {..<n} \<and> called_items (su_pending st) = {}"

lemma setup_below_mono: "setup_below n st \<Longrightarrow> n \<le> m \<Longrightarrow> setup_below m st"
  by (auto simp: setup_below_def)

lemma setup_below_world [simp]:
  "setup_below n (st\<lparr>su_backends := s\<rparr>) = setup_below n st" "setup_below n (st\<lparr>su_rb := rb\<rparr>) = setup_below n st"
  by (simp_all add: setup_below_def)

lemma setup_world_below: "setup_world f st = (a, st') \<Longrightarrow> setup_below n st' = setup_below n st"
  by (auto simp: setup_world_def split: prod.splits)

lemma add_ip_backend_below: "add_ip_backend net i l u st = (r, st') \<Longrightarrow> setup_below n st' = setup_below n st"
  by (auto simp: add_ip_backend_def Let_def setup_below_def split: if_splits sum.splits prod.splits)

lemma add_host_backend_below:
  assumes "setup_below n st" and "hc_item hc < n"
  shows "setup_below n (add_host_backend net hc h st)"
proof -
  obtain dhr w ns where 1: "ResolveHost net h hc (su_resolver st, bworld (su_backends st)) = ((dhr, w), ns)"
    by (metis prod.exhaust)
  have f: "followed_items dhr \<subseteq> {..<n}"
    using ResolveHost_items [OF 1] assms by (auto simp: setup_below_def)
  have "called_items ns = {} \<or> (\<exists>cb hn new removed. ns = [Call cb hn new removed])"
    using 1 by (auto simp: ResolveHost_def Let_def split: option.splits prod.splits sum.splits if_splits
        dest: addressResolved_items(2))
  then show ?thesis
    using f assms(1) 1 by (auto simp: add_host_backend_def setup_below_def Let_def split: list.splits notice.splits prod.splits)
qed

lemma create_backends_below:
  "create_backends net other i cs st = (r, st') \<Longrightarrow> setup_below n st \<Longrightarrow> i < n \<Longrightarrow> setup_below n st'"
proof (induction cs arbitrary: st)
  case (Cons c cs)
  have "setup_below n (add_host_backend net hc h st)" if "hc_item hc = i" for hc h
    using Cons.prems(2,3) that by (auto intro: add_host_backend_below)
  with Cons show ?case
    by (auto simp: Let_def add_ip_backend_below split: if_splits sum.splits option.splits bool.splits prod.splits)
qed simp

lemma NewProxyItem_below:
  assumes "NewProxyItem net other i c st = (r, st')" and "setup_below n st" and "i < n"
  shows "setup_below n st'"
proof -
  obtain b st1 where 1: "CreateRoundRobinBackend net other i (lc_Backends c) st = (b, st1)" by fastforce
  then have "setup_below n st1"
    using assms(2,3) by (auto simp: CreateRoundRobinBackend_def split: if_splits prod.splits sum.splits
        dest: create_backends_below)
  then show ?thesis
    using assms(1) 1 by (auto simp: NewProxyItem_def Let_def setup_world_below split: sum.splits go_error.splits prod.splits if_splits)
qed

lemma new_items_below:
  "new_items net other i cs st = (Inr its, st') \<Longrightarrow> setup_below i st \<Longrightarrow> length its = length cs \<and> setup_below (i + length its) st'"
proof (induction cs arbitrary: i st its)
  case (Cons c cs)
  obtain r st1 where 1: "NewProxyItem net other i c st = (r, st1)" by fastforce
  have "setup_below (Suc i) st1"
    using 1 setup_below_mono [OF Cons.prems(2), of "Suc i"] by (auto intro: NewProxyItem_below)
  with Cons 1 show ?case by (fastforce split: sum.splits prod.splits)
qed simp

lemma start_items_length: "start_items net its w = (r, its', w') \<Longrightarrow> length its' = length its"
  by (induction its arbitrary: w its' w' r) (auto split: sum.splits prod.splits)

lemma startProxy_below:
  assumes "startProxy E other getenv first c route resolver st = (Inr p, st')" and "setup_below first st"
  shows "first_item p = first \<and> setup_below (first + length (pitems p)) st'"
proof -
  obtain now st0 where 0: "setup_world (unix_now (e_net E)) st = (now, st0)" by fastforce
  have s0: "setup_below first st0" using assms(2) by (simp add: setup_world_below [OF 0])
  obtain x st1 where 1: "NewProxy E other first (pc_Name c) (dialog_timeout getenv c) (pc_Listens c)
       (toKeepNextHopRoute getenv (pc_KeepNextHopRoute c)) route resolver
       (NewSelfLearnRoute now) (pc_MustRecordRoute c) (pc_RedisSessionStore c) st0 = (x, st1)" by fastforce
  then obtain q where x: "x = Inr q"
    using assms(1) 0 by (cases x) (simp_all add: startProxy_def dialog_timeout_def)
  obtain r p1 where s: "Proxy_Start E q = (r, p1)" by fastforce
  then have s: "Proxy_Start E q = (Inr (), p)" and st': "st' = snd (setup_world (\<lambda>_. ((), pworld p)) st1)"
    using assms(1) 0 1 x by (auto simp: startProxy_def dialog_timeout_def rbind_eq_Inr split: prod.splits)
  have "first_item q = first \<and> setup_below (first + length (pitems q)) st1"
    using 1 x s0 by (auto simp: NewProxy_def Let_def setup_world_below split: sum.splits prod.splits dest: new_items_below)
  moreover have "first_item p = first_item q" "length (pitems p) = length (pitems q)"
    using s by (auto simp: Proxy_Start_def split: prod.splits dest: start_items_length)
  ultimately show ?thesis
    using st' by (simp add: setup_world_def)
qed

lemma start_proxies_below:
  "start_proxies E other getenv hs first cs st = (Inr ps, st') \<Longrightarrow> setup_below first st \<Longrightarrow>
   numbered_from first ps \<and> setup_below (first + listeners ps) st'"
proof (induction cs arbitrary: first st ps)
  case Nil
  then show ?case by (simp add: listeners_def)
next
  case (Cons c cs)
  obtain p st1 ps' where 1: "startProxy E other getenv first c (createPreConfigRoute c) (createPreConfigHostResolver hs c) st = (Inr p, st1)"
    and 2: "start_proxies E other getenv hs (first + length (pitems p)) cs st1 = (Inr ps', st')" and ps: "ps = p # ps'"
    using Cons.prems(1) by (auto split: sum.splits prod.splits)
  note p = startProxy_below [OF 1 Cons.prems(2)]
  with Cons.IH [OF 2] ps show ?case by (simp add: listeners_def add.assoc)
qed

section \<open>The invariant of the process\<close>

text \<open>
  Every proxy satisfies its invariant, their listeners are numbered one after the other, and every callback
  that is registered, or about to be made, is for a listener that exists.
\<close>

definition sys_inv :: "'w System \<Rightarrow> bool" where
  "sys_inv s \<longleftrightarrow> (\<forall>p \<in> set (sys_proxies s). proxy_inv p) \<and> numbered_from 0 (sys_proxies s) \<and>
     followed_items (sys_resolver s) \<union> (\<Union>g \<in> set (sys_goroutines s). called_items g) \<subseteq> {..<listeners (sys_proxies s)}"

lemma run_others_rest:
  "run_others E ks s = (r, s') \<Longrightarrow> sys_resolver s' = sys_resolver s \<and> sys_goroutines s' = sys_goroutines s"
  by (induction ks arbitrary: s) (auto split: sum.splits prod.splits)

lemma call_listener_rest [simp]:
  "sys_resolver (call_listener E hc new removed s) = sys_resolver s"
  "sys_goroutines (call_listener E hc new removed s) = sys_goroutines s"
  by (simp_all add: call_listener_def split: option.split)

lemma wake_called:
  assumes g: "g \<in> set (sys_goroutines (wake E j s))"
  shows "called_items g \<subseteq> followed_items (sys_resolver s) \<union> (\<Union>g \<in> set (sys_goroutines s). called_items g)"
proof (cases "j < length (sys_goroutines s)")
  case j: True
  have *: "x \<in> set (sys_goroutines s) \<or> x = g'" if "x \<in> set ((sys_goroutines s)[j := g'])" for x g'
    using that set_update_subset_insert [of "sys_goroutines s" j g'] by blast
  show ?thesis
  proof (cases "sys_goroutines s ! j")
    case Nil
    then have "g \<in> set (sys_goroutines s)" using g j by (simp add: wake_def)
    then show ?thesis by blast
  next
    case (Cons n rest)
    have r: "called_items rest \<subseteq> (\<Union>g \<in> set (sys_goroutines s). called_items g)"
    proof -
      have "called_items rest \<subseteq> called_items (sys_goroutines s ! j)" using Cons by (cases n) auto
      then show ?thesis using nth_mem [OF j] by blast
    qed
    show ?thesis
    proof (cases n)
      case (Call hc h new removed)
      then have "g \<in> set (sys_goroutines s) \<or> g = rest" using g j Cons * by (auto simp: wake_def)
      then show ?thesis using r by blast
    next
      case (Notify h new removed)
      then have "g \<in> set (sys_goroutines s) \<or> g = notifyAddressChanged (sys_resolver s) n @ rest"
        using g j Cons * by (auto simp: wake_def)
      moreover have "called_items (notifyAddressChanged (sys_resolver s) n) \<subseteq> followed_items (sys_resolver s)"
        using Notify by (intro notifyAddressChanged_items) simp
      ultimately show ?thesis using r by (elim disjE) (blast, simp, blast)
    qed
  qed
qed (use g in \<open>auto simp: wake_def\<close>)

lemma sys_step_called:
  assumes "sys_step E s inp s'"
  shows "followed_items (sys_resolver s') \<union> (\<Union>g \<in> set (sys_goroutines s'). called_items g) \<subseteq>
    followed_items (sys_resolver s) \<union> (\<Union>g \<in> set (sys_goroutines s). called_items g)"
  using assms
proof cases
  case (at_proxy k i p)
  then show ?thesis using run_others_rest by fastforce
next
  case (lookup h)
  obtain r w where 1: "Dynamic_doResolve (e_net E) h (bworld (sys_backends s)) = (r, w)" by fastforce
  obtain dhr ns where 2: "addressResolved h r (sys_resolver s) = (dhr, ns)" by fastforce
  have "called_items [n] = {}" if "n \<in> set ns" for n
    using addressResolved_items(2) [OF 2] that by (fastforce simp: called_items_def)
  then show ?thesis
    using addressResolved_items(1) [OF 2] lookup 1 2 by (auto simp: lookup_host_def split: if_splits)
next
  case (woken j)
  have "sys_resolver (wake E j s) = sys_resolver s" by (simp add: wake_def split: list.split notice.split)
  then show ?thesis using wake_called [of _ E j s] woken by auto
qed

lemma sys_step_inv:
  assumes "sys_step E s inp s'" and "sys_inv s"
  shows "sys_inv s'"
proof -
  have "list_all2 same_settings (sys_proxies s) (sys_proxies s')"
    using settings.along_sys_step [OF assms(1)] by (simp add: along_def)
  note n = numbered_settings [OF this, of 0]
  have "list_all2 keeps (sys_proxies s) (sys_proxies s')"
    using keeps.along_sys_step [OF assms(1)] by (simp add: along_def)
  then have "\<forall>p \<in> set (sys_proxies s'). proxy_inv p"
    using assms(2) by (simp add: list_all2_conv_all_nth sys_inv_def keeps_def all_set_conv_all_nth)
  then show ?thesis
    using subset_trans [OF sys_step_called [OF assms(1)]] n assms(2) by (simp add: sys_inv_def)
qed

lemma sys_run_inv: "sys_run E s inps s' \<Longrightarrow> sys_inv s \<Longrightarrow> sys_inv s'"
  by (induction rule: sys_run.induct) (auto intro: sys_step_inv)

lemma started_system_inv:
  assumes "startProxies E other getenv lb c (init_process w) = (Inr ps, s)"
  shows "sys_inv (started_system ps (pr_setup s))"
proof (rule startProxies_Inr [OF assms])
  fix config
  assume "start_proxies E other getenv (Hosts config) 0 (Proxies config) (pr_setup (init_process w)) = (Inr ps, pr_setup s)"
  then have "start_proxies E other getenv (Hosts config) 0 (Proxies config) (backend_init w) = (Inr ps, pr_setup s)"
    by (simp add: init_process_def)
  moreover have "setup_below 0 (backend_init w)"
    by (simp add: setup_below_def backend_init_def NewDynamicHostResolver_def followed_items_def)
  ultimately have "numbered_from 0 ps \<and> setup_below (listeners ps) (pr_setup s)"
    using start_proxies_below by fastforce
  moreover have "called_items [n] = {}" if "called_items ns = {}" "n \<in> set ns" for n ns
    using that by (fastforce simp: called_items_def)
  ultimately show ?thesis
    using startProxies_inv [OF assms] by (auto simp: sys_inv_def started_system_def setup_below_def)
qed

text \<open>A call of a goroutine is for a listener of exactly one proxy.\<close>

lemma sys_inv_call:
  assumes "sys_inv s" and "g \<in> set (sys_goroutines s)" and "Call hc h new removed \<in> set g"
  shows "\<exists>!k. k < length (sys_proxies s) \<and> own_item (sys_proxies s ! k) (hc_item hc)"
proof -
  have "hc_item hc < listeners (sys_proxies s)"
    using assms by (fastforce simp: sys_inv_def called_items_def)
  then show ?thesis
    using assms(1) numbered_owner_exists [of 0] numbered_owner_unique [of 0] by (fastforce simp: sys_inv_def)
qed

section \<open>The loop of the resolver\<close>

text \<open>A round of \<open>periodicalResolve\<close> is the lookup of each of its hosts, one after the other.\<close>

lemma lookup_rounds:
  "\<not> isStopped (sys_resolver s) \<Longrightarrow> resolve_hosts (e_net E) hs (sys_resolver s, bworld (sys_backends s)) = ((dhr, w), ns) \<Longrightarrow>
   fold (lookup_host E) hs s = s\<lparr>sys_resolver := dhr, sys_backends := (sys_backends s)\<lparr>bworld := w\<rparr>,
     sys_goroutines := sys_goroutines s @ map (\<lambda>n. [n]) ns\<rparr>"
proof (induction hs arbitrary: s ns)
  case (Cons h hs)
  obtain r w1 where 1: "Dynamic_doResolve (e_net E) h (bworld (sys_backends s)) = (r, w1)" by fastforce
  obtain dhr1 n1 where 2: "addressResolved h r (sys_resolver s) = (dhr1, n1)" by fastforce
  obtain n2 where 3: "resolve_hosts (e_net E) hs (dhr1, w1) = ((dhr, w), n2)" and ns: "ns = n1 @ n2"
    using Cons.prems(2) 1 2 by (auto split: prod.splits)
  have t: "lookup_host E h s = s\<lparr>sys_resolver := dhr1, sys_backends := (sys_backends s)\<lparr>bworld := w1\<rparr>,
      sys_goroutines := sys_goroutines s @ map (\<lambda>n. [n]) n1\<rparr>"
    using 1 2 Cons.prems(1) by (simp add: lookup_host_def)
  have "isStopped dhr1 = isStopped (sys_resolver s)"
    using 2 by (auto simp: addressResolved_def isStopped_def split: option.splits prod.splits)
  then show ?case
    using Cons.IH [of "lookup_host E h s" n2] Cons.prems(1) 3 ns by (simp add: t)
qed simp

section \<open>The process goes on\<close>

fun valid_input :: "nat list \<Rightarrow> sys_input \<Rightarrow> bool" where
  "valid_input ls (At k inp) \<longleftrightarrow>
     k < length ls \<and> \<not> of_resolver inp \<and> (case inp of Received rm \<Rightarrow> admissible (ls ! k) rm | _ \<Rightarrow> True)"
| "valid_input ls inp \<longleftrightarrow> True"

definition listener_counts :: "'w System \<Rightarrow> nat list" where
  "listener_counts s = map (\<lambda>p. length (pitems p)) (sys_proxies s)"

definition sys_ready :: "'w System \<Rightarrow> bool" where
  "sys_ready s \<longleftrightarrow> (\<forall>p \<in> set (sys_proxies s). ready p)"

lemma same_settings_ready:
  assumes "along same_settings s s'"
  shows "sys_ready s \<Longrightarrow> sys_ready s'" and "listener_counts s' = listener_counts s"
proof -
  have l: "list_all2 same_settings (sys_proxies s) (sys_proxies s')" using assms by (simp add: along_def)
  show "sys_ready s'" if "sys_ready s"
    using l that ready_settings by (fastforce simp: list_all2_conv_all_nth sys_ready_def all_set_conv_all_nth)
  show "listener_counts s' = listener_counts s"
    using l by (auto simp: list_all2_conv_all_nth listener_counts_def items_settings intro!: nth_equalityI)
qed

lemma run_others_ok: "sane (e_net E) \<Longrightarrow> \<exists>s'. run_others E ks s = (Inr (), s')"
proof (induction ks arbitrary: s)
  case (Cons k ks)
  let ?p = "enter s k"
  have "fst (run_callbacks E ?p) = Inr ()"
    using run_established_ok [OF Cons.prems, of "first_item ?p" "established (pbackends ?p)" "pitems ?p"]
    by (auto simp: run_callbacks_def)
  then obtain p where "run_callbacks E ?p = (Inr (), p)" by (metis prod.collapse)
  with Cons show ?case by simp
qed simp

lemma sys_step_exists:
  assumes "sane (e_net E)" and "sys_ready s" and "valid_input (listener_counts s) inp"
  shows "\<exists>s'. sys_step E s inp s'"
proof (cases inp)
  case (At k i)
  then have k: "k < length (sys_proxies s)" "\<not> of_resolver i" using assms(3) by (simp_all add: listener_counts_def)
  have "ready (sys_proxies s ! k)" using assms(2) nth_mem [OF k(1)] by (simp add: sys_ready_def)
  then have "ready (enter s k)" by (simp add: enter_def ready_def)
  moreover have "admissible (length (pitems (enter s k))) rm" if "i = Received rm" for rm
    using assms(3) At k that by (simp add: listener_counts_def enter_def)
  ultimately obtain p where "proxy_step E (enter s k) i p"
    using proxy_step_exists [OF assms(1)] by blast
  then show ?thesis
    using sys_step.at_proxy [OF k] run_others_ok [OF assms(1)] At by metis
qed (blast intro: sys_step.intros)+

lemma sys_run_exists:
  assumes "sane (e_net E)"
  shows "sys_ready s \<Longrightarrow> (\<And>inp. inp \<in> set inps \<Longrightarrow> valid_input (listener_counts s) inp) \<Longrightarrow>
    \<exists>s'. sys_run E s inps s' \<and> sys_ready s'"
proof (induction inps arbitrary: s)
  case (Cons inp inps)
  obtain t where t: "sys_step E s inp t"
    using sys_step_exists [OF assms Cons.prems(1)] Cons.prems(2) by auto
  note a = same_settings_ready [OF settings.along_sys_step [OF t]]
  obtain u where "sys_run E t inps u \<and> sys_ready u"
    using Cons.IH [OF a(1) [OF Cons.prems(1)]] Cons.prems(2) a(2) by auto
  with t show ?case by (blast intro: sys_run.more)
qed (blast intro: sys_run.none)

section \<open>A session of one of the proxies\<close>

lemma held_sys_step:
  assumes "sys_step E s inp s'" and k: "k < length (sys_proxies s)"
    and h: "held t d sid b (sessionBackends (sys_proxies s ! k))"
    and c: "clock_within (e_net E) a t" and l: "t < a + d" and m: "\<And>rm. inp = At k (Received rm) \<Longrightarrow> calm sid (rm_Message rm)"
  shows "held t d sid b (sessionBackends (sys_proxies s' ! k))"
  using assms(1)
proof cases
  case (at_proxy j i p)
  let ?s1 = "leave j p s"
  have "held t d sid b (sessionBackends (sys_proxies ?s1 ! k))"
  proof (cases "j = k")
    case True
    have "held t d sid b (sessionBackends (enter s k))" using h by (simp add: enter_def)
    then have "held t d sid b (sessionBackends p)"
      using held_proxy_step [OF _ _ c l] at_proxy m True by blast
    with True k show ?thesis by simp
  qed (use h k in simp)
  moreover have "sessionBackends (sys_proxies s' ! k) = sessionBackends (sys_proxies ?s1 ! k)"
    using along_nth [OF sess.along_run_others [OF at_proxy(5)]] k by simp
  ultimately show ?thesis by simp
next
  case (lookup h)
  with h show ?thesis by simp
next
  case (woken j)
  with h along_nth [OF sess.along_wake k] show ?thesis by simp
qed

lemma held_sys_run:
  assumes "sys_run E s inps s'" and "k < length (sys_proxies s)" and "held t d sid b (sessionBackends (sys_proxies s ! k))"
    and c: "clock_within (e_net E) a t" and l: "t < a + d" and "\<And>rm. At k (Received rm) \<in> set inps \<Longrightarrow> calm sid (rm_Message rm)"
  shows "held t d sid b (sessionBackends (sys_proxies s' ! k))"
  using assms(1,2,3,6)
proof (induction rule: sys_run.induct)
  case (more s inp u inps s')
  have "held t d sid b (sessionBackends (sys_proxies u ! k))"
    using held_sys_step [OF more.hyps(1) more.prems(1,2) c l] more.prems(3) by simp
  moreover have "k < length (sys_proxies u)"
    using along_length [OF settings.along_sys_step [OF more.hyps(1)]] more.prems(1) by simp
  ultimately show ?case using more.IH more.prems(3) by simp
qed

end
