(* ===== verification/Registration.thy ===== *)
theory Registration
  imports MessageCodec
begin

text \<open>
  \<open>register.go\<close>: a REGISTER request for a server. Nothing else in the program uses it, and
  \<open>Start\<close> leaves the message in a buffer of its own, which is the result here.
\<close>

text \<open>The transport is the number of a client transport, as in \<open>Transports\<close>; both pointers may be nil.\<close>

record Register =
  reg_transport :: "nat option"
  registerServer :: string
  reg_from :: "NameAddr option"

definition NewRegister :: "nat option \<Rightarrow> string \<Rightarrow> NameAddr option \<Rightarrow> Register" where
  "NewRegister t server addr = \<lparr>reg_transport = t, registerServer = server, reg_from = addr\<rparr>"

definition Register_Start :: "Register \<Rightarrow> string result" where
  "Register_Start r =
     (case NewRequest ''REGISTER'' (''sip:'' @ registerServer r) ''2.0'' of
        Inl (Panic e) \<Rightarrow> Inl (Panic e)
      | Inl _ \<Rightarrow> Inr []
      | Inr message \<Rightarrow> Inr (Message_Write message))"

lemmas registration_eval [go_eval] = NewRegister_def Register_Start_def

text \<open>
  The request has no header but its length, and its version lacks the name of the protocol: the
  configured address of the client is not used.
\<close>

lemma Register_Start_from: "Register_Start (r\<lparr>reg_from := a, reg_transport := t\<rparr>) = Register_Start r"
  by (simp add: Register_Start_def)

lemma Register_Start_request:
  assumes "ParseAddrSpec (''sip:'' @ registerServer r) = Inr u"
  shows "Register_Start r =
    Inr (''REGISTER '' @ AddrSpec_String u @ '' 2.0'' @ CRLF @ ''Content-Length: 0'' @ CRLF @ CRLF)"
  using assms
  by (simp add: Register_Start_def NewRequest_def Message_Write_def encodeFirstLine_def encodeHeader_def NewMessage_def go_eval)

lemma Register_Start_example:
  "Register_Start (NewRegister None ''pbx.example.com:5060'' None) =
    Inr (''REGISTER sip:pbx.example.com:5060 2.0'' @ CRLF @ ''Content-Length: 0'' @ CRLF @ CRLF)"
  by (simp add: go_eval NewRequest_def NewMessage_def Let_def)

end
