(* ===== verification/Spec2Isabelle.thy ===== *)
theory Spec2Isabelle
  imports BackendProperties RoutingProperties ProxySystem Registration
begin

text \<open>
  A verification development for sipproxy, a SIP proxy and load balancer in Go (all file names are
  under \<open>src/\<close>). It translates the program into executable definitions, component by component,
  and proves what makes each of them, and their composition, correct.

  How the program works. A \<open>Proxy\<close> (\<open>proxy.go\<close>) has listeners (\<open>ProxyItem\<close>), each with UDP and TCP
  server transports (\<open>transport.go\<close>) and a round-robin backend (\<open>backend.go\<close>). The server transports
  turn the bytes that come in into messages (\<open>message.go\<close> and the files of the headers) and put
  them, with accepted connections, into the channels that \<open>receiveAndProcessMessage\<close> serves one at
  a time. A request is sent to the hop its Route or the configured routes (\<open>preconfig_route.go\<close>)
  give, over a client transport; a request for the proxy itself goes to a backend, the one its
  session is bound to or the next in turn. A response goes back along its Via stack. Learned
  routes (\<open>self_learn_route.go\<close>) remember which transport a peer was heard on; the resolvers
  (\<open>resolver.go\<close>) look up hosts and tell the listeners when the addresses of a host change; the
  bindings of sessions are kept in memory or shared through Redis.

  The theories, in the order of their imports.
  \<^item> \<open>Prelude\<close>: errors as values (\<open>go_error\<close>, \<open>result\<close>), a panic being an error of its own that no
    handler catches; calls that return a result and a new state; the collection \<open>go_eval\<close> that
    evaluates definitions on concrete inputs. \<open>GoStrings\<close>, \<open>GoStrconv\<close>, \<open>GoFmt\<close>, \<open>GoNet\<close>: what the code
    uses of the standard library (strings are lists of bytes, an \<open>int\<close> is a mathematical integer
    whose 64-bit range is written out where numbers are read or multiplied).
  \<^item> \<open>Interfaces\<close>: the locales \<open>codec\<close> and \<open>sep_codec\<close> (a parser and a printer, and lists of them with a
    separator) and \<open>param_store\<close> (getting and setting parameters), interpreted on the headers.
    \<open>HeaderFacts\<close> has \<open>typed_header\<close>, a getter that parses and caches, and \<open>SessionFacts\<close> has
    \<open>session_store\<close>, the contract of both stores of sessions.
  \<^item> \<open>KeyValues\<close>, \<open>SipUri\<close>, \<open>AddrHeaders\<close>, \<open>ViaHeader\<close>, \<open>RouteHeaders\<close>, \<open>Transactions\<close>: URIs and headers
    with parsers, printers and accessors, each shown to read back what it writes.
  \<^item> \<open>SipMessage\<close>, \<open>MessageOps\<close>, \<open>HeaderFacts\<close>, \<open>HeaderStacks\<close>, \<open>SessionIds\<close>, \<open>TransactionIds\<close>, \<open>MessageCodec\<close>:
    messages, their typed headers, the Via and Route stacks over any spread of header lines, the
    identifiers of sessions and transactions, and reading and writing of messages.
  \<^item> \<open>BufferPool\<close>, \<open>SelfLearn\<close>, \<open>PreConfig\<close>, \<open>MyName\<close>: the pool of packet buffers, learned and
    configured routes, the names of the proxy.
  \<^item> \<open>Network\<close>, \<open>Resolver\<close>, \<open>Backends\<close>, \<open>BackendFacts\<close>, \<open>Listeners\<close>, \<open>Sessions\<close>, \<open>SessionFacts\<close>: the
    environment as a record of functions over an arbitrary type of worlds, so that theorems hold
    for every behaviour of clock, resolver and sockets; hosts, backends, listeners, sessions.
  \<^item> \<open>Transports\<close>, \<open>TransportMgr\<close>, \<open>TransportFacts\<close>: client transports as numbered objects, because the
    factory, the manager and the fail-over objects share and mutate them.
  \<^item> \<open>ProxyState\<close>, \<open>ProxyCore\<close>, \<open>ProxyLoop\<close>, \<open>ServerTransports\<close>, \<open>Startup\<close>: the proxy, its handlers, the service
    loop as the step relation \<open>proxy_step\<close>, the loops that read from UDP and TCP, and the way from
    a configuration to the started proxies and to \<open>main\<close>.
  \<^item> \<open>Configuration\<close>: the flags of the command line, the types of the configuration, the reading of its
    file, the options with defaults, the log, the configured routes and hosts (\<open>main.go\<close>).
    \<open>Registration\<close>: \<open>register.go\<close>, which no other part uses.
  \<^item> \<open>HandlerRelation\<close>: the locales \<open>handler_relation\<close> and \<open>session_relation\<close>, one walk over all handlers and steps for
    every relation between a state and a later one that the elementary updates satisfy;
    \<open>ProxyInvariant\<close> interprets them with the invariant and with the settings that never change, \<open>SessionAffinity\<close> with
    the equality of sessions. \<open>ViaRouting\<close>, \<open>ProxyFacts\<close>: what the handlers do with Via, Route, backends and
    connections. \<open>MessageIdentity\<close>: the operations of the proxy on a message leave it in its session.
    \<open>SessionAffinity\<close>: a session keeps its backend over whole runs. \<open>ProxyProgress\<close>: no input stops the service loop.
  \<^item> \<open>ProxySystem\<close>: the process. The proxies of a configuration share the factory of backends, whose TCP backends call the
    listener they were made for, and the resolver, whose goroutines call the listeners of all proxies; the step
    relation \<open>sys_step\<close> interleaves the inputs of the proxies, lookups of hosts and these goroutines. Listeners are numbered through
    all proxies, so that a callback, a closure in the code, names its listener. The walk of \<open>HandlerRelation\<close> and
    the theorems on single proxies are lifted to it.
  \<^item> \<open>MessageProperties\<close>, \<open>BackendProperties\<close>, \<open>RoutingProperties\<close> and this theory: the properties, each
    with a concrete instance. This theory holds those that span components.

  Correspondence. A Go struct is a record, a function or method a definition of its name (with the
  type in front where names clash); an error is \<open>Inl\<close>; a method that mutates returns the new value.
  A Go interface is a datatype of its implementations, and \<open>BackendRef\<close> keeps the difference between
  a nil interface and a nil pointer in one. Mutexes make operations single steps. What other
  goroutines do to a running proxy is an input of \<open>proxy_step\<close>: an address change, the end of a
  connection, a message from Redis. In \<open>sys_step\<close> the address changes are those that the goroutines of the resolver bring. Readings of the clock are taken from the world in the order
  the code takes them or are arguments, one for each reading.

  Bounds and fuel. Loops over lists are structural; \<open>parse_lines\<close> and \<open>Fprintf0\<close> end by a measure on
  what is left to read; \<open>ParseAll\<close> and \<open>receive_loop\<close> take one round more than there are bytes, which
  is enough since every message takes bytes. \<open>make\<close> panics beyond \<open>maxAlloc\<close>, 2 to the 48th bytes.

  Not modelled. The libraries that parse the command line, decode YAML, write the log and serve profiles are parameters
  (\<open>libraries\<close>, \<open>'w Runner\<close>) or left out; of the log lines only the one that \<open>main\<close> ends with is
  represented, the others have no effect on the state. A step of the process is a whole handler: that two goroutines use
  the \<open>backendFactory\<close>, whose map has no lock, at the same moment is not modelled, nor are steps of the first proxies while the others
  still start, nor a listener whose \<open>CreateRoundRobinBackend\<close> failed after it had subscribed to a host and that goes on following it unseen. \<open>url.Parse\<close> and \<open>regexp\<close> are modelled on the texts a configuration has and are
  parameters elsewhere; UUIDs, the Redis client and the operating system are parameters.
\<close>

section \<open>A sample proxy\<close>

definition sample_env :: "script env" where
  "sample_env = \<lparr>e_net = script_net, e_regexps = no_regexps, e_publish = (\<lambda>_ _ _ w. (None, w))\<rparr>"

lemma sample_env_simps [simp, go_eval]:
  "e_net sample_env = script_net" "e_regexps sample_env = no_regexps"
  by (simp_all add: sample_env_def)

definition no_url :: "string \<Rightarrow> URL result" where
  "no_url s = Inl (Errorf ''not a simple URL'')"

definition sample_config :: ProxyConfig where
  "sample_config =
     \<lparr>pc_Name = ''biloxi'', pc_DialogTimeout = 0, pc_KeepNextHopRoute = ''No'', pc_NoReceived = False,
      pc_MustRecordRoute = False, pc_RedisSessionStore = None,
      pc_Listens =
        [\<lparr>lc_Address = ''10.0.0.1'', lc_Via = ''udp://10.0.0.1:5060'', lc_TcpPort = 5060, lc_UdpPort = 5060,
          lc_Backends = [\<lparr>bc_Address = ''tcp://10.0.0.9:5070'', bc_LocalAddress = []\<rparr>]\<rparr>],
      pc_Route = [], pc_Hosts = []\<rparr>"

definition sample_configuration :: ProxiesConfigure where
  "sample_configuration = \<lparr>Admin_Addr = [], Proxies = [sample_config], Hosts = []\<rparr>"

definition sample_libraries :: libraries where
  "sample_libraries =
     \<lparr>ReadFile = (\<lambda>name. if name = ''proxy.yaml'' then Inr ''proxies: [biloxi]'' else Inl (Errorf ''no such file'')),
      Unmarshal = (\<lambda>text p. if text = ''proxies: [biloxi]'' then Inr sample_configuration else Inl (Errorf ''bad YAML'')),
      DebugLevel = - 1, ErrorLevel = 2, Level_Set = (\<lambda>name level. if name = ''info'' then 0 else level),
      err_Error = (\<lambda>e. case e of Errorf s \<Rightarrow> s | _ \<Rightarrow> ''error'')\<rparr>"

definition sample_context :: cli_Context where
  "sample_context =
     \<lparr>ctx_String = (\<lambda>name. if name = ''config'' then ''proxy.yaml'' else if name = ''log-format'' then ''text'' else []),
      ctx_Int = (\<lambda>name. 0)\<rparr>"

definition sample_process :: "script Process" where
  "sample_process = init_process sample_script"

definition sample_udp_transport :: ServerTransport where
  "sample_udp_transport = UDPServerTransport ''10.0.0.1:5060'' (Some 10)"

definition sample_proxy :: "script Proxy" where
  "sample_proxy =
     \<lparr>myName = NewMyName no_regexps ''biloxi'', keepNextHopRoute = False, preConfigRoute = NewPreConfigRoute,
      pitems =
        [\<lparr>pi_transports = [sample_udp_transport, TCPServerTransport ''10.0.0.1'' 5060 None False],
          pi_viaConfig = None, pi_backend = Some sample_rr\<rparr>,
         \<lparr>pi_transports = [UDPServerTransport ''10.0.0.1:5080'' (Some 11)], pi_viaConfig = None, pi_backend = None\<rparr>],
      first_item = 0, selfLearnRoute = NewSelfLearnRoute 0, mustRecordRoute = True,
      sessionBackends = Single (LocalStore (NewLocalSessions 0 1200)), pclients = no_clients,
      pbackends = sample_state, pworld = sample_script\<rparr>"


lemmas sample_proxy_eval = sample_udp_transport_def sample_proxy_def sample_state_def sample_script_def
  no_clients_def go_eval

section \<open>The proxy as a whole\<close>

text \<open>A proxy that has been started, run on its own.\<close>

theorem started_proxy_invariant:
  assumes "startProxies E other getenv lb c s = (Inr ps, s')" and "p \<in> set ps" and "proxy_run E p inps p'"
  shows "proxy_inv p'"
  using proxy_run_inv [OF assms(3) startProxies_inv [OF assms(1,2)]] .

lemma sample_start:
  "\<exists>p st. startProxy sample_env no_url Map.empty 0 sample_config (createPreConfigRoute sample_config)
     (createPreConfigHostResolver [] sample_config) (backend_init sample_script) = (Inr p, st) \<and>
   log (pworld p) = [Listening ''10.0.0.1:5060'' 10, Listening ''10.0.0.1:5060'' 11]"
  by (simp add: sample_config_def sample_script_def no_url_def go_eval Let_def)

lemma sample_loadConfig: "loadConfig sample_libraries (ctx_String sample_context ''config'') = Inr sample_configuration"
  by (simp add: loadConfig_def sample_libraries_def sample_context_def)

lemma sample_startProxies:
  "\<exists>p s. startProxies sample_env no_url Map.empty sample_libraries sample_context sample_process = (Inr [p], s)"
  using sample_start sample_loadConfig
  by (auto simp: startProxies_def sample_configuration_def sample_process_def init_process_def Let_def)

lemma started_proxy_invariant_witness:
  "\<exists>p s p'. startProxies sample_env no_url Map.empty sample_libraries sample_context sample_process = (Inr [p], s) \<and>
     proxy_run sample_env p [Accepted 7, Ended 7] p' \<and> proxy_inv p'"
proof -
  obtain p s where s: "startProxies sample_env no_url Map.empty sample_libraries sample_context sample_process = (Inr [p], s)"
    using sample_startProxies by blast
  have r: "proxy_run sample_env p [Accepted 7, Ended 7] (connection_ended sample_env 7 (process_conn sample_env 7 p))"
    by (rule proxy_run.more [OF proxy_step.accepted proxy_run.more [OF proxy_step.ended proxy_run.none]])
  show ?thesis
    using started_proxy_invariant [OF s _ r] s r by auto
qed

text \<open>
  C1: The proxies that \<open>startProxies\<close> starts in a new process, from any configuration and in any environment, run
  together as they should, through any sequence of messages, connections, broken connections and
  messages from Redis at any of them, of lookups of hosts and of calls by the goroutines of the resolver, in any order.
  Every proxy satisfies its invariant: the tables of client transports refer only to objects that exist and
  have no secondaries, no round-robin backend has an address twice or in only one of its list and
  its map, and routes are learned under the protocols udp and tcp only. Every proxy has the settings it
  was started with. And every call that a goroutine has yet to make is for a listener of exactly one proxy.
\<close>
theorem started_system_invariant:
  assumes "startProxies E other getenv lb c (init_process w) = (Inr ps, s)"
    and "sys_run E (started_system ps (pr_setup s)) inps s'"
  shows "(\<forall>p \<in> set (sys_proxies s'). proxy_inv p) \<and> list_all2 same_settings ps (sys_proxies s') \<and>
    (\<forall>g hc h new removed. g \<in> set (sys_goroutines s') \<and> Call hc h new removed \<in> set g \<longrightarrow>
       (\<exists>!k. k < length (sys_proxies s') \<and> own_item (sys_proxies s' ! k) (hc_item hc)))"
proof (intro conjI)
  have i: "sys_inv s'" using sys_run_inv [OF assms(2) started_system_inv [OF assms(1)]] .
  then show "\<forall>p \<in> set (sys_proxies s'). proxy_inv p" by (simp add: sys_inv_def)
  show "list_all2 same_settings ps (sys_proxies s')"
    using settings.along_sys_run [OF assms(2)] by (simp add: along_def started_system_def)
  show "\<forall>g hc h new removed. g \<in> set (sys_goroutines s') \<and> Call hc h new removed \<in> set g \<longrightarrow>
      (\<exists>!k. k < length (sys_proxies s') \<and> own_item (sys_proxies s' ! k) (hc_item hc))"
    using sys_inv_call [OF i] by blast
qed

lemma sample_env_sane: "sane (e_net sample_env)"
proof -
  have "SplitHostPort (''10.0.0.1:'' @ Itoa (int c)) = Inr (''10.0.0.1'', Itoa (int c))" for c
    using SplitHostPort_JoinHostPort [of "''10.0.0.1''" "Itoa (int c)"]
    by (simp add: plain_host_def JoinHostPort_def ContainsByte_def is_digit_def)
  then show ?thesis
    by (simp add: sane_def is_ok_def script_write_def)
qed

lemma started_system_invariant_witness:
  "\<exists>p s s'. startProxies sample_env no_url Map.empty sample_libraries sample_context (init_process sample_script) = (Inr [p], s) \<and>
     sys_run sample_env (started_system [p] (pr_setup s)) [At 0 (Accepted 7), Lookup ''h'', Wake 0] s' \<and>
     length (sys_proxies s') = 1 \<and> proxy_inv (hd (sys_proxies s'))"
proof -
  obtain p s where s: "startProxies sample_env no_url Map.empty sample_libraries sample_context (init_process sample_script) = (Inr [p], s)"
    using sample_startProxies by (auto simp: sample_process_def)
  let ?s = "started_system [p] (pr_setup s)"
  have l: "length (sys_proxies ?s) = 1" by (simp add: started_system_def)
  have "\<exists>t. sys_step sample_env ?s (At 0 (Accepted 7)) t"
    using sys_step.at_proxy [OF _ _ proxy_step.accepted] run_others_ok [OF sample_env_sane] l by (metis less_one of_resolver.simps(3))
  then obtain t where "sys_run sample_env ?s [At 0 (Accepted 7), Lookup ''h'', Wake 0] t"
    by (metis sys_run_simps sys_step.lookup sys_step.woken)
  then show ?thesis
    using started_system_invariant [OF s] s by (fastforce simp: list_all2_Cons1)
qed



text \<open>
  C2: A response goes back to where its request came from. Take a request that came in from
  address \<open>a\<close> and port \<open>n\<close> with \<open>p\<close> as its top Via entry, as the proxy sends it on, with received and
  rport filled in and its own Via on top. A response with the same Via entries loses the
  proxy's, keeps the others, and is sent to \<open>a\<close>, at port \<open>n\<close> if \<open>p\<close> had rport and at the port
  of \<open>p\<close> otherwise, over the transport of \<open>p\<close>.
\<close>
theorem response_goes_back:
  assumes "vias_valid req" and "via_stack req = p # rest" and "go_int n"
    and "SetReceived a n req = (Inr (), req1)"
    and "fst (new_uuid (e_net E) (pworld s1)) = Inr u"
    and "add_proxy_headers E t (req1, s1) = (req2, s2)"
    and "vias_valid res" and "via_stack res = via_stack req2" and "\<not> IsRequest res"
  shows "\<exists>res1. handleMessage E pr b vc (res, s3) =
      (Inr (), case response_hop a n p of (host, q, transport) \<Rightarrow> sendResponse E host q transport res1 s3) \<and>
    via_stack res1 = via_stack req1"
  using assms by (rule handleMessage_response)

lemma response_goes_back_witness:
  "\<exists>req1 req2 s2 res res1. SetReceived ''192.0.2.7'' 5099 (sample_request ''INVITE'') = (Inr (), req1) \<and>
     add_proxy_headers sample_env sample_udp_transport (req1, sample_proxy) = (req2, s2) \<and>
     res = req2\<lparr>request := None, response := Some \<lparr>st_version = ''SIP/2.0'', statusCode = 200, reason = ''OK''\<rparr>\<rparr> \<and>
     length (via_stack res) = 2 \<and>
     handleMessage sample_env ''udp'' NilBackend None (res, sample_proxy) =
       (Inr (), sendResponse sample_env ''192.0.2.7'' 5099 ''UDP'' res1 sample_proxy) \<and>
     length (via_stack res1) = 1"
proof -
  have v: "vias_valid (sample_request ''INVITE'')" "via_stack (sample_request ''INVITE'') = [sample_via]"
    by (simp_all add: go_eval via_stack_def header_vias_def vias_valid_def vias_ok_def via_header_ok_def)
  from SetReceived_valid [OF v] obtain req1 q where
    1: "SetReceived ''192.0.2.7'' 5099 (sample_request ''INVITE'') = (Inr (), req1)" "vias_valid req1" "via_stack req1 = [q]"
    by blast
  obtain req2 s2 where 2: "add_proxy_headers sample_env sample_udp_transport (req1, sample_proxy) = (req2, s2)"
    by fastforce
  obtain u where u: "fst (new_uuid (e_net sample_env) (pworld sample_proxy)) = Inr u" by simp
  define res where "res = req2\<lparr>request := None, response := Some \<lparr>st_version = ''SIP/2.0'', statusCode = 200, reason = ''OK''\<rparr>\<rparr>"
  have 3: "vias_valid res" "via_stack res = via_stack req2" "\<not> IsRequest res"
    using add_proxy_headers_valid [OF 1(2) 2]
    by (simp_all add: res_def vias_valid_def vias_ok_def via_stack_def IsRequest_def)
  have "length (via_stack res) = 2"
    using add_proxy_headers_stack [OF u 2] 1(3) 3(2) by auto
  moreover have "response_hop ''192.0.2.7'' 5099 sample_via = (''192.0.2.7'', 5099, ''UDP'')"
    by (simp add: response_hop_def go_eval)
  ultimately show ?thesis
    using response_goes_back [OF v _ 1(1) u 2 3, of "''udp''" NilBackend None sample_proxy] 1 2
    by (force simp: res_def go_int_def)
qed


definition sample_routed :: "string \<Rightarrow> Message" where
  "sample_routed host =
     (sample_request ''INVITE'')\<lparr>headers :=
       [\<lparr>hdr_name = ''Route'', hdr_value = HRoute
          \<lparr>routeParams = [\<lparr>rp_nameAddr = \<lparr>DisplayName = [], Addr = sample_uri host\<rparr>, rp_rrParam = []\<rparr>,
            \<lparr>rp_nameAddr = \<lparr>DisplayName = [], Addr = sample_uri ''p2''\<rparr>, rp_rrParam = []\<rparr>]\<rparr>\<rparr>]\<rparr>"

lemma sample_routed_facts:
  "IsRequest (sample_routed h)" "routes_ok (sample_routed h)"
  "\<exists>r. GetRoute (sample_routed h) = (Inr r, sample_routed h)"
  "GetSIPURI (NameAddr_GetAddress (RouteParam_GetAddress (hd (route_stack (sample_routed h))))) =
     Inr (zero_SIPURI\<lparr>Scheme := ''sip'', User := ''bob'', Host := h\<rparr>)"
  "length (route_stack (sample_routed h)) = 2"
  by (simp_all add: sample_routed_def sample_request_def sample_uri_def IsRequest_def routes_ok_def route_stack_def
      header_routes_def GetRoute_def get_typed_def GetHeaderValue_def GetHeader_def sel_Route_def
      NameAddr_GetAddress_def RouteParam_GetAddress_def GetSIPURI_def IsSIPURI_def)


text \<open>
  C15: The proxy takes the top entry off the Route exactly when it is its own, that is, when it has
  the port of the transport the request came in on and an address that is or resolves to the
  address of that transport; it takes off no other entry, and at most one.
\<close>
theorem own_route_removed:
  assumes "routes_ok m" and "GetRoute m = (Inr r, m1)"
    and "GetSIPURI (NameAddr_GetAddress (RouteParam_GetAddress (hd (route_stack m)))) = Inr u"
    and "tryRemoveTopRoute E from (m, p) = (m', p')"
  shows "route_stack m' =
    (if SIPURI_GetPort u = ServerTransport_GetPort from \<and>
        fst (isSameAddress E (Host u) (ServerTransport_GetAddress from) p) = Inr True
     then tl (route_stack m) else route_stack m)"
  using assms by (rule tryRemoveTopRoute_stack)

lemma own_route_removed_witness:
  "length (route_stack (fst (tryRemoveTopRoute sample_env sample_udp_transport (sample_routed ''10.0.0.1'', sample_proxy)))) = 1 \<and>
   length (route_stack (fst (tryRemoveTopRoute sample_env sample_udp_transport (sample_routed ''10.0.0.2'', sample_proxy)))) = 2"
proof -
  have t: "ServerTransport_GetAddress sample_udp_transport = ''10.0.0.1''" "ServerTransport_GetPort sample_udp_transport = 5060"
    by (simp_all add: sample_udp_transport_def go_eval)
  have s: "fst (isSameAddress sample_env ''10.0.0.2'' ''10.0.0.1'' sample_proxy) = Inr False"
    by (subst isSameAddress_ips) (simp_all add: go_eval)
  have u: "SIPURI_GetPort (zero_SIPURI\<lparr>Scheme := ''sip'', User := ''bob'', Host := h\<rparr>) = 5060" for h
    by (simp add: go_eval)
  have "route_stack (fst (tryRemoveTopRoute sample_env sample_udp_transport (sample_routed h, sample_proxy))) =
    (if fst (isSameAddress sample_env h ''10.0.0.1'' sample_proxy) = Inr True
     then tl (route_stack (sample_routed h)) else route_stack (sample_routed h))" for h
  proof -
    obtain r where r: "GetRoute (sample_routed h) = (Inr r, sample_routed h)"
      using sample_routed_facts(3) by blast
    show ?thesis
      using own_route_removed [OF sample_routed_facts(2) r sample_routed_facts(4) prod.collapse [symmetric],
          of sample_env sample_udp_transport sample_proxy] t u by simp
  qed
  with s show ?thesis
    by (simp add: isSameAddress_equal sample_routed_facts(5))
qed

text \<open>
  C3: A request of a session that is bound to a backend goes to that backend and to no other,
  whichever listener it came in on, and binds the session to it anew, with the Expires of the
  request.
\<close>
theorem session_request_to_backend:
  assumes "pr \<in> {''udp'', ''tcp''}" and "prefer \<noteq> NilBackend"
    and "GetSessionId m = (Inr sid, m1)" and "sessions_GetBackend E sid p = (Inr b, p1)"
    and "(case findTransportByBackendAddr (pitems p1) (Backend_GetAddress b) pr of
       Inr t \<Rightarrow> add_proxy_headers E t (m1, p1) | Inl _ \<Rightarrow> (m1, p1)) = (m2, p2)"
    and "ref_Send E m2 (LeafBackend b) p2 = (Inr used, p3)"
  shows "used = b \<and> sendToBackend E pr prefer vc (m, p) =
    (if sid = [] then (Inr (), (m2, p3))
     else (case sessions_AddBackend E sid b (GetExpires m2 0) p3 of (r, p4) \<Rightarrow> (r, (m2, p4))))"
  using assms by (rule sendToBackend_bound)

text \<open>The sample proxy with every session bound to one backend of its listener.\<close>

definition sample_bound :: "script Proxy" where
  "sample_bound = sample_proxy\<lparr>sessionBackends := Single (LocalStore
     ((NewLocalSessions 0 1200)\<lparr>ls_backends := (\<lambda>_. Some \<lparr>eb_backend = UDPBackend ''b'' 2, eb_expire = 9\<rparr>)\<rparr>))\<rparr>"

lemma sample_bound_GetBackend: "sessions_GetBackend sample_env sid sample_bound = (Inr (UDPBackend ''b'' 2), sample_bound)"
  by (simp add: sessions_GetBackend_def clock_readings_def sample_bound_def sample_proxy_def sample_script_def
      with_pworld_def Local_GetBackend_def Store_GetBackend.simps NewLocalSessions_def)

lemma session_request_to_backend_witness:
  "\<exists>sid m1 m2 p2 p3. GetSessionId (sample_request ''INVITE'') = (Inr sid, m1) \<and> sid \<noteq> [] \<and>
     ref_Send sample_env m2 (LeafBackend (UDPBackend ''b'' 2)) p2 = (Inr (UDPBackend ''b'' 2), p3) \<and>
     sendToBackend sample_env ''udp'' (ItemBackend 0) None (sample_request ''INVITE'', sample_bound) =
       (case sessions_AddBackend sample_env sid (UDPBackend ''b'' 2) (GetExpires m2 0) p3 of (r, p4) \<Rightarrow> (r, (m2, p4)))"
proof -
  have "\<exists>sid. fst (GetSessionId (sample_request ''INVITE'')) = Inr sid \<and> sid \<noteq> []"
    by (simp add: message_ops_eval go_eval ParseFromSpec_def ParseTo_def parse_addr_header_def addr_header_params_def
       FromSpec_GetAddrSpec_def To_GetAddrSpec_def Dialog_String_def)
  then obtain sid m1 where sid: "GetSessionId (sample_request ''INVITE'') = (Inr sid, m1)" "sid \<noteq> []"
    by (metis prod.collapse)
  obtain m2 p2 where 2: "(case findTransportByBackendAddr (pitems sample_bound) (Backend_GetAddress (UDPBackend ''b'' 2)) ''udp'' of
       Inr t \<Rightarrow> add_proxy_headers sample_env t (m1, sample_bound) | Inl _ \<Rightarrow> (m1, sample_bound)) = (m2, p2)"
    by fastforce
  then have "pworld p2 = sample_script" "pbackends p2 = sample_state"
    by (auto simp: add_proxy_headers_def addVia_def with_pworld_def sample_bound_def sample_proxy_def
        split: sum.splits prod.splits)
  then obtain used p3 where 3: "ref_Send sample_env m2 (LeafBackend (UDPBackend ''b'' 2)) p2 = (Inr used, p3)"
    by (simp add: ref_Send_def with_backends_def run_callbacks_def sample_state_def sample_script_def go_eval)
  show ?thesis
    using session_request_to_backend [OF _ _ sid(1) sample_bound_GetBackend 2 3, of "ItemBackend 0" None] sid 3 by auto
qed


definition steady_env :: "script env" where
  "steady_env = sample_env\<lparr>e_net := script_net\<lparr>time_now := \<lambda>w. (0, w),
     conn_write := \<lambda>c b w. (Inr (), w\<lparr>log := log w @ [Wrote c b]\<rparr>)\<rparr>\<rparr>"

definition sample_response :: Message where
  "sample_response = (sample_request ''INVITE'')\<lparr>request := None,
     response := Some \<lparr>st_version = ''SIP/2.0'', statusCode = 200, reason = ''OK''\<rparr>\<rparr>"



text \<open>A session of a proxy that runs on its own keeps its backend.\<close>

theorem session_affinity:
  assumes "sessions_AddBackend E sid b e p0 = (r, p)" and "local_store (sessionBackends p0) = Some ls"
    and "clock_within (e_net E) a t" and "t < a + ls_timeout ls" and "go_int (e * 10 ^ 9)"
    and "proxy_run E p inps p'" and "\<And>rm. Received rm \<in> set inps \<Longrightarrow> calm sid (rm_Message rm)"
  shows "fst (sessions_GetBackend E sid p') = Inr b"
proof -
  have "held t (ls_timeout ls) sid b (sessionBackends p')"
    using held_proxy_run [OF assms(6) held_after_AddBackend [OF assms(1,3,2,4,5)] assms(3,4,7)] .
  then show ?thesis
    using held_GetBackend(2) [OF _ assms(3) prod.collapse [symmetric]] by blast
qed

text \<open>An environment in which the clock stands and the sockets work, and a proxy whose one listener has a backend.\<close>

definition level_env :: "script env" where
  "level_env = steady_env\<lparr>e_net := (e_net steady_env)\<lparr>local_addr := \<lambda>_. ''10.0.0.1:5060''\<rparr>\<rparr>"

definition sample_ready :: "script Proxy" where
  "sample_ready = sample_proxy\<lparr>pitems := take 1 (pitems sample_proxy)\<rparr>"

definition sample_raw :: "Message \<Rightarrow> RawMessage" where
  "sample_raw m = (NewRawMessage ''192.0.2.7'' 5099 (TCPServerTransport ''10.0.0.1'' 5060 None False) True m (ItemBackend 0) None)
     \<lparr>rm_TcpConn := Some 7\<rparr>"

lemma level_env_facts: "sane (e_net level_env)" "clock_within (e_net level_env) 0 0"
  by (simp_all add: level_env_def steady_env_def sane_def clock_within_def go_eval is_ok_def)

lemma sample_ready_facts:
  "ready sample_ready" "length (pitems sample_ready) = 1"
  "local_store (sessionBackends sample_ready) = Some (NewLocalSessions 0 1200)"
  by (simp_all add: ready_def sample_ready_def sample_proxy_def)

lemma sample_admissible: "admissible 1 (sample_raw m)"
  by (simp add: admissible_def sample_raw_def NewRawMessage_def)

lemma sample_calm: "calm sid (sample_request ''INVITE'')" "calm sid sample_response"
proof -
  have "GetExpires (sample_request x) 0 = 0" for x
    by (simp add: GetExpires_def GetHeaderInt_def GetHeaderValue_filter sample_request_def isSameHeader_table
        compactHdrNames_table compact_table_eval ToLower_def lower_char_def char_of_def bit_0)
  moreover from this have "GetExpires sample_response 0 = 0"
    by (simp add: sample_response_def GetExpires_def GetHeaderInt_def GetHeaderValue_filter)
  moreover have "fst (GetMethod sample_response) \<noteq> Inr ''BYE''"
    by (simp add: message_ops_eval go_eval sample_response_def)
  ultimately show "calm sid (sample_request ''INVITE'')" "calm sid sample_response"
    by (simp_all add: calm_def go_int_def IsResponse_def sample_request_def)
qed

lemma session_affinity_witness:
  "\<exists>p p'. sessions_AddBackend level_env ''s'' (UDPBackend ''b'' 2) 0 sample_ready = (Inr (), p) \<and>
     proxy_run level_env p [Received (sample_raw (sample_request ''INVITE'')), Ended 7, Received (sample_raw sample_response)] p' \<and>
     fst (sessions_GetBackend level_env ''s'' p') = Inr (UDPBackend ''b'' 2)"
proof -
  let ?inps = "[Received (sample_raw (sample_request ''INVITE'')), Ended 7, Received (sample_raw sample_response)]"
  obtain r p where 1: "sessions_AddBackend level_env ''s'' (UDPBackend ''b'' 2) 0 sample_ready = (r, p)" by fastforce
  note s = settings.rel_sessions_AddBackend [OF 1]
  have r: "r = Inr ()" using 1 sample_ready_facts(1) by (rule sessions_AddBackend_ok)
  have "\<exists>p'. proxy_run level_env p ?inps p' \<and> ready p'"
    by (rule proxy_run_exists [OF level_env_facts(1) ready_settings [OF s sample_ready_facts(1)]])
      (use sample_admissible items_settings [OF s] sample_ready_facts(2) in auto)
  then obtain p' where 2: "proxy_run level_env p ?inps p'" by blast
  have "fst (sessions_GetBackend level_env ''s'' p') = Inr (UDPBackend ''b'' 2)"
    by (rule session_affinity [OF 1 sample_ready_facts(3) level_env_facts(2) _ _ 2])
      (use sample_calm in \<open>auto simp: go_eval go_int_def sample_raw_def NewRawMessage_def\<close>)
  with 1 2 r show ?thesis by blast
qed

definition sample_system :: "script System" where
  "sample_system =
     \<lparr>sys_proxies = [sample_ready, sample_ready\<lparr>first_item := 1\<rparr>], sys_backends = sample_state,
      sys_resolver = NewDynamicHostResolver 2, sys_goroutines = [[Notify ''h'' [''10.0.0.7''] []]]\<rparr>"

lemma sample_system_facts:
  "sys_ready sample_system" "listener_counts sample_system = [1, 1]" "length (sys_proxies sample_system) = 2"
  "sessionBackends (sys_proxies sample_system ! 1) = Single (LocalStore (NewLocalSessions 0 1200))"
  using sample_ready_facts
  by (simp_all add: sys_ready_def listener_counts_def sample_system_def ready_def sample_ready_def sample_proxy_def)

text \<open>
  C4: Session affinity. From the moment a session of one of the proxies of a process is bound to a backend, and
  while the clock stays within the timeout of sessions, the session keeps that backend, through any run of the
  process: whatever messages of this and of other sessions come in at this and at the other proxies, whatever connections
  are accepted and end, hosts are looked up and change their addresses, and messages come from Redis, as long as no response to a BYE
  of the session comes in at the proxy (and no Expires of it overflows a duration). Every request of the session for the
  proxy is then sent to that backend and to no other, as the property on requests of a bound session says.
\<close>
theorem system_session_affinity:
  assumes "k < length (sys_proxies s)" and "sessions_AddBackend E sid b e (enter s k) = (r, p)"
    and "local_store (sessionBackends (sys_proxies s ! k)) = Some ls"
    and "clock_within (e_net E) a t" and "t < a + ls_timeout ls" and "go_int (e * 10 ^ 9)"
    and "sys_run E (leave k p s) inps s'" and "\<And>rm. At k (Received rm) \<in> set inps \<Longrightarrow> calm sid (rm_Message rm)"
  shows "fst (sessions_GetBackend E sid (enter s' k)) = Inr b"
proof -
  have "local_store (sessionBackends (enter s k)) = Some ls" using assms(3) by (simp add: enter_def)
  then have "held t (ls_timeout ls) sid b (sessionBackends p)"
    using held_after_AddBackend [OF assms(2,4) _ assms(5,6)] by blast
  then have "held t (ls_timeout ls) sid b (sessionBackends (sys_proxies (leave k p s) ! k))"
    using assms(1) by simp
  then have "held t (ls_timeout ls) sid b (sessionBackends (sys_proxies s' ! k))"
    using held_sys_run [OF assms(7) _ _ assms(4,5,8)] assms(1) by simp
  then have "held t (ls_timeout ls) sid b (sessionBackends (enter s' k))"
    by (simp add: enter_def)
  then show ?thesis
    using held_GetBackend(2) [OF _ assms(4) prod.collapse [symmetric]] by blast
qed

lemma system_session_affinity_witness:
  "\<exists>p s'. sessions_AddBackend level_env ''s'' (UDPBackend ''b'' 2) 0 (enter sample_system 1) = (Inr (), p) \<and>
     sys_run level_env (leave 1 p sample_system) [At 1 (Received (sample_raw (sample_request ''INVITE''))), Wake 0,
       At 0 (Received (sample_raw NewMessage)), Wake 0, At 1 (Received (sample_raw sample_response))] s' \<and>
     fst (sessions_GetBackend level_env ''s'' (enter s' 1)) = Inr (UDPBackend ''b'' 2)"
proof -
  let ?inps = "[At 1 (Received (sample_raw (sample_request ''INVITE''))), Wake 0,
    At 0 (Received (sample_raw NewMessage)), Wake 0, At 1 (Received (sample_raw sample_response))]"
  obtain r p where 1: "sessions_AddBackend level_env ''s'' (UDPBackend ''b'' 2) 0 (enter sample_system 1) = (r, p)" by fastforce
  have "ready (sys_proxies sample_system ! 1)"
    using sample_system_facts(1) nth_mem [of 1 "sys_proxies sample_system"] sample_system_facts(3) unfolding sys_ready_def by auto
  then have "ready (enter sample_system 1)" by (rule ready_settings [OF settings.rel_enter])
  with 1 have r: "r = Inr ()" by (rule sessions_AddBackend_ok)
  note a = same_settings_ready [OF settings.along_leave [OF settings.rel_sessions_AddBackend [OF 1]]]
  have "\<exists>s'. sys_run level_env (leave 1 p sample_system) ?inps s' \<and> sys_ready s'"
    by (rule sys_run_exists [OF level_env_facts(1) a(1) [OF sample_system_facts(1)]])
      (use sample_admissible sample_system_facts(2) a(2) in auto)
  then obtain s' where 2: "sys_run level_env (leave 1 p sample_system) ?inps s'" by blast
  have "fst (sessions_GetBackend level_env ''s'' (enter s' 1)) = Inr (UDPBackend ''b'' 2)"
    by (rule system_session_affinity [OF _ 1 _ level_env_facts(2) _ _ 2])
      (use sample_calm sample_system_facts(3,4) in
        \<open>auto simp: NewLocalSessions_def seconds_def int64_def go_int_def sample_raw_def NewRawMessage_def\<close>)
  with 1 2 r show ?thesis by blast
qed

text \<open>A proxy that runs on its own goes on.\<close>

theorem service_loop_goes_on:
  assumes "sane (e_net E)" and "ready p"
    and "\<And>rm. Received rm \<in> set inps \<Longrightarrow> admissible (length (pitems p)) rm"
  shows "\<exists>p'. proxy_run E p inps p' \<and> ready p'"
  using assms by (rule proxy_run_exists)

lemma service_loop_goes_on_witness:
  "\<exists>p'. proxy_run level_env sample_ready
    [Accepted 7, Received (sample_raw (sample_request ''INVITE'')), Received (sample_raw NewMessage), Ended 7] p' \<and> ready p'"
  by (rule service_loop_goes_on [OF level_env_facts(1) sample_ready_facts(1)])
    (use sample_admissible sample_ready_facts(2) in auto)





text \<open>
  C11: Whatever messages a peer writes to an accepted TCP connection, one after the other, the
  proxy receives the connection and then these messages, in order, each once, with the address
  and the connection of the peer; then the connection ends.
\<close>
theorem tcp_stream_inputs:
  assumes "\<And>m. m \<in> set ms \<Longrightarrow> message_ok m"
  shows "acceptConnection net conn t received backend via (concat (map Message_Write ms)) =
    Inr (Accepted conn # map (\<lambda>m. Received (tcp_raw_message net conn t received backend via (wire m))) ms @ [Ended conn])"
  using receiveMessage_Writes [of ms net conn t received backend via] assms by (simp add: acceptConnection_def)

lemma tcp_stream_inputs_witness:
  "\<exists>rm. acceptConnection script_net 7 (TCPServerTransport ''10.0.0.1'' 5060 None False) True NilBackend None
     (Message_Write (sample_request ''INVITE'') @ Message_Write (sample_request ''INVITE'')) =
   Inr [Accepted 7, Received rm, Received rm, Ended 7] \<and> rm_TcpConn rm = Some 7 \<and> rm_PeerPort rm = 7"
  using tcp_stream_inputs [of "[sample_request ''INVITE'', sample_request ''INVITE'']" script_net 7
      "TCPServerTransport ''10.0.0.1'' 5060 None False" True NilBackend None] sample_request_ok
  by (simp add: tcp_raw_message_def NewRawMessage_def go_eval)

text \<open>
  C12: Whatever messages that fit a buffer come in over UDP, the proxy receives these messages, in
  order, each once, with the address of its sender; and the pool keeps to its capacity, with all
  its buffers of its size.
\<close>
theorem udp_packets_inputs:
  assumes "pool_inv cap sz (bp, out)" and "0 \<le> sz"
    and "\<And>peer q m. (peer, q, m) \<in> set ps \<Longrightarrow> message_ok m \<and> int (length (Message_Write m)) \<le> sz"
  shows "\<exists>bp'. udp_loop t received backend via (map (\<lambda>(peer, q, m). (peer, q, Message_Write m)) ps) bp =
      (Inr (map (\<lambda>(peer, q, m). Received (NewRawMessage peer q t received (wire m) backend via)) ps), bp') \<and>
    pool_inv cap sz (bp', out)"
  using assms by (rule udp_loop_Writes)

lemma udp_packets_inputs_witness:
  "\<exists>bp'. udp_loop sample_udp_transport True NilBackend None
      [(''10.0.0.8'', 5066, Message_Write (sample_request ''INVITE'')),
       (''10.0.0.9'', 5067, Message_Write (sample_request ''INVITE''))] (NewByteArrayPool 8 4096) =
    (Inr [Received (NewRawMessage ''10.0.0.8'' 5066 sample_udp_transport True (wire (sample_request ''INVITE'')) NilBackend None),
          Received (NewRawMessage ''10.0.0.9'' 5067 sample_udp_transport True (wire (sample_request ''INVITE'')) NilBackend None)],
     bp') \<and> Size bp' \<le> 8"
proof -
  have pool: "pool_inv 8 4096 (NewByteArrayPool 8 4096, [])"
    by (simp add: pool_inv_def NewByteArrayPool_def Size_def)
  let ?ps = "[(''10.0.0.8'', 5066, sample_request ''INVITE''), (''10.0.0.9'', 5067, sample_request ''INVITE'')]"
  have "\<exists>bp'. udp_loop sample_udp_transport True NilBackend None
      (map (\<lambda>(peer, q, m). (peer, q, Message_Write m)) ?ps) (NewByteArrayPool 8 4096) =
    (Inr (map (\<lambda>(peer, q, m). Received (NewRawMessage peer q sample_udp_transport True (wire m) NilBackend None)) ?ps), bp') \<and>
    pool_inv 8 4096 (bp', [])"
    by (rule udp_packets_inputs [OF pool]) (use sample_request_ok sample_lengths(2) in auto)
  then show ?thesis
    by (auto simp: pool_inv_def simp del: udp_loop.simps)
qed

end
